(* ===== verification/Prelude.thy ===== *)
theory Prelude
  imports Main "HOL-Library.Word"
begin

text \<open>
  Shared vocabulary of the development: bytes and machine integers, the result type of fallible
  code (\<^verbatim>\<open>Result<T, E>\<close> as a sum, \<open>Inl\<close> the error), the byte search functions of the
  \<^verbatim>\<open>memchr\<close> crate as a parameter, and the generic list lemmas the components share.

  Three collections carry the component proofs: \<open>res_simps\<close> (the result type), \<open>wire_simps\<close>
  (lengths and evaluation of encoded data) and \<open>step_defs\<close> (small glue definitions that proofs
  unfold together).
\<close>

named_theorems res_simps
named_theorems wire_simps
named_theorems step_defs

section \<open>Machine types\<close>

type_synonym byte = "8 word"
type_synonym bytes = "byte list"
type_synonym u8 = "8 word"
type_synonym u16 = "16 word"
type_synonym u32 = "32 word"
type_synonym u64 = "64 word"

text \<open>An ASCII literal as bytes: \<^verbatim>\<open>b"abc"\<close> of the source is \<open>str ''abc''\<close>.\<close>

definition str :: "string \<Rightarrow> bytes" where
  "str s = map of_char s"

lemma inj_of_char_byte: "inj (of_char :: char \<Rightarrow> byte)"
proof (rule injI)
  fix c d :: char
  assume "(of_char c :: byte) = of_char d"
  then have "unat (of_char c :: byte) = unat (of_char d :: byte)" by simp
  moreover have "unat (of_char e :: byte) = (of_char e :: nat)" for e
  proof -
    have "(of_char e :: byte) = of_nat (of_char e)" by (rule of_nat_of_char [symmetric])
    moreover have "(of_char e :: nat) < 256"
      by (metis mod_less_divisor of_char_mod_256 zero_less_numeral)
    ultimately show ?thesis by (simp add: unat_of_nat take_bit_eq_mod)
  qed
  ultimately show "c = d" by simp
qed

lemma str_eq_iff [simp]: "str s = str t \<longleftrightarrow> s = t"
  using inj_of_char_byte by (simp add: str_def inj_map_eq_map)

lemma str_Nil [simp]: "str [] = []"
  by (simp add: str_def)

lemma str_Cons: "str (c # s) = of_char c # str s"
  by (simp add: str_def)

lemma length_str [simp]: "length (str s) = length s"
  by (simp add: str_def)

section \<open>Results\<close>

definition rbind :: "'e + 'a \<Rightarrow> ('a \<Rightarrow> 'e + 'b) \<Rightarrow> 'e + 'b" where
  "rbind r f = (case r of Inl e \<Rightarrow> Inl e | Inr x \<Rightarrow> f x)"

definition map_err :: "('e \<Rightarrow> 'f) \<Rightarrow> 'e + 'a \<Rightarrow> 'f + 'a" where
  "map_err h r = (case r of Inl e \<Rightarrow> Inl (h e) | Inr x \<Rightarrow> Inr x)"

definition map_ok :: "('a \<Rightarrow> 'b) \<Rightarrow> 'e + 'a \<Rightarrow> 'e + 'b" where
  "map_ok h r = (case r of Inl e \<Rightarrow> Inl e | Inr x \<Rightarrow> Inr (h x))"

definition ok_or :: "'e \<Rightarrow> 'a option \<Rightarrow> 'e + 'a" where
  "ok_or e x = (case x of None \<Rightarrow> Inl e | Some y \<Rightarrow> Inr y)"

definition is_ok :: "'e + 'a \<Rightarrow> bool" where
  "is_ok r = (case r of Inl _ \<Rightarrow> False | Inr _ \<Rightarrow> True)"

lemma rbind_simps [simp, res_simps]:
  "rbind (Inl e) f = Inl e"
  "rbind (Inr x) f = f x"
  by (simp_all add: rbind_def)

lemma map_err_simps [simp, res_simps]:
  "map_err h (Inl e) = Inl (h e)"
  "map_err h (Inr x) = Inr x"
  by (simp_all add: map_err_def)

lemma map_ok_simps [simp, res_simps]:
  "map_ok h (Inl e) = Inl e"
  "map_ok h (Inr x) = Inr (h x)"
  by (simp_all add: map_ok_def)

lemma ok_or_simps [simp, res_simps]:
  "ok_or e None = Inl e"
  "ok_or e (Some x) = Inr x"
  by (simp_all add: ok_or_def)

lemma is_ok_simps [simp, res_simps]:
  "\<not> is_ok (Inl e)"
  "is_ok (Inr x)"
  by (simp_all add: is_ok_def)

lemma rbind_assoc: "rbind (rbind r f) g = rbind r (\<lambda>x. rbind (f x) g)"
  by (cases r) simp_all

lemma rbind_eq_Inr_iff: "rbind r f = Inr y \<longleftrightarrow> (\<exists>x. r = Inr x \<and> f x = Inr y)"
  by (cases r) auto

lemma map_err_eq_Inr_iff [simp]: "map_err h r = Inr y \<longleftrightarrow> r = Inr y"
  by (cases r) auto

lemma map_ok_eq_Inr_iff: "map_ok h r = Inr y \<longleftrightarrow> (\<exists>x. r = Inr x \<and> y = h x)"
  by (cases r) auto

lemma ok_or_eq_Inr_iff [simp]: "ok_or e x = Inr y \<longleftrightarrow> x = Some y"
  by (cases x) auto

section \<open>Lists\<close>

lemma list4: "length xs = 4 \<Longrightarrow> \<exists>a b c d. xs = [a, b, c, d]"
  by (auto simp: length_Suc_conv numeral_eq_Suc)

section \<open>Byte search\<close>

text \<open>\<^verbatim>\<open>Iterator::position\<close>: the index of the first element that satisfies the predicate.\<close>

fun position :: "('a \<Rightarrow> bool) \<Rightarrow> 'a list \<Rightarrow> nat option" where
  "position P [] = None"
| "position P (x # xs) = (if P x then Some 0 else map_option Suc (position P xs))"

text \<open>All indices at which a predicate holds, in increasing order.\<close>

fun positions :: "('a \<Rightarrow> bool) \<Rightarrow> 'a list \<Rightarrow> nat list" where
  "positions P [] = []"
| "positions P (x # xs) = (if P x then [0] else []) @ map Suc (positions P xs)"

lemma position_None_iff [simp]: "position P xs = None \<longleftrightarrow> (\<forall>x \<in> set xs. \<not> P x)"
  by (induction xs) auto

lemma position_append_hit:
  "\<forall>x \<in> set xs. \<not> P x \<Longrightarrow> P y \<Longrightarrow> position P (xs @ y # ys) = Some (length xs)"
  by (induction xs) auto

lemma position_SomeD:
  "position P xs = Some n \<Longrightarrow>
     n < length xs \<and> P (xs ! n) \<and> (\<forall>x \<in> set (take n xs). \<not> P x)"
  by (induction xs arbitrary: n) (auto split: if_splits)

lemma positions_none: "\<forall>x \<in> set xs. \<not> P x \<Longrightarrow> positions P xs = []"
  by (induction xs) auto

lemma positions_append:
  "positions P (xs @ ys) = positions P xs @ map (\<lambda>i. length xs + i) (positions P ys)"
  by (induction xs) (auto simp: comp_def)

lemma positions_hit:
  "\<forall>x \<in> set xs. \<not> P x \<Longrightarrow> P y \<Longrightarrow>
     positions P (xs @ y # ys) = length xs # map (\<lambda>i. Suc (length xs + i)) (positions P ys)"
  by (simp add: positions_append positions_none comp_def)

lemma positions_Nil_iff: "positions P xs = [] \<longleftrightarrow> (\<forall>x \<in> set xs. \<not> P x)"
  by (induction xs) auto

text \<open>
  The \<^verbatim>\<open>memchr\<close> crate is not part of the repository: its three functions are a parameter
  \<open>mc\<close> of every definition that calls them, and \<open>memchr_ok mc\<close> is their documented behaviour.
\<close>

record memchr_ops =
  memchr :: "byte \<Rightarrow> bytes \<Rightarrow> nat option"
  memchr2 :: "byte \<Rightarrow> byte \<Rightarrow> bytes \<Rightarrow> nat option"
  memchr_iter :: "byte \<Rightarrow> bytes \<Rightarrow> nat list"

definition memchr_ok :: "memchr_ops \<Rightarrow> bool" where
  "memchr_ok mc \<longleftrightarrow>
     (\<forall>c s. memchr mc c s = position (\<lambda>b. b = c) s) \<and>
     (\<forall>c d s. memchr2 mc c d s = position (\<lambda>b. b = c \<or> b = d) s) \<and>
     (\<forall>c s. memchr_iter mc c s = positions (\<lambda>b. b = c) s)"

text \<open>A concrete byte-by-byte search, with which the hypothesis is met.\<close>

definition naive_memchr :: memchr_ops where
  "naive_memchr = \<lparr>memchr = (\<lambda>c s. position (\<lambda>b. b = c) s),
     memchr2 = (\<lambda>c d s. position (\<lambda>b. b = c \<or> b = d) s),
     memchr_iter = (\<lambda>c s. positions (\<lambda>b. b = c) s)\<rparr>"

lemma naive_memchr_ok: "memchr_ok naive_memchr"
  by (simp add: memchr_ok_def naive_memchr_def)

lemma memchr_okD:
  assumes "memchr_ok mc"
  shows "memchr mc c s = position (\<lambda>b. b = c) s"
    and "memchr2 mc c d s = position (\<lambda>b. b = c \<or> b = d) s"
    and "memchr_iter mc c s = positions (\<lambda>b. b = c) s"
  using assms by (simp_all add: memchr_ok_def)

lemma naive_memchr_sel [simp]:
  "memchr naive_memchr c s = position (\<lambda>b. b = c) s"
  "memchr2 naive_memchr c d s = position (\<lambda>b. b = c \<or> b = d) s"
  "memchr_iter naive_memchr c s = positions (\<lambda>b. b = c) s"
  by (simp_all add: naive_memchr_def)

section \<open>Slices\<close>

definition starts_with :: "bytes \<Rightarrow> bytes \<Rightarrow> bool" where
  "starts_with p s \<longleftrightarrow> take (length p) s = p"

lemma starts_with_append [simp]: "starts_with p (p @ s)"
  by (simp add: starts_with_def)

lemma starts_with_self [simp]: "starts_with p p"
  by (simp add: starts_with_def)

lemma starts_with_iff: "starts_with p s \<longleftrightarrow> (\<exists>t. s = p @ t)"
  unfolding starts_with_def by (metis append_eq_conv_conj append_take_drop_id)

lemma starts_with_code [simp]:
  "starts_with [] s"
  "\<not> starts_with (c # p) []"
  "starts_with (c # p) (d # s) \<longleftrightarrow> c = d \<and> starts_with p s"
  by (auto simp: starts_with_def)

definition ends_with :: "bytes \<Rightarrow> bytes \<Rightarrow> bool" where
  "ends_with p s \<longleftrightarrow> length p \<le> length s \<and> drop (length s - length p) s = p"

lemma ends_with_append [simp]: "ends_with p (s @ p)"
  by (simp add: ends_with_def)

text \<open>Writing a slice into a buffer at a position: \<^verbatim>\<open>buf[p..p + s.len()].copy_from_slice(s)\<close>.\<close>

definition write_at :: "nat \<Rightarrow> bytes \<Rightarrow> bytes \<Rightarrow> bytes" where
  "write_at p s buf = take p buf @ s @ drop (p + length s) buf"

lemma length_write_at [simp]:
  "p + length s \<le> length buf \<Longrightarrow> length (write_at p s buf) = length buf"
  by (simp add: write_at_def)

lemma take_write_at:
  "p + length s \<le> length buf \<Longrightarrow> take (p + length s) (write_at p s buf) = take p buf @ s"
  by (simp add: write_at_def min_absorb2)

end
