(* ===== verification/Text_Std.thy ===== *)
theory Text_Std
  imports Prelude
begin

text \<open>
  The text functions of the Rust standard library that the crates call: UTF-8 validation
  (\<^verbatim>\<open>str::from_utf8\<close>), integer parsing (\<^verbatim>\<open>from_str_radix\<close>, \<^verbatim>\<open>parse\<close>) and integer
  formatting (\<^verbatim>\<open>Display\<close>, \<^verbatim>\<open>LowerHex\<close>), and little and big endian byte arrays. A
  \<^verbatim>\<open>&str\<close> is modelled as its bytes.
\<close>

unbundle bit_operations_syntax

section \<open>UTF-8 validation\<close>

text \<open>
  One character at the start of a non-empty slice: \<open>UChar n\<close> is a valid character of \<open>n\<close>
  bytes, \<open>UErr l\<close> an error, where \<open>l\<close> is \<^verbatim>\<open>Utf8Error::error_len\<close> (\<open>None\<close> when the slice
  ends inside a character).
\<close>

datatype utf8_char = UChar nat | UErr "nat option"

definition is_cont :: "byte \<Rightarrow> bool" where
  "is_cont b \<longleftrightarrow> 128 \<le> b \<and> b < 192"

definition utf8_tail :: "nat \<Rightarrow> bytes \<Rightarrow> utf8_char" where
  "utf8_tail n s =
     (case position (\<lambda>b. \<not> is_cont b) (take n s) of
        Some i \<Rightarrow> UErr (Some (i + 2))
      | None \<Rightarrow> if length s < n then UErr None else UChar (n + 2))"

definition utf8_second_ok :: "byte \<Rightarrow> byte \<Rightarrow> bool" where
  "utf8_second_ok b0 b1 \<longleftrightarrow>
     (if b0 = 0xE0 then 0xA0 \<le> b1 \<and> b1 < 0xC0
      else if b0 = 0xED then 0x80 \<le> b1 \<and> b1 < 0xA0
      else if b0 = 0xF0 then 0x90 \<le> b1 \<and> b1 < 0xC0
      else if b0 = 0xF4 then 0x80 \<le> b1 \<and> b1 < 0x90
      else is_cont b1)"

definition utf8_first :: "bytes \<Rightarrow> utf8_char" where
  "utf8_first s =
     (case s of
        [] \<Rightarrow> UErr None
      | b0 # s' \<Rightarrow>
          if b0 < 0x80 then UChar 1
          else if b0 < 0xC2 \<or> 0xF4 < b0 then UErr (Some 1)
          else (case s' of
                  [] \<Rightarrow> UErr None
                | b1 # s'' \<Rightarrow>
                    if \<not> utf8_second_ok b0 b1 then UErr (Some 1)
                    else if b0 < 0xE0 then UChar 2
                    else if b0 < 0xF0 then utf8_tail 1 s''
                    else utf8_tail 2 s''))"

lemma utf8_first_pos: "utf8_first s = UChar n \<Longrightarrow> 0 < n"
  by (auto simp: utf8_first_def utf8_tail_def split: list.splits if_splits option.splits)

lemma utf8_first_le: "utf8_first s = UChar n \<Longrightarrow> n \<le> length s"
  by (auto simp: utf8_first_def utf8_tail_def not_less Suc_le_eq numeral_2_eq_2
        split: list.splits if_splits option.splits)

text \<open>\<^verbatim>\<open>str::from_utf8\<close>: the error is \<^verbatim>\<open>(valid_up_to, error_len)\<close>.\<close>

function from_utf8_at :: "nat \<Rightarrow> bytes \<Rightarrow> nat \<times> nat option + unit" where
  "from_utf8_at i s =
     (if s = [] then Inr ()
      else case utf8_first s of
             UErr l \<Rightarrow> Inl (i, l)
           | UChar n \<Rightarrow> from_utf8_at (i + n) (drop n s))"
  by pat_completeness auto
termination
  by (relation "measure (\<lambda>(i, s). length s)") (auto dest: utf8_first_pos)

declare from_utf8_at.simps [simp del]

definition from_utf8 :: "bytes \<Rightarrow> nat \<times> nat option + bytes" where
  "from_utf8 s = map_ok (\<lambda>_. s) (from_utf8_at 0 s)"

definition is_utf8 :: "bytes \<Rightarrow> bool" where
  "is_utf8 s \<longleftrightarrow> is_ok (from_utf8 s)"

definition is_ascii :: "bytes \<Rightarrow> bool" where
  "is_ascii s \<longleftrightarrow> (\<forall>b \<in> set s. b < 128)"

lemma is_ascii_simps [simp]:
  "is_ascii []"
  "is_ascii (b # s) \<longleftrightarrow> b < 128 \<and> is_ascii s"
  "is_ascii (s @ t) \<longleftrightarrow> is_ascii s \<and> is_ascii t"
  by (auto simp: is_ascii_def)

lemma from_utf8_at_ascii: "is_ascii s \<Longrightarrow> from_utf8_at i s = Inr ()"
  by (induction s arbitrary: i) (simp_all add: from_utf8_at.simps utf8_first_def)

lemma from_utf8_ascii: "is_ascii s \<Longrightarrow> from_utf8 s = Inr s"
  by (simp add: from_utf8_def from_utf8_at_ascii)

lemma is_utf8_ascii: "is_ascii s \<Longrightarrow> is_utf8 s"
  by (simp add: is_utf8_def from_utf8_ascii)

lemma from_utf8_Inr: "is_utf8 s \<Longrightarrow> from_utf8 s = Inr s"
  by (cases "from_utf8_at 0 s") (simp_all add: is_utf8_def from_utf8_def)

lemma from_utf8_InrD: "from_utf8 s = Inr t \<Longrightarrow> t = s \<and> is_utf8 s"
  by (auto simp: is_utf8_def from_utf8_def map_ok_eq_Inr_iff)

lemma valid_up_to_le:
  "from_utf8_at i s = Inl (n, l) \<Longrightarrow> i \<le> n \<and> n \<le> i + length s"
proof (induction i s rule: from_utf8_at.induct)
  case (1 i s)
  note IH = 1
  show ?case
  proof (cases "s = []")
    case True
    with IH(2) show ?thesis by (simp add: from_utf8_at.simps)
  next
    case False
    show ?thesis
    proof (cases "utf8_first s")
      case (UChar k)
      with IH False have "i + k \<le> n \<and> n \<le> i + k + length (drop k s)"
        by (simp add: from_utf8_at.simps [of i s])
      moreover have "k \<le> length s"
        using UChar by (rule utf8_first_le)
      ultimately show ?thesis by simp
    next
      case (UErr k)
      with IH False show ?thesis by (simp add: from_utf8_at.simps [of i s])
    qed
  qed
qed

text \<open>\<^verbatim>\<open>char_indices\<close>, the offsets alone: a character starts at every byte that does not continue one.\<close>

definition char_indices :: "bytes \<Rightarrow> nat list" where
  "char_indices s = filter (\<lambda>i. \<not> is_cont (s ! i)) [0..<length s]"

text \<open>The first character of a string and what follows it.\<close>

definition split_char :: "bytes \<Rightarrow> bytes \<times> bytes" where
  "split_char s = (let n = (case char_indices s of _ # j # _ \<Rightarrow> j | _ \<Rightarrow> length s) in (take n s, drop n s))"

lemma split_char_append: "fst (split_char s) @ snd (split_char s) = s"
  by (simp add: split_char_def Let_def)

lemma split_char_ascii: "b < 128 \<Longrightarrow> \<forall>c \<in> set s. \<not> is_cont c \<Longrightarrow> split_char (b # s) = ([b], s)"
proof -
  assume b: "b < 128" and s: "\<forall>c \<in> set s. \<not> is_cont c"
  have "\<not> is_cont b" using b by (simp add: is_cont_def not_le)
  then have "\<forall>c \<in> set (b # s). \<not> is_cont c" using s by simp
  then have "char_indices (b # s) = [0..<length (b # s)]"
    unfolding char_indices_def by (simp add: filter_id_conv all_set_conv_all_nth nth_mem del: set_simps)
  then show ?thesis by (cases s) (simp_all add: split_char_def upt_conv_Cons Let_def del: upt_Suc)
qed

text \<open>\<^verbatim>\<open>str::split\<close>: at least one piece, empty pieces included.\<close>

fun split_on :: "byte \<Rightarrow> bytes \<Rightarrow> bytes list" where
  "split_on c [] = [[]]"
| "split_on c (b # s) =
     (if b = c then [] # split_on c s
      else case split_on c s of x # xs \<Rightarrow> (b # x) # xs | [] \<Rightarrow> [[b]])"

section \<open>Integers as text\<close>

definition digit_char :: "nat \<Rightarrow> byte" where
  "digit_char d = (if d < 10 then of_nat (48 + d) else of_nat (87 + d))"

function (sequential) digits :: "nat \<Rightarrow> nat \<Rightarrow> bytes" where
  "digits r n =
     (if r < 2 \<or> n < r then [digit_char n] else digits r (n div r) @ [digit_char (n mod r)])"
  by pat_completeness auto
termination
  by (relation "measure (\<lambda>(r, n). n)") auto

declare digits.simps [simp del]

definition show_dec :: "nat \<Rightarrow> bytes" where
  "show_dec n = digits 10 n"

definition show_hex :: "nat \<Rightarrow> bytes" where
  "show_hex n = digits 16 n"

text \<open>\<^verbatim>\<open>char::to_digit(radix)\<close> on a byte, for radix 10 and 16.\<close>

definition to_digit :: "nat \<Rightarrow> byte \<Rightarrow> nat option" where
  "to_digit r b =
     (let d = (if 48 \<le> b \<and> b \<le> 57 then Some (unat b - 48)
               else if 97 \<le> b \<and> b \<le> 122 then Some (unat b - 87)
               else if 65 \<le> b \<and> b \<le> 90 then Some (unat b - 55)
               else None)
      in case d of Some v \<Rightarrow> if v < r then Some v else None | None \<Rightarrow> None)"

text \<open>The digit loop of \<^verbatim>\<open>from_str_radix\<close> with its checked multiplication and addition.\<close>

fun parse_digits :: "nat \<Rightarrow> nat \<Rightarrow> nat \<Rightarrow> bytes \<Rightarrow> nat option" where
  "parse_digits r m acc [] = Some acc"
| "parse_digits r m acc (b # s) =
     (case to_digit r b of
        None \<Rightarrow> None
      | Some d \<Rightarrow> if acc * r \<le> m \<and> acc * r + d \<le> m then parse_digits r m (acc * r + d) s else None)"

text \<open>An unsigned type with largest value \<open>m\<close>: an optional \<^verbatim>\<open>+\<close>, then at least one digit.\<close>

definition parse_uint :: "nat \<Rightarrow> nat \<Rightarrow> bytes \<Rightarrow> nat option" where
  "parse_uint r m s =
     (case s of
        [] \<Rightarrow> None
      | b # t \<Rightarrow>
          if t = [] \<and> (b = 43 \<or> b = 45) then None
          else if b = 43 then parse_digits r m 0 t
          else parse_digits r m 0 s)"

definition parse_word :: "nat \<Rightarrow> bytes \<Rightarrow> 'a::len word option" where
  "parse_word r s = map_option of_nat (parse_uint r (2 ^ LENGTH('a) - 1) s)"

lemma less_16_cases:
  "d < 16 \<Longrightarrow> d = 0 \<or> d = 1 \<or> d = 2 \<or> d = 3 \<or> d = 4 \<or> d = 5 \<or> d = 6 \<or> d = 7 \<or> d = 8 \<or>
     d = 9 \<or> d = 10 \<or> d = 11 \<or> d = 12 \<or> d = 13 \<or> d = 14 \<or> d = (15::nat)"
  by presburger

lemma to_digit_digit_char: "d < r \<Longrightarrow> r \<le> 16 \<Longrightarrow> to_digit r (digit_char d) = Some d"
proof -
  assume "d < r" "r \<le> 16"
  moreover from this have "d < 16" by simp
  note less_16_cases [OF this]
  ultimately show ?thesis
    by (elim disjE) (simp_all add: to_digit_def digit_char_def)
qed

lemma parse_digits_append:
  "parse_digits r m acc (s @ t) =
     (case parse_digits r m acc s of None \<Rightarrow> None | Some a \<Rightarrow> parse_digits r m a t)"
  by (induction s arbitrary: acc) (auto split: option.splits)

lemma parse_digits_digits:
  "2 \<le> r \<Longrightarrow> r \<le> 16 \<Longrightarrow> n \<le> m \<Longrightarrow> parse_digits r m 0 (digits r n) = Some n"
proof (induction r n rule: digits.induct)
  case (1 r n)
  show ?case
  proof (cases "n < r")
    case True
    with 1 show ?thesis by (simp add: digits.simps [of r n] to_digit_digit_char)
  next
    case False
    have "n div r \<le> m" using 1(4) div_le_dividend le_trans by blast
    with False 1 have IH: "parse_digits r m 0 (digits r (n div r)) = Some (n div r)" by simp
    have "n div r * r + n mod r = n" by simp
    moreover have "n div r * r \<le> m" using 1(4) calculation by linarith
    ultimately show ?thesis using False 1 IH
      by (simp add: digits.simps [of r n] parse_digits_append to_digit_digit_char)
  qed
qed

lemma digits_nonempty [simp]: "digits r n \<noteq> []"
  by (subst digits.simps) simp

text \<open>The alphabet of formatted numbers: no separator or terminator of any packet is in it.\<close>

definition is_hexdigit :: "byte \<Rightarrow> bool" where
  "is_hexdigit b \<longleftrightarrow> 48 \<le> b \<and> b \<le> 57 \<or> 97 \<le> b \<and> b \<le> 102"

lemma is_hexdigit_digit_char: "d < 16 \<Longrightarrow> is_hexdigit (digit_char d)"
proof -
  assume "d < 16"
  from less_16_cases [OF this] show ?thesis
    by (elim disjE) (simp_all add: is_hexdigit_def digit_char_def)
qed

lemma digits_hexdigit: "2 \<le> r \<Longrightarrow> r \<le> 16 \<Longrightarrow> b \<in> set (digits r n) \<Longrightarrow> is_hexdigit b"
proof (induction r n rule: digits.induct)
  case (1 r n)
  show ?case
  proof (cases "n < r")
    case True
    with 1 show ?thesis by (simp add: digits.simps [of r n] is_hexdigit_digit_char)
  next
    case False
    have "n mod r < r" using 1(2) by simp
    with 1(3) have "n mod r < 16" by linarith
    with False 1 show ?thesis
      by (auto simp: digits.simps [of r n] is_hexdigit_digit_char)
  qed
qed

lemma is_hexdigitD: "is_hexdigit b \<Longrightarrow> b < 128 \<and> b \<noteq> 0 \<and> b \<noteq> 10 \<and> b \<noteq> 32 \<and> b \<noteq> 43 \<and> b \<noteq> 45 \<and> b \<noteq> 46 \<and> b \<noteq> 92"
  unfolding is_hexdigit_def by (elim disjE conjE; intro conjI; (unat_arith | (rule notI, simp)))

lemma parse_uint_digits:
  assumes "2 \<le> r" "r \<le> 16" "n \<le> m"
  shows "parse_uint r m (digits r n) = Some n"
proof -
  obtain b t where bt: "digits r n = b # t" by (cases "digits r n") auto
  then have "is_hexdigit b" using digits_hexdigit [OF assms(1,2), of b n] by simp
  then have "b \<noteq> 43" "b \<noteq> 45" using is_hexdigitD by blast+
  with bt show ?thesis
    using parse_digits_digits [OF assms] by (simp add: parse_uint_def)
qed

lemma parse_word_digits:
  fixes w :: "'a::len word"
  assumes "2 \<le> r" "r \<le> 16"
  shows "parse_word r (digits r (unat w)) = Some w"
proof -
  have "unat w \<le> 2 ^ LENGTH('a) - 1"
    using unsigned_less [of w] by (metis Suc_diff_1 less_Suc_eq_le zero_less_numeral zero_less_power)
  with assms show ?thesis by (simp add: parse_word_def parse_uint_digits)
qed

lemma parse_show_dec [simp]: "parse_word 10 (show_dec (unat w)) = Some w"
  by (simp add: show_dec_def parse_word_digits)

lemma parse_show_hex [simp]: "parse_word 16 (show_hex (unat w)) = Some w"
  by (simp add: show_hex_def parse_word_digits)

lemma show_dec_clean: "b \<in> set (show_dec n) \<Longrightarrow> b < 128 \<and> b \<noteq> 0 \<and> b \<noteq> 10 \<and> b \<noteq> 32 \<and> b \<noteq> 43 \<and> b \<noteq> 45 \<and> b \<noteq> 46 \<and> b \<noteq> 92"
  using digits_hexdigit [of 10 b n] is_hexdigitD by (simp add: show_dec_def)

lemma show_hex_clean: "b \<in> set (show_hex n) \<Longrightarrow> b < 128 \<and> b \<noteq> 0 \<and> b \<noteq> 10 \<and> b \<noteq> 32 \<and> b \<noteq> 43 \<and> b \<noteq> 45 \<and> b \<noteq> 46 \<and> b \<noteq> 92"
  using digits_hexdigit [of 16 b n] is_hexdigitD by (simp add: show_hex_def)

lemma show_dec_ascii [simp]: "is_ascii (show_dec n)"
  using show_dec_clean by (auto simp: is_ascii_def)

lemma show_hex_ascii [simp]: "is_ascii (show_hex n)"
  using show_hex_clean by (auto simp: is_ascii_def)

section \<open>Byte order\<close>

text \<open>\<^verbatim>\<open>to_le_bytes\<close>, \<^verbatim>\<open>from_le_bytes\<close> and their big endian counterparts.\<close>

primrec to_le :: "nat \<Rightarrow> 'a::len word \<Rightarrow> bytes" where
  "to_le 0 w = []"
| "to_le (Suc n) w = ucast w # to_le n (drop_bit 8 w)"

primrec from_le :: "bytes \<Rightarrow> 'a::len word" where
  "from_le [] = 0"
| "from_le (b # s) = ucast b OR push_bit 8 (from_le s)"

definition to_be :: "nat \<Rightarrow> 'a::len word \<Rightarrow> bytes" where
  "to_be n w = rev (to_le n w)"

definition from_be :: "bytes \<Rightarrow> 'a::len word" where
  "from_be s = from_le (rev s)"

lemma length_to_le [simp]: "length (to_le n w) = n"
  by (induction n arbitrary: w) simp_all

lemma length_to_be [simp]: "length (to_be n w) = n"
  by (simp add: to_be_def)

lemma from_to_le: "from_le (to_le n w) = take_bit (8 * n) w"
proof (induction n arbitrary: w)
  case 0
  then show ?case by simp
next
  case (Suc n)
  have "ucast (ucast w :: byte) OR push_bit 8 (take_bit (8 * n) (drop_bit 8 w)) =
        take_bit (8 * Suc n) w"
    by (rule bit_word_eqI)
       (auto simp: bit_or_iff bit_push_bit_iff bit_take_bit_iff bit_drop_bit_eq bit_unsigned_iff)
  with Suc show ?case by simp
qed

lemma from_to_le_full [simp]:
  fixes w :: "'a::len word"
  shows "LENGTH('a) \<le> 8 * n \<Longrightarrow> from_le (to_le n w) = w"
  by (simp add: from_to_le take_bit_word_eq_self)

lemma from_to_be_full [simp]:
  fixes w :: "'a::len word"
  shows "LENGTH('a) \<le> 8 * n \<Longrightarrow> from_be (to_be n w) = w"
  by (simp add: from_be_def to_be_def)

end
