(* ===== verification/Cursor_Read.thy ===== *)
theory Cursor_Read
  imports Text_Std
begin

text \<open>
  \<^verbatim>\<open>cursor.rs\<close> and \<^verbatim>\<open>cursor/read.rs\<close> of xash3d-protocol: the cursor errors and the reading
  cursor over a byte slice. A method that takes \<^verbatim>\<open>&mut self\<close> returns the new cursor with its
  result; no method moves the cursor when it fails, except \<open>Cursor_get_cstr_as_str\<close>, whose
  caller gets the error and drops the cursor.

  \<open>at pre s\<close> is the cursor that has consumed \<open>pre\<close> and still holds \<open>s\<close>: the lemmas give every
  method on cursors of this form, and the decoders' round trips rewrite with them.
\<close>

datatype cursor_error =
    InvalidNumber
  | InvalidString
  | InvalidBool
  | InvalidTableKey
  | InvalidTableValue
  | TableEnd
  | Expect
  | ExpectEmpty
  | ExpectFull
  | NeedMoreBytes nat
  | BufferOverflow

definition CursorError_display :: "cursor_error \<Rightarrow> bytes" where
  "CursorError_display e =
     (case e of
        InvalidNumber \<Rightarrow> str ''Invalid number''
      | InvalidString \<Rightarrow> str ''Invalid string''
      | InvalidBool \<Rightarrow> str ''Invalid boolean''
      | InvalidTableKey \<Rightarrow> str ''Invalid table key''
      | InvalidTableValue \<Rightarrow> str ''Invalid table entry''
      | TableEnd \<Rightarrow> str ''Table end''
      | Expect \<Rightarrow> str ''Expected data not found''
      | ExpectEmpty \<Rightarrow> str ''Unexpected data''
      | ExpectFull \<Rightarrow> str ''Unexpected free space in buffer''
      | NeedMoreBytes count \<Rightarrow> str ''need '' @ show_dec count @ str '' bytes''
      | BufferOverflow \<Rightarrow> str ''Buffer capacity is not enough'')"

record cursor =
  cur_buffer :: bytes
  cur_pos :: nat

type_synonym 'a cres = "cursor_error + 'a \<times> cursor"

section \<open>Operations\<close>

definition Cursor_new :: "bytes \<Rightarrow> cursor" where
  "Cursor_new buffer = \<lparr>cur_buffer = buffer, cur_pos = 0\<rparr>"

definition Cursor_end :: "cursor \<Rightarrow> bytes" where
  "Cursor_end c = drop (cur_pos c) (cur_buffer c)"

definition Cursor_as_slice :: "cursor \<Rightarrow> bytes" where
  "Cursor_as_slice c = drop (cur_pos c) (cur_buffer c)"

definition Cursor_remaining :: "cursor \<Rightarrow> nat" where
  "Cursor_remaining c = length (cur_buffer c) - cur_pos c"

definition Cursor_has_remaining :: "cursor \<Rightarrow> bool" where
  "Cursor_has_remaining c \<longleftrightarrow> cur_pos c < length (cur_buffer c)"

definition Cursor_get_tail :: "cursor \<Rightarrow> bytes \<times> cursor" where
  "Cursor_get_tail c =
     (if cur_pos c < length (cur_buffer c)
      then (drop (cur_pos c) (cur_buffer c), c\<lparr>cur_pos := length (cur_buffer c)\<rparr>)
      else ([], c))"

definition Cursor_get_bytes :: "nat \<Rightarrow> cursor \<Rightarrow> bytes cres" where
  "Cursor_get_bytes count c =
     (let end = cur_pos c + count in
      if end \<le> length (cur_buffer c)
      then Inr (take count (drop (cur_pos c) (cur_buffer c)), c\<lparr>cur_pos := end\<rparr>)
      else Inl (NeedMoreBytes (end - length (cur_buffer c))))"

definition Cursor_advance :: "nat \<Rightarrow> cursor \<Rightarrow> unit cres" where
  "Cursor_advance count c = map_ok (\<lambda>(_, c'). ((), c')) (Cursor_get_bytes count c)"

text \<open>\<^verbatim>\<open>get_array::<N>\<close> copies the \<open>N\<close> bytes of \<^verbatim>\<open>get_bytes(N)\<close>.\<close>

definition Cursor_get_array :: "nat \<Rightarrow> cursor \<Rightarrow> bytes cres" where
  "Cursor_get_array n c = Cursor_get_bytes n c"

definition Cursor_get_str :: "nat \<Rightarrow> cursor \<Rightarrow> bytes cres" where
  "Cursor_get_str n c =
     rbind (Cursor_get_bytes n c) (\<lambda>(s, c').
     rbind (map_err (\<lambda>_. InvalidString) (from_utf8 s)) (\<lambda>t.
     Inr (t, c')))"

definition Cursor_find :: "memchr_ops \<Rightarrow> byte \<Rightarrow> cursor \<Rightarrow> cursor_error + nat" where
  "Cursor_find mc b c = ok_or (NeedMoreBytes 1) (memchr mc b (drop (cur_pos c) (cur_buffer c)))"

definition Cursor_find2 :: "memchr_ops \<Rightarrow> byte \<Rightarrow> byte \<Rightarrow> cursor \<Rightarrow> cursor_error + nat" where
  "Cursor_find2 mc b0 b1 c =
     ok_or (NeedMoreBytes 1) (memchr2 mc b0 b1 (drop (cur_pos c) (cur_buffer c)))"

definition Cursor_take_until :: "memchr_ops \<Rightarrow> byte \<Rightarrow> cursor \<Rightarrow> bytes cres" where
  "Cursor_take_until mc b c =
     rbind (Cursor_find mc b c) (\<lambda>n.
     let e = cur_pos c + n in
     Inr (take (e - cur_pos c) (drop (cur_pos c) (cur_buffer c)), c\<lparr>cur_pos := e\<rparr>))"

definition Cursor_take_until2 :: "memchr_ops \<Rightarrow> byte \<Rightarrow> byte \<Rightarrow> cursor \<Rightarrow> bytes cres" where
  "Cursor_take_until2 mc b0 b1 c =
     rbind (Cursor_find2 mc b0 b1 c) (\<lambda>n.
     let e = cur_pos c + n in
     Inr (take (e - cur_pos c) (drop (cur_pos c) (cur_buffer c)), c\<lparr>cur_pos := e\<rparr>))"

text \<open>\<^verbatim>\<open>get_cstr_ffi\<close> returns the slice with its terminator, as a \<^verbatim>\<open>&CStr\<close> holds it;
  \<open>CStr_to_bytes\<close> drops it.\<close>

definition CStr_to_bytes :: "bytes \<Rightarrow> bytes" where
  "CStr_to_bytes s = butlast s"

definition Cursor_get_cstr_ffi :: "memchr_ops \<Rightarrow> cursor \<Rightarrow> bytes cres" where
  "Cursor_get_cstr_ffi mc c =
     rbind (Cursor_find mc 0 c) (\<lambda>n.
     let e = cur_pos c + n + 1 in
     Inr (take (e - cur_pos c) (drop (cur_pos c) (cur_buffer c)), c\<lparr>cur_pos := e\<rparr>))"

definition Cursor_get_cstr :: "memchr_ops \<Rightarrow> cursor \<Rightarrow> bytes cres" where
  "Cursor_get_cstr mc c =
     rbind (Cursor_get_cstr_ffi mc c) (\<lambda>(s, c'). Inr (CStr_to_bytes s, c'))"

definition Cursor_get_cstr_as_str :: "memchr_ops \<Rightarrow> cursor \<Rightarrow> bytes cres" where
  "Cursor_get_cstr_as_str mc c =
     rbind (Cursor_get_cstr mc c) (\<lambda>(s, c').
     rbind (map_err (\<lambda>_. InvalidString) (from_utf8 s)) (\<lambda>t. Inr (t, c')))"

definition Cursor_get_u8 :: "cursor \<Rightarrow> u8 cres" where
  "Cursor_get_u8 c = rbind (Cursor_get_array 1 c) (\<lambda>(s, c'). Inr (s ! 0, c'))"

text \<open>
  The \<^verbatim>\<open>impl_get!\<close> family, at the widths the packets use. An \<^verbatim>\<open>i32\<close> or \<^verbatim>\<open>f32\<close> is its
  32-bit pattern (read as signed with \<open>sint\<close>).
\<close>

definition Cursor_get_le :: "nat \<Rightarrow> cursor \<Rightarrow> 'a::len word cres" where
  "Cursor_get_le n c = rbind (Cursor_get_array n c) (\<lambda>(s, c'). Inr (from_le s, c'))"

definition Cursor_get_be :: "nat \<Rightarrow> cursor \<Rightarrow> 'a::len word cres" where
  "Cursor_get_be n c = rbind (Cursor_get_array n c) (\<lambda>(s, c'). Inr (from_be s, c'))"

definition Cursor_get_u16_le :: "cursor \<Rightarrow> u16 cres" where
  "Cursor_get_u16_le c = Cursor_get_le 2 c"

definition Cursor_get_u32_le :: "cursor \<Rightarrow> u32 cres" where
  "Cursor_get_u32_le c = Cursor_get_le 4 c"

definition Cursor_get_u64_le :: "cursor \<Rightarrow> u64 cres" where
  "Cursor_get_u64_le c = Cursor_get_le 8 c"

definition Cursor_get_u16_be :: "cursor \<Rightarrow> u16 cres" where
  "Cursor_get_u16_be c = Cursor_get_be 2 c"

definition Cursor_expect :: "bytes \<Rightarrow> cursor \<Rightarrow> unit cres" where
  "Cursor_expect s c =
     (if Cursor_remaining c < length s
      then Inl (NeedMoreBytes (length s - Cursor_remaining c))
      else if starts_with s (Cursor_as_slice c)
      then rbind (Cursor_advance (length s) c) (\<lambda>(_, c'). Inr ((), c'))
      else Inl Expect)"

definition Cursor_expect_empty :: "cursor \<Rightarrow> cursor_error + unit" where
  "Cursor_expect_empty c = (if Cursor_has_remaining c then Inl ExpectEmpty else Inr ())"

definition Cursor_take_while :: "(byte \<Rightarrow> bool) \<Rightarrow> cursor \<Rightarrow> bytes cres" where
  "Cursor_take_while cond c =
     rbind (ok_or (NeedMoreBytes 1) (position (\<lambda>i. \<not> cond i) (Cursor_as_slice c)))
       (\<lambda>n. Cursor_get_bytes n c)"

section \<open>Cursors as consumed and remaining bytes\<close>

definition at :: "bytes \<Rightarrow> bytes \<Rightarrow> cursor" where
  "at pre s = \<lparr>cur_buffer = pre @ s, cur_pos = length pre\<rparr>"

definition cursor_wf :: "cursor \<Rightarrow> bool" where
  "cursor_wf c \<longleftrightarrow> cur_pos c \<le> length (cur_buffer c)"

lemma cursor_wf_at: "cursor_wf c \<longleftrightarrow> (\<exists>pre s. c = at pre s)"
proof
  assume "cursor_wf c"
  then have "c = at (take (cur_pos c) (cur_buffer c)) (drop (cur_pos c) (cur_buffer c))"
    by (cases c) (simp add: at_def cursor_wf_def min_absorb2)
  then show "\<exists>pre s. c = at pre s" by blast
qed (auto simp: at_def cursor_wf_def)

lemma Cursor_new_at [wire_simps]: "Cursor_new s = at [] s"
  by (simp add: Cursor_new_def at_def)

lemma Cursor_view_at [simp, wire_simps]:
  "Cursor_end (at pre s) = s"
  "Cursor_as_slice (at pre s) = s"
  "Cursor_remaining (at pre s) = length s"
  "Cursor_has_remaining (at pre s) \<longleftrightarrow> s \<noteq> []"
  by (simp_all add: Cursor_end_def Cursor_as_slice_def Cursor_remaining_def
        Cursor_has_remaining_def at_def)

lemma Cursor_get_tail_at [simp]: "Cursor_get_tail (at pre s) = (s, at (pre @ s) [])"
  by (simp add: Cursor_get_tail_def at_def)

lemma Cursor_get_bytes_at:
  "Cursor_get_bytes n (at pre s) =
     (if n \<le> length s then Inr (take n s, at (pre @ take n s) (drop n s))
      else Inl (NeedMoreBytes (n - length s)))"
  by (auto simp: Cursor_get_bytes_def at_def Let_def)

lemma Cursor_get_array_at:
  "Cursor_get_array n (at pre s) =
     (if n \<le> length s then Inr (take n s, at (pre @ take n s) (drop n s))
      else Inl (NeedMoreBytes (n - length s)))"
  by (simp add: Cursor_get_array_def Cursor_get_bytes_at)

lemma Cursor_get_bytes_append [wire_simps]:
  "n = length a \<Longrightarrow> Cursor_get_bytes n (at pre (a @ s)) = Inr (a, at (pre @ a) s)"
  by (simp add: Cursor_get_bytes_at)

lemma Cursor_get_u8_at [wire_simps]:
  "Cursor_get_u8 (at pre (b # s)) = Inr (b, at (pre @ [b]) s)"
  "Cursor_get_u8 (at pre []) = Inl (NeedMoreBytes 1)"
  by (simp_all add: Cursor_get_u8_def Cursor_get_array_at)

lemma Cursor_get_le_at:
  "Cursor_get_le n (at pre s) =
     (if n \<le> length s then Inr (from_le (take n s), at (pre @ take n s) (drop n s))
      else Inl (NeedMoreBytes (n - length s)))"
  by (simp add: Cursor_get_le_def Cursor_get_array_at)

lemma Cursor_get_words_append [wire_simps]:
  "Cursor_get_u16_le (at pre (to_le 2 w16 @ s)) = Inr (w16, at (pre @ to_le 2 w16) s)"
  "Cursor_get_u32_le (at pre (to_le 4 w32 @ s)) = Inr (w32, at (pre @ to_le 4 w32) s)"
  "Cursor_get_u64_le (at pre (to_le 8 w64 @ s)) = Inr (w64, at (pre @ to_le 8 w64) s)"
  "Cursor_get_u16_be (at pre (to_be 2 w16 @ s)) = Inr (w16, at (pre @ to_be 2 w16) s)"
  by (simp_all add: Cursor_get_u16_le_def Cursor_get_u32_le_def Cursor_get_u64_le_def
        Cursor_get_u16_be_def Cursor_get_le_def Cursor_get_be_def Cursor_get_array_at)

lemma Cursor_get_words_exact [wire_simps]:
  "Cursor_get_u16_le (at pre (to_le 2 w16)) = Inr (w16, at (pre @ to_le 2 w16) [])"
  "Cursor_get_u32_le (at pre (to_le 4 w32)) = Inr (w32, at (pre @ to_le 4 w32) [])"
  "Cursor_get_u64_le (at pre (to_le 8 w64)) = Inr (w64, at (pre @ to_le 8 w64) [])"
  "Cursor_get_u16_be (at pre (to_be 2 w16)) = Inr (w16, at (pre @ to_be 2 w16) [])"
  using Cursor_get_words_append [of pre _ "[]"] by simp_all

lemma Cursor_expect_at:
  "Cursor_expect h (at pre s) =
     (if length s < length h then Inl (NeedMoreBytes (length h - length s))
      else if starts_with h s then Inr ((), at (pre @ h) (drop (length h) s))
      else Inl Expect)"
  by (auto simp: Cursor_expect_def Cursor_advance_def Cursor_get_bytes_at starts_with_iff)

lemma Cursor_expect_append [wire_simps]:
  "Cursor_expect h (at pre (h @ s)) = Inr ((), at (pre @ h) s)"
  "Cursor_expect h (at pre h) = Inr ((), at (pre @ h) [])"
  by (simp_all add: Cursor_expect_at)

lemma Cursor_expect_empty_at [wire_simps]:
  "Cursor_expect_empty (at pre []) = Inr ()"
  "Cursor_expect_empty (at pre (b # s)) = Inl ExpectEmpty"
  by (simp_all add: Cursor_expect_empty_def)

lemma Cursor_find_at [simp]: "Cursor_find mc b (at pre s) = ok_or (NeedMoreBytes 1) (memchr mc b s)"
  by (simp add: Cursor_find_def at_def)

lemma Cursor_find2_at [simp]:
  "Cursor_find2 mc b0 b1 (at pre s) = ok_or (NeedMoreBytes 1) (memchr2 mc b0 b1 s)"
  by (simp add: Cursor_find2_def at_def)

lemma Cursor_take_until2_hit [wire_simps]:
  assumes "memchr_ok mc" "\<forall>x \<in> set s. x \<noteq> b0 \<and> x \<noteq> b1" "c = b0 \<or> c = b1"
  shows "Cursor_take_until2 mc b0 b1 (at pre (s @ c # t)) = Inr (s, at (pre @ s) (c # t))"
proof -
  have "memchr2 mc b0 b1 (s @ c # t) = Some (length s)"
    unfolding memchr_okD [OF assms(1)] using assms(2,3) by (intro position_append_hit) auto
  then show ?thesis
    by (simp add: Cursor_take_until2_def Let_def) (simp add: at_def)
qed

lemma Cursor_take_until2_miss [wire_simps]:
  assumes "memchr_ok mc" "\<forall>x \<in> set s. x \<noteq> b0 \<and> x \<noteq> b1"
  shows "Cursor_take_until2 mc b0 b1 (at pre s) = Inl (NeedMoreBytes 1)"
proof -
  have "memchr2 mc b0 b1 s = None"
    unfolding memchr_okD [OF assms(1)] using assms(2) by simp
  then show ?thesis by (simp add: Cursor_take_until2_def)
qed

lemma Cursor_get_cstr_ffi_hit [wire_simps]:
  assumes "memchr_ok mc" "0 \<notin> set s"
  shows "Cursor_get_cstr_ffi mc (at pre (s @ 0 # t)) = Inr (s @ [0], at (pre @ s @ [0]) t)"
proof -
  have "memchr mc 0 (s @ 0 # t) = Some (length s)"
    unfolding memchr_okD [OF assms(1)] using assms(2) by (intro position_append_hit) auto
  then show ?thesis
    by (simp add: Cursor_get_cstr_ffi_def Let_def) (simp add: at_def)
qed

lemma Cursor_get_cstr_ffi_miss [wire_simps]:
  assumes "memchr_ok mc" "0 \<notin> set s"
  shows "Cursor_get_cstr_ffi mc (at pre s) = Inl (NeedMoreBytes 1)"
proof -
  have "memchr mc 0 s = None"
    unfolding memchr_okD [OF assms(1)] using assms(2) by auto
  then show ?thesis by (simp add: Cursor_get_cstr_ffi_def)
qed

lemma Cursor_get_cstr_hit [wire_simps]:
  assumes "memchr_ok mc" "0 \<notin> set s"
  shows "Cursor_get_cstr mc (at pre (s @ 0 # t)) = Inr (s, at (pre @ s @ [0]) t)"
  using assms by (simp add: Cursor_get_cstr_def Cursor_get_cstr_ffi_hit CStr_to_bytes_def)

lemma Cursor_get_str_append [wire_simps]:
  "n = length a \<Longrightarrow> is_utf8 a \<Longrightarrow> Cursor_get_str n (at pre (a @ s)) = Inr (a, at (pre @ a) s)"
  by (simp add: Cursor_get_str_def Cursor_get_bytes_at from_utf8_Inr)

lemma Cursor_get_str_exact [wire_simps]:
  "n = length a \<Longrightarrow> is_utf8 a \<Longrightarrow> Cursor_get_str n (at pre a) = Inr (a, at (pre @ a) [])"
  using Cursor_get_str_append [of n a pre "[]"] by simp

lemma Cursor_take_while_at:
  "Cursor_take_while p (at pre s) =
     (if \<forall>b \<in> set s. p b then Inl (NeedMoreBytes 1)
      else Inr (takeWhile p s, at (pre @ takeWhile p s) (dropWhile p s)))"
proof (cases "\<forall>b \<in> set s. p b")
  case True
  then have none: "position (\<lambda>b. \<not> p b) s = None" by simp
  have "Cursor_take_while p (at pre s) = Inl (NeedMoreBytes 1)"
    unfolding Cursor_take_while_def Cursor_view_at none by simp
  with True show ?thesis by simp
next
  case False
  then obtain d ds where d: "dropWhile p s = d # ds" "\<not> p d"
    by (metis dropWhile_eq_Nil_conv hd_dropWhile list.exhaust_sel list.sel(1))
  have s: "s = takeWhile p s @ d # ds" by (metis d(1) takeWhile_dropWhile_id)
  have "position (\<lambda>b. \<not> p b) (takeWhile p s @ d # ds) = Some (length (takeWhile p s))"
    using d(2) by (intro position_append_hit) (auto dest: set_takeWhileD)
  with s have "position (\<lambda>b. \<not> p b) s = Some (length (takeWhile p s))" by simp
  with False show ?thesis
    by (simp add: Cursor_take_while_def Cursor_get_bytes_at length_takeWhile_le
          takeWhile_eq_take [symmetric] dropWhile_eq_drop [symmetric])
qed

text \<open>
  Every method keeps the position inside the buffer and never changes the buffer: the cursor only
  moves forward over the slice it was created on.
\<close>

definition advances :: "cursor \<Rightarrow> cursor \<Rightarrow> bool" where
  "advances c c' \<longleftrightarrow>
     cur_buffer c' = cur_buffer c \<and> cur_pos c \<le> cur_pos c' \<and> cur_pos c' \<le> length (cur_buffer c)"

lemma advances_trans: "advances c c' \<Longrightarrow> advances c' c'' \<Longrightarrow> advances c c''"
  by (auto simp: advances_def)

lemma Cursor_get_bytes_advances: "Cursor_get_bytes n c = Inr (s, c') \<Longrightarrow> advances c c'"
  by (auto simp: Cursor_get_bytes_def advances_def Let_def split: if_splits)

lemma Cursor_expect_advances: "Cursor_expect h c = Inr (u, c') \<Longrightarrow> advances c c'"
  by (auto simp: Cursor_expect_def Cursor_advance_def rbind_eq_Inr_iff map_ok_eq_Inr_iff
        split: if_splits dest: Cursor_get_bytes_advances)

lemma Cursor_get_cstr_advances:
  assumes "memchr_ok mc" "Cursor_get_cstr mc c = Inr (s, c')"
  shows "advances c c' \<and> 0 \<notin> set s"
proof -
  let ?r = "drop (cur_pos c) (cur_buffer c)"
  from assms obtain n where n: "position (\<lambda>b. b = 0) ?r = Some n"
    and c': "c' = c\<lparr>cur_pos := cur_pos c + n + 1\<rparr>"
    and s: "s = butlast (take (Suc n) ?r)"
    by (auto simp: Cursor_get_cstr_def Cursor_get_cstr_ffi_def Cursor_find_def CStr_to_bytes_def
          rbind_eq_Inr_iff Let_def memchr_okD)
  from position_SomeD [OF n] have "n < length ?r" and z: "\<forall>x \<in> set (take n ?r). x \<noteq> 0"
    by auto
  then have "s = take n ?r" by (simp add: s take_Suc_conv_app_nth)
  with z \<open>n < length ?r\<close> c' show ?thesis by (auto simp: advances_def)
qed

end
