(* ===== verification/Cursor_Write.thy ===== *)
theory Cursor_Write
  imports Cursor_Read
begin

text \<open>
  \<^verbatim>\<open>cursor/write.rs\<close>: the writing cursor over a mutable slice. A cursor owns its slice
  (\<open>mbuffer\<close>), so \<^verbatim>\<open>split\<close> returns two cursors over disjoint parts and the buffer after the
  last write is the concatenation of the parts.

  \<open>wcur w free off\<close> is the abstract view of a cursor: the bytes written so far and the free
  part of its slice. The refinement lemmas give each method on that view: a write appends to
  \<open>w\<close> when it fits in \<open>free\<close> and is \<open>BufferOverflow\<close> otherwise.
\<close>

record cursor_mut =
  mbuffer :: bytes
  mpos :: nat
  moffset :: nat

type_synonym wres = "cursor_error + cursor_mut"

section \<open>Operations\<close>

definition CursorMut_new :: "bytes \<Rightarrow> cursor_mut" where
  "CursorMut_new buffer = \<lparr>mbuffer = buffer, mpos = 0, moffset = 0\<rparr>"

definition CursorMut_with_offset :: "bytes \<Rightarrow> nat \<Rightarrow> cursor_mut" where
  "CursorMut_with_offset buffer offset = \<lparr>mbuffer = buffer, mpos = 0, moffset = offset\<rparr>"

definition CursorMut_pos :: "cursor_mut \<Rightarrow> nat" where
  "CursorMut_pos c = moffset c + mpos c"

definition CursorMut_current_pos :: "cursor_mut \<Rightarrow> nat" where
  "CursorMut_current_pos c = mpos c"

definition CursorMut_available :: "cursor_mut \<Rightarrow> nat" where
  "CursorMut_available c = length (mbuffer c) - mpos c"

definition CursorMut_expect_full :: "cursor_mut \<Rightarrow> cursor_error + unit" where
  "CursorMut_expect_full c = (if mpos c = length (mbuffer c) then Inr () else Inl ExpectFull)"

definition CursorMut_split :: "nat \<Rightarrow> cursor_mut \<Rightarrow> cursor_error + cursor_mut \<times> cursor_mut" where
  "CursorMut_split len c =
     (let new_pos = mpos c + len in
      if new_pos \<le> length (mbuffer c)
      then Inr (c\<lparr>mbuffer := take new_pos (mbuffer c)\<rparr>,
                CursorMut_with_offset (drop new_pos (mbuffer c)) (moffset c + new_pos))
      else Inl BufferOverflow)"

definition put_bytes :: "bytes \<Rightarrow> cursor_mut \<Rightarrow> wres" where
  "put_bytes s c =
     (let new_pos = mpos c + length s in
      if new_pos \<le> length (mbuffer c)
      then Inr (c\<lparr>mbuffer := write_at (mpos c) s (mbuffer c), mpos := new_pos\<rparr>)
      else Inl BufferOverflow)"

definition put_array :: "bytes \<Rightarrow> cursor_mut \<Rightarrow> wres" where
  "put_array s c = put_bytes s c"

definition put_str :: "bytes \<Rightarrow> cursor_mut \<Rightarrow> wres" where
  "put_str s c = put_bytes s c"

definition put_u8 :: "u8 \<Rightarrow> cursor_mut \<Rightarrow> wres" where
  "put_u8 n c = put_array [n] c"

definition put_cstr :: "bytes \<Rightarrow> cursor_mut \<Rightarrow> wres" where
  "put_cstr s c = rbind (put_bytes s c) (put_u8 0)"

text \<open>The \<^verbatim>\<open>impl_put!\<close> family at the widths the packets use.\<close>

definition put_u16_le :: "u16 \<Rightarrow> cursor_mut \<Rightarrow> wres" where
  "put_u16_le n c = put_array (to_le 2 n) c"

definition put_u32_le :: "u32 \<Rightarrow> cursor_mut \<Rightarrow> wres" where
  "put_u32_le n c = put_array (to_le 4 n) c"

definition put_u64_le :: "u64 \<Rightarrow> cursor_mut \<Rightarrow> wres" where
  "put_u64_le n c = put_array (to_le 8 n) c"

definition put_u16_be :: "u16 \<Rightarrow> cursor_mut \<Rightarrow> wres" where
  "put_u16_be n c = put_array (to_be 2 n) c"

text \<open>
  \<^verbatim>\<open>fmt::Write::write_str\<close> of the cursor, and \<^verbatim>\<open>put_as_str\<close>, which formats a value through
  it. The argument is the text that \<^verbatim>\<open>Display\<close> produces.
\<close>

definition write_str :: "bytes \<Rightarrow> cursor_mut \<Rightarrow> unit + cursor_mut" where
  "write_str s c = map_err (\<lambda>_. ()) (put_bytes s c)"

definition put_as_str :: "bytes \<Rightarrow> cursor_mut \<Rightarrow> wres" where
  "put_as_str s c = map_err (\<lambda>_. BufferOverflow) (write_str s c)"

definition put_as_cstr :: "bytes \<Rightarrow> cursor_mut \<Rightarrow> wres" where
  "put_as_cstr s c = rbind (put_as_str s c) (put_u8 0)"

text \<open>The \<^verbatim>\<open>PutKeyValue\<close> instances of the primitive types.\<close>

definition put_kv_str :: "bytes \<Rightarrow> cursor_mut \<Rightarrow> wres" where
  "put_kv_str s c = put_str s c"

definition put_kv_bool :: "bool \<Rightarrow> cursor_mut \<Rightarrow> wres" where
  "put_kv_bool b c = put_u8 (if b then 49 else 48) c"

definition put_kv_uint :: "'a::len word \<Rightarrow> cursor_mut \<Rightarrow> wres" where
  "put_kv_uint n c = put_as_str (show_dec (unat n)) c"

definition put_key_raw :: "bytes \<Rightarrow> bytes \<Rightarrow> cursor_mut \<Rightarrow> wres" where
  "put_key_raw key value c =
     rbind (put_u8 92 c) (\<lambda>c.
     rbind (put_str key c) (\<lambda>c.
     rbind (put_u8 92 c) (put_bytes value)))"

text \<open>\<^verbatim>\<open>put_key(key, value)\<close>: the value is given by its \<^verbatim>\<open>put_key_value\<close>.\<close>

definition put_key :: "bytes \<Rightarrow> (cursor_mut \<Rightarrow> wres) \<Rightarrow> cursor_mut \<Rightarrow> wres" where
  "put_key key put_value c =
     rbind (put_u8 92 c) (\<lambda>c.
     rbind (put_str key c) (\<lambda>c.
     rbind (put_u8 92 c) put_value))"

section \<open>The abstract view\<close>

definition wcur :: "bytes \<Rightarrow> bytes \<Rightarrow> nat \<Rightarrow> cursor_mut" where
  "wcur w free off = \<lparr>mbuffer = w @ free, mpos = length w, moffset = off\<rparr>"

lemma CursorMut_new_wcur [wire_simps]: "CursorMut_new buf = wcur [] buf 0"
  by (simp add: CursorMut_new_def wcur_def)

lemma wcur_sel [simp, wire_simps]:
  "CursorMut_pos (wcur w free off) = off + length w"
  "CursorMut_current_pos (wcur w free off) = length w"
  "CursorMut_available (wcur w free off) = length free"
  "mbuffer (wcur w free off) = w @ free"
  by (simp_all add: CursorMut_pos_def CursorMut_current_pos_def CursorMut_available_def wcur_def)

text \<open>\<open>writes m s\<close>: the method \<open>m\<close> appends exactly \<open>s\<close>, or overflows.\<close>

definition writes :: "(cursor_mut \<Rightarrow> wres) \<Rightarrow> bytes \<Rightarrow> bool" where
  "writes m s \<longleftrightarrow>
     (\<forall>w free off. m (wcur w free off) =
        (if length s \<le> length free then Inr (wcur (w @ s) (drop (length s) free) off)
         else Inl BufferOverflow))"

named_theorems writes_intros

lemma writesD:
  "writes m s \<Longrightarrow> m (wcur w free off) =
     (if length s \<le> length free then Inr (wcur (w @ s) (drop (length s) free) off)
      else Inl BufferOverflow)"
  by (simp add: writes_def)

lemma writes_put_bytes [writes_intros]: "writes (put_bytes s) s"
  by (auto simp: writes_def put_bytes_def wcur_def write_at_def Let_def)

lemma writes_rbind [writes_intros]:
  assumes "writes m s" "writes k t"
  shows "writes (\<lambda>c. rbind (m c) k) (s @ t)"
  unfolding writes_def by (auto simp: writesD [OF assms(1)] writesD [OF assms(2)] add.commute)

lemma writes_rbind_abs [writes_intros]:
  assumes "writes m s" "writes (\<lambda>c. k c) t"
  shows "writes (\<lambda>c. rbind (m c) (\<lambda>c. k c)) (s @ t)"
  using writes_rbind [OF assms] by simp

lemma writes_prims [writes_intros]:
  "writes (put_array s) s"
  "writes (put_str s) s"
  "writes (put_u8 b) [b]"
  "writes (put_as_str s) s"
  "writes (put_u16_le w16) (to_le 2 w16)"
  "writes (put_u32_le w32) (to_le 4 w32)"
  "writes (put_u64_le w64) (to_le 8 w64)"
  "writes (put_u16_be w16) (to_be 2 w16)"
  "writes (put_kv_str s) s"
  "writes (put_kv_uint n) (show_dec (unat n))"
  "writes (put_kv_bool t) [if t then 49 else 48]"
proof -
  have a: "put_array t = put_bytes t" for t by (rule ext) (simp add: put_array_def)
  have e: "put_as_str t = put_bytes t" for t
    by (rule ext) (simp add: put_as_str_def write_str_def put_bytes_def Let_def)
  show "writes (put_array s) s" by (simp add: a writes_put_bytes)
  show "writes (put_str s) s" unfolding put_str_def by (rule writes_put_bytes)
  show u8: "writes (put_u8 b) [b]" for b unfolding put_u8_def a by (rule writes_put_bytes)
  show "writes (put_as_str s) s" by (simp add: e writes_put_bytes)
  show "writes (put_u16_le w16) (to_le 2 w16)" unfolding put_u16_le_def a by (rule writes_put_bytes)
  show "writes (put_u32_le w32) (to_le 4 w32)" unfolding put_u32_le_def a by (rule writes_put_bytes)
  show "writes (put_u64_le w64) (to_le 8 w64)" unfolding put_u64_le_def a by (rule writes_put_bytes)
  show "writes (put_u16_be w16) (to_be 2 w16)" unfolding put_u16_be_def a by (rule writes_put_bytes)
  show "writes (put_kv_str s) s" unfolding put_kv_str_def put_str_def by (rule writes_put_bytes)
  show "writes (put_kv_uint n) (show_dec (unat n))"
    unfolding put_kv_uint_def e by (rule writes_put_bytes)
  show "writes (put_kv_bool t) [if t then 49 else 48]"
    unfolding put_kv_bool_def by (rule u8)
qed

lemma writes_nothing [writes_intros]: "writes (\<lambda>c. Inr c) []"
  by (simp add: writes_def)

lemma writes_option [writes_intros]:
  "(\<And>x. y = Some x \<Longrightarrow> writes (\<lambda>c. m x c) (s x)) \<Longrightarrow>
     writes (\<lambda>c. case y of None \<Rightarrow> Inr c | Some x \<Rightarrow> m x c) (case y of None \<Rightarrow> [] | Some x \<Rightarrow> s x)"
  by (cases y) (simp_all add: writes_nothing)

lemma writes_eq: "writes m s \<Longrightarrow> s = t \<Longrightarrow> writes m t"
  by simp

lemma writes_put_cstr [writes_intros]: "writes (put_cstr s) (s @ [0])"
  unfolding put_cstr_def by (intro writes_intros)

lemma writes_put_as_cstr [writes_intros]: "writes (put_as_cstr s) (s @ [0])"
  unfolding put_as_cstr_def by (intro writes_intros)

lemma writes_put_key [writes_intros]:
  "writes v s \<Longrightarrow> writes (put_key key v) ([92] @ key @ [92] @ s)"
  unfolding put_key_def by (intro writes_rbind writes_prims)

lemma writes_put_key_raw [writes_intros]:
  "writes (put_key_raw key value) ([92] @ key @ [92] @ value)"
  unfolding put_key_raw_def by (intro writes_rbind writes_prims writes_put_bytes)

lemma CursorMut_split_wcur:
  "CursorMut_split n (wcur w free off) =
     (if n \<le> length free
      then Inr (wcur w (take n free) off, wcur [] (drop n free) (off + length w + n))
      else Inl BufferOverflow)"
  by (simp add: CursorMut_split_def CursorMut_with_offset_def wcur_def Let_def add.assoc)

lemma CursorMut_expect_full_wcur [wire_simps]:
  "CursorMut_expect_full (wcur w [] off) = Inr ()"
  by (simp add: CursorMut_expect_full_def wcur_def)

section \<open>Encoders\<close>

text \<open>
  Most encoders run a chain of writes over a fresh cursor and return \<^verbatim>\<open>&buf[..n]\<close>. \<open>encode_with\<close>
  is that pattern, with \<^verbatim>\<open>?\<close> converting the error.
\<close>

definition encode_with :: "(cursor_mut \<Rightarrow> wres) \<Rightarrow> bytes \<Rightarrow> cursor_error + bytes" where
  "encode_with m buf =
     map_ok (\<lambda>c. take (CursorMut_pos c) (mbuffer c)) (m (CursorMut_new buf))"

lemma encode_with_writes:
  assumes "writes m s"
  shows "encode_with m buf = (if length s \<le> length buf then Inr s else Inl BufferOverflow)"
  unfolding encode_with_def CursorMut_new_wcur writesD [OF assms] by simp

text \<open>
  The interface between a packet's encoder and its decoder: a wire format, the values it can
  carry, an encoder that produces it whenever it fits (with \<open>spare\<close> bytes left where the encoder
  needs them) and a decoder that reads it back. \<open>ret\<close> embeds the result where the encoder can also
  panic.
\<close>

locale packet_codec =
  fixes wire :: "'p \<Rightarrow> bytes"
    and valid :: "'p \<Rightarrow> bool"
    and spare :: "'p \<Rightarrow> nat"
    and ret :: "'e + bytes \<Rightarrow> 'r"
    and encode :: "'p \<Rightarrow> bytes \<Rightarrow> 'r"
    and decode :: "bytes \<Rightarrow> 'e + 'p"
    and overflow :: 'e
  assumes ret_inj: "ret x = ret y \<Longrightarrow> x = y"
    and encode_spec: "valid p \<Longrightarrow> encode p buf =
      ret (if length (wire p) + spare p \<le> length buf then Inr (wire p) else Inl overflow)"
    and decode_wire: "valid p \<Longrightarrow> decode (wire p) = Inr p"
begin

lemma encode_decode:
  assumes "valid p" "encode p buf = ret (Inr s)"
  shows "decode s = Inr p"
  using assms decode_wire by (auto simp: encode_spec split: if_splits dest!: ret_inj)

lemma encode_fits:
  "valid p \<Longrightarrow> (\<exists>s. encode p buf = ret (Inr s)) \<longleftrightarrow> length (wire p) + spare p \<le> length buf"
  by (auto simp: encode_spec dest!: ret_inj)

lemma encode_length: "valid p \<Longrightarrow> encode p buf = ret (Inr s) \<Longrightarrow> length s \<le> length buf"
  by (auto simp: encode_spec split: if_splits dest!: ret_inj)

lemma encode_error: "valid p \<Longrightarrow> encode p buf = ret (Inl e) \<Longrightarrow> e = overflow"
  by (auto simp: encode_spec split: if_splits dest!: ret_inj)

lemma encode_roundtrip:
  assumes "valid p" "length (wire p) + spare p \<le> length buf"
  shows "\<exists>s. encode p buf = ret (Inr s) \<and> decode s = Inr p"
  by (intro exI [of _ "wire p"] conjI) (simp_all add: assms encode_spec decode_wire)

lemma wire_inj: "valid p \<Longrightarrow> valid q \<Longrightarrow> wire p = wire q \<Longrightarrow> p = q"
  by (metis decode_wire sum.inject(2))

end

end
