(* ===== verification/Map_Str.thy ===== *)
theory Map_Str
  imports Cursor_Write
begin

text \<open>
  \<^verbatim>\<open>map.rs\<close>: map strings (bytes without \<^verbatim>\<open>\\<close> and NUL), the conversions of their parse errors
  to \<^verbatim>\<open>CursorError\<close> (in \<^verbatim>\<open>cursor.rs\<close>) and the iterator over \<^verbatim>\<open>\key\value\<close> pairs.
  \<open>for_entries\<close> is the loop the three key/value decoders share, and \<open>kv_wire\<close> the text that
  \<^verbatim>\<open>put_key\<close> writes: \<open>for_entries_kv_wire\<close> is the round trip between the two.
\<close>

section \<open>Map strings\<close>

datatype 'e map_str_parse_error = MUtf8Error "nat \<times> nat option" | MParseError 'e

definition MapStr_from_cstr :: "memchr_ops \<Rightarrow> bytes \<Rightarrow> unit + bytes" where
  "MapStr_from_cstr mc bytes = (if memchr mc 92 bytes = None then Inr bytes else Inl ())"

definition MapStr_from_slice :: "memchr_ops \<Rightarrow> bytes \<Rightarrow> unit + bytes" where
  "MapStr_from_slice mc bytes = (if memchr2 mc 92 0 bytes = None then Inr bytes else Inl ())"

definition MapStr_to_str :: "bytes \<Rightarrow> nat \<times> nat option + bytes" where
  "MapStr_to_str s = from_utf8 s"

definition MapStr_parse :: "(bytes \<Rightarrow> 'e + 'a) \<Rightarrow> bytes \<Rightarrow> 'e map_str_parse_error + 'a" where
  "MapStr_parse from_str s =
     rbind (map_err MUtf8Error (MapStr_to_str s)) (\<lambda>t. map_err MParseError (from_str t))"

definition MapStr_parse_bool :: "bytes \<Rightarrow> cursor_error + bool" where
  "MapStr_parse_bool s =
     (if s = str ''0'' then Inr False
      else if s = str ''1'' then Inr True
      else Inl InvalidBool)"

text \<open>The two \<^verbatim>\<open>From<MapStrParseError<_>> for CursorError\<close> instances.\<close>

definition CursorError_from_int_error :: "unit map_str_parse_error \<Rightarrow> cursor_error" where
  "CursorError_from_int_error e =
     (case e of MUtf8Error _ \<Rightarrow> InvalidString | MParseError _ \<Rightarrow> InvalidNumber)"

definition CursorError_from_cursor_error :: "cursor_error map_str_parse_error \<Rightarrow> cursor_error" where
  "CursorError_from_cursor_error e =
     (case e of MUtf8Error _ \<Rightarrow> InvalidString | MParseError e' \<Rightarrow> e')"

text \<open>\<^verbatim>\<open>value.parse()?\<close> at an unsigned integer type; \<^verbatim>\<open>ParseIntError\<close> carries nothing the code
  reads, so it is \<open>()\<close>.\<close>

definition uint_from_str :: "bytes \<Rightarrow> unit + 'a::len word" where
  "uint_from_str s = ok_or () (parse_word 10 s)"

definition parse_uint_value :: "bytes \<Rightarrow> cursor_error + 'a::len word" where
  "parse_uint_value s = map_err CursorError_from_int_error (MapStr_parse uint_from_str s)"

lemma parse_uint_value_show [simp]: "parse_uint_value (show_dec (unat w)) = Inr w"
  by (simp add: parse_uint_value_def MapStr_parse_def MapStr_to_str_def from_utf8_ascii
        uint_from_str_def)

lemma MapStr_parse_bool_bit [simp]: "MapStr_parse_bool [if b then 49 else 48] = Inr b"
  by (simp add: MapStr_parse_bool_def str_def)

definition map_clean :: "bytes \<Rightarrow> bool" where
  "map_clean s \<longleftrightarrow> 92 \<notin> set s \<and> 0 \<notin> set s"

lemma MapStr_from_slice_ok:
  "memchr_ok mc \<Longrightarrow> MapStr_from_slice mc s = Inr t \<longleftrightarrow> t = s \<and> map_clean s"
  by (auto simp: MapStr_from_slice_def memchr_okD map_clean_def)

text \<open>\<^verbatim>\<open>Display for MapStr\<close>: each invalid sequence becomes U+FFFD.\<close>

lemma utf8_first_error_len: "utf8_first s = UErr (Some l) \<Longrightarrow> 0 < l"
  by (auto simp: utf8_first_def utf8_tail_def split: list.splits if_splits option.splits)

lemma from_utf8_at_error_len: "from_utf8_at i s = Inl (n, Some l) \<Longrightarrow> 0 < l \<and> s \<noteq> []"
proof (induction i s rule: from_utf8_at.induct)
  case (1 i s)
  then have ne: "s \<noteq> []" by (auto simp: from_utf8_at.simps)
  show ?case
  proof (cases "utf8_first s")
    case (UChar k)
    with 1 ne show ?thesis by (simp add: from_utf8_at.simps [of i s])
  next
    case (UErr k)
    with 1 ne show ?thesis
      by (auto simp: from_utf8_at.simps [of i s] dest: utf8_first_error_len)
  qed
qed

function MapStr_display :: "bytes \<Rightarrow> bytes" where
  "MapStr_display bytes =
     (case from_utf8 bytes of
        Inr s \<Rightarrow> s
      | Inl (valid_up_to, error_len) \<Rightarrow>
          take valid_up_to bytes @ [0xEF, 0xBF, 0xBD] @
          (case error_len of
             Some invalid_len \<Rightarrow> MapStr_display (drop invalid_len (drop valid_up_to bytes))
           | None \<Rightarrow> []))"
  by pat_completeness auto
termination
proof (relation "measure length", simp)
  fix bytes :: bytes and x x1 y l
  assume "from_utf8 bytes = Inl x" "(x1, y) = x" "y = Some l"
  then have "from_utf8_at 0 bytes = Inl (x1, Some l)"
    by (cases "from_utf8_at 0 bytes") (auto simp: from_utf8_def)
  then have "0 < l" "bytes \<noteq> []" using from_utf8_at_error_len by auto
  then show "(drop l (drop x1 bytes), bytes) \<in> measure length"
    by (auto simp: neq_Nil_conv less_Suc_eq_le)
qed

declare MapStr_display.simps [simp del]

lemma MapStr_display_valid: "is_utf8 s \<Longrightarrow> MapStr_display s = s"
  by (simp add: MapStr_display.simps from_utf8_Inr)

section \<open>The iterator\<close>

text \<open>A \<^verbatim>\<open>MapIter\<close> is the rest of its slice; \<open>()\<close> is \<^verbatim>\<open>InvalidMapError\<close> and
  \<^verbatim>\<open>InvalidKeyError\<close>, which carry no data.\<close>

type_synonym map_iter = bytes

definition MapIter_from_cstr :: "bytes \<Rightarrow> unit + map_iter" where
  "MapIter_from_cstr bytes =
     (case bytes of
        b # rest \<Rightarrow> if b = 92 then Inr rest else Inl ()
      | [] \<Rightarrow> Inr bytes)"

definition MapIter_from_slice :: "memchr_ops \<Rightarrow> bytes \<Rightarrow> unit + map_iter" where
  "MapIter_from_slice mc bytes =
     (case bytes of
        b # rest \<Rightarrow>
          if b = 92 then (if memchr mc 0 rest \<noteq> None then Inl () else Inr rest)
          else Inl ()
      | [] \<Rightarrow> Inr bytes)"

definition MapIter_next ::
  "memchr_ops \<Rightarrow> map_iter \<Rightarrow> (unit + bytes \<times> bytes) option \<times> map_iter" where
  "MapIter_next mc bytes =
     (if bytes = [] then (None, bytes)
      else case memchr_iter mc 92 bytes of
             [] \<Rightarrow> (Some (Inl ()), bytes)
           | p # ps \<Rightarrow>
               (let (e, tail) = (case ps of e # _ \<Rightarrow> (e, e + 1)
                                 | [] \<Rightarrow> (length bytes, length bytes));
                    k = take p bytes;
                    v = take (e - (p + 1)) (drop (p + 1) bytes)
                in (Some (Inr (k, v)), drop tail bytes)))"

lemma MapIter_next_shrinks:
  "MapIter_next mc bytes = (Some (Inr kv), rest) \<Longrightarrow> length rest < length bytes"
  by (auto simp: MapIter_next_def Let_def split: if_splits list.splits)

text \<open>
  \<^verbatim>\<open>for entry in iter { let (key, value) = entry?; ... }\<close>: the body \<open>f\<close> takes the loop's state
  and one entry; an invalid key ends the loop with \<open>bad_key\<close>.
\<close>

function for_entries ::
  "memchr_ops \<Rightarrow> 'e \<Rightarrow> ('s \<Rightarrow> bytes \<Rightarrow> bytes \<Rightarrow> 'e + 's) \<Rightarrow> 's \<Rightarrow> map_iter \<Rightarrow> 'e + 's" where
  "for_entries mc bad_key f acc bytes =
     (case MapIter_next mc bytes of
        (None, _) \<Rightarrow> Inr acc
      | (Some (Inl _), _) \<Rightarrow> Inl bad_key
      | (Some (Inr (k, v)), rest) \<Rightarrow>
          (case f acc k v of
             Inl e \<Rightarrow> Inl e
           | Inr acc' \<Rightarrow> for_entries mc bad_key f acc' rest))"
  by pat_completeness auto
termination
  by (relation "measure (\<lambda>(mc, e, f, acc, bytes). length bytes)")
     (auto dest: MapIter_next_shrinks [OF sym])

declare for_entries.simps [simp del]

lemma for_entries_invariant:
  assumes "for_entries mc e f acc bytes = Inr acc'" "P acc"
    and "\<And>a k v b. P a \<Longrightarrow> f a k v = Inr b \<Longrightarrow> P b"
  shows "P acc'"
  using assms
proof (induction mc e f acc bytes rule: for_entries.induct)
  case (1 mc e f acc bytes)
  note step = "1.prems"(3)
  obtain r rest where m: "MapIter_next mc bytes = (r, rest)" by (cases "MapIter_next mc bytes")
  consider "r = None" | e where "r = Some (Inl e)" | k v where "r = Some (Inr (k, v))"
    by (metis old.sum.exhaust option.exhaust surj_pair)
  then show ?case
  proof cases
    case 3
    show ?thesis
    proof (cases "f acc k v")
      case (Inr b)
      from m 3 Inr "1.prems"(1) have run: "for_entries mc e f b rest = Inr acc'"
        by (simp add: for_entries.simps [of mc e f acc])
      have "P b" using step [OF "1.prems"(2) Inr] .
      with m 3 Inr run step show ?thesis by (intro "1.IH" [of r rest]) auto
    qed (use 1 m 3 in \<open>simp add: for_entries.simps [of mc e f acc]\<close>)
  qed (use 1 m in \<open>simp_all add: for_entries.simps [of mc e f acc]\<close>)
qed

section \<open>Round trip with the key/value text\<close>

definition kv_wire :: "(bytes \<times> bytes) list \<Rightarrow> bytes" where
  "kv_wire kvs = concat (map (\<lambda>(k, v). [92] @ k @ [92] @ v) kvs)"

lemma kv_wire_simps:
  "kv_wire [] = []"
  "kv_wire ((k, v) # kvs) = 92 # k @ 92 # v @ kv_wire kvs"
  by (simp_all add: kv_wire_def)

lemma set_kv_wire: "b \<in> set (kv_wire kvs) \<Longrightarrow> b = 92 \<or> (\<exists>(k, v) \<in> set kvs. b \<in> set k \<or> b \<in> set v)"
  by (induction kvs) (auto simp: kv_wire_simps)

definition kv_clean :: "(bytes \<times> bytes) list \<Rightarrow> bool" where
  "kv_clean kvs \<longleftrightarrow> (\<forall>(k, v) \<in> set kvs. 92 \<notin> set k \<and> 92 \<notin> set v)"

lemma kv_clean_simps [simp]:
  "kv_clean []"
  "kv_clean ((k, v) # kvs) \<longleftrightarrow> 92 \<notin> set k \<and> 92 \<notin> set v \<and> kv_clean kvs"
  by (auto simp: kv_clean_def)

fun fold_entries :: "('s \<Rightarrow> bytes \<Rightarrow> bytes \<Rightarrow> 'e + 's) \<Rightarrow> (bytes \<times> bytes) list \<Rightarrow> 's \<Rightarrow> 'e + 's" where
  "fold_entries f [] acc = Inr acc"
| "fold_entries f ((k, v) # kvs) acc = rbind (f acc k v) (fold_entries f kvs)"

lemma MapIter_next_hit:
  assumes "memchr_ok mc" "92 \<notin> set k" "92 \<notin> set v"
  shows "MapIter_next mc (k @ 92 # v @ 92 # t) = (Some (Inr (k, v)), t)"
    and "MapIter_next mc (k @ 92 # v) = (Some (Inr (k, v)), [])"
proof -
  have k: "\<forall>x \<in> set k. x \<noteq> 92" and v: "\<forall>x \<in> set v. x \<noteq> 92" using assms(2,3) by auto
  have "memchr_iter mc 92 (k @ 92 # v @ 92 # t) =
      length k # Suc (length k + length v) #
        map (\<lambda>i. Suc (length k + i)) (map (\<lambda>i. Suc (length v + i)) (positions (\<lambda>b. b = 92) t))"
    by (simp add: memchr_okD [OF assms(1)] positions_hit k v)
  then show "MapIter_next mc (k @ 92 # v @ 92 # t) = (Some (Inr (k, v)), t)"
    by (simp add: MapIter_next_def)
  have "memchr_iter mc 92 (k @ 92 # v) = [length k]"
    by (simp add: memchr_okD [OF assms(1)] positions_hit k positions_none [OF v])
  then show "MapIter_next mc (k @ 92 # v) = (Some (Inr (k, v)), [])"
    by (simp add: MapIter_next_def)
qed

lemma for_entries_kv_wire:
  assumes "memchr_ok mc" "kv_clean kvs"
  shows "for_entries mc e f acc (tl (kv_wire kvs)) = fold_entries f kvs acc"
  using assms(2)
proof (induction f kvs acc rule: fold_entries.induct)
  case (1 f acc)
  then show ?case by (simp add: kv_wire_simps for_entries.simps MapIter_next_def)
next
  case (2 f k v kvs acc)
  have nxt: "MapIter_next mc (k @ 92 # v @ kv_wire kvs) = (Some (Inr (k, v)), tl (kv_wire kvs))"
  proof (cases kvs)
    case Nil
    with 2 show ?thesis by (simp add: kv_wire_simps MapIter_next_hit(2) [OF assms(1)])
  next
    case (Cons kv kvs')
    with 2 show ?thesis
      by (cases kv) (simp add: kv_wire_simps MapIter_next_hit(1) [OF assms(1)])
  qed
  show ?case
  proof (cases "f acc k v")
    case (Inl e)
    then show ?thesis by (simp add: kv_wire_simps for_entries.simps nxt)
  next
    case (Inr acc')
    with 2 show ?thesis
      by (simp add: kv_wire_simps for_entries.simps [of _ _ _ acc] nxt)
  qed
qed

text \<open>
  What the \<^verbatim>\<open>unsafe\<close> blocks of the iterator rely on: from a slice without NUL, every key and every
  value is a valid map string.
\<close>

lemma MapIter_next_entry:
  assumes "memchr_ok mc" "MapIter_next mc bytes = (Some (Inr (k, v)), rest)"
  shows "92 \<notin> set k \<and> 92 \<notin> set v \<and> (bytes = k @ 92 # v \<and> rest = [] \<or> bytes = k @ 92 # v @ 92 # rest)"
proof -
  have ne: "positions (\<lambda>b. b = 92) bytes \<noteq> []"
    using assms by (auto simp: MapIter_next_def memchr_okD split: if_splits list.splits)
  then obtain k' t where bytes: "bytes = k' @ 92 # t" and k': "92 \<notin> set k'"
    using split_list_first [of 92 bytes] by (auto simp: positions_Nil_iff)
  show ?thesis
  proof (cases "92 \<in> set t")
    case True
    then obtain v' r' where t: "t = v' @ 92 # r'" and v': "92 \<notin> set v'"
      using split_list_first [of 92 t] by auto
    have "MapIter_next mc bytes = (Some (Inr (k', v')), r')"
      unfolding bytes t by (rule MapIter_next_hit(1) [OF assms(1) k' v'])
    with assms(2) bytes t k' v' show ?thesis by auto
  next
    case False
    have "MapIter_next mc bytes = (Some (Inr (k', t)), [])"
      unfolding bytes by (rule MapIter_next_hit(2) [OF assms(1) k' False])
    with assms(2) bytes k' False show ?thesis by auto
  qed
qed

text \<open>
  The other direction: a text the loop accepts is the text of the entries it folded over, but for a
  separator at the end.
\<close>

lemma for_entries_shape:
  assumes "memchr_ok mc" "for_entries mc e f acc bytes = Inr acc'"
  shows "\<exists>kvs. kv_clean kvs \<and> fold_entries f kvs acc = Inr acc' \<and>
     92 # bytes \<in> {kv_wire kvs, kv_wire kvs @ [92]}"
  using assms
proof (induction mc e f acc bytes rule: for_entries.induct)
  case (1 mc e f acc bytes)
  obtain r rest where m: "MapIter_next mc bytes = (r, rest)" by (cases "MapIter_next mc bytes")
  consider "r = None" | u where "r = Some (Inl u)" | k v where "r = Some (Inr (k, v))"
    by (metis old.sum.exhaust option.exhaust surj_pair)
  then show ?case
  proof cases
    case 1
    then have "bytes = []" "acc' = acc"
      using m "1.prems"(2) by (auto simp: for_entries.simps [of mc e f acc] MapIter_next_def Let_def
          split: if_splits list.splits)
    then show ?thesis by (intro exI [of _ "[]"]) (simp add: kv_wire_simps)
  next
    case 2
    with m "1.prems"(2) show ?thesis by (simp add: for_entries.simps [of mc e f acc])
  next
    case 3
    then obtain b where b: "f acc k v = Inr b" and run: "for_entries mc e f b rest = Inr acc'"
      using m "1.prems"(2) by (auto simp: for_entries.simps [of mc e f acc] split: sum.splits)
    have shape: "92 \<notin> set k \<and> 92 \<notin> set v \<and> (bytes = k @ 92 # v \<and> rest = [] \<or> bytes = k @ 92 # v @ 92 # rest)"
      using m 3 by (intro MapIter_next_entry [OF "1.prems"(1)]) simp
    from m 3 b run obtain kvs where kvs: "kv_clean kvs" "fold_entries f kvs b = Inr acc'"
        "92 # rest \<in> {kv_wire kvs, kv_wire kvs @ [92]}"
      using "1.IH" [of r rest] "1.prems"(1) by fastforce
    show ?thesis
    proof (cases "bytes = k @ 92 # v \<and> rest = []")
      case True
      with run have "acc' = b" by (simp add: for_entries.simps MapIter_next_def)
      with True shape b show ?thesis by (intro exI [of _ "[(k, v)]"]) (simp add: kv_wire_simps)
    next
      case False
      with shape have "bytes = k @ 92 # v @ 92 # rest" by blast
      with kvs shape b show ?thesis
        by (intro exI [of _ "(k, v) # kvs"]) (auto simp: kv_wire_simps)
    qed
  qed
qed

end
