(* ===== verification/Server_Types.thy ===== *)
theory Server_Types
  imports Map_Str
begin

text \<open>
  The vocabulary of the packets: the protocol error (\<^verbatim>\<open>error.rs\<close>), the byte string wrapper and
  its escaping printer (\<^verbatim>\<open>wrappers.rs\<close>), the version (\<^verbatim>\<open>filter.rs\<close>), the enumerations and flag
  sets (\<^verbatim>\<open>server_info.rs\<close>, \<^verbatim>\<open>filter.rs\<close>). A \<^verbatim>\<open>bitflags!\<close> type is the word of its declared width
  and its methods are the bit operations on it.
\<close>

unbundle bit_operations_syntax

section \<open>Errors\<close>

datatype xerror =
    InvalidPacket
  | InvalidMap
  | InvalidRegion
  | InvalidClientAnnounceIp
  | InvalidQueryServersLast
  | InvalidProtocolVersion
  | ECursor cursor_error
  | InvalidServerValue bytes cursor_error
  | InvalidFilterValue bytes cursor_error

definition Error_display :: "xerror \<Rightarrow> bytes" where
  "Error_display e =
     (case e of
        InvalidPacket \<Rightarrow> str ''Invalid packet''
      | InvalidMap \<Rightarrow> str ''Invalid map string''
      | InvalidRegion \<Rightarrow> str ''Invalid region''
      | InvalidClientAnnounceIp \<Rightarrow> str ''Invalid client announce IP''
      | InvalidQueryServersLast \<Rightarrow> str ''Invalid last server IP''
      | InvalidProtocolVersion \<Rightarrow> str ''Invalid protocol version''
      | ECursor source \<Rightarrow> CursorError_display source
      | InvalidServerValue key source \<Rightarrow>
          str ''Invalid value for server add key `'' @ key @ str ''`: '' @ CursorError_display source
      | InvalidFilterValue key source \<Rightarrow>
          str ''Invalid value for filter key `'' @ key @ str ''`: '' @ CursorError_display source)"

text \<open>\<^verbatim>\<open>?\<close> on a cursor result inside a function that returns \<^verbatim>\<open>Error\<close>.\<close>

definition qm :: "cursor_error + 'a \<Rightarrow> xerror + 'a" where
  "qm r = map_err ECursor r"

lemma qm_simps [simp, res_simps]:
  "qm (Inl e) = Inl (ECursor e)"
  "qm (Inr x) = Inr x"
  by (simp_all add: qm_def)

lemma qm_eq_Inr_iff [simp]: "qm r = Inr y \<longleftrightarrow> r = Inr y"
  by (simp add: qm_def)

lemma qm_encode_writes:
  assumes "writes m s" "s = w"
  shows "qm (encode_with m buf) =
     (if length w \<le> length buf then Inr w else Inl (ECursor BufferOverflow))"
  using assms by (simp add: encode_with_writes)

section \<open>Printing byte strings\<close>

definition is_printable :: "byte \<Rightarrow> bool" where
  "is_printable c \<longleftrightarrow> c \<noteq> 92 \<and> (33 \<le> c \<and> c \<le> 126 \<or> c = 32)"

definition hex_nibble :: "byte \<Rightarrow> byte" where
  "hex_nibble n = str ''0123456789abcdef'' ! unat n"

definition escape_byte :: "byte \<Rightarrow> bytes" where
  "escape_byte c =
     (if c = 92 then str [CHR 0x5C, CHR 0x5C]
      else if c = 10 then str [CHR 0x5C, CHR ''n'']
      else if c = 9 then str [CHR 0x5C, CHR ''t'']
      else str [CHR 0x5C, CHR ''x''] @ [hex_nibble (drop_bit 4 c), hex_nibble (c AND 15)])"

text \<open>The loop writes a maximal printable run at once and then escapes the byte that ended it.\<close>

function str_format_bytes :: "bytes \<Rightarrow> bytes" where
  "str_format_bytes s =
     (case s of
        [] \<Rightarrow> []
      | c # it \<Rightarrow>
          if is_printable c
          then (c # takeWhile is_printable it) @
               (case dropWhile is_printable it of
                  [] \<Rightarrow> []
                | n # it' \<Rightarrow> escape_byte n @ str_format_bytes it')
          else escape_byte c @ str_format_bytes it)"
  by pat_completeness auto
termination
proof (relation "measure length")
  fix s :: bytes and c it n it'
  assume "s = c # it" "dropWhile is_printable it = n # it'"
  then show "(it', s) \<in> measure length"
    using length_dropWhile_le [of is_printable it] by simp
qed auto

declare str_format_bytes.simps [simp del]

definition format_byte :: "byte \<Rightarrow> bytes" where
  "format_byte c = (if is_printable c then [c] else escape_byte c)"

lemma concat_format_printable:
  "\<forall>c \<in> set s. is_printable c \<Longrightarrow> concat (map format_byte s) = s"
  by (induction s) (simp_all add: format_byte_def)

lemma str_format_bytes_concat: "str_format_bytes s = concat (map format_byte s)"
proof (induction s rule: str_format_bytes.induct)
  case (1 s)
  show ?case
  proof (cases s)
    case Nil
    then show ?thesis by (simp add: str_format_bytes.simps)
  next
    case (Cons c it)
    show ?thesis
    proof (cases "is_printable c")
      case False
      with Cons 1 show ?thesis
        by (simp add: str_format_bytes.simps [of "c # it"] format_byte_def)
    next
      case True
      have run: "concat (map format_byte (takeWhile is_printable it)) = takeWhile is_printable it"
        by (rule concat_format_printable) (auto dest: set_takeWhileD)
      have it: "it = takeWhile is_printable it @ dropWhile is_printable it" by simp
      show ?thesis
      proof (cases "dropWhile is_printable it")
        case Nil
        with it run have "concat (map format_byte it) = takeWhile is_printable it"
          by (metis append_Nil2)
        then have "concat (map format_byte s) = c # takeWhile is_printable it"
          using Cons True by (simp add: format_byte_def)
        moreover have "str_format_bytes s = c # takeWhile is_printable it"
          unfolding Cons by (subst str_format_bytes.simps) (simp only: list.case Nil True if_True append_Nil2)
        ultimately show ?thesis by simp
      next
        case d: (Cons n it')
        then have "\<not> is_printable n" by (metis hd_dropWhile list.distinct(1) list.sel(1))
        then have "format_byte n = escape_byte n" by (simp add: format_byte_def)
        moreover have "concat (map format_byte it) =
            takeWhile is_printable it @ format_byte n @ concat (map format_byte it')"
          by (subst it, subst d) (simp add: run)
        moreover have "str_format_bytes it' = concat (map format_byte it')"
          using 1(1) [OF Cons True d] by simp
        moreover have "format_byte c = [c]" using True by (simp add: format_byte_def)
        ultimately show ?thesis
          using Cons True d by (simp add: str_format_bytes.simps [of "c # it"])
      qed
    qed
  qed
qed

lemma str_format_bytes_printable:
  "\<forall>c \<in> set s. is_printable c \<Longrightarrow> str_format_bytes s = s"
  by (simp add: str_format_bytes_concat concat_format_printable)

section \<open>Versions\<close>

datatype version = Version (major: u8) (minor: u8) (patch: u8)

text \<open>\<^verbatim>\<open>derive(PartialOrd, Ord)\<close> compares the fields in order.\<close>

instantiation version :: linorder
begin

definition less_eq_version :: "version \<Rightarrow> version \<Rightarrow> bool" where
  "v \<le> w \<longleftrightarrow> major v < major w \<or> major v = major w \<and>
     (minor v < minor w \<or> minor v = minor w \<and> patch v \<le> patch w)"

definition less_version :: "version \<Rightarrow> version \<Rightarrow> bool" where
  "v < w \<longleftrightarrow> major v < major w \<or> major v = major w \<and>
     (minor v < minor w \<or> minor v = minor w \<and> patch v < patch w)"

instance
  by standard (auto simp: less_eq_version_def less_version_def version.expand)

end

definition Version_new :: "u8 \<Rightarrow> u8 \<Rightarrow> version" where
  "Version_new ma mi = Version ma mi 0"

definition PROTOCOL_VERSION :: u8 where
  "PROTOCOL_VERSION = 49"

definition CLIENT_VERSION :: version where
  "CLIENT_VERSION = Version_new 0 21"

text \<open>\<^verbatim>\<open>str::split_once\<close> with an ASCII separator.\<close>

fun split_once :: "byte \<Rightarrow> bytes \<Rightarrow> (bytes \<times> bytes) option" where
  "split_once c [] = None"
| "split_once c (b # s) =
     (if b = c then Some ([], s) else map_option (\<lambda>(h, t). (b # h, t)) (split_once c s))"

lemma split_once_hit: "c \<notin> set h \<Longrightarrow> split_once c (h @ c # t) = Some (h, t)"
  by (induction h) auto

lemma split_once_miss: "c \<notin> set s \<Longrightarrow> split_once c s = None"
  by (induction s) auto

definition Version_from_str :: "bytes \<Rightarrow> cursor_error + version" where
  "Version_from_str s =
     (let (ma, tail) = (case split_once 46 s of Some p \<Rightarrow> p | None \<Rightarrow> (s, str ''0''));
          (mi, pa) = (case split_once 46 tail of Some p \<Rightarrow> p | None \<Rightarrow> (tail, str ''0''))
      in rbind (ok_or InvalidNumber (parse_word 10 ma)) (\<lambda>ma.
         rbind (ok_or InvalidNumber (parse_word 10 mi)) (\<lambda>mi.
         rbind (ok_or InvalidNumber (parse_word 10 pa)) (\<lambda>pa.
         Inr (Version ma mi pa)))))"

definition Version_display :: "version \<Rightarrow> bytes" where
  "Version_display v =
     show_dec (unat (major v)) @ str ''.'' @ show_dec (unat (minor v)) @
     (if patch v \<noteq> 0 then str ''.'' @ show_dec (unat (patch v)) else [])"

definition put_kv_version :: "version \<Rightarrow> cursor_mut \<Rightarrow> wres" where
  "put_kv_version v c =
     rbind (put_kv_uint (major v) c) (\<lambda>c.
     rbind (put_u8 46 c) (\<lambda>c.
     rbind (put_kv_uint (minor v) c) (\<lambda>c.
     if patch v > 0
     then rbind (put_u8 46 c) (put_kv_uint (patch v))
     else Inr c)))"

lemma str_dot: "str ''.'' = [46]"
  by (simp add: str_def)

lemma parse_zero [simp]: "parse_word 10 (str ''0'') = Some 0"
proof -
  have "str ''0'' = show_dec (unat (0 :: 'a word))"
    by (simp add: str_def show_dec_def digits.simps digit_char_def)
  then show ?thesis by (metis parse_show_dec)
qed

lemma dot_notin_dec [simp]: "46 \<notin> set (show_dec n)"
  using show_dec_clean by blast

lemma Version_from_display: "Version_from_str (Version_display v) = Inr v"
proof (cases v)
  case (Version a b c)
  show ?thesis
  proof (cases "c = 0")
    case True
    with Version show ?thesis
      by (simp add: Version_from_str_def Version_display_def str_dot split_once_hit split_once_miss)
  next
    case False
    have "split_once 46 (show_dec (unat b) @ 46 # show_dec (unat c)) =
        Some (show_dec (unat b), show_dec (unat c))" by (simp add: split_once_hit)
    with Version False show ?thesis
      by (simp add: Version_from_str_def Version_display_def str_dot split_once_hit)
  qed
qed

lemma Version_display_clean:
  "b \<in> set (Version_display v) \<Longrightarrow> b < 128 \<and> b \<noteq> 0 \<and> b \<noteq> 10 \<and> b \<noteq> 32 \<and> b \<noteq> 92"
  by (auto simp: Version_display_def str_dot split: if_splits dest: show_dec_clean)

lemma Version_display_ascii [simp]: "is_ascii (Version_display v)"
  using Version_display_clean by (auto simp: is_ascii_def)

lemma writes_put_kv_version [writes_intros]: "writes (put_kv_version v) (Version_display v)"
proof (cases "patch v = 0")
  case True
  have "writes (\<lambda>c. rbind (put_kv_uint (major v) c) (\<lambda>c. rbind (put_u8 46 c) (put_kv_uint (minor v))))
      (show_dec (unat (major v)) @ [46] @ show_dec (unat (minor v)))"
    by (intro writes_intros)
  moreover have "rbind r Inr = r" for r :: wres by (cases r) simp_all
  ultimately show ?thesis
    using True by (simp add: put_kv_version_def [abs_def] Version_display_def str_dot)
next
  case False
  have "writes (\<lambda>c. rbind (put_kv_uint (major v) c) (\<lambda>c. rbind (put_u8 46 c) (\<lambda>c.
      rbind (put_kv_uint (minor v) c) (\<lambda>c. rbind (put_u8 46 c) (put_kv_uint (patch v))))))
      (show_dec (unat (major v)) @ [46] @ show_dec (unat (minor v)) @ [46] @ show_dec (unat (patch v)))"
    by (intro writes_intros)
  with False show ?thesis
    by (simp add: put_kv_version_def [abs_def] Version_display_def str_dot word_greater_zero_iff)
qed

text \<open>\<^verbatim>\<open>value.parse()?\<close> at \<^verbatim>\<open>Version\<close>.\<close>

definition parse_version_value :: "bytes \<Rightarrow> cursor_error + version" where
  "parse_version_value s = map_err CursorError_from_cursor_error (MapStr_parse Version_from_str s)"

lemma parse_version_value_display [simp]: "parse_version_value (Version_display v) = Inr v"
  by (simp add: parse_version_value_def MapStr_parse_def MapStr_to_str_def from_utf8_ascii
        Version_from_display)

section \<open>Enumerations\<close>

datatype region =
    USEastCoast | USWestCoast | SouthAmerica | Europe | Asia | Australia | MiddleEast | Africa
  | RestOfTheWorld

definition Region_as_u8 :: "region \<Rightarrow> u8" where
  "Region_as_u8 r =
     (case r of
        USEastCoast \<Rightarrow> 0x00 | USWestCoast \<Rightarrow> 0x01 | SouthAmerica \<Rightarrow> 0x02 | Europe \<Rightarrow> 0x03
      | Asia \<Rightarrow> 0x04 | Australia \<Rightarrow> 0x05 | MiddleEast \<Rightarrow> 0x06 | Africa \<Rightarrow> 0x07
      | RestOfTheWorld \<Rightarrow> 0xff)"

definition Region_try_from :: "u8 \<Rightarrow> cursor_error + region" where
  "Region_try_from v =
     (if v = 0x00 then Inr USEastCoast
      else if v = 0x01 then Inr USWestCoast
      else if v = 0x02 then Inr SouthAmerica
      else if v = 0x03 then Inr Europe
      else if v = 0x04 then Inr Asia
      else if v = 0x05 then Inr Australia
      else if v = 0x06 then Inr MiddleEast
      else if v = 0x07 then Inr Africa
      else if v = 0xff then Inr RestOfTheWorld
      else Inl InvalidNumber)"

lemma Region_roundtrip [simp]: "Region_try_from (Region_as_u8 r) = Inr r"
  by (cases r) (simp_all add: Region_try_from_def Region_as_u8_def)

datatype server_type = Dedicated | Local | Proxy | UnknownType

definition ServerType_from_u8 :: "u8 \<Rightarrow> server_type" where
  "ServerType_from_u8 v =
     (if v = 100 then Dedicated else if v = 108 then Local else if v = 112 then Proxy
      else UnknownType)"

definition ServerType_to_u8 :: "server_type \<Rightarrow> u8" where
  "ServerType_to_u8 t =
     (case t of Dedicated \<Rightarrow> 100 | Local \<Rightarrow> 108 | Proxy \<Rightarrow> 112 | UnknownType \<Rightarrow> 0)"

definition ServerType_try_from_slice :: "bytes \<Rightarrow> cursor_error + server_type" where
  "ServerType_try_from_slice s =
     (case s of [c] \<Rightarrow> Inr (ServerType_from_u8 c) | _ \<Rightarrow> Inr UnknownType)"

definition ServerType_from_mapstr :: "bytes \<Rightarrow> server_type" where
  "ServerType_from_mapstr s = (case s of [c] \<Rightarrow> ServerType_from_u8 c | _ \<Rightarrow> UnknownType)"

definition ServerType_display :: "server_type \<Rightarrow> bytes" where
  "ServerType_display t =
     (case t of Dedicated \<Rightarrow> str ''dedicated'' | Local \<Rightarrow> str ''local'' | Proxy \<Rightarrow> str ''proxy''
      | UnknownType \<Rightarrow> str ''unknown'')"

definition ServerType_kv :: "server_type \<Rightarrow> bytes" where
  "ServerType_kv t =
     (case t of Dedicated \<Rightarrow> [100] | Local \<Rightarrow> [108] | Proxy \<Rightarrow> [112] | UnknownType \<Rightarrow> [63])"

definition put_kv_server_type :: "server_type \<Rightarrow> cursor_mut \<Rightarrow> wres" where
  "put_kv_server_type t c =
     (case t of
        Dedicated \<Rightarrow> put_str (str ''d'') c
      | Local \<Rightarrow> put_str (str ''l'') c
      | Proxy \<Rightarrow> put_str (str ''p'') c
      | UnknownType \<Rightarrow> put_str (str ''?'') c)"

lemma writes_put_kv_server_type [writes_intros]: "writes (put_kv_server_type t) (ServerType_kv t)"
  using writes_prims(2) [of "ServerType_kv t"]
  by (cases t) (simp_all add: put_kv_server_type_def [abs_def] ServerType_kv_def str_def)

lemma ServerType_kv_roundtrip [simp]: "ServerType_from_mapstr (ServerType_kv t) = t"
  by (cases t) (simp_all add: ServerType_from_mapstr_def ServerType_kv_def ServerType_from_u8_def)

lemma ServerType_u8_roundtrip [simp]: "ServerType_from_u8 (ServerType_to_u8 t) = t"
  by (cases t) (simp_all add: ServerType_to_u8_def ServerType_from_u8_def)

datatype os = UnknownOs | Linux | Windows | Mac

definition Os_from_u8 :: "u8 \<Rightarrow> os" where
  "Os_from_u8 v =
     (if v = 108 then Linux else if v = 119 then Windows else if v = 109 then Mac else UnknownOs)"

definition Os_to_u8 :: "os \<Rightarrow> u8" where
  "Os_to_u8 x = (case x of UnknownOs \<Rightarrow> 0 | Linux \<Rightarrow> 108 | Windows \<Rightarrow> 119 | Mac \<Rightarrow> 109)"

definition Os_try_from_slice :: "bytes \<Rightarrow> cursor_error + os" where
  "Os_try_from_slice s = (case s of [c] \<Rightarrow> Inr (Os_from_u8 c) | _ \<Rightarrow> Inr UnknownOs)"

definition Os_from_mapstr :: "bytes \<Rightarrow> os" where
  "Os_from_mapstr s = (case s of [c] \<Rightarrow> Os_from_u8 c | _ \<Rightarrow> UnknownOs)"

definition Os_display :: "os \<Rightarrow> bytes" where
  "Os_display x =
     (case x of Linux \<Rightarrow> str ''Linux'' | Windows \<Rightarrow> str ''Windows'' | Mac \<Rightarrow> str ''Mac''
      | UnknownOs \<Rightarrow> str ''Unknown'')"

definition Os_kv :: "os \<Rightarrow> bytes" where
  "Os_kv x = (case x of Linux \<Rightarrow> [108] | Windows \<Rightarrow> [119] | Mac \<Rightarrow> [109] | UnknownOs \<Rightarrow> [63])"

definition put_kv_os :: "os \<Rightarrow> cursor_mut \<Rightarrow> wres" where
  "put_kv_os x c =
     (case x of
        Linux \<Rightarrow> put_str (str ''l'') c
      | Windows \<Rightarrow> put_str (str ''w'') c
      | Mac \<Rightarrow> put_str (str ''m'') c
      | UnknownOs \<Rightarrow> put_str (str ''?'') c)"

lemma writes_put_kv_os [writes_intros]: "writes (put_kv_os x) (Os_kv x)"
  using writes_prims(2) [of "Os_kv x"]
  by (cases x) (simp_all add: put_kv_os_def [abs_def] Os_kv_def str_def)

lemma Os_kv_roundtrip [simp]: "Os_from_mapstr (Os_kv x) = x"
  by (cases x) (simp_all add: Os_from_mapstr_def Os_kv_def Os_from_u8_def)

lemma Os_u8_roundtrip [simp]: "Os_from_u8 (Os_to_u8 x) = x"
  by (cases x) (simp_all add: Os_to_u8_def Os_from_u8_def)

section \<open>Flag sets\<close>

text \<open>\<^verbatim>\<open>contains\<close>, \<^verbatim>\<open>intersects\<close>, \<^verbatim>\<open>insert\<close> and \<^verbatim>\<open>set\<close> of a \<^verbatim>\<open>bitflags!\<close> type.\<close>

definition flags_contains :: "'a::len word \<Rightarrow> 'a word \<Rightarrow> bool" where
  "flags_contains flags other \<longleftrightarrow> flags AND other = other"

definition flags_intersects :: "'a::len word \<Rightarrow> 'a word \<Rightarrow> bool" where
  "flags_intersects flags other \<longleftrightarrow> flags AND other \<noteq> 0"

definition flags_insert :: "'a::len word \<Rightarrow> 'a word \<Rightarrow> 'a word" where
  "flags_insert flags other = flags OR other"

definition flags_set :: "'a::len word \<Rightarrow> bool \<Rightarrow> 'a word \<Rightarrow> 'a word" where
  "flags_set other value flags = (if value then flags OR other else flags AND NOT other)"

lemma flags_contains_exp:
  fixes w :: "'a::len word"
  assumes "k < LENGTH('a)"
  shows "flags_contains w (2 ^ k) \<longleftrightarrow> bit w k"
proof
  assume "flags_contains w (2 ^ k)"
  then have "bit (w AND 2 ^ k) k = bit (2 ^ k :: 'a word) k" by (simp add: flags_contains_def)
  with assms show "bit w k" by (simp add: bit_and_iff bit_exp_iff)
next
  assume "bit w k"
  then show "flags_contains w (2 ^ k)" unfolding flags_contains_def
    by (intro bit_word_eqI) (auto simp: bit_and_iff bit_exp_iff)
qed

lemma bit_flags_set:
  fixes w :: "'a::len word"
  assumes "k < LENGTH('a)" "n < LENGTH('a)"
  shows "bit (flags_set (2 ^ k) v w) n \<longleftrightarrow> (if n = k then v else bit w n)"
  using assms by (auto simp: flags_set_def bit_or_iff bit_and_iff bit_not_iff bit_exp_iff)

definition SF_BOTS :: u8 where "SF_BOTS = 1"
definition SF_PASSWORD :: u8 where "SF_PASSWORD = 2"
definition SF_SECURE :: u8 where "SF_SECURE = 4"
definition SF_LAN :: u8 where "SF_LAN = 8"
definition SF_NAT :: u8 where "SF_NAT = 16"

definition FF_DEDICATED :: u16 where "FF_DEDICATED = 1"
definition FF_SECURE :: u16 where "FF_SECURE = 2"
definition FF_PASSWORD :: u16 where "FF_PASSWORD = 4"
definition FF_EMPTY :: u16 where "FF_EMPTY = 8"
definition FF_FULL :: u16 where "FF_FULL = 16"
definition FF_NOPLAYERS :: u16 where "FF_NOPLAYERS = 32"
definition FF_NAT :: u16 where "FF_NAT = 64"
definition FF_LAN :: u16 where "FF_LAN = 128"
definition FF_BOTS :: u16 where "FF_BOTS = 256"

lemmas SF_defs = SF_BOTS_def SF_PASSWORD_def SF_SECURE_def SF_LAN_def SF_NAT_def

lemmas FF_defs = FF_DEDICATED_def FF_SECURE_def FF_PASSWORD_def FF_EMPTY_def FF_FULL_def
  FF_NOPLAYERS_def FF_NAT_def FF_LAN_def FF_BOTS_def

text \<open>Game server information (\<^verbatim>\<open>ServerInfo<T>\<close>), the record the master server stores.\<close>

record server_info =
  si_version :: version
  si_protocol :: u8
  si_gamedir :: bytes
  si_map :: bytes
  si_flags :: u16
  si_region :: region

end
