(* ===== verification/Server_Packets.thy ===== *)
theory Server_Packets
  imports Server_Types
begin

text \<open>
  The packets a game server sends to the master server (\<^verbatim>\<open>net/server.rs\<close>): the challenge
  request, the server announcement and the removal, and the challenge reply to game clients.
  Each packet has its decoder and encoder as the code has them, the bytes it is on the wire, and
  an interpretation of \<open>packet_codec\<close> that connects the three.
\<close>

unbundle bit_operations_syntax

section \<open>Challenge\<close>

record challenge =
  ch_server_challenge :: "u32 option"

definition Challenge_HEADER :: bytes where
  "Challenge_HEADER = [113, 0xff]"

definition Challenge_decode :: "bytes \<Rightarrow> xerror + challenge" where
  "Challenge_decode src =
     rbind (qm (Cursor_expect Challenge_HEADER (Cursor_new src))) (\<lambda>(_, cur).
     rbind (if Cursor_remaining cur = 4
            then rbind (qm (Cursor_get_u32_le cur)) (\<lambda>(x, cur). Inr (Some x, cur))
            else Inr (None, cur)) (\<lambda>(server_challenge, cur).
     rbind (qm (Cursor_expect_empty cur)) (\<lambda>_.
     Inr \<lparr>ch_server_challenge = server_challenge\<rparr>)))"

definition Challenge_encode :: "challenge \<Rightarrow> bytes \<Rightarrow> xerror + bytes" where
  "Challenge_encode p buf = qm (encode_with (\<lambda>cur.
     rbind (put_bytes Challenge_HEADER cur) (\<lambda>cur.
     case ch_server_challenge p of
       Some server_challenge \<Rightarrow> put_u32_le server_challenge cur
     | None \<Rightarrow> Inr cur)) buf)"

definition Challenge_wire :: "challenge \<Rightarrow> bytes" where
  "Challenge_wire p =
     Challenge_HEADER @ (case ch_server_challenge p of None \<Rightarrow> [] | Some x \<Rightarrow> to_le 4 x)"

lemma Challenge_encode_wire:
  "Challenge_encode p buf =
     (if length (Challenge_wire p) \<le> length buf then Inr (Challenge_wire p)
      else Inl (ECursor BufferOverflow))"
  unfolding Challenge_encode_def
  by (rule qm_encode_writes, (rule writes_intros)+) (simp add: Challenge_wire_def)

lemma Challenge_decode_wire: "Challenge_decode (Challenge_wire p) = Inr p"
  by (cases "ch_server_challenge p")
     (simp_all add: Challenge_decode_def Challenge_wire_def wire_simps)

interpretation challenge_codec: packet_codec Challenge_wire "\<lambda>_. True" "\<lambda>_. 0" "\<lambda>r. r"
    Challenge_encode
    Challenge_decode "ECursor BufferOverflow"
  by unfold_locales (simp_all add: Challenge_encode_wire Challenge_decode_wire)

section \<open>ServerAdd\<close>

record server_add =
  sa_gamedir :: bytes
  sa_map :: bytes
  sa_version :: version
  sa_challenge :: u32
  sa_server_type :: server_type
  sa_os :: os
  sa_region :: region
  sa_protocol :: u8
  sa_players :: u8
  sa_max :: u8
  sa_bots :: u8
  sa_flags :: u8

definition ServerAdd_HEADER :: bytes where
  "ServerAdd_HEADER = [48, 10]"

definition ServerAdd_default :: server_add where
  "ServerAdd_default =
     \<lparr>sa_gamedir = [], sa_map = [], sa_version = Version 0 0 0, sa_challenge = 0,
      sa_server_type = UnknownType, sa_os = UnknownOs, sa_region = RestOfTheWorld,
      sa_protocol = 0, sa_players = 0, sa_max = 0, sa_bots = 0, sa_flags = 0\<rparr>"

definition ServerAdd_set_flag :: "u8 \<Rightarrow> bytes \<Rightarrow> server_add \<Rightarrow> cursor_error + server_add" where
  "ServerAdd_set_flag flag value s =
     rbind (MapStr_parse_bool value) (\<lambda>b. Inr (s\<lparr>sa_flags := flags_set flag b (sa_flags s)\<rparr>))"

definition ServerAdd_set :: "bytes \<Rightarrow> bytes \<Rightarrow> server_add \<Rightarrow> cursor_error + bool \<times> server_add" where
  "ServerAdd_set key value s =
     (let ok = map_ok (\<lambda>s'. (True, s')) in
      if key = str ''protocol'' then
        ok (rbind (parse_uint_value value) (\<lambda>x. Inr (s\<lparr>sa_protocol := x\<rparr>)))
      else if key = str ''challenge'' then
        ok (rbind (parse_uint_value value) (\<lambda>x. Inr (s\<lparr>sa_challenge := x\<rparr>)))
      else if key = str ''players'' then
        ok (rbind (parse_uint_value value) (\<lambda>x. Inr (s\<lparr>sa_players := x\<rparr>)))
      else if key = str ''max'' then
        ok (rbind (parse_uint_value value) (\<lambda>x. Inr (s\<lparr>sa_max := x\<rparr>)))
      else if key = str ''gamedir'' then Inr (True, s\<lparr>sa_gamedir := value\<rparr>)
      else if key = str ''product'' then Inr (True, s)
      else if key = str ''map'' then Inr (True, s\<lparr>sa_map := value\<rparr>)
      else if key = str ''type'' then Inr (True, s\<lparr>sa_server_type := ServerType_from_mapstr value\<rparr>)
      else if key = str ''os'' then Inr (True, s\<lparr>sa_os := Os_from_mapstr value\<rparr>)
      else if key = str ''version'' then
        Inr (True, s\<lparr>sa_version := (case MapStr_parse Version_from_str value of
                                       Inr v \<Rightarrow> v | Inl _ \<Rightarrow> Version 0 0 0)\<rparr>)
      else if key = str ''region'' then
        ok (rbind (parse_uint_value value) (\<lambda>x.
            rbind (Region_try_from x) (\<lambda>r. Inr (s\<lparr>sa_region := r\<rparr>))))
      else if key = str ''bots'' then
        ok (rbind (parse_uint_value value) (\<lambda>x.
            Inr (s\<lparr>sa_bots := x, sa_flags := flags_set SF_BOTS (x \<noteq> 0) (sa_flags s)\<rparr>)))
      else if key = str ''password'' then ok (ServerAdd_set_flag SF_PASSWORD value s)
      else if key = str ''secure'' then ok (ServerAdd_set_flag SF_SECURE value s)
      else if key = str ''lan'' then ok (ServerAdd_set_flag SF_LAN value s)
      else if key = str ''nat'' then ok (ServerAdd_set_flag SF_NAT value s)
      else Inr (False, s))"

definition server_add_key_name_str :: "bytes \<Rightarrow> bytes" where
  "server_add_key_name_str key =
     (if key \<in> set (map str [''protocol'', ''challenge'', ''players'', ''max'', ''gamedir'',
           ''product'', ''map'', ''type'', ''os'', ''version'', ''region'', ''bots'', ''password'',
           ''secure'', ''lan'', ''nat''])
      then key else str ''unknown'')"

definition ServerAdd_step ::
  "server_add \<times> bool \<Rightarrow> bytes \<Rightarrow> bytes \<Rightarrow> xerror + server_add \<times> bool" where
  "ServerAdd_step acc key value =
     (let (ret, has_challenge) = acc in
      case ServerAdd_set key value ret of
        Inr (True, ret') \<Rightarrow> Inr (ret', has_challenge \<or> key = str ''challenge'')
      | Inr (False, ret') \<Rightarrow> Inr (ret', has_challenge)
      | Inl err \<Rightarrow> Inl (InvalidServerValue (server_add_key_name_str key) err))"

definition ServerAdd_info :: "memchr_ops \<Rightarrow> cursor \<Rightarrow> xerror + bytes" where
  "ServerAdd_info mc cur =
     (case Cursor_take_until2 mc 10 0 cur of
        Inr (s, cur) \<Rightarrow>
          (case Cursor_get_u8 cur of
             Inr (b, cur) \<Rightarrow>
               if b = 10 then rbind (qm (Cursor_expect_empty cur)) (\<lambda>_. Inr s)
               else Inl InvalidPacket
           | Inl _ \<Rightarrow> Inl InvalidPacket)
      | Inl _ \<Rightarrow> Inr (Cursor_end cur))"

definition strip_map_prefix :: "bytes \<Rightarrow> xerror + bytes" where
  "strip_map_prefix info =
     (case info of [] \<Rightarrow> Inr [] | b # rest \<Rightarrow> if b = 92 then Inr rest else Inl InvalidMap)"

lemma strip_kv_wire: "strip_map_prefix (kv_wire kvs) = Inr (tl (kv_wire kvs))"
  by (cases kvs) (auto simp: strip_map_prefix_def kv_wire_simps)

definition ServerAdd_decode :: "memchr_ops \<Rightarrow> bytes \<Rightarrow> xerror + server_add" where
  "ServerAdd_decode mc src =
     rbind (qm (Cursor_expect ServerAdd_HEADER (Cursor_new src))) (\<lambda>(_, cur).
     rbind (ServerAdd_info mc cur) (\<lambda>info.
     rbind (strip_map_prefix info) (\<lambda>info.
     rbind (for_entries mc InvalidMap ServerAdd_step (ServerAdd_default, False) info)
       (\<lambda>(ret, has_challenge).
     if has_challenge then Inr ret
     else Inl (InvalidServerValue (str ''challenge'') Expect)))))"

definition ServerAdd_encode :: "server_add \<Rightarrow> bytes \<Rightarrow> xerror + bytes" where
  "ServerAdd_encode p buf = qm (encode_with (\<lambda>cur.
     rbind (put_bytes ServerAdd_HEADER cur) (\<lambda>cur.
     rbind (put_key (str ''protocol'') (put_kv_uint (sa_protocol p)) cur) (\<lambda>cur.
     rbind (put_key (str ''challenge'') (put_kv_uint (sa_challenge p)) cur) (\<lambda>cur.
     rbind (put_key (str ''players'') (put_kv_uint (sa_players p)) cur) (\<lambda>cur.
     rbind (put_key (str ''max'') (put_kv_uint (sa_max p)) cur) (\<lambda>cur.
     rbind (put_key (str ''gamedir'') (put_bytes (sa_gamedir p)) cur) (\<lambda>cur.
     rbind (put_key (str ''map'') (put_bytes (sa_map p)) cur) (\<lambda>cur.
     rbind (put_key (str ''type'') (put_kv_server_type (sa_server_type p)) cur) (\<lambda>cur.
     rbind (put_key (str ''os'') (put_kv_os (sa_os p)) cur) (\<lambda>cur.
     rbind (put_key (str ''version'') (put_kv_version (sa_version p)) cur) (\<lambda>cur.
     rbind (put_key (str ''region'') (put_kv_uint (Region_as_u8 (sa_region p))) cur) (\<lambda>cur.
     rbind (put_key (str ''bots'') (put_kv_uint (sa_bots p)) cur) (\<lambda>cur.
     rbind (put_key (str ''password'') (put_kv_bool (flags_contains (sa_flags p) SF_PASSWORD)) cur) (\<lambda>cur.
     rbind (put_key (str ''secure'') (put_kv_bool (flags_contains (sa_flags p) SF_SECURE)) cur) (\<lambda>cur.
     rbind (put_key (str ''lan'') (put_kv_bool (flags_contains (sa_flags p) SF_LAN)) cur) (\<lambda>cur.
     rbind (put_key (str ''nat'') (put_kv_bool (flags_contains (sa_flags p) SF_NAT)) cur) (\<lambda>cur.
     put_u8 10 cur))))))))))))))))) buf)"

text \<open>The wire format: the header, the key/value text and a newline.\<close>

definition kv_bool :: "bool \<Rightarrow> bytes" where
  "kv_bool b = [if b then 49 else 48]"

definition ServerAdd_kvs :: "server_add \<Rightarrow> (bytes \<times> bytes) list" where
  "ServerAdd_kvs p =
     [(str ''protocol'', show_dec (unat (sa_protocol p))),
      (str ''challenge'', show_dec (unat (sa_challenge p))),
      (str ''players'', show_dec (unat (sa_players p))),
      (str ''max'', show_dec (unat (sa_max p))),
      (str ''gamedir'', sa_gamedir p),
      (str ''map'', sa_map p),
      (str ''type'', ServerType_kv (sa_server_type p)),
      (str ''os'', Os_kv (sa_os p)),
      (str ''version'', Version_display (sa_version p)),
      (str ''region'', show_dec (unat (Region_as_u8 (sa_region p)))),
      (str ''bots'', show_dec (unat (sa_bots p))),
      (str ''password'', kv_bool (flags_contains (sa_flags p) SF_PASSWORD)),
      (str ''secure'', kv_bool (flags_contains (sa_flags p) SF_SECURE)),
      (str ''lan'', kv_bool (flags_contains (sa_flags p) SF_LAN)),
      (str ''nat'', kv_bool (flags_contains (sa_flags p) SF_NAT))]"

definition ServerAdd_wire :: "server_add \<Rightarrow> bytes" where
  "ServerAdd_wire p = ServerAdd_HEADER @ kv_wire (ServerAdd_kvs p) @ [10]"

text \<open>
  What the format can carry: strings without the separator and the terminators, only declared
  flags, and a bots flag that agrees with the number of bots, from which the decoder computes it.
\<close>

definition info_clean :: "bytes \<Rightarrow> bool" where
  "info_clean s \<longleftrightarrow> 92 \<notin> set s \<and> 0 \<notin> set s \<and> 10 \<notin> set s"

definition ServerAdd_valid :: "server_add \<Rightarrow> bool" where
  "ServerAdd_valid p \<longleftrightarrow> info_clean (sa_gamedir p) \<and> info_clean (sa_map p) \<and>
     sa_flags p AND 31 = sa_flags p \<and> (flags_contains (sa_flags p) SF_BOTS \<longleftrightarrow> sa_bots p \<noteq> 0)"

lemma ServerAdd_encode_wire:
  "ServerAdd_encode p buf =
     (if length (ServerAdd_wire p) \<le> length buf then Inr (ServerAdd_wire p)
      else Inl (ECursor BufferOverflow))"
  unfolding ServerAdd_encode_def
  by (rule qm_encode_writes, (rule writes_intros)+)
     (simp add: ServerAdd_wire_def ServerAdd_kvs_def kv_wire_simps kv_bool_def)

lemma flags_rebuild:
  fixes f :: u8
  assumes "f AND 31 = f"
  shows "flags_set SF_NAT (flags_contains f SF_NAT) (flags_set SF_LAN (flags_contains f SF_LAN)
     (flags_set SF_SECURE (flags_contains f SF_SECURE)
       (flags_set SF_PASSWORD (flags_contains f SF_PASSWORD)
         (flags_set SF_BOTS (flags_contains f SF_BOTS) 0)))) = f"
proof -
  have b: "bit f n \<Longrightarrow> n < 5" for n
  proof -
    assume "bit f n"
    then have "bit (f AND mask 5) n" using assms by (simp add: mask_eq_exp_minus_1)
    then show "n < 5" by (simp add: bit_and_iff bit_mask_iff)
  qed
  have c: "flags_contains f SF_BOTS = bit f 0" "flags_contains f SF_PASSWORD = bit f 1"
    "flags_contains f SF_SECURE = bit f 2" "flags_contains f SF_LAN = bit f 3"
    "flags_contains f SF_NAT = bit f 4"
    using flags_contains_exp [of 0 f] flags_contains_exp [of 1 f] flags_contains_exp [of 2 f]
      flags_contains_exp [of 3 f] flags_contains_exp [of 4 f]
    by (simp_all add: SF_defs)
  have s: "SF_BOTS = 2 ^ 0" "SF_PASSWORD = 2 ^ 1" "SF_SECURE = 2 ^ 2" "SF_LAN = 2 ^ 3" "SF_NAT = 2 ^ 4"
    by (simp_all add: SF_defs)
  have set: "bit (flags_set (2 ^ k) v g) n \<longleftrightarrow> (if n = k then v else bit g n)"
    if "k < 8" "n < 8" for k n v and g :: u8
    using that by (simp add: bit_flags_set)
  show ?thesis
  proof (rule bit_word_eqI)
    fix n :: nat
    assume "n < LENGTH(8)"
    then have n: "n < 8" by simp
    show "bit (flags_set SF_NAT (flags_contains f SF_NAT) (flags_set SF_LAN (flags_contains f SF_LAN)
     (flags_set SF_SECURE (flags_contains f SF_SECURE)
       (flags_set SF_PASSWORD (flags_contains f SF_PASSWORD)
         (flags_set SF_BOTS (flags_contains f SF_BOTS) 0))))) n = bit f n"
      unfolding c unfolding s by (simp only: set n) (use b [of n] in \<open>auto simp: numeral_eq_Suc less_Suc_eq\<close>)
  qed
qed

text \<open>The characters of the key/value text: never a terminator.\<close>

lemma of_char_in_str: "(of_char c :: byte) \<in> set (str s) \<longleftrightarrow> c \<in> set s"
  by (simp add: str_def inj_image_mem_iff [OF inj_of_char_byte])

lemma str_mem:
  "92 \<in> set (str s) \<longleftrightarrow> CHR 0x5C \<in> set s"
  "0 \<in> set (str s) \<longleftrightarrow> CHR 0x00 \<in> set s"
  "10 \<in> set (str s) \<longleftrightarrow> CHR 0x0A \<in> set s"
  using of_char_in_str [of "CHR 0x5C" s] of_char_in_str [of "CHR 0x00" s]
    of_char_in_str [of "CHR 0x0A" s] by simp_all

lemma str_safe:
  "CHR 0x5C \<notin> set s \<Longrightarrow> CHR 0x00 \<notin> set s \<Longrightarrow> CHR 0x0A \<notin> set s \<Longrightarrow> info_clean (str s)"
  by (simp add: info_clean_def str_mem)

lemma show_dec_info_clean [simp]: "info_clean (show_dec n)"
  using show_dec_clean by (auto simp: info_clean_def)

lemma Version_display_info_clean [simp]: "info_clean (Version_display v)"
  using Version_display_clean by (auto simp: info_clean_def)

lemma kv_info_clean [simp]:
  "info_clean (ServerType_kv t)" "info_clean (Os_kv x)" "info_clean (kv_bool b)"
  by (simp_all add: info_clean_def ServerType_kv_def Os_kv_def kv_bool_def
        split: server_type.splits os.splits)

definition kvs_info_clean :: "(bytes \<times> bytes) list \<Rightarrow> bool" where
  "kvs_info_clean kvs \<longleftrightarrow> list_all (\<lambda>(k, v). info_clean k \<and> info_clean v) kvs"

lemma kvs_info_cleanD:
  assumes "kvs_info_clean kvs"
  shows "kv_clean kvs" "\<forall>x \<in> set (kv_wire kvs). x \<noteq> 10 \<and> x \<noteq> 0"
  using assms by (auto simp: kvs_info_clean_def kv_clean_def list_all_iff info_clean_def
      dest!: set_kv_wire)

definition kvs_map_clean :: "(bytes \<times> bytes) list \<Rightarrow> bool" where
  "kvs_map_clean kvs \<longleftrightarrow> list_all (\<lambda>(k, v). map_clean k \<and> map_clean v) kvs"

lemma kvs_map_cleanD:
  assumes "kvs_map_clean kvs"
  shows "kv_clean kvs" "0 \<notin> set (kv_wire kvs)"
  using assms by (auto simp: kvs_map_clean_def kv_clean_def list_all_iff map_clean_def
      dest!: set_kv_wire)

lemma info_clean_map_clean: "info_clean s \<Longrightarrow> map_clean s"
  by (simp add: info_clean_def map_clean_def)

lemma ServerAdd_kvs_clean: "ServerAdd_valid p \<Longrightarrow> kvs_info_clean (ServerAdd_kvs p)"
  by (simp add: kvs_info_clean_def ServerAdd_kvs_def ServerAdd_valid_def str_safe)

lemma parse_bool_kv_bool [simp]: "MapStr_parse_bool (kv_bool b) = Inr b"
  by (simp add: kv_bool_def)

lemma MapStr_parse_Version_display [simp]:
  "MapStr_parse Version_from_str (Version_display v) = Inr v"
  by (simp add: MapStr_parse_def MapStr_to_str_def from_utf8_ascii Version_from_display)

text \<open>One equation per known key, so that a decoding loop over concrete keys evaluates.\<close>

lemma ServerAdd_step_keys:
  "ServerAdd_step (s, h) (str ''protocol'') v = map_ok (\<lambda>x. (s\<lparr>sa_protocol := x\<rparr>, h))
     (map_err (InvalidServerValue (str ''protocol'')) (parse_uint_value v))"
  "ServerAdd_step (s, h) (str ''challenge'') v = map_ok (\<lambda>x. (s\<lparr>sa_challenge := x\<rparr>, True))
     (map_err (InvalidServerValue (str ''challenge'')) (parse_uint_value v))"
  "ServerAdd_step (s, h) (str ''players'') v = map_ok (\<lambda>x. (s\<lparr>sa_players := x\<rparr>, h))
     (map_err (InvalidServerValue (str ''players'')) (parse_uint_value v))"
  "ServerAdd_step (s, h) (str ''max'') v = map_ok (\<lambda>x. (s\<lparr>sa_max := x\<rparr>, h))
     (map_err (InvalidServerValue (str ''max'')) (parse_uint_value v))"
  by (cases "parse_uint_value v :: cursor_error + u8";
      cases "parse_uint_value v :: cursor_error + u32";
      simp add: ServerAdd_step_def ServerAdd_set_def server_add_key_name_str_def)+

lemma ServerAdd_step_strings:
  "ServerAdd_step (s, h) (str ''gamedir'') v = Inr (s\<lparr>sa_gamedir := v\<rparr>, h)"
  "ServerAdd_step (s, h) (str ''map'') v = Inr (s\<lparr>sa_map := v\<rparr>, h)"
  "ServerAdd_step (s, h) (str ''type'') v = Inr (s\<lparr>sa_server_type := ServerType_from_mapstr v\<rparr>, h)"
  "ServerAdd_step (s, h) (str ''os'') v = Inr (s\<lparr>sa_os := Os_from_mapstr v\<rparr>, h)"
  "ServerAdd_step (s, h) (str ''version'') v =
     Inr (s\<lparr>sa_version := (case MapStr_parse Version_from_str v of
                            Inr v \<Rightarrow> v | Inl _ \<Rightarrow> Version 0 0 0)\<rparr>, h)"
  by (simp_all add: ServerAdd_step_def ServerAdd_set_def)

lemma ServerAdd_step_checked:
  "parse_uint_value v = Inr x \<Longrightarrow> Region_try_from x = Inr r \<Longrightarrow>
     ServerAdd_step (s, h) (str ''region'') v = Inr (s\<lparr>sa_region := r\<rparr>, h)"
  "parse_uint_value v = Inr b \<Longrightarrow>
     ServerAdd_step (s, h) (str ''bots'') v =
       Inr (s\<lparr>sa_bots := b, sa_flags := flags_set SF_BOTS (b \<noteq> 0) (sa_flags s)\<rparr>, h)"
  "MapStr_parse_bool v = Inr t \<Longrightarrow> ServerAdd_step (s, h) (str ''password'') v =
     Inr (s\<lparr>sa_flags := flags_set SF_PASSWORD t (sa_flags s)\<rparr>, h)"
  "MapStr_parse_bool v = Inr t \<Longrightarrow> ServerAdd_step (s, h) (str ''secure'') v =
     Inr (s\<lparr>sa_flags := flags_set SF_SECURE t (sa_flags s)\<rparr>, h)"
  "MapStr_parse_bool v = Inr t \<Longrightarrow> ServerAdd_step (s, h) (str ''lan'') v =
     Inr (s\<lparr>sa_flags := flags_set SF_LAN t (sa_flags s)\<rparr>, h)"
  "MapStr_parse_bool v = Inr t \<Longrightarrow> ServerAdd_step (s, h) (str ''nat'') v =
     Inr (s\<lparr>sa_flags := flags_set SF_NAT t (sa_flags s)\<rparr>, h)"
  by (simp_all add: ServerAdd_step_def ServerAdd_set_def ServerAdd_set_flag_def)

lemmas ServerAdd_step_simps = ServerAdd_step_keys ServerAdd_step_strings ServerAdd_step_checked

lemma ServerAdd_fold:
  assumes "ServerAdd_valid p"
  shows "fold_entries ServerAdd_step (ServerAdd_kvs p) (ServerAdd_default, False) = Inr (p, True)"
proof -
  have f: "flags_set SF_NAT (flags_contains (sa_flags p) SF_NAT)
      (flags_set SF_LAN (flags_contains (sa_flags p) SF_LAN)
       (flags_set SF_SECURE (flags_contains (sa_flags p) SF_SECURE)
        (flags_set SF_PASSWORD (flags_contains (sa_flags p) SF_PASSWORD)
         (flags_set SF_BOTS (sa_bots p \<noteq> 0) 0)))) = sa_flags p"
    using flags_rebuild [of "sa_flags p"] assms by (simp add: ServerAdd_valid_def)
  show ?thesis
    by (simp add: ServerAdd_kvs_def ServerAdd_step_simps) (simp add: ServerAdd_default_def f)
qed

text \<open>The entries of a clean text are read in order, whether a newline ends it or not.\<close>

lemma ServerAdd_decode_kvs:
  assumes "memchr_ok mc" "kvs_info_clean kvs" "tail = [] \<or> tail = [10]"
  shows "ServerAdd_decode mc (ServerAdd_HEADER @ kv_wire kvs @ tail) =
     rbind (fold_entries ServerAdd_step kvs (ServerAdd_default, False)) (\<lambda>(ret, has_challenge).
       if has_challenge then Inr ret else Inl (InvalidServerValue (str ''challenge'') Expect))"
proof -
  note clean = kvs_info_cleanD [OF assms(2)]
  have miss: "Cursor_take_until2 mc 10 0 (at pre (kv_wire kvs)) = Inl (NeedMoreBytes 1)" for pre
    using Cursor_take_until2_miss [OF assms(1)] clean(2) by blast
  have hit: "Cursor_take_until2 mc 10 0 (at pre (kv_wire kvs @ [10])) =
      Inr (kv_wire kvs, at (pre @ kv_wire kvs) [10])" for pre
    using Cursor_take_until2_hit [OF assms(1) clean(2), of 10 pre "[]"] by simp
  have info: "ServerAdd_info mc (at pre (kv_wire kvs @ tail)) = Inr (kv_wire kvs)" for pre
    using assms(3) hit miss by (auto simp: ServerAdd_info_def wire_simps)
  show ?thesis
    by (simp add: ServerAdd_decode_def wire_simps info strip_kv_wire for_entries_kv_wire [OF assms(1) clean(1)])
qed

lemma ServerAdd_decode_wire:
  assumes "memchr_ok mc" "ServerAdd_valid p"
  shows "ServerAdd_decode mc (ServerAdd_wire p) = Inr p"
  using ServerAdd_decode_kvs [OF assms(1) ServerAdd_kvs_clean [OF assms(2)]]
  by (simp add: ServerAdd_wire_def ServerAdd_fold [OF assms(2)])

interpretation server_add_codec: packet_codec ServerAdd_wire ServerAdd_valid "\<lambda>_. 0" "\<lambda>r. r"
    ServerAdd_encode
    "ServerAdd_decode naive_memchr" "ECursor BufferOverflow"
  by unfold_locales (simp_all add: ServerAdd_encode_wire ServerAdd_decode_wire naive_memchr_ok)

text \<open>What the decoder accepts, and nothing else: the header, the text of some entries and at most a
  separator and a newline behind it; a challenge is among the entries.\<close>

lemma ServerAdd_info_shape:
  assumes "memchr_ok mc" "ServerAdd_info mc (at pre s) = Inr info"
  shows "s \<in> {info, info @ [10]}"
proof (cases "\<exists>x \<in> set s. x = 10 \<or> x = 0")
  case False
  then show ?thesis
    using assms(2) by (simp add: ServerAdd_info_def Cursor_take_until2_miss [OF assms(1)])
next
  case True
  from split_list_first_prop [OF this] obtain a c t where s: "s = a @ c # t" "c = 10 \<or> c = 0"
    and a: "\<forall>x \<in> set a. x \<noteq> 10 \<and> x \<noteq> 0" by blast
  show ?thesis
    using assms(2) s(2) unfolding s(1)
    by (cases t) (auto simp: ServerAdd_info_def Cursor_take_until2_hit [OF assms(1) a] wire_simps)
qed

lemma ServerAdd_step_challenge:
  "ServerAdd_step (p, b) k v = Inr (p', b') \<Longrightarrow> b' \<Longrightarrow> b \<or> k = str ''challenge''"
  by (auto simp: ServerAdd_step_def split: sum.splits bool.splits)

lemma ServerAdd_fold_challenge:
  "fold_entries ServerAdd_step kvs (p, b) = Inr (p', True) \<Longrightarrow> b \<or> (\<exists>v. (str ''challenge'', v) \<in> set kvs)"
proof (induction kvs arbitrary: p b)
  case (Cons kv kvs)
  obtain k v where kv: "kv = (k, v)" by fastforce
  then obtain q c where q: "ServerAdd_step (p, b) k v = Inr (q, c)"
    and run: "fold_entries ServerAdd_step kvs (q, c) = Inr (p', True)"
    using Cons.prems by (cases "ServerAdd_step (p, b) k v") auto
  from Cons.IH [OF run] ServerAdd_step_challenge [OF q] show ?case by (auto simp: kv)
qed simp

lemma ServerAdd_decode_shape:
  assumes "memchr_ok mc" "ServerAdd_decode mc src = Inr p"
  shows "\<exists>kvs value. kv_clean kvs \<and> (str ''challenge'', value) \<in> set kvs \<and>
     fold_entries ServerAdd_step kvs (ServerAdd_default, False) = Inr (p, True) \<and>
     (\<exists>tail \<in> {[], [92], [10], [92, 10]}. src = ServerAdd_HEADER @ kv_wire kvs @ tail)"
proof -
  obtain s where src: "src = ServerAdd_HEADER @ s"
    using assms(2) by (auto simp: ServerAdd_decode_def Cursor_new_at Cursor_expect_at starts_with_iff
        rbind_eq_Inr_iff split: if_splits)
  obtain info where info: "ServerAdd_info mc (at ServerAdd_HEADER s) = Inr info"
    and rest: "rbind (strip_map_prefix info) (for_entries mc InvalidMap ServerAdd_step (ServerAdd_default, False))
      = Inr (p, True)"
    using assms(2) by (auto simp: src ServerAdd_decode_def wire_simps rbind_eq_Inr_iff split: if_splits)
  have "\<not> for_entries mc InvalidMap ServerAdd_step (ServerAdd_default, False) [] = Inr (p, True)"
    by (simp add: for_entries.simps MapIter_next_def)
  with rest obtain t where t: "info = 92 # t"
    "for_entries mc InvalidMap ServerAdd_step (ServerAdd_default, False) t = Inr (p, True)"
    by (auto simp: strip_map_prefix_def split: list.splits if_splits)
  from for_entries_shape [OF assms(1) t(2)] obtain kvs where kvs: "kv_clean kvs"
    "fold_entries ServerAdd_step kvs (ServerAdd_default, False) = Inr (p, True)"
    "info \<in> {kv_wire kvs, kv_wire kvs @ [92]}" using t(1) by blast
  moreover obtain v where "(str ''challenge'', v) \<in> set kvs"
    using ServerAdd_fold_challenge [OF kvs(2)] by blast
  moreover have "\<exists>tail \<in> {[], [92], [10], [92, 10]}. src = ServerAdd_HEADER @ kv_wire kvs @ tail"
    using ServerAdd_info_shape [OF assms(1) info] kvs(3) by (auto simp: src)
  ultimately show ?thesis by blast
qed

section \<open>ServerRemove\<close>

definition ServerRemove_HEADER :: bytes where
  "ServerRemove_HEADER = [98, 10]"

definition ServerRemove_decode :: "bytes \<Rightarrow> xerror + unit" where
  "ServerRemove_decode src =
     rbind (qm (Cursor_expect ServerRemove_HEADER (Cursor_new src))) (\<lambda>(_, cur).
     rbind (qm (Cursor_expect_empty cur)) (\<lambda>_. Inr ()))"

definition ServerRemove_encode :: "unit \<Rightarrow> bytes \<Rightarrow> xerror + bytes" where
  "ServerRemove_encode p buf = qm (encode_with (put_bytes ServerRemove_HEADER) buf)"

interpretation server_remove_codec: packet_codec "\<lambda>_. ServerRemove_HEADER" "\<lambda>_. True" "\<lambda>_. 0"
    "\<lambda>r. r" ServerRemove_encode ServerRemove_decode "ECursor BufferOverflow"
  by unfold_locales
     (simp_all add: ServerRemove_encode_def encode_with_writes [OF writes_put_bytes]
        ServerRemove_decode_def wire_simps)

section \<open>GetChallengeResponse\<close>

record get_challenge_response =
  gcr_challenge :: u32

definition GetChallengeResponse_HEADER :: bytes where
  "GetChallengeResponse_HEADER = [0xff, 0xff, 0xff, 0xff, 65]"

definition GetChallengeResponse_decode :: "bytes \<Rightarrow> xerror + get_challenge_response" where
  "GetChallengeResponse_decode src =
     rbind (qm (Cursor_expect GetChallengeResponse_HEADER (Cursor_new src))) (\<lambda>(_, cur).
     rbind (qm (Cursor_get_u32_le cur)) (\<lambda>(challenge, cur).
     rbind (qm (Cursor_expect_empty cur)) (\<lambda>_. Inr \<lparr>gcr_challenge = challenge\<rparr>)))"

definition GetChallengeResponse_encode :: "get_challenge_response \<Rightarrow> bytes \<Rightarrow> xerror + bytes" where
  "GetChallengeResponse_encode p buf = qm (encode_with (\<lambda>cur.
     rbind (put_bytes GetChallengeResponse_HEADER cur) (put_u32_le (gcr_challenge p))) buf)"

definition GetChallengeResponse_wire :: "get_challenge_response \<Rightarrow> bytes" where
  "GetChallengeResponse_wire p = GetChallengeResponse_HEADER @ to_le 4 (gcr_challenge p)"

lemma GetChallengeResponse_encode_wire:
  "GetChallengeResponse_encode p buf =
     (if length (GetChallengeResponse_wire p) \<le> length buf then Inr (GetChallengeResponse_wire p)
      else Inl (ECursor BufferOverflow))"
  unfolding GetChallengeResponse_encode_def
  by (rule qm_encode_writes, (rule writes_intros)+) (simp add: GetChallengeResponse_wire_def)

interpretation get_challenge_response_codec: packet_codec GetChallengeResponse_wire "\<lambda>_. True"
    "\<lambda>_. 0" "\<lambda>r. r" GetChallengeResponse_encode GetChallengeResponse_decode "ECursor BufferOverflow"
  by unfold_locales
     (simp_all add: GetChallengeResponse_encode_wire GetChallengeResponse_decode_def
        GetChallengeResponse_wire_def wire_simps)

end
