(* ===== verification/Info_Packets.thy ===== *)
theory Info_Packets
  imports Server_Packets
begin

text \<open>
  The packets a game server sends to game clients (\<^verbatim>\<open>net/server.rs\<close>): the three server
  information replies, the player list, and the dispatcher over every server packet.
\<close>

unbundle bit_operations_syntax

section \<open>GetServerInfoResponse\<close>

record get_server_info_response =
  gsi_gamedir :: bytes
  gsi_map :: bytes
  gsi_host :: bytes
  gsi_protocol :: u8
  gsi_numcl :: u8
  gsi_maxcl :: u8
  gsi_dm :: bool
  gsi_team :: bool
  gsi_coop :: bool
  gsi_password :: bool
  gsi_dedicated :: bool

definition GetServerInfoResponse_HEADER :: bytes where
  "GetServerInfoResponse_HEADER = [0xff, 0xff, 0xff, 0xff, 105, 110, 102, 111, 10]"

definition GetServerInfoResponse_default :: get_server_info_response where
  "GetServerInfoResponse_default =
     \<lparr>gsi_gamedir = [], gsi_map = [], gsi_host = [], gsi_protocol = 0, gsi_numcl = 0,
      gsi_maxcl = 0, gsi_dm = False, gsi_team = False, gsi_coop = False, gsi_password = False,
      gsi_dedicated = False\<rparr>"

definition GetServerInfoResponse_set ::
  "bytes \<Rightarrow> bytes \<Rightarrow> get_server_info_response \<Rightarrow> cursor_error + bool \<times> get_server_info_response" where
  "GetServerInfoResponse_set key value s =
     (let ok = map_ok (\<lambda>s'. (True, s')) in
      if key = str ''p'' then
        ok (rbind (parse_uint_value value) (\<lambda>x. Inr (s\<lparr>gsi_protocol := x\<rparr>)))
      else if key = str ''map'' then Inr (True, s\<lparr>gsi_map := value\<rparr>)
      else if key = str ''dm'' then
        ok (rbind (MapStr_parse_bool value) (\<lambda>b. Inr (s\<lparr>gsi_dm := b\<rparr>)))
      else if key = str ''team'' then
        ok (rbind (MapStr_parse_bool value) (\<lambda>b. Inr (s\<lparr>gsi_team := b\<rparr>)))
      else if key = str ''coop'' then
        ok (rbind (MapStr_parse_bool value) (\<lambda>b. Inr (s\<lparr>gsi_coop := b\<rparr>)))
      else if key = str ''numcl'' then
        ok (rbind (parse_uint_value value) (\<lambda>x. Inr (s\<lparr>gsi_numcl := x\<rparr>)))
      else if key = str ''maxcl'' then
        ok (rbind (parse_uint_value value) (\<lambda>x. Inr (s\<lparr>gsi_maxcl := x\<rparr>)))
      else if key = str ''gamedir'' then Inr (True, s\<lparr>gsi_gamedir := value\<rparr>)
      else if key = str ''password'' then
        ok (rbind (MapStr_parse_bool value) (\<lambda>b. Inr (s\<lparr>gsi_password := b\<rparr>)))
      else if key = str ''host'' then Inr (True, s\<lparr>gsi_host := value\<rparr>)
      else if key = str ''dedicated'' then
        ok (rbind (MapStr_parse_bool value) (\<lambda>b. Inr (s\<lparr>gsi_dedicated := b\<rparr>)))
      else Inr (False, s))"

definition GetServerInfoResponse_key_name_str :: "bytes \<Rightarrow> bytes" where
  "GetServerInfoResponse_key_name_str key =
     (if key \<in> set (map str [''p'', ''map'', ''dm'', ''team'', ''coop'', ''numcl'', ''maxcl'',
           ''gamedir'', ''password'', ''host'', ''dedicated''])
      then key else str ''unknown'')"

definition GetServerInfoResponse_step ::
  "get_server_info_response \<Rightarrow> bytes \<Rightarrow> bytes \<Rightarrow> xerror + get_server_info_response" where
  "GetServerInfoResponse_step ret key value =
     (case GetServerInfoResponse_set key value ret of
        Inr (_, ret') \<Rightarrow> Inr ret'
      | Inl err \<Rightarrow> Inl (InvalidServerValue (GetServerInfoResponse_key_name_str key) err))"

text \<open>A reply that is not a map is an error message; the text after its last colon tells which.\<close>

definition GetServerInfoResponse_error :: "bytes \<Rightarrow> xerror" where
  "GetServerInfoResponse_error s =
     (case position (\<lambda>c. c = 58) (rev s) of
        None \<Rightarrow> InvalidPacket
      | Some p \<Rightarrow>
          (let msg = drop (length s - p) s in
           if msg = str '' wrong version'' @ [10] then InvalidProtocolVersion else InvalidPacket))"

definition GetServerInfoResponse_decode :: "memchr_ops \<Rightarrow> bytes \<Rightarrow> xerror + get_server_info_response" where
  "GetServerInfoResponse_decode mc src =
     rbind (qm (Cursor_expect GetServerInfoResponse_HEADER (Cursor_new src))) (\<lambda>(_, cur).
     if \<not> starts_with [92] (Cursor_as_slice cur)
     then rbind (qm (Cursor_get_bytes (Cursor_remaining cur) cur)) (\<lambda>(s, _).
          Inl (GetServerInfoResponse_error s))
     else
     rbind (case Cursor_get_cstr_ffi mc cur of
              Inr (s, cur) \<Rightarrow> rbind (qm (Cursor_expect_empty cur)) (\<lambda>_. Inr (CStr_to_bytes s))
            | Inl _ \<Rightarrow> Inr (Cursor_end cur)) (\<lambda>info.
     rbind (strip_map_prefix info) (\<lambda>info.
     for_entries mc InvalidMap GetServerInfoResponse_step GetServerInfoResponse_default info)))"

definition GetServerInfoResponse_encode :: "get_server_info_response \<Rightarrow> bytes \<Rightarrow> xerror + bytes" where
  "GetServerInfoResponse_encode p buf = qm (encode_with (\<lambda>cur.
     rbind (put_bytes GetServerInfoResponse_HEADER cur) (\<lambda>cur.
     rbind (put_key (str ''p'') (put_kv_uint (gsi_protocol p)) cur) (\<lambda>cur.
     rbind (put_key (str ''map'') (put_bytes (gsi_map p)) cur) (\<lambda>cur.
     rbind (put_key (str ''dm'') (put_kv_bool (gsi_dm p)) cur) (\<lambda>cur.
     rbind (put_key (str ''team'') (put_kv_bool (gsi_team p)) cur) (\<lambda>cur.
     rbind (put_key (str ''coop'') (put_kv_bool (gsi_coop p)) cur) (\<lambda>cur.
     rbind (put_key (str ''numcl'') (put_kv_uint (gsi_numcl p)) cur) (\<lambda>cur.
     rbind (put_key (str ''maxcl'') (put_kv_uint (gsi_maxcl p)) cur) (\<lambda>cur.
     rbind (put_key (str ''gamedir'') (put_bytes (gsi_gamedir p)) cur) (\<lambda>cur.
     rbind (put_key (str ''password'') (put_kv_bool (gsi_password p)) cur) (\<lambda>cur.
     rbind (put_key (str ''dedicated'') (put_kv_bool (gsi_dedicated p)) cur) (\<lambda>cur.
     put_key (str ''host'') (put_bytes (gsi_host p)) cur)))))))))))) buf)"

definition GetServerInfoResponse_kvs :: "get_server_info_response \<Rightarrow> (bytes \<times> bytes) list" where
  "GetServerInfoResponse_kvs p =
     [(str ''p'', show_dec (unat (gsi_protocol p))),
      (str ''map'', gsi_map p),
      (str ''dm'', kv_bool (gsi_dm p)),
      (str ''team'', kv_bool (gsi_team p)),
      (str ''coop'', kv_bool (gsi_coop p)),
      (str ''numcl'', show_dec (unat (gsi_numcl p))),
      (str ''maxcl'', show_dec (unat (gsi_maxcl p))),
      (str ''gamedir'', gsi_gamedir p),
      (str ''password'', kv_bool (gsi_password p)),
      (str ''dedicated'', kv_bool (gsi_dedicated p)),
      (str ''host'', gsi_host p)]"

definition GetServerInfoResponse_wire :: "get_server_info_response \<Rightarrow> bytes" where
  "GetServerInfoResponse_wire p =
     GetServerInfoResponse_HEADER @ kv_wire (GetServerInfoResponse_kvs p)"

definition GetServerInfoResponse_valid :: "get_server_info_response \<Rightarrow> bool" where
  "GetServerInfoResponse_valid p \<longleftrightarrow>
     map_clean (gsi_gamedir p) \<and> map_clean (gsi_map p) \<and> map_clean (gsi_host p)"

lemma GetServerInfoResponse_encode_wire:
  "GetServerInfoResponse_encode p buf =
     (if length (GetServerInfoResponse_wire p) \<le> length buf then Inr (GetServerInfoResponse_wire p)
      else Inl (ECursor BufferOverflow))"
  unfolding GetServerInfoResponse_encode_def
  by (rule qm_encode_writes, (rule writes_intros)+)
     (simp add: GetServerInfoResponse_wire_def GetServerInfoResponse_kvs_def kv_wire_simps kv_bool_def)

lemma GetServerInfoResponse_kvs_clean:
  "GetServerInfoResponse_valid p \<Longrightarrow> kvs_map_clean (GetServerInfoResponse_kvs p)"
  by (simp add: kvs_map_clean_def GetServerInfoResponse_kvs_def GetServerInfoResponse_valid_def
        info_clean_map_clean str_safe)

lemma GetServerInfoResponse_step_strings:
  "GetServerInfoResponse_step s (str ''map'') v = Inr (s\<lparr>gsi_map := v\<rparr>)"
  "GetServerInfoResponse_step s (str ''gamedir'') v = Inr (s\<lparr>gsi_gamedir := v\<rparr>)"
  "GetServerInfoResponse_step s (str ''host'') v = Inr (s\<lparr>gsi_host := v\<rparr>)"
  by (simp_all add: GetServerInfoResponse_step_def GetServerInfoResponse_set_def)

lemma GetServerInfoResponse_step_numbers:
  "parse_uint_value v = Inr x \<Longrightarrow>
     GetServerInfoResponse_step s (str ''p'') v = Inr (s\<lparr>gsi_protocol := x\<rparr>)"
  "parse_uint_value v = Inr x \<Longrightarrow>
     GetServerInfoResponse_step s (str ''numcl'') v = Inr (s\<lparr>gsi_numcl := x\<rparr>)"
  "parse_uint_value v = Inr x \<Longrightarrow>
     GetServerInfoResponse_step s (str ''maxcl'') v = Inr (s\<lparr>gsi_maxcl := x\<rparr>)"
  by (simp_all add: GetServerInfoResponse_step_def GetServerInfoResponse_set_def)

lemma GetServerInfoResponse_step_bools:
  "GetServerInfoResponse_step s (str ''dm'') (kv_bool b) = Inr (s\<lparr>gsi_dm := b\<rparr>)"
  "GetServerInfoResponse_step s (str ''team'') (kv_bool b) = Inr (s\<lparr>gsi_team := b\<rparr>)"
  "GetServerInfoResponse_step s (str ''coop'') (kv_bool b) = Inr (s\<lparr>gsi_coop := b\<rparr>)"
  "GetServerInfoResponse_step s (str ''password'') (kv_bool b) = Inr (s\<lparr>gsi_password := b\<rparr>)"
  "GetServerInfoResponse_step s (str ''dedicated'') (kv_bool b) = Inr (s\<lparr>gsi_dedicated := b\<rparr>)"
  by (simp_all add: GetServerInfoResponse_step_def GetServerInfoResponse_set_def)

lemma GetServerInfoResponse_fold:
  "fold_entries GetServerInfoResponse_step (GetServerInfoResponse_kvs p) GetServerInfoResponse_default
     = Inr p"
  by (simp add: GetServerInfoResponse_kvs_def GetServerInfoResponse_step_strings
        GetServerInfoResponse_step_numbers GetServerInfoResponse_step_bools
        GetServerInfoResponse_default_def)

lemma GetServerInfoResponse_decode_wire:
  assumes "memchr_ok mc" "GetServerInfoResponse_valid p"
  shows "GetServerInfoResponse_decode mc (GetServerInfoResponse_wire p) = Inr p"
proof -
  let ?kvs = "GetServerInfoResponse_kvs p"
  note clean = kvs_map_cleanD [OF GetServerInfoResponse_kvs_clean [OF assms(2)]]
  have "starts_with [92] (kv_wire ?kvs)"
    by (simp add: GetServerInfoResponse_kvs_def kv_wire_simps)
  then show ?thesis
    by (simp add: GetServerInfoResponse_decode_def GetServerInfoResponse_wire_def wire_simps
          Cursor_get_cstr_ffi_miss [OF assms(1) clean(2)] strip_kv_wire
          for_entries_kv_wire [OF assms(1) clean(1)] GetServerInfoResponse_fold)
qed

interpretation get_server_info_codec: packet_codec GetServerInfoResponse_wire
    GetServerInfoResponse_valid "\<lambda>_. 0" "\<lambda>r. r" GetServerInfoResponse_encode
    "GetServerInfoResponse_decode naive_memchr" "ECursor BufferOverflow"
  by unfold_locales (simp_all add: GetServerInfoResponse_encode_wire
      GetServerInfoResponse_decode_wire naive_memchr_ok)

section \<open>GetServerInfo2Response\<close>

record source_tv =
  stv_port :: u16
  stv_name :: bytes

record get_server_info2_response =
  gs2_protocol :: u8
  gs2_host :: bytes
  gs2_map :: bytes
  gs2_gamedir :: bytes
  gs2_game :: bytes
  gs2_app_id :: u64
  gs2_players :: u8
  gs2_max_players :: u8
  gs2_bots :: u8
  gs2_ty :: server_type
  gs2_os :: os
  gs2_password :: bool
  gs2_secure :: bool
  gs2_version :: bytes
  gs2_port :: "u16 option"
  gs2_steam_id :: "u64 option"
  gs2_source_tv :: "source_tv option"
  gs2_keywords :: "bytes option"

definition SIE_APP_ID :: u8 where "SIE_APP_ID = 0x01"
definition SIE_STEAM_ID :: u8 where "SIE_STEAM_ID = 0x10"
definition SIE_KEYWORDS :: u8 where "SIE_KEYWORDS = 0x20"
definition SIE_SOURCE_TV :: u8 where "SIE_SOURCE_TV = 0x40"
definition SIE_PORT :: u8 where "SIE_PORT = 0x80"

lemmas SIE_defs = SIE_APP_ID_def SIE_STEAM_ID_def SIE_KEYWORDS_def SIE_SOURCE_TV_def SIE_PORT_def

definition GetServerInfo2Response_HEADER :: bytes where
  "GetServerInfo2Response_HEADER = [0xff, 0xff, 0xff, 0xff, 73]"

text \<open>A \<^verbatim>\<open>bool\<close> as \<^verbatim>\<open>u8\<close>.\<close>

definition bool_u8 :: "bool \<Rightarrow> u8" where
  "bool_u8 b = (if b then 1 else 0)"

lemma bool_u8_nz [simp]: "bool_u8 b \<noteq> 0 \<longleftrightarrow> b" "bool_u8 b = 0 \<longleftrightarrow> \<not> b"
  by (simp_all add: bool_u8_def)

text \<open>\<^verbatim>\<open>if cond { x = Some(get()?) }\<close>.\<close>

definition get_when :: "bool \<Rightarrow> (cursor \<Rightarrow> 'a cres) \<Rightarrow> cursor \<Rightarrow> 'a option cres" where
  "get_when b get c = (if b then rbind (get c) (\<lambda>(x, c). Inr (Some x, c)) else Inr (None, c))"

definition SourceTv_get :: "memchr_ops \<Rightarrow> cursor \<Rightarrow> source_tv cres" where
  "SourceTv_get mc c =
     rbind (Cursor_get_u16_le c) (\<lambda>(port, c).
     rbind (Cursor_get_cstr mc c) (\<lambda>(name, c).
     Inr (\<lparr>stv_port = port, stv_name = name\<rparr>, c)))"

text \<open>The optional tail of the reply: port, Steam id, SourceTV, keywords and the long app id.\<close>

type_synonym server_extra = "u16 option \<times> u64 option \<times> source_tv option \<times> bytes option \<times> u64 option"

definition GetServerInfo2Response_get_extra :: "memchr_ops \<Rightarrow> cursor \<Rightarrow> server_extra cres" where
  "GetServerInfo2Response_get_extra mc cur =
     (if Cursor_has_remaining cur then
        rbind (Cursor_get_u8 cur) (\<lambda>(extra, cur).
        rbind (get_when (flags_intersects extra SIE_PORT) Cursor_get_u16_le cur) (\<lambda>(port, cur).
        rbind (get_when (flags_intersects extra SIE_STEAM_ID) Cursor_get_u64_le cur) (\<lambda>(steam_id, cur).
        rbind (get_when (flags_intersects extra SIE_SOURCE_TV) (SourceTv_get mc) cur) (\<lambda>(source_tv, cur).
        rbind (get_when (flags_intersects extra SIE_KEYWORDS) (Cursor_get_cstr mc) cur) (\<lambda>(keywords, cur).
        rbind (get_when (flags_intersects extra SIE_APP_ID) Cursor_get_u64_le cur) (\<lambda>(app_id, cur).
        Inr ((port, steam_id, source_tv, keywords, app_id), cur)))))))
      else Inr ((None, None, None, None, None), cur))"

definition GetServerInfo2Response_decode ::
  "memchr_ops \<Rightarrow> bytes \<Rightarrow> xerror + get_server_info2_response" where
  "GetServerInfo2Response_decode mc src =
     rbind (qm (Cursor_expect GetServerInfo2Response_HEADER (Cursor_new src))) (\<lambda>(_, cur).
     rbind (qm (Cursor_get_u8 cur)) (\<lambda>(protocol, cur).
     rbind (qm (Cursor_get_cstr mc cur)) (\<lambda>(host, cur).
     rbind (qm (Cursor_get_cstr mc cur)) (\<lambda>(map_name, cur).
     rbind (qm (Cursor_get_cstr mc cur)) (\<lambda>(gamedir, cur).
     rbind (qm (Cursor_get_cstr mc cur)) (\<lambda>(game, cur).
     rbind (qm (Cursor_get_u16_le cur)) (\<lambda>(app_id, cur).
     rbind (qm (Cursor_get_u8 cur)) (\<lambda>(clients, cur).
     rbind (qm (Cursor_get_u8 cur)) (\<lambda>(max_players, cur).
     rbind (qm (Cursor_get_u8 cur)) (\<lambda>(bots, cur).
     rbind (if bots \<le> clients then Inr (clients - bots) else Inl InvalidPacket) (\<lambda>players.
     rbind (qm (Cursor_get_u8 cur)) (\<lambda>(ty, cur).
     rbind (qm (Cursor_get_u8 cur)) (\<lambda>(os, cur).
     rbind (qm (Cursor_get_u8 cur)) (\<lambda>(password, cur).
     rbind (qm (Cursor_get_u8 cur)) (\<lambda>(secure, cur).
     rbind (qm (Cursor_get_cstr mc cur)) (\<lambda>(version, cur).
     rbind (qm (GetServerInfo2Response_get_extra mc cur))
       (\<lambda>((port, steam_id, source_tv, keywords, long_app_id), cur).
     rbind (qm (Cursor_expect_empty cur)) (\<lambda>_.
     Inr \<lparr>gs2_protocol = protocol, gs2_host = host, gs2_map = map_name, gs2_gamedir = gamedir,
          gs2_game = game,
          gs2_app_id = (case long_app_id of Some x \<Rightarrow> x | None \<Rightarrow> ucast app_id),
          gs2_players = players, gs2_max_players = max_players, gs2_bots = bots,
          gs2_ty = ServerType_from_u8 ty, gs2_os = Os_from_u8 os, gs2_password = (password \<noteq> 0),
          gs2_secure = (secure \<noteq> 0), gs2_version = version, gs2_port = port,
          gs2_steam_id = steam_id, gs2_source_tv = source_tv,
          gs2_keywords = keywords\<rparr>))))))))))))))))))"

definition GetServerInfo2Response_put_base ::
  "get_server_info2_response \<Rightarrow> cursor_mut \<Rightarrow> wres" where
  "GetServerInfo2Response_put_base p cur =
     rbind (put_bytes GetServerInfo2Response_HEADER cur) (\<lambda>cur.
     rbind (put_u8 (gs2_protocol p) cur) (\<lambda>cur.
     rbind (put_cstr (gs2_host p) cur) (\<lambda>cur.
     rbind (put_cstr (gs2_map p) cur) (\<lambda>cur.
     rbind (put_cstr (gs2_gamedir p) cur) (\<lambda>cur.
     rbind (put_cstr (gs2_game p) cur) (\<lambda>cur.
     rbind (put_u16_le (ucast (gs2_app_id p)) cur) (\<lambda>cur.
     rbind (put_u8 (gs2_players p + gs2_bots p) cur) (\<lambda>cur.
     rbind (put_u8 (gs2_max_players p) cur) (\<lambda>cur.
     rbind (put_u8 (gs2_bots p) cur) (\<lambda>cur.
     rbind (put_u8 (ServerType_to_u8 (gs2_ty p)) cur) (\<lambda>cur.
     rbind (put_u8 (Os_to_u8 (gs2_os p)) cur) (\<lambda>cur.
     rbind (put_u8 (bool_u8 (gs2_password p)) cur) (\<lambda>cur.
     rbind (put_u8 (bool_u8 (gs2_secure p)) cur) (\<lambda>cur.
     put_cstr (gs2_version p) cur))))))))))))))"

text \<open>\<^verbatim>\<open>if let Some(x) = field { extra.insert(FLAG); tail.put(x)?; }\<close>.\<close>

definition put_extra ::
  "u8 \<Rightarrow> ('a \<Rightarrow> cursor_mut \<Rightarrow> wres) \<Rightarrow> 'a option \<Rightarrow> u8 \<times> cursor_mut \<Rightarrow>
     cursor_error + u8 \<times> cursor_mut" where
  "put_extra flag put field state =
     (let (extra, tail) = state in
      case field of
        Some x \<Rightarrow> map_ok (\<lambda>tail. (flags_insert extra flag, tail)) (put x tail)
      | None \<Rightarrow> Inr (extra, tail))"

definition SourceTv_put :: "source_tv \<Rightarrow> cursor_mut \<Rightarrow> wres" where
  "SourceTv_put tv tail = rbind (put_u16_le (stv_port tv) tail) (put_cstr (stv_name tv))"

definition long_app_id :: "u64 \<Rightarrow> u64 option" where
  "long_app_id x = (if unat x < 2 ^ 16 then None else Some x)"

definition GetServerInfo2Response_put_extra ::
  "get_server_info2_response \<Rightarrow> cursor_mut \<Rightarrow> cursor_error + u8 \<times> cursor_mut" where
  "GetServerInfo2Response_put_extra p tail =
     rbind (put_extra SIE_PORT put_u16_le (gs2_port p) (0, tail)) (\<lambda>st.
     rbind (put_extra SIE_STEAM_ID put_u64_le (gs2_steam_id p) st) (\<lambda>st.
     rbind (put_extra SIE_SOURCE_TV SourceTv_put (gs2_source_tv p) st) (\<lambda>st.
     rbind (put_extra SIE_KEYWORDS put_cstr (gs2_keywords p) st) (\<lambda>st.
     put_extra SIE_APP_ID put_u64_le (long_app_id (gs2_app_id p)) st))))"

text \<open>
  \<open>debug\<close> says whether the build checks \<^verbatim>\<open>debug_assert!\<close> and arithmetic overflow; \<open>None\<close> is the
  panic. The two halves of the buffer are put together again at the end.
\<close>

definition GetServerInfo2Response_encode ::
  "bool \<Rightarrow> get_server_info2_response \<Rightarrow> bytes \<Rightarrow> (xerror + bytes) option" where
  "GetServerInfo2Response_encode debug p buf =
     (if debug \<and> unat (gs2_players p) + unat (gs2_bots p) \<ge> 256 then None
      else case GetServerInfo2Response_put_base p (CursorMut_new buf) of
        Inl e \<Rightarrow> Some (Inl (ECursor e))
      | Inr cur \<Rightarrow>
        (let n = CursorMut_pos cur in
         case CursorMut_split 1 cur of
           Inl e \<Rightarrow> Some (Inl (ECursor e))
         | Inr (head, tail) \<Rightarrow>
           (case GetServerInfo2Response_put_extra p tail of
              Inl e \<Rightarrow> Some (Inl (ECursor e))
            | Inr (extra, tail) \<Rightarrow>
                if extra \<noteq> 0 then
                  (case put_u8 extra head of
                     Inl e \<Rightarrow> Some (Inl (ECursor e))
                   | Inr head \<Rightarrow>
                       (case CursorMut_expect_full head of
                          Inl _ \<Rightarrow> None
                        | Inr _ \<Rightarrow>
                            Some (Inr (take (CursorMut_pos tail) (mbuffer head @ mbuffer tail)))))
                else Some (Inr (take n (mbuffer head @ mbuffer tail))))))"

subsection \<open>Wire format\<close>

definition GetServerInfo2Response_base :: "get_server_info2_response \<Rightarrow> bytes" where
  "GetServerInfo2Response_base p =
     GetServerInfo2Response_HEADER @ [gs2_protocol p] @ (gs2_host p @ [0]) @ (gs2_map p @ [0]) @
     (gs2_gamedir p @ [0]) @ (gs2_game p @ [0]) @ to_le 2 (ucast (gs2_app_id p) :: u16) @
     [gs2_players p + gs2_bots p] @ [gs2_max_players p] @ [gs2_bots p] @
     [ServerType_to_u8 (gs2_ty p)] @ [Os_to_u8 (gs2_os p)] @ [bool_u8 (gs2_password p)] @
     [bool_u8 (gs2_secure p)] @ (gs2_version p @ [0])"

definition flag_if :: "u8 \<Rightarrow> 'a option \<Rightarrow> u8" where
  "flag_if flag x = (case x of None \<Rightarrow> 0 | Some _ \<Rightarrow> flag)"

definition bytes_if :: "('a \<Rightarrow> bytes) \<Rightarrow> 'a option \<Rightarrow> bytes" where
  "bytes_if f x = (case x of None \<Rightarrow> [] | Some y \<Rightarrow> f y)"

lemma option_parts [simp]:
  "flag_if fl None = 0" "flag_if fl (Some x) = fl" "bytes_if f None = []" "bytes_if f (Some x) = f x"
  by (simp_all add: flag_if_def bytes_if_def)

definition GetServerInfo2Response_flags :: "get_server_info2_response \<Rightarrow> u8" where
  "GetServerInfo2Response_flags p =
     flag_if SIE_PORT (gs2_port p) OR flag_if SIE_STEAM_ID (gs2_steam_id p) OR
     flag_if SIE_SOURCE_TV (gs2_source_tv p) OR flag_if SIE_KEYWORDS (gs2_keywords p) OR
     flag_if SIE_APP_ID (long_app_id (gs2_app_id p))"

definition SourceTv_wire :: "source_tv \<Rightarrow> bytes" where
  "SourceTv_wire tv = to_le 2 (stv_port tv) @ (stv_name tv @ [0])"

definition GetServerInfo2Response_tail :: "get_server_info2_response \<Rightarrow> bytes" where
  "GetServerInfo2Response_tail p =
     bytes_if (to_le 2) (gs2_port p) @ bytes_if (to_le 8) (gs2_steam_id p) @
     bytes_if SourceTv_wire (gs2_source_tv p) @ bytes_if (\<lambda>s. s @ [0]) (gs2_keywords p) @
     bytes_if (to_le 8) (long_app_id (gs2_app_id p))"

definition GetServerInfo2Response_wire :: "get_server_info2_response \<Rightarrow> bytes" where
  "GetServerInfo2Response_wire p =
     GetServerInfo2Response_base p @
     (if GetServerInfo2Response_flags p = 0 then []
      else [GetServerInfo2Response_flags p] @ GetServerInfo2Response_tail p)"

text \<open>Without a tail the encoder still splits off one byte for the flags.\<close>

definition GetServerInfo2Response_spare :: "get_server_info2_response \<Rightarrow> nat" where
  "GetServerInfo2Response_spare p = (if GetServerInfo2Response_flags p = 0 then 1 else 0)"

definition cstr_clean :: "bytes \<Rightarrow> bool" where
  "cstr_clean s \<longleftrightarrow> 0 \<notin> set s"

definition GetServerInfo2Response_valid :: "get_server_info2_response \<Rightarrow> bool" where
  "GetServerInfo2Response_valid p \<longleftrightarrow>
     cstr_clean (gs2_host p) \<and> cstr_clean (gs2_map p) \<and> cstr_clean (gs2_gamedir p) \<and>
     cstr_clean (gs2_game p) \<and> cstr_clean (gs2_version p) \<and>
     pred_option (\<lambda>tv. cstr_clean (stv_name tv)) (gs2_source_tv p) \<and>
     pred_option cstr_clean (gs2_keywords p) \<and>
     unat (gs2_players p) + unat (gs2_bots p) < 256"

definition writes_extra ::
  "(u8 \<times> cursor_mut \<Rightarrow> cursor_error + u8 \<times> cursor_mut) \<Rightarrow> u8 \<Rightarrow> bytes \<Rightarrow> bool" where
  "writes_extra m fl s \<longleftrightarrow>
     (\<forall>e w free off. m (e, wcur w free off) =
        (if length s \<le> length free then Inr (e OR fl, wcur (w @ s) (drop (length s) free) off)
         else Inl BufferOverflow))"

lemma writes_extraD:
  "writes_extra m fl s \<Longrightarrow> m (e, wcur w free off) =
     (if length s \<le> length free then Inr (e OR fl, wcur (w @ s) (drop (length s) free) off)
      else Inl BufferOverflow)"
  by (simp add: writes_extra_def)

lemma writes_extra_put:
  "(\<And>x. writes (put x) (f x)) \<Longrightarrow>
     writes_extra (put_extra flag put field) (flag_if flag field) (bytes_if f field)"
  by (cases field) (auto simp: writes_extra_def put_extra_def writes_def flags_insert_def)

lemma writes_extra_rbind:
  assumes "writes_extra m a s" "writes_extra k b t"
  shows "writes_extra (\<lambda>st. rbind (m st) (\<lambda>st. k st)) (a OR b) (s @ t)"
  unfolding writes_extra_def
  by (auto simp: writes_extraD [OF assms(1)] writes_extraD [OF assms(2)] add.commute or.assoc)

lemma writes_SourceTv: "writes (SourceTv_put tv) (SourceTv_wire tv)"
  unfolding SourceTv_put_def SourceTv_wire_def by (intro writes_intros)

lemma GetServerInfo2Response_put_extra_writes:
  "GetServerInfo2Response_put_extra p (wcur w free off) =
     (let s = GetServerInfo2Response_tail p in
      if length s \<le> length free
      then Inr (GetServerInfo2Response_flags p, wcur (w @ s) (drop (length s) free) off)
      else Inl BufferOverflow)"
proof -
  have "writes_extra (\<lambda>st.
     rbind (put_extra SIE_PORT put_u16_le (gs2_port p) st) (\<lambda>st.
     rbind (put_extra SIE_STEAM_ID put_u64_le (gs2_steam_id p) st) (\<lambda>st.
     rbind (put_extra SIE_SOURCE_TV SourceTv_put (gs2_source_tv p) st) (\<lambda>st.
     rbind (put_extra SIE_KEYWORDS put_cstr (gs2_keywords p) st) (\<lambda>st.
     put_extra SIE_APP_ID put_u64_le (long_app_id (gs2_app_id p)) st)))))
     (GetServerInfo2Response_flags p) (GetServerInfo2Response_tail p)"
    unfolding GetServerInfo2Response_flags_def GetServerInfo2Response_tail_def
    by (intro writes_extra_rbind writes_extra_put writes_prims writes_SourceTv writes_put_cstr)
  from writes_extraD [OF this, of 0] show ?thesis
    by (simp add: GetServerInfo2Response_put_extra_def Let_def)
qed

lemma GetServerInfo2Response_put_base_writes:
  "writes (GetServerInfo2Response_put_base p) (GetServerInfo2Response_base p)"
  unfolding GetServerInfo2Response_put_base_def [abs_def] GetServerInfo2Response_base_def
  by (intro writes_intros)

lemma GetServerInfo2Response_tail_Nil:
  "GetServerInfo2Response_flags p = 0 \<Longrightarrow> GetServerInfo2Response_tail p = []"
  by (cases "gs2_port p"; cases "gs2_steam_id p"; cases "gs2_source_tv p"; cases "gs2_keywords p";
      cases "long_app_id (gs2_app_id p)")
     (simp_all add: GetServerInfo2Response_flags_def GetServerInfo2Response_tail_def SIE_defs)

lemma GetServerInfo2Response_encode_wire:
  assumes "unat (gs2_players p) + unat (gs2_bots p) < 256"
  shows "GetServerInfo2Response_encode debug p buf =
     Some (if length (GetServerInfo2Response_wire p) + GetServerInfo2Response_spare p \<le> length buf
           then Inr (GetServerInfo2Response_wire p) else Inl (ECursor BufferOverflow))"
proof -
  let ?b = "GetServerInfo2Response_base p"
  let ?t = "GetServerInfo2Response_tail p"
  have base: "GetServerInfo2Response_put_base p (CursorMut_new buf) =
     (if length ?b \<le> length buf then Inr (wcur ?b (drop (length ?b) buf) 0)
      else Inl BufferOverflow)"
    by (simp add: CursorMut_new_wcur writesD [OF GetServerInfo2Response_put_base_writes])
  have u8: "put_u8 x (wcur w [y] off) = Inr (wcur (w @ [x]) [] off)" for x y w off
    by (simp add: writesD [OF writes_prims(3)])
  have tk: "length buf \<ge> Suc n \<Longrightarrow> \<exists>y. take (Suc 0) (drop n buf) = [y]" for n
    by (cases "drop n buf") auto
  show ?thesis
  proof (cases "Suc (length ?b) \<le> length buf")
    case False
    then show ?thesis using assms
      by (auto simp: GetServerInfo2Response_encode_def base CursorMut_split_wcur Let_def
            GetServerInfo2Response_wire_def GetServerInfo2Response_spare_def)
  next
    case True
    then obtain y where y: "take (Suc 0) (drop (length ?b) buf) = [y]" using tk by blast
    show ?thesis using assms True y
      by (auto simp: GetServerInfo2Response_encode_def base CursorMut_split_wcur Let_def u8
            GetServerInfo2Response_put_extra_writes CursorMut_expect_full_wcur
            GetServerInfo2Response_wire_def GetServerInfo2Response_spare_def
            GetServerInfo2Response_tail_Nil)
  qed
qed

lemma GetServerInfo2Response_flags_intersects:
  "flags_intersects (GetServerInfo2Response_flags p) SIE_PORT \<longleftrightarrow> gs2_port p \<noteq> None"
  "flags_intersects (GetServerInfo2Response_flags p) SIE_STEAM_ID \<longleftrightarrow> gs2_steam_id p \<noteq> None"
  "flags_intersects (GetServerInfo2Response_flags p) SIE_SOURCE_TV \<longleftrightarrow> gs2_source_tv p \<noteq> None"
  "flags_intersects (GetServerInfo2Response_flags p) SIE_KEYWORDS \<longleftrightarrow> gs2_keywords p \<noteq> None"
  "flags_intersects (GetServerInfo2Response_flags p) SIE_APP_ID \<longleftrightarrow>
     long_app_id (gs2_app_id p) \<noteq> None"
  by (cases "gs2_port p"; cases "gs2_steam_id p"; cases "gs2_source_tv p"; cases "gs2_keywords p";
      cases "long_app_id (gs2_app_id p)";
      simp add: GetServerInfo2Response_flags_def SIE_defs flags_intersects_def)+

lemma get_when_field:
  assumes "\<And>x. field = Some x \<Longrightarrow> get (at pre (f x @ s)) = Inr (x, at (pre @ f x) s)"
  shows "get_when (field \<noteq> None) get (at pre (bytes_if f field @ s)) =
     Inr (field, at (pre @ bytes_if f field) s)"
  by (cases field) (simp_all add: get_when_def assms)

lemma SourceTv_get_wire:
  "memchr_ok mc \<Longrightarrow> cstr_clean (stv_name tv) \<Longrightarrow>
     SourceTv_get mc (at pre (SourceTv_wire tv @ s)) = Inr (tv, at (pre @ SourceTv_wire tv) s)"
  by (simp add: SourceTv_get_def SourceTv_wire_def cstr_clean_def wire_simps)

lemma GetServerInfo2Response_flags_zero:
  "GetServerInfo2Response_flags p = 0 \<Longrightarrow>
     gs2_port p = None \<and> gs2_steam_id p = None \<and> gs2_source_tv p = None \<and> gs2_keywords p = None \<and>
     long_app_id (gs2_app_id p) = None"
  using GetServerInfo2Response_flags_intersects [of p] by (simp add: flags_intersects_def)

lemma GetServerInfo2Response_get_extra_wire:
  assumes "memchr_ok mc" "GetServerInfo2Response_valid p"
  shows "\<exists>pre'. GetServerInfo2Response_get_extra mc (at pre
     (if GetServerInfo2Response_flags p = 0 then []
      else [GetServerInfo2Response_flags p] @ GetServerInfo2Response_tail p)) =
     Inr ((gs2_port p, gs2_steam_id p, gs2_source_tv p, gs2_keywords p,
           long_app_id (gs2_app_id p)), at pre' [])"
proof (cases "GetServerInfo2Response_flags p = 0")
  case True
  with GetServerInfo2Response_flags_zero [OF True] show ?thesis
    by (auto simp: GetServerInfo2Response_get_extra_def)
next
  case False
  have port: "get_when (gs2_port p \<noteq> None) Cursor_get_u16_le
       (at pre (bytes_if (to_le 2) (gs2_port p) @ s)) =
       Inr (gs2_port p, at (pre @ bytes_if (to_le 2) (gs2_port p)) s)" for pre s
    by (rule get_when_field) (simp add: wire_simps)
  have steam: "get_when (gs2_steam_id p \<noteq> None) Cursor_get_u64_le
       (at pre (bytes_if (to_le 8) (gs2_steam_id p) @ s)) =
       Inr (gs2_steam_id p, at (pre @ bytes_if (to_le 8) (gs2_steam_id p)) s)" for pre s
    by (rule get_when_field) (simp add: wire_simps)
  have tv: "get_when (gs2_source_tv p \<noteq> None) (SourceTv_get mc)
       (at pre (bytes_if SourceTv_wire (gs2_source_tv p) @ s)) =
       Inr (gs2_source_tv p, at (pre @ bytes_if SourceTv_wire (gs2_source_tv p)) s)" for pre s
    using assms by (intro get_when_field SourceTv_get_wire) (auto simp: GetServerInfo2Response_valid_def)
  have kw: "get_when (gs2_keywords p \<noteq> None) (Cursor_get_cstr mc)
       (at pre (bytes_if (\<lambda>s. s @ [0]) (gs2_keywords p) @ s)) =
       Inr (gs2_keywords p, at (pre @ bytes_if (\<lambda>s. s @ [0]) (gs2_keywords p)) s)" for pre s
    using assms by (intro get_when_field)
      (auto simp: GetServerInfo2Response_valid_def cstr_clean_def wire_simps)
  have app: "get_when (long_app_id (gs2_app_id p) \<noteq> None) Cursor_get_u64_le
       (at pre (bytes_if (to_le 8) (long_app_id (gs2_app_id p)))) =
       Inr (long_app_id (gs2_app_id p), at (pre @ bytes_if (to_le 8) (long_app_id (gs2_app_id p))) [])"
    for pre
    using get_when_field [of "long_app_id (gs2_app_id p)" Cursor_get_u64_le pre "to_le 8" "[]"]
    by (simp add: wire_simps)
  show ?thesis using False
    unfolding GetServerInfo2Response_get_extra_def GetServerInfo2Response_tail_def
    by (simp only: GetServerInfo2Response_flags_intersects Cursor_view_at wire_simps append_Cons
        append_Nil list.distinct if_False if_True simp_thms rbind_simps prod.case port steam tv kw app)
       blast
qed

lemma GetServerInfo2Response_decode_wire:
  assumes "memchr_ok mc" "GetServerInfo2Response_valid p"
  shows "GetServerInfo2Response_decode mc (GetServerInfo2Response_wire p) = Inr p"
proof -
  note v = assms(2) [unfolded GetServerInfo2Response_valid_def cstr_clean_def]
  define T where "T = (if GetServerInfo2Response_flags p = 0 then []
      else [GetServerInfo2Response_flags p] @ GetServerInfo2Response_tail p)"
  have "\<forall>pre. \<exists>pre'. GetServerInfo2Response_get_extra mc (at pre T) =
     Inr ((gs2_port p, gs2_steam_id p, gs2_source_tv p, gs2_keywords p,
           long_app_id (gs2_app_id p)), at pre' [])"
    unfolding T_def using GetServerInfo2Response_get_extra_wire [OF assms] by blast
  then obtain g where ex: "\<And>pre. GetServerInfo2Response_get_extra mc (at pre T) =
     Inr ((gs2_port p, gs2_steam_id p, gs2_source_tv p, gs2_keywords p,
           long_app_id (gs2_app_id p)), at (g pre) [])" by metis
  have sum: "unat (gs2_players p + gs2_bots p) = unat (gs2_players p) + unat (gs2_bots p)"
    using v by (simp add: unat_word_ariths)
  then have le: "gs2_bots p \<le> gs2_players p + gs2_bots p" by (simp add: word_le_nat_alt)
  have app: "(case long_app_id x of Some y \<Rightarrow> y | None \<Rightarrow> ucast (ucast x :: u16)) = x" for x :: u64
    by (auto simp: long_app_id_def word_unat_eq_iff unsigned_ucast_eq take_bit_eq_mod unat_mod_distrib)
  show ?thesis
    unfolding GetServerInfo2Response_decode_def GetServerInfo2Response_wire_def T_def [symmetric]
      GetServerInfo2Response_base_def
    by (simp add: wire_simps assms(1) v le app ex)
qed

lemma GetServerInfo2Response_validD:
  "GetServerInfo2Response_valid p \<Longrightarrow> unat (gs2_players p) + unat (gs2_bots p) < 256"
  by (simp add: GetServerInfo2Response_valid_def)

interpretation get_server_info2_codec: packet_codec GetServerInfo2Response_wire
    GetServerInfo2Response_valid GetServerInfo2Response_spare Some
    "GetServerInfo2Response_encode debug" "GetServerInfo2Response_decode naive_memchr"
    "ECursor BufferOverflow" for debug
  by unfold_locales (simp_all add: GetServerInfo2Response_encode_wire GetServerInfo2Response_validD
      GetServerInfo2Response_decode_wire naive_memchr_ok)

section \<open>GetServerInfo2ResponseOld\<close>

record mod_info =
  mod_link :: bytes
  mod_download_link :: bytes
  mod_version :: u32
  mod_size :: u32
  mod_multiplayer_only :: bool
  mod_custom_dll :: bool

record get_server_info2_response_old =
  gso_address :: bytes
  gso_host :: bytes
  gso_map :: bytes
  gso_gamedir :: bytes
  gso_game :: bytes
  gso_players :: u8
  gso_max_players :: u8
  gso_protocol :: u8
  gso_ty :: server_type
  gso_os :: os
  gso_password :: bool
  gso_mod_info :: "mod_info option"
  gso_secure :: bool
  gso_bots :: u8

definition GetServerInfo2ResponseOld_HEADER :: bytes where
  "GetServerInfo2ResponseOld_HEADER = [0xff, 0xff, 0xff, 0xff, 109]"

definition ModInfo_get :: "memchr_ops \<Rightarrow> cursor \<Rightarrow> mod_info cres" where
  "ModInfo_get mc cur =
     rbind (Cursor_get_cstr mc cur) (\<lambda>(link, cur).
     rbind (Cursor_get_cstr mc cur) (\<lambda>(download_link, cur).
     rbind (Cursor_get_u8 cur) (\<lambda>(_, cur).
     rbind (Cursor_get_u32_le cur) (\<lambda>(version, cur).
     rbind (Cursor_get_u32_le cur) (\<lambda>(size, cur).
     rbind (Cursor_get_u8 cur) (\<lambda>(multiplayer_only, cur).
     rbind (Cursor_get_u8 cur) (\<lambda>(custom_dll, cur).
     Inr (\<lparr>mod_link = link, mod_download_link = download_link, mod_version = version,
           mod_size = size, mod_multiplayer_only = (multiplayer_only \<noteq> 0),
           mod_custom_dll = (custom_dll \<noteq> 0)\<rparr>, cur))))))))"

definition GetServerInfo2ResponseOld_decode ::
  "memchr_ops \<Rightarrow> bytes \<Rightarrow> xerror + get_server_info2_response_old" where
  "GetServerInfo2ResponseOld_decode mc src =
     rbind (qm (Cursor_expect GetServerInfo2ResponseOld_HEADER (Cursor_new src))) (\<lambda>(_, cur).
     rbind (qm (Cursor_get_cstr mc cur)) (\<lambda>(address, cur).
     rbind (qm (Cursor_get_cstr mc cur)) (\<lambda>(host, cur).
     rbind (qm (Cursor_get_cstr mc cur)) (\<lambda>(map_name, cur).
     rbind (qm (Cursor_get_cstr mc cur)) (\<lambda>(gamedir, cur).
     rbind (qm (Cursor_get_cstr mc cur)) (\<lambda>(game, cur).
     rbind (qm (Cursor_get_u8 cur)) (\<lambda>(players, cur).
     rbind (qm (Cursor_get_u8 cur)) (\<lambda>(max_players, cur).
     rbind (qm (Cursor_get_u8 cur)) (\<lambda>(protocol, cur).
     rbind (qm (Cursor_get_u8 cur)) (\<lambda>(ty, cur).
     rbind (qm (Cursor_get_u8 cur)) (\<lambda>(os, cur).
     rbind (qm (Cursor_get_u8 cur)) (\<lambda>(password, cur).
     rbind (qm (Cursor_get_u8 cur)) (\<lambda>(has_mod, cur).
     rbind (qm (get_when (has_mod \<noteq> 0) (ModInfo_get mc) cur)) (\<lambda>(mod_info, cur).
     rbind (qm (Cursor_get_u8 cur)) (\<lambda>(secure, cur).
     rbind (qm (Cursor_get_u8 cur)) (\<lambda>(bots, cur).
     rbind (qm (Cursor_expect_empty cur)) (\<lambda>_.
     Inr \<lparr>gso_address = address, gso_host = host, gso_map = map_name, gso_gamedir = gamedir,
          gso_game = game, gso_players = players, gso_max_players = max_players,
          gso_protocol = protocol, gso_ty = ServerType_from_u8 ty, gso_os = Os_from_u8 os,
          gso_password = (password \<noteq> 0), gso_mod_info = mod_info, gso_secure = (secure \<noteq> 0),
          gso_bots = bots\<rparr>)))))))))))))))))"

definition ModInfo_put :: "mod_info \<Rightarrow> cursor_mut \<Rightarrow> wres" where
  "ModInfo_put m cur =
     rbind (put_u8 1 cur) (\<lambda>cur.
     rbind (put_cstr (mod_link m) cur) (\<lambda>cur.
     rbind (put_cstr (mod_download_link m) cur) (\<lambda>cur.
     rbind (put_u8 0 cur) (\<lambda>cur.
     rbind (put_u32_le (mod_version m) cur) (\<lambda>cur.
     rbind (put_u32_le (mod_size m) cur) (\<lambda>cur.
     rbind (put_u8 (bool_u8 (mod_multiplayer_only m)) cur) (\<lambda>cur.
     put_u8 (bool_u8 (mod_custom_dll m)) cur)))))))"

definition put_mod_info :: "mod_info option \<Rightarrow> cursor_mut \<Rightarrow> wres" where
  "put_mod_info x cur = (case x of Some m \<Rightarrow> ModInfo_put m cur | None \<Rightarrow> put_u8 0 cur)"

definition GetServerInfo2ResponseOld_encode ::
  "get_server_info2_response_old \<Rightarrow> bytes \<Rightarrow> xerror + bytes" where
  "GetServerInfo2ResponseOld_encode p buf = qm (encode_with (\<lambda>cur.
     rbind (put_bytes GetServerInfo2ResponseOld_HEADER cur) (\<lambda>cur.
     rbind (put_cstr (gso_address p) cur) (\<lambda>cur.
     rbind (put_cstr (gso_host p) cur) (\<lambda>cur.
     rbind (put_cstr (gso_map p) cur) (\<lambda>cur.
     rbind (put_cstr (gso_gamedir p) cur) (\<lambda>cur.
     rbind (put_cstr (gso_game p) cur) (\<lambda>cur.
     rbind (put_u8 (gso_players p) cur) (\<lambda>cur.
     rbind (put_u8 (gso_max_players p) cur) (\<lambda>cur.
     rbind (put_u8 (gso_protocol p) cur) (\<lambda>cur.
     rbind (put_u8 (ServerType_to_u8 (gso_ty p)) cur) (\<lambda>cur.
     rbind (put_u8 (Os_to_u8 (gso_os p)) cur) (\<lambda>cur.
     rbind (put_u8 (bool_u8 (gso_password p)) cur) (\<lambda>cur.
     rbind (put_mod_info (gso_mod_info p) cur) (\<lambda>cur.
     rbind (put_u8 (bool_u8 (gso_secure p)) cur) (\<lambda>cur.
     put_u8 (gso_bots p) cur)))))))))))))))  buf)"

definition ModInfo_wire :: "mod_info \<Rightarrow> bytes" where
  "ModInfo_wire m =
     (mod_link m @ [0]) @ (mod_download_link m @ [0]) @ [0] @ to_le 4 (mod_version m) @
     to_le 4 (mod_size m) @ [bool_u8 (mod_multiplayer_only m)] @ [bool_u8 (mod_custom_dll m)]"

definition GetServerInfo2ResponseOld_wire :: "get_server_info2_response_old \<Rightarrow> bytes" where
  "GetServerInfo2ResponseOld_wire p =
     GetServerInfo2ResponseOld_HEADER @ (gso_address p @ [0]) @ (gso_host p @ [0]) @
     (gso_map p @ [0]) @ (gso_gamedir p @ [0]) @ (gso_game p @ [0]) @ [gso_players p] @
     [gso_max_players p] @ [gso_protocol p] @ [ServerType_to_u8 (gso_ty p)] @
     [Os_to_u8 (gso_os p)] @ [bool_u8 (gso_password p)] @
     (bool_u8 (gso_mod_info p \<noteq> None) # bytes_if ModInfo_wire (gso_mod_info p)) @
     [bool_u8 (gso_secure p)] @ [gso_bots p]"

definition GetServerInfo2ResponseOld_valid :: "get_server_info2_response_old \<Rightarrow> bool" where
  "GetServerInfo2ResponseOld_valid p \<longleftrightarrow>
     cstr_clean (gso_address p) \<and> cstr_clean (gso_host p) \<and> cstr_clean (gso_map p) \<and>
     cstr_clean (gso_gamedir p) \<and> cstr_clean (gso_game p) \<and>
     pred_option (\<lambda>m. cstr_clean (mod_link m) \<and> cstr_clean (mod_download_link m)) (gso_mod_info p)"

lemma writes_put_mod_info:
  "writes (put_mod_info x) (bool_u8 (x \<noteq> None) # bytes_if ModInfo_wire x)"
proof (cases x)
  case None
  then show ?thesis
    using writes_prims(3) [of 0] by (simp add: put_mod_info_def [abs_def] bool_u8_def)
next
  case (Some m)
  have "writes (ModInfo_put m) ([1] @ ModInfo_wire m)"
    unfolding ModInfo_put_def [abs_def] ModInfo_wire_def by (intro writes_intros)
  with Some show ?thesis by (simp add: put_mod_info_def [abs_def] bool_u8_def)
qed

lemma GetServerInfo2ResponseOld_encode_wire:
  "GetServerInfo2ResponseOld_encode p buf =
     (if length (GetServerInfo2ResponseOld_wire p) \<le> length buf
      then Inr (GetServerInfo2ResponseOld_wire p) else Inl (ECursor BufferOverflow))"
  unfolding GetServerInfo2ResponseOld_encode_def
  by (rule qm_encode_writes, (rule writes_intros writes_put_mod_info)+)
     (simp add: GetServerInfo2ResponseOld_wire_def)

lemma ModInfo_get_wire:
  assumes "memchr_ok mc" "cstr_clean (mod_link m)" "cstr_clean (mod_download_link m)"
  shows "ModInfo_get mc (at pre (ModInfo_wire m @ s)) = Inr (m, at (pre @ ModInfo_wire m) s)"
  using assms by (simp add: ModInfo_get_def ModInfo_wire_def cstr_clean_def wire_simps)

lemma GetServerInfo2ResponseOld_decode_wire:
  assumes "memchr_ok mc" "GetServerInfo2ResponseOld_valid p"
  shows "GetServerInfo2ResponseOld_decode mc (GetServerInfo2ResponseOld_wire p) = Inr p"
proof -
  note v = assms(2) [unfolded GetServerInfo2ResponseOld_valid_def cstr_clean_def]
  have m: "get_when (gso_mod_info p \<noteq> None) (ModInfo_get mc)
       (at pre (bytes_if ModInfo_wire (gso_mod_info p) @ s)) =
       Inr (gso_mod_info p, at (pre @ bytes_if ModInfo_wire (gso_mod_info p)) s)" for pre s
    using assms by (intro get_when_field ModInfo_get_wire)
      (auto simp: GetServerInfo2ResponseOld_valid_def)
  show ?thesis
    unfolding GetServerInfo2ResponseOld_decode_def GetServerInfo2ResponseOld_wire_def
    by (simp add: wire_simps assms(1) v m del: not_None_eq)
qed

interpretation get_server_info2_old_codec: packet_codec GetServerInfo2ResponseOld_wire
    GetServerInfo2ResponseOld_valid "\<lambda>_. 0" "\<lambda>r. r" GetServerInfo2ResponseOld_encode
    "GetServerInfo2ResponseOld_decode naive_memchr" "ECursor BufferOverflow"
  by unfold_locales (simp_all add: GetServerInfo2ResponseOld_encode_wire
      GetServerInfo2ResponseOld_decode_wire naive_memchr_ok)

section \<open>GetPlayersResponse\<close>

text \<open>An \<^verbatim>\<open>i32\<close> and an \<^verbatim>\<open>f32\<close> are their bit patterns.\<close>

record player_info =
  pi_id :: u8
  pi_name :: bytes
  pi_frags :: u32
  pi_time :: u32

definition f32_is_nan :: "u32 \<Rightarrow> bool" where
  "f32_is_nan w \<longleftrightarrow> 0x7F800000 < w AND 0x7FFFFFFF"

text \<open>\<^verbatim>\<open>self.time >= 0.0\<close>: not a NaN, and positive or one of the two zeros.\<close>

definition PlayerInfo_is_player :: "player_info \<Rightarrow> bool" where
  "PlayerInfo_is_player p \<longleftrightarrow>
     \<not> f32_is_nan (pi_time p) \<and> (pi_time p < 0x80000000 \<or> pi_time p = 0x80000000)"

text \<open>\<^verbatim>\<open>self.time == -1.0\<close>.\<close>

definition PlayerInfo_is_bot :: "player_info \<Rightarrow> bool" where
  "PlayerInfo_is_bot p \<longleftrightarrow> pi_time p = 0xBF800000"

record get_players_response =
  gpr_count :: u8
  gpr_players :: bytes

definition GetPlayersResponse_HEADER :: bytes where
  "GetPlayersResponse_HEADER = [0xff, 0xff, 0xff, 0xff, 68]"

definition GetPlayersResponse_decode :: "bytes \<Rightarrow> xerror + get_players_response" where
  "GetPlayersResponse_decode src =
     rbind (qm (Cursor_expect GetPlayersResponse_HEADER (Cursor_new src))) (\<lambda>(_, cur).
     rbind (qm (Cursor_get_u8 cur)) (\<lambda>(count, cur).
     Inr \<lparr>gpr_count = count, gpr_players = Cursor_end cur\<rparr>))"

definition GetPlayersResponse_players_count :: "get_players_response \<Rightarrow> u8" where
  "GetPlayersResponse_players_count p = gpr_count p"

text \<open>
  One item of the iterator. Its cursor is shared by all items: a field that fails leaves the cursor
  behind the fields already read, and the next item goes on from there.
\<close>

definition PlayerInfo_get :: "memchr_ops \<Rightarrow> cursor \<Rightarrow> (xerror + player_info) \<times> cursor" where
  "PlayerInfo_get mc cur =
     (case Cursor_get_u8 cur of
        Inl e \<Rightarrow> (Inl (ECursor e), cur)
      | Inr (i, cur) \<Rightarrow>
     (case Cursor_get_cstr mc cur of
        Inl e \<Rightarrow> (Inl (ECursor e), cur)
      | Inr (name, cur) \<Rightarrow>
     (case Cursor_get_u32_le cur of
        Inl e \<Rightarrow> (Inl (ECursor e), cur)
      | Inr (frags, cur) \<Rightarrow>
     (case Cursor_get_u32_le cur of
        Inl e \<Rightarrow> (Inl (ECursor e), cur)
      | Inr (time, cur) \<Rightarrow>
          (Inr \<lparr>pi_id = i, pi_name = name, pi_frags = frags, pi_time = time\<rparr>, cur)))))"

fun players_from :: "memchr_ops \<Rightarrow> nat \<Rightarrow> cursor \<Rightarrow> (xerror + player_info) list" where
  "players_from mc 0 cur = []"
| "players_from mc (Suc n) cur =
     (let (item, cur) = PlayerInfo_get mc cur in item # players_from mc n cur)"

definition GetPlayersResponse_players ::
  "memchr_ops \<Rightarrow> get_players_response \<Rightarrow> (xerror + player_info) list" where
  "GetPlayersResponse_players mc p =
     players_from mc (unat (gpr_count p)) (Cursor_new (gpr_players p))"

definition PlayerInfo_put :: "player_info \<Rightarrow> cursor_mut \<Rightarrow> wres" where
  "PlayerInfo_put i tail =
     rbind (put_u8 (pi_id i) tail) (\<lambda>tail.
     rbind (put_cstr (pi_name i) tail) (\<lambda>tail.
     rbind (put_u32_le (pi_frags i) tail) (put_u32_le (pi_time i))))"

text \<open>The loop of the encoder; \<open>None\<close> is the panic of \<^verbatim>\<open>assert!(count != 255)\<close>.\<close>

fun put_players :: "player_info list \<Rightarrow> u8 \<Rightarrow> cursor_mut \<Rightarrow> (cursor_error + u8 \<times> cursor_mut) option" where
  "put_players [] count tail = Some (Inr (count, tail))"
| "put_players (i # players) count tail =
     (if count = 255 then None
      else case PlayerInfo_put i tail of
             Inl e \<Rightarrow> Some (Inl e)
           | Inr tail \<Rightarrow> put_players players (count + 1) tail)"

definition GetPlayersResponse_encode :: "player_info list \<Rightarrow> bytes \<Rightarrow> (xerror + bytes) option" where
  "GetPlayersResponse_encode players buf =
     (case put_bytes GetPlayersResponse_HEADER (CursorMut_new buf) of
        Inl e \<Rightarrow> Some (Inl (ECursor e))
      | Inr cur \<Rightarrow>
     (case CursorMut_split 1 cur of
        Inl e \<Rightarrow> Some (Inl (ECursor e))
      | Inr (head, tail) \<Rightarrow>
     (case put_players players 0 tail of
        None \<Rightarrow> None
      | Some (Inl e) \<Rightarrow> Some (Inl (ECursor e))
      | Some (Inr (count, tail)) \<Rightarrow>
     (case put_u8 count head of
        Inl e \<Rightarrow> Some (Inl (ECursor e))
      | Inr head \<Rightarrow>
     (case CursorMut_expect_full head of
        Inl _ \<Rightarrow> None
      | Inr _ \<Rightarrow> Some (Inr (take (CursorMut_pos tail) (mbuffer head @ mbuffer tail))))))))"

definition PlayerInfo_wire :: "player_info \<Rightarrow> bytes" where
  "PlayerInfo_wire i = [pi_id i] @ (pi_name i @ [0]) @ to_le 4 (pi_frags i) @ to_le 4 (pi_time i)"

definition GetPlayersResponse_wire :: "player_info list \<Rightarrow> bytes" where
  "GetPlayersResponse_wire ps =
     GetPlayersResponse_HEADER @ [of_nat (length ps)] @ concat (map PlayerInfo_wire ps)"

lemma writes_PlayerInfo_put: "writes (PlayerInfo_put i) (PlayerInfo_wire i)"
  unfolding PlayerInfo_put_def [abs_def] PlayerInfo_wire_def by (intro writes_intros)

lemma unat_byte_less: "unat (b :: byte) < 256"
  using unsigned_less [of b] by simp

lemma put_players_ok:
  "unat n + length ps < 256 \<Longrightarrow>
     put_players ps n (wcur w free off) =
       Some (if length (concat (map PlayerInfo_wire ps)) \<le> length free
             then Inr (n + of_nat (length ps),
                       wcur (w @ concat (map PlayerInfo_wire ps))
                         (drop (length (concat (map PlayerInfo_wire ps))) free) off)
             else Inl BufferOverflow)"
proof (induction ps arbitrary: n w free)
  case Nil
  then show ?case by simp
next
  case (Cons i ps)
  have "unat n < 255" using Cons.prems by simp
  then have n: "n \<noteq> 255" "unat (n + 1) = unat n + 1"
    by (auto simp: unat_word_ariths)
  show ?case
    using Cons.IH [of "n + 1"] Cons.prems n
    by (auto simp: writesD [OF writes_PlayerInfo_put] add.commute add.left_commute)
qed

lemma put_players_panic:
  "unat n + length ps \<ge> 256 \<Longrightarrow>
     length (concat (map PlayerInfo_wire (take (255 - unat n) ps))) \<le> length free \<Longrightarrow>
     put_players ps n (wcur w free off) = None"
proof (induction ps arbitrary: n w free)
  case Nil
  then show ?case using unat_byte_less [of n] by simp
next
  case (Cons i ps)
  show ?case
  proof (cases "n = 255")
    case True
    then show ?thesis by simp
  next
    case False
    have lt: "unat n < 255"
      using False unat_byte_less [of n] by (auto simp: word_unat_eq_iff less_Suc_eq)
    then have n: "unat (n + 1) = unat n + 1" by (simp add: unat_word_ariths)
    have tk: "take (255 - unat n) (i # ps) = i # take (255 - unat (n + 1)) ps"
      using lt by (simp only: n take_Cons') simp
    have len: "length (PlayerInfo_wire i) \<le> length free"
      "length (concat (map PlayerInfo_wire (take (255 - unat (n + 1)) ps))) \<le>
         length (drop (length (PlayerInfo_wire i)) free)"
      using Cons.prems(2) unfolding tk by simp_all
    have "256 \<le> unat (n + 1) + length ps" using Cons.prems(1) n by simp
    from Cons.IH [OF this len(2)] show ?thesis
      using False len(1) by (simp add: writesD [OF writes_PlayerInfo_put])
  qed
qed

lemma GetPlayersResponse_encode_wire:
  assumes "length ps \<le> 255"
  shows "GetPlayersResponse_encode ps buf =
     Some (if length (GetPlayersResponse_wire ps) \<le> length buf
           then Inr (GetPlayersResponse_wire ps) else Inl (ECursor BufferOverflow))"
proof -
  let ?h = "GetPlayersResponse_HEADER"
  have hd: "put_bytes ?h (CursorMut_new buf) =
     (if length ?h \<le> length buf then Inr (wcur ?h (drop (length ?h) buf) 0)
      else Inl BufferOverflow)"
    by (simp add: CursorMut_new_wcur writesD [OF writes_put_bytes])
  have u8: "put_u8 x (wcur w [y] off) = Inr (wcur (w @ [x]) [] off)" for x y w off
    by (simp add: writesD [OF writes_prims(3)])
  show ?thesis
  proof (cases "Suc (length ?h) \<le> length buf")
    case False
    then show ?thesis
      by (auto simp: GetPlayersResponse_encode_def hd CursorMut_split_wcur GetPlayersResponse_wire_def)
  next
    case True
    then obtain y where y: "take (Suc 0) (drop (length ?h) buf) = [y]"
      by (cases "drop (length ?h) buf") auto
    have n: "unat (0::u8) + length ps < 256" using assms by simp
    show ?thesis using True y
      by (auto simp: GetPlayersResponse_encode_def hd CursorMut_split_wcur u8 put_players_ok [OF n]
            CursorMut_expect_full_wcur GetPlayersResponse_wire_def)
  qed
qed

lemma GetPlayersResponse_encode_panics:
  assumes "256 \<le> length ps"
    and "length (GetPlayersResponse_wire (take 255 ps)) \<le> length buf"
  shows "GetPlayersResponse_encode ps buf = None"
proof -
  let ?h = "GetPlayersResponse_HEADER"
  have fits: "Suc (length ?h) + length (concat (map PlayerInfo_wire (take 255 ps))) \<le> length buf"
    using assms(2) by (simp add: GetPlayersResponse_wire_def)
  have "put_players ps 0 (wcur [] (drop 1 (drop (length ?h) buf)) (0 + length ?h + 1)) = None"
    using fits assms(1) by (intro put_players_panic) simp_all
  with fits show ?thesis
    by (simp add: GetPlayersResponse_encode_def CursorMut_new_wcur writesD [OF writes_put_bytes]
          CursorMut_split_wcur)
qed

lemma PlayerInfo_get_wire:
  "memchr_ok mc \<Longrightarrow> cstr_clean (pi_name i) \<Longrightarrow>
     PlayerInfo_get mc (at pre (PlayerInfo_wire i @ s)) = (Inr i, at (pre @ PlayerInfo_wire i) s)"
  by (simp add: PlayerInfo_get_def PlayerInfo_wire_def cstr_clean_def wire_simps)

lemma players_from_wire:
  "memchr_ok mc \<Longrightarrow> \<forall>i \<in> set ps. cstr_clean (pi_name i) \<Longrightarrow>
     players_from mc (length ps) (at pre (concat (map PlayerInfo_wire ps))) = map Inr ps"
  by (induction ps arbitrary: pre) (simp_all add: PlayerInfo_get_wire)

lemma GetPlayersResponse_decode_wire:
  "GetPlayersResponse_decode (GetPlayersResponse_wire ps) =
     Inr \<lparr>gpr_count = of_nat (length ps), gpr_players = concat (map PlayerInfo_wire ps)\<rparr>"
  by (simp add: GetPlayersResponse_decode_def GetPlayersResponse_wire_def wire_simps)

lemma GetPlayersResponse_players_wire:
  assumes "memchr_ok mc" "length ps \<le> 255" "\<forall>i \<in> set ps. cstr_clean (pi_name i)"
  shows "GetPlayersResponse_players mc
     \<lparr>gpr_count = of_nat (length ps), gpr_players = concat (map PlayerInfo_wire ps)\<rparr> = map Inr ps"
proof -
  have "unat (of_nat (length ps) :: u8) = length ps"
    using assms(2) by (simp add: unat_of_nat take_bit_eq_mod)
  then show ?thesis
    using players_from_wire [OF assms(1,3)]
    by (simp add: GetPlayersResponse_players_def Cursor_new_at)
qed

lemma length_players_from: "length (players_from mc n cur) = n"
  by (induction n arbitrary: cur) (auto split: prod.splits)

section \<open>Server packets\<close>

datatype server_packet =
    SChallenge challenge
  | SServerAdd server_add
  | SServerRemove
  | SGetChallengeResponse get_challenge_response
  | SGetServerInfoResponse get_server_info_response
  | SGetServerInfo2Response get_server_info2_response
  | SGetServerInfo2ResponseOld get_server_info2_response_old
  | SGetPlayersResponse get_players_response

definition ServerPacket_decode :: "memchr_ops \<Rightarrow> bytes \<Rightarrow> xerror + server_packet option" where
  "ServerPacket_decode mc src =
     (if starts_with Challenge_HEADER src then
        map_ok Some (map_ok SChallenge (Challenge_decode src))
      else if starts_with ServerAdd_HEADER src then
        map_ok Some (map_ok SServerAdd (ServerAdd_decode mc src))
      else if starts_with ServerRemove_HEADER src then
        map_ok Some (map_ok (\<lambda>_. SServerRemove) (ServerRemove_decode src))
      else if starts_with GetServerInfoResponse_HEADER src then
        map_ok Some (map_ok SGetServerInfoResponse (GetServerInfoResponse_decode mc src))
      else if starts_with GetChallengeResponse_HEADER src then
        map_ok Some (map_ok SGetChallengeResponse (GetChallengeResponse_decode src))
      else if starts_with GetServerInfo2Response_HEADER src then
        map_ok Some (map_ok SGetServerInfo2Response (GetServerInfo2Response_decode mc src))
      else if starts_with GetServerInfo2ResponseOld_HEADER src then
        map_ok Some (map_ok SGetServerInfo2ResponseOld (GetServerInfo2ResponseOld_decode mc src))
      else if starts_with GetPlayersResponse_HEADER src then
        map_ok Some (map_ok SGetPlayersResponse (GetPlayersResponse_decode src))
      else Inr None)"

lemmas server_headers =
  Challenge_HEADER_def ServerAdd_HEADER_def ServerRemove_HEADER_def
  GetServerInfoResponse_HEADER_def GetChallengeResponse_HEADER_def
  GetServerInfo2Response_HEADER_def GetServerInfo2ResponseOld_HEADER_def
  GetPlayersResponse_HEADER_def

text \<open>The wire form of every packet, and what a packet must satisfy to have one.\<close>

fun ServerPacket_wire :: "server_packet \<Rightarrow> bytes" where
  "ServerPacket_wire (SChallenge p) = Challenge_wire p"
| "ServerPacket_wire (SServerAdd p) = ServerAdd_wire p"
| "ServerPacket_wire SServerRemove = ServerRemove_HEADER"
| "ServerPacket_wire (SGetChallengeResponse p) = GetChallengeResponse_wire p"
| "ServerPacket_wire (SGetServerInfoResponse p) = GetServerInfoResponse_wire p"
| "ServerPacket_wire (SGetServerInfo2Response p) = GetServerInfo2Response_wire p"
| "ServerPacket_wire (SGetServerInfo2ResponseOld p) = GetServerInfo2ResponseOld_wire p"
| "ServerPacket_wire (SGetPlayersResponse p) =
     GetPlayersResponse_HEADER @ [gpr_count p] @ gpr_players p"

fun ServerPacket_valid :: "server_packet \<Rightarrow> bool" where
  "ServerPacket_valid (SServerAdd p) = ServerAdd_valid p"
| "ServerPacket_valid (SGetServerInfoResponse p) = GetServerInfoResponse_valid p"
| "ServerPacket_valid (SGetServerInfo2Response p) = GetServerInfo2Response_valid p"
| "ServerPacket_valid (SGetServerInfo2ResponseOld p) = GetServerInfo2ResponseOld_valid p"
| "ServerPacket_valid _ = True"

lemma starts_with_prefix: "starts_with p (p' @ s) \<Longrightarrow> length p \<le> length p' \<Longrightarrow> starts_with p p'"
  by (simp add: starts_with_def)

lemma ServerPacket_decode_wire:
  assumes "memchr_ok mc" "ServerPacket_valid p"
  shows "ServerPacket_decode mc (ServerPacket_wire p) = Inr (Some p)"
proof (cases p)
  case (SChallenge x)
  have "starts_with Challenge_HEADER (Challenge_wire x)" by (simp add: Challenge_wire_def)
  with SChallenge show ?thesis by (simp add: ServerPacket_decode_def Challenge_decode_wire)
next
  case (SServerAdd x)
  moreover have "\<not> starts_with Challenge_HEADER (ServerAdd_wire x)"
    "starts_with ServerAdd_HEADER (ServerAdd_wire x)"
    by (simp_all add: ServerAdd_wire_def server_headers)
  ultimately show ?thesis using assms by (simp add: ServerPacket_decode_def ServerAdd_decode_wire)
next
  case SServerRemove
  have "ServerRemove_decode ServerRemove_HEADER = Inr ()" by (simp add: ServerRemove_decode_def wire_simps)
  then show ?thesis using SServerRemove by (simp add: ServerPacket_decode_def) (simp add: server_headers)
next
  case (SGetChallengeResponse x)
  have "GetChallengeResponse_decode (GetChallengeResponse_wire x) = Inr x"
    by (rule get_challenge_response_codec.decode_wire) simp
  then show ?thesis
    using SGetChallengeResponse
    by (simp add: ServerPacket_decode_def) (simp add: GetChallengeResponse_wire_def server_headers)
next
  case (SGetServerInfoResponse x)
  then show ?thesis using assms
    by (simp add: ServerPacket_decode_def GetServerInfoResponse_decode_wire)
       (simp add: GetServerInfoResponse_wire_def server_headers)
next
  case (SGetServerInfo2Response x)
  then show ?thesis using assms
    by (simp add: ServerPacket_decode_def GetServerInfo2Response_decode_wire)
       (simp add: GetServerInfo2Response_wire_def GetServerInfo2Response_base_def server_headers)
next
  case (SGetServerInfo2ResponseOld x)
  then show ?thesis using assms
    by (simp add: ServerPacket_decode_def GetServerInfo2ResponseOld_decode_wire)
       (simp add: GetServerInfo2ResponseOld_wire_def server_headers)
next
  case (SGetPlayersResponse x)
  have "GetPlayersResponse_decode (GetPlayersResponse_HEADER @ [gpr_count x] @ gpr_players x) = Inr x"
    by (simp add: GetPlayersResponse_decode_def wire_simps)
  then show ?thesis using SGetPlayersResponse
    by (simp add: ServerPacket_decode_def) (simp add: server_headers)
qed

end
