(* ===== verification/Server_Filter.thy ===== *)
theory Server_Filter
  imports Server_Packets
begin

text \<open>
  \<^verbatim>\<open>filter.rs\<close> and the server record of \<^verbatim>\<open>server_info.rs\<close>: the query filter, its parser and
  printer, the flags derived from an announcement and the match of a filter against a server.
  The filter's text is \<open>kv_wire (Filter_kvs f)\<close>, and parsing it gives \<open>f\<close> back.
\<close>

unbundle bit_operations_syntax

section \<open>Flags and server records\<close>

definition FilterFlags_from :: "server_add \<Rightarrow> u16" where
  "FilterFlags_from info =
     (let f = 0;
          f = flags_set FF_DEDICATED (sa_server_type info = Dedicated) f;
          f = flags_set FF_SECURE (flags_contains (sa_flags info) SF_SECURE) f;
          f = flags_set FF_PASSWORD (flags_contains (sa_flags info) SF_PASSWORD) f;
          f = flags_set FF_EMPTY (sa_players info = 0) f;
          f = flags_set FF_FULL (sa_players info \<ge> sa_max info) f;
          f = flags_set FF_NOPLAYERS (sa_players info = 0) f;
          f = flags_set FF_NAT (flags_contains (sa_flags info) SF_NAT) f;
          f = flags_set FF_LAN (flags_contains (sa_flags info) SF_LAN) f;
          f = flags_set FF_BOTS (flags_contains (sa_flags info) SF_BOTS) f
      in f)"

definition ServerInfo_new :: "server_add \<Rightarrow> server_info" where
  "ServerInfo_new info =
     \<lparr>si_version = sa_version info, si_protocol = sa_protocol info, si_gamedir = sa_gamedir info,
      si_map = sa_map info, si_flags = FilterFlags_from info, si_region = sa_region info\<rparr>"

section \<open>The filter\<close>

record filter_q =
  f_gamedir :: "bytes option"
  f_map :: "bytes option"
  f_clver :: "version option"
  f_protocol :: "u8 option"
  f_client_os :: "bytes option"
  f_client_arch :: "bytes option"
  f_client_branch :: "bytes option"
  f_client_commit :: "bytes option"
  f_client_buildnum :: "u32 option"
  f_key :: "u32 option"
  f_flags :: u16
  f_flags_mask :: u16

definition Filter_default :: filter_q where
  "Filter_default =
     \<lparr>f_gamedir = None, f_map = None, f_clver = None, f_protocol = None, f_client_os = None,
      f_client_arch = None, f_client_branch = None, f_client_commit = None,
      f_client_buildnum = None, f_key = None, f_flags = 0, f_flags_mask = 0\<rparr>"

definition Filter_insert_flag :: "u16 \<Rightarrow> bool \<Rightarrow> filter_q \<Rightarrow> filter_q" where
  "Filter_insert_flag flag value f =
     f\<lparr>f_flags := flags_set flag value (f_flags f),
       f_flags_mask := flags_insert (f_flags_mask f) flag\<rparr>"

definition Filter_contains_flags :: "filter_q \<Rightarrow> u16 \<Rightarrow> bool option" where
  "Filter_contains_flags f other =
     (if flags_contains (f_flags_mask f) other then Some (flags_contains (f_flags f) other) else None)"

text \<open>\<^verbatim>\<open>opt.is_some_and(p)\<close>.\<close>

definition is_some_and :: "('a \<Rightarrow> bool) \<Rightarrow> 'a option \<Rightarrow> bool" where
  "is_some_and P x = (case x of None \<Rightarrow> False | Some y \<Rightarrow> P y)"

definition Filter_matches :: "filter_q \<Rightarrow> server_info \<Rightarrow> bool" where
  "Filter_matches f info \<longleftrightarrow>
     \<not> ((si_flags info AND f_flags_mask f) \<noteq> f_flags f \<or>
        is_some_and (\<lambda>s. s \<noteq> si_gamedir info) (f_gamedir f) \<or>
        is_some_and (\<lambda>s. s \<noteq> si_map info) (f_map f) \<or>
        is_some_and (\<lambda>s. s \<noteq> si_protocol info) (f_protocol f))"

definition Filter_set_flag :: "u16 \<Rightarrow> bytes \<Rightarrow> filter_q \<Rightarrow> cursor_error + filter_q" where
  "Filter_set_flag flag value f =
     rbind (MapStr_parse_bool value) (\<lambda>b. Inr (Filter_insert_flag flag b f))"

text \<open>\<^verbatim>\<open>u32::from_str_radix(value.to_str()?, 16)?\<close>.\<close>

definition parse_hex_value :: "bytes \<Rightarrow> cursor_error + u32" where
  "parse_hex_value s =
     rbind (map_err (\<lambda>_. InvalidString) (MapStr_to_str s)) (\<lambda>t.
     ok_or InvalidNumber (parse_word 16 t))"

definition Filter_set :: "bytes \<Rightarrow> bytes \<Rightarrow> filter_q \<Rightarrow> cursor_error + bool \<times> filter_q" where
  "Filter_set key value f =
     (let ok = map_ok (\<lambda>f'. (True, f')) in
      if key = str ''dedicated'' then ok (Filter_set_flag FF_DEDICATED value f)
      else if key = str ''secure'' then ok (Filter_set_flag FF_SECURE value f)
      else if key = str ''gamedir'' then Inr (True, f\<lparr>f_gamedir := Some value\<rparr>)
      else if key = str ''map'' then Inr (True, f\<lparr>f_map := Some value\<rparr>)
      else if key = str ''protocol'' then
        ok (rbind (parse_uint_value value) (\<lambda>x. Inr (f\<lparr>f_protocol := Some x\<rparr>)))
      else if key = str ''empty'' then ok (Filter_set_flag FF_EMPTY value f)
      else if key = str ''full'' then ok (Filter_set_flag FF_FULL value f)
      else if key = str ''password'' then ok (Filter_set_flag FF_PASSWORD value f)
      else if key = str ''noplayers'' then ok (Filter_set_flag FF_NOPLAYERS value f)
      else if key = str ''clver'' then
        ok (rbind (parse_version_value value) (\<lambda>x. Inr (f\<lparr>f_clver := Some x\<rparr>)))
      else if key = str ''os'' then Inr (True, f\<lparr>f_client_os := Some value\<rparr>)
      else if key = str ''arch'' then Inr (True, f\<lparr>f_client_arch := Some value\<rparr>)
      else if key = str ''branch'' then Inr (True, f\<lparr>f_client_branch := Some value\<rparr>)
      else if key = str ''commit'' then Inr (True, f\<lparr>f_client_commit := Some value\<rparr>)
      else if key = str ''buildnum'' then
        ok (rbind (parse_uint_value value) (\<lambda>x. Inr (f\<lparr>f_client_buildnum := Some x\<rparr>)))
      else if key = str ''nat'' then ok (Filter_set_flag FF_NAT value f)
      else if key = str ''lan'' then ok (Filter_set_flag FF_LAN value f)
      else if key = str ''bots'' then ok (Filter_set_flag FF_BOTS value f)
      else if key = str ''key'' then
        ok (rbind (parse_hex_value value) (\<lambda>x. Inr (f\<lparr>f_key := Some x\<rparr>)))
      else Inr (False, f))"

definition filter_keys :: "bytes list" where
  "filter_keys = map str [''dedicated'', ''secure'', ''gamedir'', ''map'', ''protocol'', ''empty'',
     ''full'', ''password'', ''noplayers'', ''clver'', ''os'', ''arch'', ''branch'', ''commit'',
     ''buildnum'', ''nat'', ''lan'', ''bots'', ''key'']"

definition filter_key_name_str :: "bytes \<Rightarrow> bytes" where
  "filter_key_name_str key = (if key \<in> set filter_keys then key else str ''unknown'')"

definition Filter_step :: "filter_q \<Rightarrow> bytes \<Rightarrow> bytes \<Rightarrow> xerror + filter_q" where
  "Filter_step f key value =
     (case Filter_set key value f of
        Inr (_, f') \<Rightarrow> Inr f'
      | Inl err \<Rightarrow> Inl (InvalidFilterValue (filter_key_name_str key) err))"

definition Filter_from_map_iter :: "memchr_ops \<Rightarrow> map_iter \<Rightarrow> xerror + filter_q" where
  "Filter_from_map_iter mc iter = for_entries mc InvalidMap Filter_step Filter_default iter"

definition Filter_from_cstr :: "memchr_ops \<Rightarrow> bytes \<Rightarrow> xerror + filter_q" where
  "Filter_from_cstr mc src =
     rbind (map_err (\<lambda>_. InvalidMap) (MapIter_from_cstr src)) (Filter_from_map_iter mc)"

definition Filter_from_slice :: "memchr_ops \<Rightarrow> bytes \<Rightarrow> xerror + filter_q" where
  "Filter_from_slice mc src =
     rbind (map_err (\<lambda>_. InvalidMap) (MapIter_from_slice mc src)) (Filter_from_map_iter mc)"

section \<open>Printing\<close>

definition display_some :: "string \<Rightarrow> ('a \<Rightarrow> bytes) \<Rightarrow> 'a option \<Rightarrow> bytes" where
  "display_some name show_value value =
     (case value of
        Some s \<Rightarrow> str [CHR 0x5C] @ str name @ str [CHR 0x5C] @ show_value s
      | None \<Rightarrow> [])"

definition display_flag :: "string \<Rightarrow> u16 \<Rightarrow> filter_q \<Rightarrow> bytes" where
  "display_flag name flag f =
     (if flags_contains (f_flags_mask f) flag
      then str [CHR 0x5C] @ str name @ str [CHR 0x5C] @
           (if flags_contains (f_flags f) flag then str ''1'' else str ''0'')
      else [])"

definition Filter_display :: "filter_q \<Rightarrow> bytes" where
  "Filter_display f =
     display_flag ''dedicated'' FF_DEDICATED f @
     display_flag ''secure'' FF_SECURE f @
     display_some ''gamedir'' str_format_bytes (f_gamedir f) @
     display_flag ''secure'' FF_SECURE f @
     display_some ''map'' str_format_bytes (f_map f) @
     display_flag ''empty'' FF_EMPTY f @
     display_flag ''full'' FF_FULL f @
     display_flag ''password'' FF_PASSWORD f @
     display_flag ''noplayers'' FF_NOPLAYERS f @
     display_some ''clver'' Version_display (f_clver f) @
     display_flag ''nat'' FF_NAT f @
     display_flag ''lan'' FF_LAN f @
     display_flag ''bots'' FF_BOTS f @
     display_some ''key'' (\<lambda>w. show_hex (unat w)) (f_key f) @
     display_some ''protocol'' (\<lambda>w. show_dec (unat w)) (f_protocol f) @
     display_some ''buildnum'' (\<lambda>w. show_dec (unat w)) (f_client_buildnum f) @
     display_some ''os'' str_format_bytes (f_client_os f) @
     display_some ''arch'' str_format_bytes (f_client_arch f) @
     display_some ''branch'' str_format_bytes (f_client_branch f) @
     display_some ''commit'' str_format_bytes (f_client_commit f)"

section \<open>Matching\<close>

lemma is_some_and_neq [simp]: "\<not> is_some_and (\<lambda>s. s \<noteq> v) x \<longleftrightarrow> x = None \<or> x = Some v"
  by (cases x) (auto simp: is_some_and_def)

text \<open>
  A filter selects a server exactly when every requirement it states holds, and a flag is a
  requirement when its mask bit is set.
\<close>

lemma flags_match_iff:
  fixes flags mask want :: "'a::len word"
  assumes "want AND mask = want"
  shows "flags AND mask = want \<longleftrightarrow> (\<forall>n. bit mask n \<longrightarrow> (bit flags n \<longleftrightarrow> bit want n))"
proof
  assume "flags AND mask = want"
  then show "\<forall>n. bit mask n \<longrightarrow> (bit flags n \<longleftrightarrow> bit want n)" by (auto simp: bit_and_iff)
next
  assume *: "\<forall>n. bit mask n \<longrightarrow> (bit flags n \<longleftrightarrow> bit want n)"
  show "flags AND mask = want"
  proof (rule bit_word_eqI)
    fix n
    have "bit want n \<Longrightarrow> bit mask n" using arg_cong [OF assms, of "\<lambda>w. bit w n"]
      by (simp add: bit_and_iff)
    with * show "bit (flags AND mask) n = bit want n" by (auto simp: bit_and_iff)
  qed
qed

lemma flags_match_none:
  fixes flags mask want :: "'a::len word"
  assumes "flags AND mask = want"
  shows "want AND mask = want"
  unfolding assms [symmetric] by (simp add: and.assoc)

text \<open>The invariant of the filter: no flag is wanted outside the mask.\<close>

definition Filter_wf :: "filter_q \<Rightarrow> bool" where
  "Filter_wf f \<longleftrightarrow> f_flags f AND f_flags_mask f = f_flags f \<and> f_flags_mask f AND 511 = f_flags_mask f"

lemma bits_subset_iff: "v AND w = v \<longleftrightarrow> (\<forall>n. bit v n \<longrightarrow> bit w n)" for v w :: "'a::len word"
proof
  assume "v AND w = v"
  then show "\<forall>n. bit v n \<longrightarrow> bit w n" by (metis bit_and_iff)
next
  assume "\<forall>n. bit v n \<longrightarrow> bit w n"
  then show "v AND w = v" by (intro bit_word_eqI) (auto simp: bit_and_iff)
qed

lemma Filter_insert_flag_wf:
  assumes "Filter_wf f" "flag AND 511 = flag"
  shows "Filter_wf (Filter_insert_flag flag v f)"
  using assms unfolding Filter_wf_def Filter_insert_flag_def flags_insert_def flags_set_def
    bits_subset_iff
  by (auto simp: bit_or_iff bit_and_iff bit_not_iff)

lemma Filter_default_wf: "Filter_wf Filter_default"
  by (simp add: Filter_wf_def Filter_default_def)

lemma Filter_set_flag_wf:
  "Filter_wf f \<Longrightarrow> flag AND 511 = flag \<Longrightarrow> Filter_set_flag flag value f = Inr f' \<Longrightarrow> Filter_wf f'"
  by (auto simp: Filter_set_flag_def rbind_eq_Inr_iff Filter_insert_flag_wf)

lemma FF_511:
  "FF_DEDICATED AND 511 = FF_DEDICATED" "FF_SECURE AND 511 = FF_SECURE"
  "FF_PASSWORD AND 511 = FF_PASSWORD" "FF_EMPTY AND 511 = FF_EMPTY" "FF_FULL AND 511 = FF_FULL"
  "FF_NOPLAYERS AND 511 = FF_NOPLAYERS" "FF_NAT AND 511 = FF_NAT" "FF_LAN AND 511 = FF_LAN"
  "FF_BOTS AND 511 = FF_BOTS"
  by (simp_all add: FF_defs)

lemma Filter_wf_other:
  "Filter_wf (f\<lparr>f_gamedir := a\<rparr>) = Filter_wf f" "Filter_wf (f\<lparr>f_map := a\<rparr>) = Filter_wf f"
  "Filter_wf (f\<lparr>f_protocol := b\<rparr>) = Filter_wf f" "Filter_wf (f\<lparr>f_clver := c\<rparr>) = Filter_wf f"
  "Filter_wf (f\<lparr>f_client_os := a\<rparr>) = Filter_wf f" "Filter_wf (f\<lparr>f_client_arch := a\<rparr>) = Filter_wf f"
  "Filter_wf (f\<lparr>f_client_branch := a\<rparr>) = Filter_wf f"
  "Filter_wf (f\<lparr>f_client_commit := a\<rparr>) = Filter_wf f"
  "Filter_wf (f\<lparr>f_client_buildnum := d\<rparr>) = Filter_wf f" "Filter_wf (f\<lparr>f_key := d\<rparr>) = Filter_wf f"
  by (simp_all add: Filter_wf_def)

lemma Filter_set_wf: "Filter_wf f \<Longrightarrow> Filter_set key value f = Inr (b, f') \<Longrightarrow> Filter_wf f'"
  by (auto simp: Filter_set_def Let_def map_ok_eq_Inr_iff rbind_eq_Inr_iff Filter_wf_other
        split: if_splits dest: Filter_set_flag_wf [OF _ FF_511(1)] Filter_set_flag_wf [OF _ FF_511(2)]
          Filter_set_flag_wf [OF _ FF_511(3)] Filter_set_flag_wf [OF _ FF_511(4)]
          Filter_set_flag_wf [OF _ FF_511(5)] Filter_set_flag_wf [OF _ FF_511(6)]
          Filter_set_flag_wf [OF _ FF_511(7)] Filter_set_flag_wf [OF _ FF_511(8)]
          Filter_set_flag_wf [OF _ FF_511(9)])

lemma Filter_step_wf: "Filter_wf f \<Longrightarrow> Filter_step f key value = Inr f' \<Longrightarrow> Filter_wf f'"
  by (auto simp: Filter_step_def split: sum.splits prod.splits dest: Filter_set_wf)

lemma Filter_from_slice_wf: "Filter_from_slice mc src = Inr f \<Longrightarrow> Filter_wf f"
  unfolding Filter_from_slice_def Filter_from_map_iter_def rbind_eq_Inr_iff
  by (auto intro: for_entries_invariant [where P = Filter_wf] Filter_default_wf Filter_step_wf)

section \<open>Parsing what was printed\<close>

definition opt_kv :: "string \<Rightarrow> ('a \<Rightarrow> bytes) \<Rightarrow> 'a option \<Rightarrow> (bytes \<times> bytes) list" where
  "opt_kv name show_value value =
     (case value of None \<Rightarrow> [] | Some s \<Rightarrow> [(str name, show_value s)])"

definition flag_kv :: "string \<Rightarrow> u16 \<Rightarrow> filter_q \<Rightarrow> (bytes \<times> bytes) list" where
  "flag_kv name flag f =
     (if flags_contains (f_flags_mask f) flag
      then [(str name, kv_bool (flags_contains (f_flags f) flag))] else [])"

definition Filter_kvs :: "filter_q \<Rightarrow> (bytes \<times> bytes) list" where
  "Filter_kvs f =
     flag_kv ''dedicated'' FF_DEDICATED f @
     flag_kv ''secure'' FF_SECURE f @
     opt_kv ''gamedir'' str_format_bytes (f_gamedir f) @
     flag_kv ''secure'' FF_SECURE f @
     opt_kv ''map'' str_format_bytes (f_map f) @
     flag_kv ''empty'' FF_EMPTY f @
     flag_kv ''full'' FF_FULL f @
     flag_kv ''password'' FF_PASSWORD f @
     flag_kv ''noplayers'' FF_NOPLAYERS f @
     opt_kv ''clver'' Version_display (f_clver f) @
     flag_kv ''nat'' FF_NAT f @
     flag_kv ''lan'' FF_LAN f @
     flag_kv ''bots'' FF_BOTS f @
     opt_kv ''key'' (\<lambda>w. show_hex (unat w)) (f_key f) @
     opt_kv ''protocol'' (\<lambda>w. show_dec (unat w)) (f_protocol f) @
     opt_kv ''buildnum'' (\<lambda>w. show_dec (unat w)) (f_client_buildnum f) @
     opt_kv ''os'' str_format_bytes (f_client_os f) @
     opt_kv ''arch'' str_format_bytes (f_client_arch f) @
     opt_kv ''branch'' str_format_bytes (f_client_branch f) @
     opt_kv ''commit'' str_format_bytes (f_client_commit f)"

lemma kv_wire_append: "kv_wire (a @ b) = kv_wire a @ kv_wire b"
  by (simp add: kv_wire_def)

lemma str_backslash: "str [CHR 0x5C] = [92]"
  by (simp add: str_def)

lemma kv_wire_opt_kv: "kv_wire (opt_kv name show_value value) = display_some name show_value value"
  by (cases "value") (simp_all add: opt_kv_def display_some_def kv_wire_simps str_backslash)

lemma kv_wire_flag_kv: "kv_wire (flag_kv name flag f) = display_flag name flag f"
  by (simp add: flag_kv_def display_flag_def kv_wire_simps str_backslash kv_bool_def) (simp add: str_def)

lemma Filter_display_kvs: "Filter_display f = kv_wire (Filter_kvs f)"
  by (simp add: Filter_display_def Filter_kvs_def kv_wire_append kv_wire_opt_kv kv_wire_flag_kv)

text \<open>Strings whose printed form is themselves; the other fields always print faithfully.\<close>

definition printable :: "bytes \<Rightarrow> bool" where
  "printable s \<longleftrightarrow> (\<forall>c \<in> set s. is_printable c)"

definition Filter_printable :: "filter_q \<Rightarrow> bool" where
  "Filter_printable f \<longleftrightarrow> Filter_wf f \<and>
     pred_option printable (f_gamedir f) \<and> pred_option printable (f_map f) \<and>
     pred_option printable (f_client_os f) \<and> pred_option printable (f_client_arch f) \<and>
     pred_option printable (f_client_branch f) \<and> pred_option printable (f_client_commit f)"

lemma fold_entries_append:
  "fold_entries f (a @ b) acc = rbind (fold_entries f a acc) (fold_entries f b)"
  by (induction f a acc rule: fold_entries.induct) (simp_all add: rbind_def split: sum.splits)

lemma fold_entries_one: "fold_entries f [(k, v)] acc = f acc k v"
  by (cases "f acc k v") simp_all

lemma Filter_step_flag:
  "Filter_step f (str ''dedicated'') (kv_bool b) = Inr (Filter_insert_flag FF_DEDICATED b f)"
  "Filter_step f (str ''secure'') (kv_bool b) = Inr (Filter_insert_flag FF_SECURE b f)"
  "Filter_step f (str ''empty'') (kv_bool b) = Inr (Filter_insert_flag FF_EMPTY b f)"
  "Filter_step f (str ''full'') (kv_bool b) = Inr (Filter_insert_flag FF_FULL b f)"
  "Filter_step f (str ''password'') (kv_bool b) = Inr (Filter_insert_flag FF_PASSWORD b f)"
  "Filter_step f (str ''noplayers'') (kv_bool b) = Inr (Filter_insert_flag FF_NOPLAYERS b f)"
  "Filter_step f (str ''nat'') (kv_bool b) = Inr (Filter_insert_flag FF_NAT b f)"
  "Filter_step f (str ''lan'') (kv_bool b) = Inr (Filter_insert_flag FF_LAN b f)"
  "Filter_step f (str ''bots'') (kv_bool b) = Inr (Filter_insert_flag FF_BOTS b f)"
  by (simp_all add: Filter_step_def Filter_set_def Filter_set_flag_def)

lemma Filter_step_string:
  "Filter_step f (str ''gamedir'') v = Inr (f\<lparr>f_gamedir := Some v\<rparr>)"
  "Filter_step f (str ''map'') v = Inr (f\<lparr>f_map := Some v\<rparr>)"
  "Filter_step f (str ''os'') v = Inr (f\<lparr>f_client_os := Some v\<rparr>)"
  "Filter_step f (str ''arch'') v = Inr (f\<lparr>f_client_arch := Some v\<rparr>)"
  "Filter_step f (str ''branch'') v = Inr (f\<lparr>f_client_branch := Some v\<rparr>)"
  "Filter_step f (str ''commit'') v = Inr (f\<lparr>f_client_commit := Some v\<rparr>)"
  by (simp_all add: Filter_step_def Filter_set_def)

lemma parse_hex_value_show [simp]: "parse_hex_value (show_hex (unat w)) = Inr w"
  by (simp add: parse_hex_value_def MapStr_to_str_def from_utf8_ascii)

lemma Filter_step_number:
  "Filter_step f (str ''protocol'') (show_dec (unat p)) = Inr (f\<lparr>f_protocol := Some p\<rparr>)"
  "Filter_step f (str ''buildnum'') (show_dec (unat n)) = Inr (f\<lparr>f_client_buildnum := Some n\<rparr>)"
  "Filter_step f (str ''key'') (show_hex (unat n)) = Inr (f\<lparr>f_key := Some n\<rparr>)"
  "Filter_step f (str ''clver'') (Version_display v) = Inr (f\<lparr>f_clver := Some v\<rparr>)"
  by (simp_all add: Filter_step_def Filter_set_def)

text \<open>What one entry does to the filter read so far.\<close>

definition copy_flag :: "u16 \<Rightarrow> u16 \<Rightarrow> u16 \<Rightarrow> u16 \<Rightarrow> u16" where
  "copy_flag F M flag x =
     (if flags_contains M flag then flags_set flag (flags_contains F flag) x else x)"

definition copy_mask :: "u16 \<Rightarrow> u16 \<Rightarrow> u16 \<Rightarrow> u16" where
  "copy_mask M flag m = (if flags_contains M flag then m OR flag else m)"

definition or_keep :: "'a option \<Rightarrow> 'a option \<Rightarrow> 'a option" where
  "or_keep v old = (case v of None \<Rightarrow> old | Some x \<Rightarrow> Some x)"

lemma or_keep_None [simp]: "or_keep v None = v"
  by (cases v) (simp_all add: or_keep_def)

lemma fold_flag_kv:
  assumes "\<And>g b. Filter_step g (str name) (kv_bool b) = Inr (Filter_insert_flag flag b g)"
  shows "fold_entries Filter_step (flag_kv name flag f) g =
     Inr (g\<lparr>f_flags := copy_flag (f_flags f) (f_flags_mask f) flag (f_flags g),
            f_flags_mask := copy_mask (f_flags_mask f) flag (f_flags_mask g)\<rparr>)"
  by (simp add: flag_kv_def copy_flag_def copy_mask_def assms Filter_insert_flag_def flags_insert_def)

lemmas fold_flags = Filter_step_flag [THEN fold_flag_kv]

lemma fold_opt_kv:
  assumes "\<And>x. v = Some x \<Longrightarrow> Filter_step g (str name) (sv x) = Inr (upd (\<lambda>old. or_keep v old) g)"
    and "v = None \<Longrightarrow> upd (\<lambda>old. or_keep v old) g = g"
  shows "fold_entries Filter_step (opt_kv name sv v) g = Inr (upd (\<lambda>old. or_keep v old) g)"
  using assms by (cases v) (simp_all add: opt_kv_def)

lemma printed_printable: "pred_option printable v \<Longrightarrow> v = Some x \<Longrightarrow> str_format_bytes x = x"
  by (simp add: printable_def str_format_bytes_printable)

lemma fold_opts:
  "pred_option printable s \<Longrightarrow> fold_entries Filter_step (opt_kv ''gamedir'' str_format_bytes s) g =
     Inr (f_gamedir_update (or_keep s) g)"
  "pred_option printable s \<Longrightarrow> fold_entries Filter_step (opt_kv ''map'' str_format_bytes s) g =
     Inr (f_map_update (or_keep s) g)"
  "pred_option printable s \<Longrightarrow> fold_entries Filter_step (opt_kv ''os'' str_format_bytes s) g =
     Inr (f_client_os_update (or_keep s) g)"
  "pred_option printable s \<Longrightarrow> fold_entries Filter_step (opt_kv ''arch'' str_format_bytes s) g =
     Inr (f_client_arch_update (or_keep s) g)"
  "pred_option printable s \<Longrightarrow> fold_entries Filter_step (opt_kv ''branch'' str_format_bytes s) g =
     Inr (f_client_branch_update (or_keep s) g)"
  "pred_option printable s \<Longrightarrow> fold_entries Filter_step (opt_kv ''commit'' str_format_bytes s) g =
     Inr (f_client_commit_update (or_keep s) g)"
  "fold_entries Filter_step (opt_kv ''protocol'' (\<lambda>w. show_dec (unat w)) p) g =
     Inr (f_protocol_update (or_keep p) g)"
  "fold_entries Filter_step (opt_kv ''buildnum'' (\<lambda>w. show_dec (unat w)) n) g =
     Inr (f_client_buildnum_update (or_keep n) g)"
  "fold_entries Filter_step (opt_kv ''key'' (\<lambda>w. show_hex (unat w)) n) g =
     Inr (f_key_update (or_keep n) g)"
  "fold_entries Filter_step (opt_kv ''clver'' Version_display c) g =
     Inr (f_clver_update (or_keep c) g)"
  by (cases s; cases p; cases n; cases c; cases g;
      simp add: opt_kv_def Filter_step_string Filter_step_number printed_printable or_keep_def
        printable_def str_format_bytes_printable; fail)+

lemma copy_flag_bit:
  assumes "k < 16" "n < 16"
  shows "bit (copy_flag F M (2 ^ k) x) n \<longleftrightarrow> (if n = k \<and> bit M k then bit F k else bit x n)"
    and "bit (copy_mask M (2 ^ k) x) n \<longleftrightarrow> bit x n \<or> n = k \<and> bit M k"
proof -
  have c: "flags_contains w (2 ^ k) \<longleftrightarrow> bit w k" for w :: u16
    using assms(1) by (simp add: flags_contains_exp)
  show "bit (copy_flag F M (2 ^ k) x) n \<longleftrightarrow> (if n = k \<and> bit M k then bit F k else bit x n)"
    "bit (copy_mask M (2 ^ k) x) n \<longleftrightarrow> bit x n \<or> n = k \<and> bit M k"
    using assms
    by (auto simp: copy_flag_def copy_mask_def c flags_set_def bit_or_iff bit_and_iff bit_not_iff
          bit_exp_iff)
qed

lemma FF_exps:
  "FF_DEDICATED = 2 ^ 0" "FF_SECURE = 2 ^ 1" "FF_PASSWORD = 2 ^ 2" "FF_EMPTY = 2 ^ 3"
  "FF_FULL = 2 ^ 4" "FF_NOPLAYERS = 2 ^ 5" "FF_NAT = 2 ^ 6" "FF_LAN = 2 ^ 7" "FF_BOTS = 2 ^ 8"
  by (simp_all add: FF_defs)

lemma mask9: "M AND 511 = M \<Longrightarrow> bit M n \<Longrightarrow> n < 9" for M :: u16
proof -
  assume "M AND 511 = M" "bit M n"
  then have "bit (M AND mask 9) n" by (simp add: mask_eq_exp_minus_1)
  then show "n < 9" by (simp add: bit_and_iff bit_mask_iff)
qed

lemma lt9: "n < 9 \<longleftrightarrow> n = 0 \<or> n = 1 \<or> n = 2 \<or> n = 3 \<or> n = 4 \<or> n = 5 \<or> n = 6 \<or> n = 7 \<or> n = (8::nat)"
  by presburger

lemma copy_all_flags:
  assumes "F AND M = F" "M AND 511 = M"
  shows "copy_flag F M FF_BOTS (copy_flag F M FF_LAN (copy_flag F M FF_NAT (copy_flag F M FF_NOPLAYERS
    (copy_flag F M FF_PASSWORD (copy_flag F M FF_FULL (copy_flag F M FF_EMPTY
      (copy_flag F M FF_SECURE (copy_flag F M FF_SECURE (copy_flag F M FF_DEDICATED 0))))))))) = F"
    (is "?l = F")
    and "copy_mask M FF_BOTS (copy_mask M FF_LAN (copy_mask M FF_NAT (copy_mask M FF_NOPLAYERS
    (copy_mask M FF_PASSWORD (copy_mask M FF_FULL (copy_mask M FF_EMPTY
      (copy_mask M FF_SECURE (copy_mask M FF_SECURE (copy_mask M FF_DEDICATED 0))))))))) = M"
    (is "?m = M")
proof -
  have FM: "bit F n \<Longrightarrow> bit M n" for n using assms(1) by (simp add: bits_subset_iff)
  have M: "bit M n \<Longrightarrow> n < 9" for n using assms(2) by (rule mask9)
  show "?l = F"
  proof (rule bit_word_eqI)
    fix n :: nat
    assume "n < LENGTH(16)"
    then have n: "n < 16" by simp
    have l: "bit ?l n \<longleftrightarrow>
      (if n = 8 \<and> bit M 8 then bit F 8 else if n = 7 \<and> bit M 7 then bit F 7 else if n = 6 \<and> bit M 6 then bit F 6 else if n = 5 \<and> bit M 5 then bit F 5 else if n = 2 \<and> bit M 2 then bit F 2 else if n = 4 \<and> bit M 4 then bit F 4 else if n = 3 \<and> bit M 3 then bit F 3 else if n = 1 \<and> bit M 1 then bit F 1 else if n = 1 \<and> bit M 1 then bit F 1 else if n = 0 \<and> bit M 0 then bit F 0 else bit (0::u16) n)"
      unfolding FF_exps by (simp only: copy_flag_bit(1) n)
    show "bit ?l n = bit F n"
    proof (cases "n < 9")
      case True
      then show ?thesis unfolding l lt9 by (elim disjE) (use FM in auto)
    qed (use FM [of n] M [of n] in \<open>auto simp: l\<close>)
  qed
  show "?m = M"
  proof (rule bit_word_eqI)
    fix n :: nat
    assume "n < LENGTH(16)"
    then have n: "n < 16" by simp
    have m: "bit ?m n \<longleftrightarrow>
      ((((((((((bit (0::u16) n \<or> n = 0 \<and> bit M 0) \<or> n = 1 \<and> bit M 1) \<or> n = 1 \<and> bit M 1) \<or> n = 3 \<and> bit M 3) \<or> n = 4 \<and> bit M 4) \<or> n = 2 \<and> bit M 2) \<or> n = 5 \<and> bit M 5) \<or> n = 6 \<and> bit M 6) \<or> n = 7 \<and> bit M 7) \<or> n = 8 \<and> bit M 8)"
      unfolding FF_exps by (simp only: copy_flag_bit(2) n)
    show "bit ?m n = bit M n"
    proof (cases "n < 9")
      case True
      then show ?thesis unfolding m lt9 by (elim disjE) simp_all
    qed (use M [of n] in \<open>auto simp: m\<close>)
  qed
qed

lemma Filter_fold:
  assumes "Filter_printable f"
  shows "fold_entries Filter_step (Filter_kvs f) Filter_default = Inr f"
proof -
  note p = assms [unfolded Filter_printable_def Filter_wf_def]
  note flags = copy_all_flags [of "f_flags f" "f_flags_mask f"]
  show ?thesis
    using p by (simp add: Filter_kvs_def fold_entries_append fold_flags fold_opts Filter_default_def
        flags)
qed

lemma hex_dec_map_clean [simp]:
  "map_clean (show_hex n)" "map_clean (show_dec n)"
  using show_hex_clean show_dec_clean by (auto simp: map_clean_def)

lemma printable_map_clean: "printable s \<Longrightarrow> map_clean (str_format_bytes s)"
  by (auto simp: printable_def str_format_bytes_printable map_clean_def is_printable_def)

lemma kvs_map_clean_append [simp]:
  "kvs_map_clean (a @ b) \<longleftrightarrow> kvs_map_clean a \<and> kvs_map_clean b"
  by (simp add: kvs_map_clean_def)

lemma Filter_kvs_clean: "Filter_printable f \<Longrightarrow> kvs_map_clean (Filter_kvs f)"
proof -
  assume p: "Filter_printable f"
  have flag: "kvs_map_clean (flag_kv name fl f)" if "info_clean (str name)" for name fl
    using that by (auto simp: kvs_map_clean_def flag_kv_def info_clean_map_clean)
  have opt: "kvs_map_clean (opt_kv name sv v)"
    if "info_clean (str name)" "\<And>x. v = Some x \<Longrightarrow> map_clean (sv x)" for name and sv :: "'a \<Rightarrow> bytes" and v
    using that by (cases v) (simp_all add: kvs_map_clean_def opt_kv_def info_clean_map_clean)
  have s: "kvs_map_clean (opt_kv name str_format_bytes v)"
    if "info_clean (str name)" "pred_option printable v" for name v
    using that by (cases v) (simp_all add: kvs_map_clean_def opt_kv_def info_clean_map_clean
        printable_map_clean)
  show ?thesis using p
    by (simp add: Filter_kvs_def Filter_printable_def flag s str_safe)
       (simp add: kvs_map_clean_def opt_kv_def str_safe info_clean_map_clean split: option.split)
qed

lemma Filter_from_slice_kvs:
  assumes "memchr_ok mc" "kv_clean kvs" "0 \<notin> set (kv_wire kvs)"
  shows "Filter_from_slice mc (kv_wire kvs) = fold_entries Filter_step kvs Filter_default"
proof -
  have "MapIter_from_slice mc (kv_wire kvs) = Inr (tl (kv_wire kvs))"
  proof (cases "kv_wire kvs")
    case (Cons b rest)
    then have "b = 92" by (cases kvs) (auto simp: kv_wire_simps)
    with Cons assms(3) show ?thesis by (auto simp: MapIter_from_slice_def memchr_okD [OF assms(1)])
  qed (simp add: MapIter_from_slice_def)
  then show ?thesis
    by (simp add: Filter_from_slice_def Filter_from_map_iter_def for_entries_kv_wire [OF assms(1,2)])
qed

lemma Filter_from_display:
  assumes "memchr_ok mc" "Filter_printable f"
  shows "Filter_from_slice mc (Filter_display f) = Inr f"
  using Filter_from_slice_kvs [OF assms(1) kvs_map_cleanD [OF Filter_kvs_clean [OF assms(2)]]]
  by (simp add: Filter_display_kvs Filter_fold [OF assms(2)])

section \<open>What a filter selects\<close>

lemma bit_flags_set_u16:
  "k < 16 \<Longrightarrow> n < 16 \<Longrightarrow>
     bit (flags_set (2 ^ k) v (w :: u16)) n \<longleftrightarrow> (if n = k then v else bit w n)"
  by (simp add: bit_flags_set)

lemma bit_set_FF:
  "n < 16 \<Longrightarrow> bit (flags_set FF_DEDICATED v w) n \<longleftrightarrow> (if n = 0 then v else bit w n)"
  "n < 16 \<Longrightarrow> bit (flags_set FF_SECURE v w) n \<longleftrightarrow> (if n = 1 then v else bit w n)"
  "n < 16 \<Longrightarrow> bit (flags_set FF_PASSWORD v w) n \<longleftrightarrow> (if n = 2 then v else bit w n)"
  "n < 16 \<Longrightarrow> bit (flags_set FF_EMPTY v w) n \<longleftrightarrow> (if n = 3 then v else bit w n)"
  "n < 16 \<Longrightarrow> bit (flags_set FF_FULL v w) n \<longleftrightarrow> (if n = 4 then v else bit w n)"
  "n < 16 \<Longrightarrow> bit (flags_set FF_NOPLAYERS v w) n \<longleftrightarrow> (if n = 5 then v else bit w n)"
  "n < 16 \<Longrightarrow> bit (flags_set FF_NAT v w) n \<longleftrightarrow> (if n = 6 then v else bit w n)"
  "n < 16 \<Longrightarrow> bit (flags_set FF_LAN v w) n \<longleftrightarrow> (if n = 7 then v else bit w n)"
  "n < 16 \<Longrightarrow> bit (flags_set FF_BOTS v w) n \<longleftrightarrow> (if n = 8 then v else bit w n)"
  unfolding FF_exps by (rule bit_flags_set_u16; simp)+

lemma FilterFlags_from_bits:
  "bit (FilterFlags_from a) 0 \<longleftrightarrow> sa_server_type a = Dedicated"
  "bit (FilterFlags_from a) 1 \<longleftrightarrow> flags_contains (sa_flags a) SF_SECURE"
  "bit (FilterFlags_from a) 2 \<longleftrightarrow> flags_contains (sa_flags a) SF_PASSWORD"
  "bit (FilterFlags_from a) 3 \<longleftrightarrow> sa_players a = 0"
  "bit (FilterFlags_from a) 4 \<longleftrightarrow> sa_max a \<le> sa_players a"
  "bit (FilterFlags_from a) 5 \<longleftrightarrow> sa_players a = 0"
  "bit (FilterFlags_from a) 6 \<longleftrightarrow> flags_contains (sa_flags a) SF_NAT"
  "bit (FilterFlags_from a) 7 \<longleftrightarrow> flags_contains (sa_flags a) SF_LAN"
  "bit (FilterFlags_from a) 8 \<longleftrightarrow> flags_contains (sa_flags a) SF_BOTS"
  by (simp_all add: FilterFlags_from_def bit_set_FF)

definition wants :: "filter_q \<Rightarrow> u16 \<Rightarrow> bool \<Rightarrow> bool" where
  "wants f flag b \<longleftrightarrow> (case Filter_contains_flags f flag of None \<Rightarrow> True | Some v \<Rightarrow> v = b)"

lemma wants_exp:
  "k < 16 \<Longrightarrow> wants f (2 ^ k) b \<longleftrightarrow> (bit (f_flags_mask f) k \<longrightarrow> bit (f_flags f) k = b)"
  by (simp add: wants_def Filter_contains_flags_def flags_contains_exp)

lemma Filter_matches_new:
  assumes "Filter_wf f"
  shows "Filter_matches f (ServerInfo_new a) \<longleftrightarrow>
    wants f FF_DEDICATED (sa_server_type a = Dedicated) \<and>
    wants f FF_SECURE (flags_contains (sa_flags a) SF_SECURE) \<and>
    wants f FF_PASSWORD (flags_contains (sa_flags a) SF_PASSWORD) \<and>
    wants f FF_EMPTY (sa_players a = 0) \<and>
    wants f FF_FULL (sa_max a \<le> sa_players a) \<and>
    wants f FF_NOPLAYERS (sa_players a = 0) \<and>
    wants f FF_NAT (flags_contains (sa_flags a) SF_NAT) \<and>
    wants f FF_LAN (flags_contains (sa_flags a) SF_LAN) \<and>
    wants f FF_BOTS (flags_contains (sa_flags a) SF_BOTS) \<and>
    (f_gamedir f = None \<or> f_gamedir f = Some (sa_gamedir a)) \<and>
    (f_map f = None \<or> f_map f = Some (sa_map a)) \<and>
    (f_protocol f = None \<or> f_protocol f = Some (sa_protocol a))"
proof -
  have all: "(\<forall>n. bit (f_flags_mask f) n \<longrightarrow> Q n) \<longleftrightarrow>
      (bit (f_flags_mask f) 0 \<longrightarrow> Q 0) \<and> (bit (f_flags_mask f) 1 \<longrightarrow> Q 1) \<and>
      (bit (f_flags_mask f) 2 \<longrightarrow> Q 2) \<and> (bit (f_flags_mask f) 3 \<longrightarrow> Q 3) \<and>
      (bit (f_flags_mask f) 4 \<longrightarrow> Q 4) \<and> (bit (f_flags_mask f) 5 \<longrightarrow> Q 5) \<and>
      (bit (f_flags_mask f) 6 \<longrightarrow> Q 6) \<and> (bit (f_flags_mask f) 7 \<longrightarrow> Q 7) \<and>
      (bit (f_flags_mask f) 8 \<longrightarrow> Q 8)" (is "_ \<longleftrightarrow> ?r") for Q
  proof
    assume r: ?r
    show "\<forall>n. bit (f_flags_mask f) n \<longrightarrow> Q n"
    proof (intro allI impI)
      fix n
      assume n: "bit (f_flags_mask f) n"
      then have "n < 9" using mask9 [of "f_flags_mask f"] assms by (simp add: Filter_wf_def)
      with n r show "Q n" unfolding lt9 by (elim disjE) simp_all
    qed
  qed simp
  have k: "wants f FF_DEDICATED b \<longleftrightarrow> (bit (f_flags_mask f) 0 \<longrightarrow> bit (f_flags f) 0 = b)"
    "wants f FF_SECURE b \<longleftrightarrow> (bit (f_flags_mask f) 1 \<longrightarrow> bit (f_flags f) 1 = b)"
    "wants f FF_PASSWORD b \<longleftrightarrow> (bit (f_flags_mask f) 2 \<longrightarrow> bit (f_flags f) 2 = b)"
    "wants f FF_EMPTY b \<longleftrightarrow> (bit (f_flags_mask f) 3 \<longrightarrow> bit (f_flags f) 3 = b)"
    "wants f FF_FULL b \<longleftrightarrow> (bit (f_flags_mask f) 4 \<longrightarrow> bit (f_flags f) 4 = b)"
    "wants f FF_NOPLAYERS b \<longleftrightarrow> (bit (f_flags_mask f) 5 \<longrightarrow> bit (f_flags f) 5 = b)"
    "wants f FF_NAT b \<longleftrightarrow> (bit (f_flags_mask f) 6 \<longrightarrow> bit (f_flags f) 6 = b)"
    "wants f FF_LAN b \<longleftrightarrow> (bit (f_flags_mask f) 7 \<longrightarrow> bit (f_flags f) 7 = b)"
    "wants f FF_BOTS b \<longleftrightarrow> (bit (f_flags_mask f) 8 \<longrightarrow> bit (f_flags f) 8 = b)" for b
    unfolding FF_exps by (simp_all only: wants_exp)
  have "si_flags (ServerInfo_new a) AND f_flags_mask f = f_flags f \<longleftrightarrow>
      (\<forall>n. bit (f_flags_mask f) n \<longrightarrow> bit (f_flags f) n = bit (FilterFlags_from a) n)"
    using flags_match_iff [of "f_flags f" "f_flags_mask f" "FilterFlags_from a"] assms
    by (auto simp: ServerInfo_new_def Filter_wf_def)
  then show ?thesis
    unfolding Filter_matches_def de_Morgan_disj not_not is_some_and_neq k all
    by (simp only: FilterFlags_from_bits ServerInfo_new_def server_info.select_convs conj_assoc)
qed

end
