(* ===== verification/Game_Packets.thy ===== *)
theory Game_Packets
  imports Server_Filter
begin

text \<open>
  The packets of game clients (\<^verbatim>\<open>net/game.rs\<close>): the server list query with its filter, and the
  requests to game servers. \<^verbatim>\<open>QueryServers<T>\<close> is generic in the filter: its \<^verbatim>\<open>TryFrom\<close> and
  \<^verbatim>\<open>Display\<close> are arguments of the decoder and the encoder.
\<close>

section \<open>QueryServers\<close>

record 'f query_servers =
  qs_region :: region
  qs_last :: bytes
  qs_filter :: 'f

definition FIRST_ADDRESS :: bytes where
  "FIRST_ADDRESS = str ''0.0.0.0:0''"

definition QueryServers_HEADER :: bytes where
  "QueryServers_HEADER = [49]"

definition QueryServers_new :: "'f \<Rightarrow> 'f query_servers" where
  "QueryServers_new f = \<lparr>qs_region = RestOfTheWorld, qs_last = FIRST_ADDRESS, qs_filter = f\<rparr>"

definition QueryServers_decode ::
  "memchr_ops \<Rightarrow> (bytes \<Rightarrow> xerror + 'f) \<Rightarrow> bytes \<Rightarrow> xerror + 'f query_servers" where
  "QueryServers_decode mc try_from src =
     rbind (qm (Cursor_expect QueryServers_HEADER (Cursor_new src))) (\<lambda>(_, cur).
     rbind (qm (Cursor_get_u8 cur)) (\<lambda>(b, cur).
     rbind (map_err (\<lambda>_. InvalidRegion) (Region_try_from b)) (\<lambda>region.
     rbind (qm (Cursor_get_cstr mc cur)) (\<lambda>(last, cur).
     rbind (case Cursor_get_cstr_ffi mc cur of
              Inr (s, cur) \<Rightarrow> rbind (qm (Cursor_expect_empty cur)) (\<lambda>_. Inr (CStr_to_bytes s))
            | Inl _ \<Rightarrow> Inr (Cursor_end cur)) (\<lambda>filter_raw.
     rbind (try_from filter_raw) (\<lambda>f.
     Inr \<lparr>qs_region = region, qs_last = last, qs_filter = f\<rparr>))))))"

definition QueryServers_encode ::
  "('f \<Rightarrow> bytes) \<Rightarrow> 'f query_servers \<Rightarrow> bytes \<Rightarrow> xerror + bytes" where
  "QueryServers_encode display p buf = qm (encode_with (\<lambda>cur.
     rbind (put_bytes QueryServers_HEADER cur) (\<lambda>cur.
     rbind (put_u8 (Region_as_u8 (qs_region p)) cur) (\<lambda>cur.
     rbind (put_as_str (str_format_bytes (qs_last p)) cur) (\<lambda>cur.
     rbind (put_u8 0 cur) (\<lambda>cur.
     rbind (put_as_str (display (qs_filter p)) cur) (put_u8 0)))))) buf)"

definition QueryServers_wire :: "('f \<Rightarrow> bytes) \<Rightarrow> 'f query_servers \<Rightarrow> bytes" where
  "QueryServers_wire display p =
     QueryServers_HEADER @ [Region_as_u8 (qs_region p)] @ str_format_bytes (qs_last p) @ [0] @
     display (qs_filter p) @ [0]"

lemma QueryServers_encode_wire:
  "QueryServers_encode display p buf =
     (if length (QueryServers_wire display p) \<le> length buf then Inr (QueryServers_wire display p)
      else Inl (ECursor BufferOverflow))"
  unfolding QueryServers_encode_def
  by (rule qm_encode_writes, (rule writes_intros)+) (simp add: QueryServers_wire_def)

text \<open>What \<^verbatim>\<open>QueryServers\<close> relies on in its filter type: printing and parsing agree, and a printed
  filter holds no terminator.\<close>

locale query_filter =
  fixes mc :: memchr_ops
    and try_from :: "bytes \<Rightarrow> xerror + 'f"
    and display :: "'f \<Rightarrow> bytes"
    and valid :: "'f \<Rightarrow> bool"
  assumes mc_ok: "memchr_ok mc"
    and try_from_display: "valid f \<Longrightarrow> try_from (display f) = Inr f"
    and display_clean: "valid f \<Longrightarrow> 0 \<notin> set (display f)"
begin

lemma decode_wire:
  assumes "printable (qs_last p)" "valid (qs_filter p)"
  shows "QueryServers_decode mc try_from (QueryServers_wire display p) = Inr p"
proof -
  have last: "str_format_bytes (qs_last p) = qs_last p" "0 \<notin> set (qs_last p)"
    using assms(1) by (auto simp: printable_def str_format_bytes_printable is_printable_def)
  show ?thesis
    using last display_clean [OF assms(2)] Cursor_get_cstr_ffi_hit [OF mc_ok, where t = "[]"]
    by (simp add: QueryServers_decode_def QueryServers_wire_def wire_simps mc_ok CStr_to_bytes_def
        try_from_display assms)
qed

text \<open>Xash3D clients leave the final NUL out; the decoder takes the rest of the packet then.\<close>

lemma decode_unterminated:
  assumes "printable (qs_last p)" "valid (qs_filter p)"
  shows "QueryServers_decode mc try_from (butlast (QueryServers_wire display p)) = Inr p"
proof -
  have last: "str_format_bytes (qs_last p) = qs_last p" "0 \<notin> set (qs_last p)"
    using assms(1) by (auto simp: printable_def str_format_bytes_printable is_printable_def)
  have "butlast (QueryServers_wire display p) = QueryServers_HEADER @ [Region_as_u8 (qs_region p)] @
      qs_last p @ 0 # display (qs_filter p)"
    by (simp add: QueryServers_wire_def last butlast_append)
  then show ?thesis
    using last display_clean [OF assms(2)]
    by (simp add: QueryServers_decode_def wire_simps mc_ok try_from_display assms)
qed

end

lemma Filter_display_clean: "Filter_printable f \<Longrightarrow> 0 \<notin> set (Filter_display f)"
  unfolding Filter_display_kvs by (rule kvs_map_cleanD(2) [OF Filter_kvs_clean])

interpretation filter_query: query_filter naive_memchr "Filter_from_slice naive_memchr" Filter_display Filter_printable
  by unfold_locales
     (simp_all add: naive_memchr_ok Filter_from_display Filter_display_clean)

text \<open>The same for every search that behaves as documented.\<close>

lemma QueryServers_filter:
  assumes "memchr_ok mc"
  shows "query_filter mc (Filter_from_slice mc) Filter_display Filter_printable"
  using assms by unfold_locales (simp_all add: Filter_from_display Filter_display_clean)

section \<open>Requests to game servers\<close>

record get_server_info =
  gi_protocol :: u8

definition GetServerInfo_HEADER :: bytes where
  "GetServerInfo_HEADER = [0xff, 0xff, 0xff, 0xff] @ str ''info ''"

definition GetServerInfo_decode :: "bytes \<Rightarrow> xerror + get_server_info" where
  "GetServerInfo_decode src =
     rbind (qm (Cursor_expect GetServerInfo_HEADER (Cursor_new src))) (\<lambda>(_, cur).
     rbind (qm (Cursor_get_str (Cursor_remaining cur) cur)) (\<lambda>(s, cur).
     rbind (ok_or InvalidPacket (parse_word 10 s)) (\<lambda>protocol.
     Inr \<lparr>gi_protocol = protocol\<rparr>)))"

definition GetServerInfo_encode :: "get_server_info \<Rightarrow> bytes \<Rightarrow> xerror + bytes" where
  "GetServerInfo_encode p buf = qm (encode_with (\<lambda>cur.
     rbind (put_bytes GetServerInfo_HEADER cur)
       (put_as_str (show_dec (unat (gi_protocol p))))) buf)"

definition GetServerInfo_wire :: "get_server_info \<Rightarrow> bytes" where
  "GetServerInfo_wire p = GetServerInfo_HEADER @ show_dec (unat (gi_protocol p))"

lemma GetServerInfo_encode_wire:
  "GetServerInfo_encode p buf =
     (if length (GetServerInfo_wire p) \<le> length buf then Inr (GetServerInfo_wire p)
      else Inl (ECursor BufferOverflow))"
  unfolding GetServerInfo_encode_def
  by (rule qm_encode_writes, (rule writes_intros)+) (simp add: GetServerInfo_wire_def)

lemma GetServerInfo_decode_wire: "GetServerInfo_decode (GetServerInfo_wire p) = Inr p"
  by (simp add: GetServerInfo_decode_def GetServerInfo_wire_def wire_simps is_utf8_ascii)

definition GetChallenge_HEADER :: bytes where
  "GetChallenge_HEADER = [0xff, 0xff, 0xff, 0xff, 85, 0xff, 0xff, 0xff, 0xff]"

definition GetChallenge_decode :: "bytes \<Rightarrow> xerror + unit" where
  "GetChallenge_decode src =
     rbind (qm (Cursor_expect GetChallenge_HEADER (Cursor_new src))) (\<lambda>(_, cur).
     rbind (qm (Cursor_expect_empty cur)) (\<lambda>_. Inr ()))"

definition GetChallenge_encode :: "unit \<Rightarrow> bytes \<Rightarrow> xerror + bytes" where
  "GetChallenge_encode p buf = qm (encode_with (put_bytes GetChallenge_HEADER) buf)"

record get_server_info2 =
  gi2_challenge :: "u32 option"

definition GetServerInfo2_HEADER :: bytes where
  "GetServerInfo2_HEADER = [0xff, 0xff, 0xff, 0xff] @ str ''TSource Engine Query'' @ [0]"

definition GetServerInfo2_decode :: "bytes \<Rightarrow> xerror + get_server_info2" where
  "GetServerInfo2_decode src =
     rbind (qm (Cursor_expect GetServerInfo2_HEADER (Cursor_new src))) (\<lambda>(_, cur).
     rbind (if Cursor_has_remaining cur
            then rbind (qm (Cursor_get_u32_le cur)) (\<lambda>(x, cur). Inr (Some x, cur))
            else Inr (None, cur)) (\<lambda>(challenge, cur).
     rbind (qm (Cursor_expect_empty cur)) (\<lambda>_. Inr \<lparr>gi2_challenge = challenge\<rparr>)))"

definition GetServerInfo2_encode :: "get_server_info2 \<Rightarrow> bytes \<Rightarrow> xerror + bytes" where
  "GetServerInfo2_encode p buf = qm (encode_with (\<lambda>cur.
     rbind (put_bytes GetServerInfo2_HEADER cur) (\<lambda>cur.
     case gi2_challenge p of Some challenge \<Rightarrow> put_u32_le challenge cur | None \<Rightarrow> Inr cur)) buf)"

definition GetServerInfo2_wire :: "get_server_info2 \<Rightarrow> bytes" where
  "GetServerInfo2_wire p =
     GetServerInfo2_HEADER @ (case gi2_challenge p of None \<Rightarrow> [] | Some x \<Rightarrow> to_le 4 x)"

lemma GetServerInfo2_encode_wire:
  "GetServerInfo2_encode p buf =
     (if length (GetServerInfo2_wire p) \<le> length buf then Inr (GetServerInfo2_wire p)
      else Inl (ECursor BufferOverflow))"
  unfolding GetServerInfo2_encode_def
  by (rule qm_encode_writes, (rule writes_intros)+) (simp add: GetServerInfo2_wire_def)

lemma to_le_4_nonempty [simp]: "to_le 4 w \<noteq> []"
  using length_to_le [of 4 w] by (metis list.size(3) zero_neq_numeral)

lemma GetServerInfo2_decode_wire: "GetServerInfo2_decode (GetServerInfo2_wire p) = Inr p"
  by (cases "gi2_challenge p")
     (simp_all add: GetServerInfo2_decode_def GetServerInfo2_wire_def wire_simps)

text \<open>\<^verbatim>\<open>GetPlayers\<close> shares its header with \<^verbatim>\<open>GetChallenge\<close>, whose challenge is \<^verbatim>\<open>u32::MAX\<close>.\<close>

record get_players =
  gp_challenge :: u32

definition GetPlayers_HEADER :: bytes where
  "GetPlayers_HEADER = [0xff, 0xff, 0xff, 0xff, 85]"

definition GetPlayers_new :: "u32 \<Rightarrow> get_players option" where
  "GetPlayers_new challenge = (if challenge \<noteq> - 1 then Some \<lparr>gp_challenge = challenge\<rparr> else None)"

definition GetPlayers_decode :: "bytes \<Rightarrow> xerror + get_players" where
  "GetPlayers_decode src =
     rbind (qm (Cursor_expect GetPlayers_HEADER (Cursor_new src))) (\<lambda>(_, cur).
     rbind (qm (Cursor_get_u32_le cur)) (\<lambda>(challenge, cur).
     if challenge = - 1 then Inl InvalidPacket
     else rbind (qm (Cursor_expect_empty cur)) (\<lambda>_. Inr \<lparr>gp_challenge = challenge\<rparr>)))"

definition GetPlayers_encode :: "get_players \<Rightarrow> bytes \<Rightarrow> xerror + bytes" where
  "GetPlayers_encode p buf = qm (encode_with (\<lambda>cur.
     rbind (put_bytes GetPlayers_HEADER cur) (put_u32_le (gp_challenge p))) buf)"

definition GetPlayers_wire :: "get_players \<Rightarrow> bytes" where
  "GetPlayers_wire p = GetPlayers_HEADER @ to_le 4 (gp_challenge p)"

definition GetPlayers_valid :: "get_players \<Rightarrow> bool" where
  "GetPlayers_valid p \<longleftrightarrow> gp_challenge p \<noteq> - 1"

lemma GetPlayers_encode_wire:
  "GetPlayers_encode p buf =
     (if length (GetPlayers_wire p) \<le> length buf then Inr (GetPlayers_wire p)
      else Inl (ECursor BufferOverflow))"
  unfolding GetPlayers_encode_def
  by (rule qm_encode_writes, (rule writes_intros)+) (simp add: GetPlayers_wire_def)

lemma GetPlayers_decode_wire:
  "GetPlayers_valid p \<Longrightarrow> GetPlayers_decode (GetPlayers_wire p) = Inr p"
  by (simp add: GetPlayers_decode_def GetPlayers_wire_def GetPlayers_valid_def wire_simps)

interpretation get_server_info_req: packet_codec GetServerInfo_wire "\<lambda>_. True" "\<lambda>_. 0" "\<lambda>r. r"
    GetServerInfo_encode GetServerInfo_decode "ECursor BufferOverflow"
  by unfold_locales (simp_all add: GetServerInfo_encode_wire GetServerInfo_decode_wire)

interpretation get_challenge_req: packet_codec "\<lambda>_. GetChallenge_HEADER" "\<lambda>_. True" "\<lambda>_. 0"
    "\<lambda>r. r" GetChallenge_encode GetChallenge_decode "ECursor BufferOverflow"
  by unfold_locales
     (simp_all add: GetChallenge_encode_def encode_with_writes [OF writes_put_bytes]
        GetChallenge_decode_def wire_simps)

interpretation get_server_info2_req: packet_codec GetServerInfo2_wire "\<lambda>_. True" "\<lambda>_. 0"
    "\<lambda>r. r" GetServerInfo2_encode GetServerInfo2_decode "ECursor BufferOverflow"
  by unfold_locales (simp_all add: GetServerInfo2_encode_wire GetServerInfo2_decode_wire)

interpretation get_players_req: packet_codec GetPlayers_wire GetPlayers_valid "\<lambda>_. 0" "\<lambda>r. r"
    GetPlayers_encode GetPlayers_decode "ECursor BufferOverflow"
  by unfold_locales (simp_all add: GetPlayers_encode_wire GetPlayers_decode_wire)

section \<open>Game packets\<close>

datatype game_packet =
    GQueryServers "filter_q query_servers"
  | GGetChallenge
  | GGetServerInfo get_server_info
  | GGetServerInfo2 get_server_info2
  | GGetPlayers get_players

definition GamePacket_decode :: "memchr_ops \<Rightarrow> bytes \<Rightarrow> xerror + game_packet option" where
  "GamePacket_decode mc src =
     (if starts_with QueryServers_HEADER src then
        map_ok Some (map_ok GQueryServers (QueryServers_decode mc (Filter_from_slice mc) src))
      else if starts_with GetChallenge_HEADER src then
        map_ok Some (map_ok (\<lambda>_. GGetChallenge) (GetChallenge_decode src))
      else if starts_with GetServerInfo_HEADER src then
        map_ok Some (map_ok GGetServerInfo (GetServerInfo_decode src))
      else if starts_with GetServerInfo2_HEADER src then
        map_ok Some (map_ok GGetServerInfo2 (GetServerInfo2_decode src))
      else if starts_with GetPlayers_HEADER src then
        map_ok Some (map_ok GGetPlayers (GetPlayers_decode src))
      else Inr None)"

lemmas game_headers = QueryServers_HEADER_def GetChallenge_HEADER_def GetServerInfo_HEADER_def
  GetServerInfo2_HEADER_def GetPlayers_HEADER_def

fun GamePacket_wire :: "game_packet \<Rightarrow> bytes" where
  "GamePacket_wire (GQueryServers p) = QueryServers_wire Filter_display p"
| "GamePacket_wire GGetChallenge = GetChallenge_HEADER"
| "GamePacket_wire (GGetServerInfo p) = GetServerInfo_wire p"
| "GamePacket_wire (GGetServerInfo2 p) = GetServerInfo2_wire p"
| "GamePacket_wire (GGetPlayers p) = GetPlayers_wire p"

fun GamePacket_valid :: "game_packet \<Rightarrow> bool" where
  "GamePacket_valid (GQueryServers p) = (printable (qs_last p) \<and> Filter_printable (qs_filter p))"
| "GamePacket_valid (GGetPlayers p) = GetPlayers_valid p"
| "GamePacket_valid _ = True"

text \<open>Four bytes are all ones exactly when the number is; it is what sets the two headers apart.\<close>

lemma to_le_ones: "to_le 4 w = [0xff, 0xff, 0xff, 0xff] \<Longrightarrow> w = (- 1 :: u32)"
proof -
  assume "to_le 4 w = [0xff, 0xff, 0xff, 0xff]"
  then have "w = from_le [0xff, 0xff, 0xff, 0xff]" using from_to_le_full [of 4 w] by simp
  then show ?thesis by simp
qed

lemma GamePacket_decode_wire:
  assumes "memchr_ok mc" "GamePacket_valid p"
  shows "GamePacket_decode mc (GamePacket_wire p) = Inr (Some p)"
proof (cases p)
  case (GQueryServers x)
  then have "QueryServers_decode mc (Filter_from_slice mc) (QueryServers_wire Filter_display x) = Inr x"
    using assms(2) query_filter.decode_wire [OF QueryServers_filter [OF assms(1)]] by simp
  moreover have "starts_with QueryServers_HEADER (QueryServers_wire Filter_display x)"
    by (simp add: QueryServers_wire_def)
  ultimately show ?thesis using GQueryServers by (simp add: GamePacket_decode_def)
next
  case GGetChallenge
  have "GetChallenge_decode GetChallenge_HEADER = Inr ()"
    by (rule get_challenge_req.decode_wire) simp
  then show ?thesis using GGetChallenge
    by (simp add: GamePacket_decode_def) (simp add: game_headers)
next
  case (GGetServerInfo x)
  then show ?thesis
    by (simp add: GamePacket_decode_def GetServerInfo_decode_wire)
       (simp add: game_headers GetServerInfo_wire_def str_def)
next
  case (GGetServerInfo2 x)
  then show ?thesis
    by (simp add: GamePacket_decode_def GetServerInfo2_decode_wire)
       (simp add: game_headers GetServerInfo2_wire_def str_def)
next
  case (GGetPlayers x)
  obtain a b c d where l: "to_le 4 (gp_challenge x) = [a, b, c, d]"
    using list4 [of "to_le 4 (gp_challenge x)"] by auto
  have "\<not> (a = 0xff \<and> b = 0xff \<and> c = 0xff \<and> d = 0xff)"
    using to_le_ones [of "gp_challenge x"] l assms(2) GGetPlayers by (auto simp: GetPlayers_valid_def)
  with GGetPlayers assms(2) show ?thesis
    by (simp add: GamePacket_decode_def GetPlayers_decode_wire)
       (auto simp: game_headers GetPlayers_wire_def str_def l)
qed

end
