(* ===== verification/Net_Addr.thy ===== *)
theory Net_Addr
  imports Text_Std
begin

text \<open>
  The socket addresses of the Rust standard library, as the packets and the command lines print and
  parse them (\<^verbatim>\<open>core::net\<close>). An \<^verbatim>\<open>Ipv4Addr\<close> is its 32 bits and an \<^verbatim>\<open>Ipv6Addr\<close> its 128 bits; the
  parser functions take the unread bytes and return \<open>None\<close> without consuming anything when they
  fail, as \<^verbatim>\<open>read_atomically\<close> does.
\<close>

type_synonym ipv4 = "32 word"
type_synonym ipv6 = "128 word"

datatype ip_addr = IpV4 ipv4 | IpV6 ipv6

record socket_v4 =
  v4_ip :: ipv4
  v4_port :: u16

record socket_v6 =
  v6_ip :: ipv6
  v6_port :: u16
  v6_flowinfo :: u32
  v6_scope_id :: u32

datatype socket_addr = SockV4 socket_v4 | SockV6 socket_v6

text \<open>\<^verbatim>\<open>SocketAddr::is_ipv4\<close>.\<close>

definition is_ipv4 :: "socket_addr \<Rightarrow> bool" where
  "is_ipv4 a = (case a of SockV4 _ \<Rightarrow> True | SockV6 _ \<Rightarrow> False)"

definition ipv4_octets :: "ipv4 \<Rightarrow> bytes" where
  "ipv4_octets ip = to_be 4 ip"

definition ipv4_of_octets :: "bytes \<Rightarrow> ipv4" where
  "ipv4_of_octets s = from_be s"

definition ipv6_octets :: "ipv6 \<Rightarrow> bytes" where
  "ipv6_octets ip = to_be 16 ip"

definition ipv6_of_octets :: "bytes \<Rightarrow> ipv6" where
  "ipv6_of_octets s = from_be s"

definition ipv6_segments :: "ipv6 \<Rightarrow> u16 list" where
  "ipv6_segments ip = map (\<lambda>i. ucast (drop_bit (16 * (7 - i)) ip)) [0..<8]"

definition ipv6_of_segments :: "u16 list \<Rightarrow> ipv6" where
  "ipv6_of_segments gs = ipv6_of_octets (concat (map (to_be 2) gs))"

lemma octets_roundtrip [simp]:
  "ipv4_of_octets (ipv4_octets ip) = ip" "ipv6_of_octets (ipv6_octets ip6) = ip6"
  "length (ipv4_octets ip) = 4" "length (ipv6_octets ip6) = 16"
  by (simp_all add: ipv4_of_octets_def ipv4_octets_def ipv6_of_octets_def ipv6_octets_def)

section \<open>Printing\<close>

text \<open>\<^verbatim>\<open>[..].join(sep)\<close>.\<close>

fun intersperse_bytes :: "bytes \<Rightarrow> bytes list \<Rightarrow> bytes" where
  "intersperse_bytes sep [] = []"
| "intersperse_bytes sep [x] = x"
| "intersperse_bytes sep (x # y # xs) = x @ sep @ intersperse_bytes sep (y # xs)"

definition ipv4_display :: "ipv4 \<Rightarrow> bytes" where
  "ipv4_display ip = intersperse_bytes [46] (map (\<lambda>b. show_dec (unat b)) (ipv4_octets ip))"

text \<open>The longest run of zero segments, the first of them when there are several.\<close>

fun zero_span :: "nat \<Rightarrow> u16 list \<Rightarrow> nat \<times> nat \<Rightarrow> nat \<times> nat \<Rightarrow> nat \<times> nat" where
  "zero_span i [] longest current = longest"
| "zero_span i (g # gs) longest current =
     (if g = 0 then
        (let current = (if snd current = 0 then i else fst current, snd current + 1);
             longest = (if snd current > snd longest then current else longest)
         in zero_span (i + 1) gs longest current)
      else zero_span (i + 1) gs longest (0, 0))"

definition segments_display :: "u16 list \<Rightarrow> bytes" where
  "segments_display gs = intersperse_bytes [58] (map (\<lambda>g. show_hex (unat g)) gs)"

definition ipv6_display :: "ipv6 \<Rightarrow> bytes" where
  "ipv6_display ip =
     (let gs = ipv6_segments ip in
      if take 5 gs = replicate 5 0 \<and> gs ! 5 = 0xffff
      then str ''::ffff:'' @ ipv4_display (ucast ip)
      else let (start, len) = zero_span 0 gs (0, 0) (0, 0) in
           if 1 < len
           then segments_display (take start gs) @ str ''::'' @ segments_display (drop (start + len) gs)
           else segments_display gs)"

definition ip_display :: "ip_addr \<Rightarrow> bytes" where
  "ip_display ip = (case ip of IpV4 a \<Rightarrow> ipv4_display a | IpV6 a \<Rightarrow> ipv6_display a)"

definition socket_v4_display :: "socket_v4 \<Rightarrow> bytes" where
  "socket_v4_display a = ipv4_display (v4_ip a) @ [58] @ show_dec (unat (v4_port a))"

definition socket_v6_display :: "socket_v6 \<Rightarrow> bytes" where
  "socket_v6_display a =
     [91] @ ipv6_display (v6_ip a) @
     (if v6_scope_id a = 0 then [] else [37] @ show_dec (unat (v6_scope_id a))) @
     [93, 58] @ show_dec (unat (v6_port a))"

definition socket_addr_display :: "socket_addr \<Rightarrow> bytes" where
  "socket_addr_display a =
     (case a of SockV4 x \<Rightarrow> socket_v4_display x | SockV6 x \<Rightarrow> socket_v6_display x)"

section \<open>Parsing\<close>

type_synonym 'a parser = "bytes \<Rightarrow> ('a \<times> bytes) option"

definition read_given_char :: "byte \<Rightarrow> unit parser" where
  "read_given_char c s = (case s of b # t \<Rightarrow> if b = c then Some ((), t) else None | [] \<Rightarrow> None)"

definition read_separator :: "byte \<Rightarrow> nat \<Rightarrow> 'a parser \<Rightarrow> 'a parser" where
  "read_separator sep i inner s =
     (if 0 < i then (case read_given_char sep s of None \<Rightarrow> None | Some (_, t) \<Rightarrow> inner t)
      else inner s)"

text \<open>
  The digit loop of \<^verbatim>\<open>read_number\<close>: with a digit limit it fails on one digit more, without one on
  a value above the largest of its type.
\<close>

fun read_digits ::
  "nat \<Rightarrow> nat option \<Rightarrow> nat \<Rightarrow> nat \<Rightarrow> nat \<Rightarrow> bytes \<Rightarrow> (nat \<times> nat \<times> bytes) option" where
  "read_digits radix max_digits largest n count [] = Some (n, count, [])"
| "read_digits radix max_digits largest n count (b # s) =
     (case to_digit radix b of
        None \<Rightarrow> Some (n, count, b # s)
      | Some d \<Rightarrow>
          (case max_digits of
             Some m \<Rightarrow>
               if m < count + 1 then None
               else read_digits radix max_digits largest (n * radix + d) (count + 1) s
           | None \<Rightarrow>
               if n * radix \<le> largest \<and> n * radix + d \<le> largest
               then read_digits radix max_digits largest (n * radix + d) (count + 1) s
               else None))"

definition read_number :: "nat \<Rightarrow> nat option \<Rightarrow> bool \<Rightarrow> nat \<Rightarrow> nat parser" where
  "read_number radix max_digits allow_zero_prefix largest s =
     (case read_digits radix max_digits largest 0 0 s of
        None \<Rightarrow> None
      | Some (n, count, t) \<Rightarrow>
          if count = 0 then None
          else if \<not> allow_zero_prefix \<and> take 1 s = [48] \<and> 1 < count then None
          else if n \<le> largest then Some (n, t) else None)"

fun read_octets :: "nat \<Rightarrow> nat \<Rightarrow> bytes parser" where
  "read_octets i 0 s = Some ([], s)"
| "read_octets i (Suc k) s =
     (case read_separator 46 i (read_number 10 (Some 3) False 255) s of
        None \<Rightarrow> None
      | Some (n, t) \<Rightarrow>
          (case read_octets (i + 1) k t of
             None \<Rightarrow> None
           | Some (bs, u) \<Rightarrow> Some (of_nat n # bs, u)))"

definition read_ipv4_addr :: "ipv4 parser" where
  "read_ipv4_addr s = map_option (\<lambda>(bs, t). (ipv4_of_octets bs, t)) (read_octets 0 4 s)"

text \<open>\<^verbatim>\<open>read_groups\<close> over a slice of \<open>limit\<close> groups, from group \<open>i\<close>: the groups read, whether an
  IPv4 tail ended them, and the unread bytes.\<close>

fun read_groups :: "nat \<Rightarrow> nat \<Rightarrow> nat \<Rightarrow> bytes \<Rightarrow> u16 list \<times> bool \<times> bytes" where
  "read_groups limit i 0 s = ([], False, s)"
| "read_groups limit i (Suc k) s =
     (case (if i < limit - 1 then read_separator 58 i read_ipv4_addr s else None) of
        Some (ip, t) \<Rightarrow>
          (let o4 = ipv4_octets ip in
           ([from_be (take 2 o4), from_be (drop 2 o4)], True, t))
      | None \<Rightarrow>
          (case read_separator 58 i (read_number 16 (Some 4) True 65535) s of
             None \<Rightarrow> ([], False, s)
           | Some (g, t) \<Rightarrow>
               (let (gs, v4, u) = read_groups limit (i + 1) k t in (of_nat g # gs, v4, u))))"

definition read_ipv6_addr :: "ipv6 parser" where
  "read_ipv6_addr s =
     (let (head, head_v4, t) = read_groups 8 0 8 s in
      if length head = 8 then Some (ipv6_of_segments head, t)
      else if head_v4 then None
      else case read_given_char 58 t of
        None \<Rightarrow> None
      | Some (_, t) \<Rightarrow>
      (case read_given_char 58 t of
         None \<Rightarrow> None
       | Some (_, t) \<Rightarrow>
           (let limit = 8 - (length head + 1);
                (tail, _, u) = read_groups limit 0 limit t
            in Some (ipv6_of_segments
                 (head @ replicate (8 - length head - length tail) 0 @ tail), u))))"

definition read_port :: "nat parser" where
  "read_port s =
     (case read_given_char 58 s of None \<Rightarrow> None | Some (_, t) \<Rightarrow> read_number 10 None True 65535 t)"

definition read_scope_id :: "nat parser" where
  "read_scope_id s =
     (case read_given_char 37 s of None \<Rightarrow> None
      | Some (_, t) \<Rightarrow> read_number 10 None True (2 ^ 32 - 1) t)"

definition read_socket_addr_v4 :: "socket_v4 parser" where
  "read_socket_addr_v4 s =
     (case read_ipv4_addr s of
        None \<Rightarrow> None
      | Some (ip, t) \<Rightarrow>
          (case read_port t of
             None \<Rightarrow> None
           | Some (port, u) \<Rightarrow> Some (\<lparr>v4_ip = ip, v4_port = of_nat port\<rparr>, u)))"

definition read_socket_addr_v6 :: "socket_v6 parser" where
  "read_socket_addr_v6 s =
     (case read_given_char 91 s of None \<Rightarrow> None | Some (_, s) \<Rightarrow>
     (case read_ipv6_addr s of None \<Rightarrow> None | Some (ip, s) \<Rightarrow>
     (let (scope, s) = (case read_scope_id s of Some (n, t) \<Rightarrow> (n, t) | None \<Rightarrow> (0, s)) in
     (case read_given_char 93 s of None \<Rightarrow> None | Some (_, s) \<Rightarrow>
     (case read_port s of None \<Rightarrow> None | Some (port, s) \<Rightarrow>
        Some (\<lparr>v6_ip = ip, v6_port = of_nat port, v6_flowinfo = 0, v6_scope_id = of_nat scope\<rparr>, s))))))"

definition read_ip_addr :: "ip_addr parser" where
  "read_ip_addr s =
     (case read_ipv4_addr s of
        Some (ip, t) \<Rightarrow> Some (IpV4 ip, t)
      | None \<Rightarrow> map_option (\<lambda>(ip, t). (IpV6 ip, t)) (read_ipv6_addr s))"

definition read_socket_addr :: "socket_addr parser" where
  "read_socket_addr s =
     (case read_socket_addr_v4 s of
        Some (a, t) \<Rightarrow> Some (SockV4 a, t)
      | None \<Rightarrow> map_option (\<lambda>(a, t). (SockV6 a, t)) (read_socket_addr_v6 s))"

definition parse_with :: "'a parser \<Rightarrow> bytes \<Rightarrow> 'a option" where
  "parse_with p s = (case p s of Some (x, []) \<Rightarrow> Some x | _ \<Rightarrow> None)"

definition socket_addr_from_str :: "bytes \<Rightarrow> socket_addr option" where
  "socket_addr_from_str s = parse_with read_socket_addr s"

definition socket_v4_from_str :: "bytes \<Rightarrow> socket_v4 option" where
  "socket_v4_from_str s = parse_with read_socket_addr_v4 s"

text \<open>\<^verbatim>\<open>Ipv4Addr::from_str\<close> refuses more than fifteen bytes before it parses.\<close>

definition ipv4_from_str :: "bytes \<Rightarrow> ipv4 option" where
  "ipv4_from_str s = (if 15 < length s then None else parse_with read_ipv4_addr s)"

definition ipv6_from_str :: "bytes \<Rightarrow> ipv6 option" where
  "ipv6_from_str s = parse_with read_ipv6_addr s"

definition ip_addr_from_str :: "bytes \<Rightarrow> ip_addr option" where
  "ip_addr_from_str s = parse_with read_ip_addr s"

section \<open>Round trip of IPv4 addresses\<close>

definition no_digit :: "nat \<Rightarrow> bytes \<Rightarrow> bool" where
  "no_digit r s \<longleftrightarrow> (case s of [] \<Rightarrow> True | b # _ \<Rightarrow> to_digit r b = None)"

lemma read_digits_stop: "no_digit r s \<Longrightarrow> read_digits r mx lg n c s = Some (n, c, s)"
  by (cases s) (simp_all add: no_digit_def)

lemma read_digits_limited:
  "parse_digits r m n ds = Some v \<Longrightarrow> c + length ds \<le> k \<Longrightarrow> no_digit r s \<Longrightarrow>
     read_digits r (Some k) lg n c (ds @ s) = Some (v, c + length ds, s)"
  by (induction ds arbitrary: n c) (auto simp: read_digits_stop split: option.splits if_splits)

lemma read_digits_bounded:
  "parse_digits r m n ds = Some v \<Longrightarrow> no_digit r s \<Longrightarrow>
     read_digits r None m n c (ds @ s) = Some (v, c + length ds, s)"
  by (induction ds arbitrary: n c) (auto simp: read_digits_stop split: option.splits if_splits)

lemma length_digits: "2 \<le> r \<Longrightarrow> n < r ^ Suc k \<Longrightarrow> length (digits r n) \<le> Suc k"
proof (induction r n arbitrary: k rule: digits.induct)
  case (1 r n)
  show ?case
  proof (cases "n < r")
    case True
    then show ?thesis by (simp add: digits.simps [of r n])
  next
    case False
    then obtain k' where k: "k = Suc k'" using "1.prems" by (cases k) auto
    have "n div r < r ^ Suc k'"
      using "1.prems" k by (simp add: div_less_iff_less_mult mult.commute)
    with False 1 k show ?thesis by (simp add: digits.simps [of r n])
  qed
qed

lemma hd_digits: "2 \<le> r \<Longrightarrow> r \<le> 16 \<Longrightarrow> 0 < n \<Longrightarrow> hd (digits r n) \<noteq> 48"
proof (induction r n rule: digits.induct)
  case (1 r n)
  show ?case
  proof (cases "n < r")
    case True
    with 1 have "n < 16" "0 < n" by auto
    with less_16_cases [of n] have "digit_char n \<noteq> 48" by (auto simp: digit_char_def)
    with True show ?thesis by (simp add: digits.simps [of r n])
  next
    case False
    with 1 have "0 < n div r" by (simp add: div_greater_zero_iff)
    with False 1 have "hd (digits r (n div r)) \<noteq> 48" by simp
    with False 1 show ?thesis by (simp add: digits.simps [of r n])
  qed
qed

lemma read_octet:
  assumes "n < 256" "no_digit 10 s"
  shows "read_number 10 (Some 3) False 255 (show_dec n @ s) = Some (n, s)"
proof -
  have len: "length (digits 10 n) \<le> 3" using length_digits [of 10 n 2] assms(1) by simp
  have run: "read_digits 10 (Some 3) 255 0 0 (digits 10 n @ s) = Some (n, length (digits 10 n), s)"
    using read_digits_limited [of 10 255 0 "digits 10 n" n 0 3 s 255] len assms
    by (simp add: parse_digits_digits)
  have lead: "\<not> (take 1 (digits 10 n @ s) = [48] \<and> 1 < length (digits 10 n))"
  proof (cases "n = 0")
    case True
    then show ?thesis by (simp add: digits.simps)
  next
    case False
    then have "hd (digits 10 n) \<noteq> 48" by (intro hd_digits) auto
    then show ?thesis by (cases "digits 10 n") auto
  qed
  then show ?thesis
    using assms(1) lead by (simp add: read_number_def show_dec_def run)
qed

lemma read_port_show:
  assumes "n < 65536" "no_digit 10 s"
  shows "read_port (58 # show_dec n @ s) = Some (n, s)"
proof -
  have "read_digits 10 None 65535 0 0 (digits 10 n @ s) = Some (n, 0 + length (digits 10 n), s)"
    using assms by (intro read_digits_bounded parse_digits_digits) auto
  then show ?thesis
    using assms(1) by (auto simp: read_port_def read_given_char_def read_number_def show_dec_def)
qed

lemma no_digit_sep [simp]: "no_digit 10 []" "no_digit 10 (46 # s)" "no_digit 10 (58 # s)"
  by (simp_all add: no_digit_def to_digit_def)

lemma read_ipv4_display:
  assumes "no_digit 10 s"
  shows "read_ipv4_addr (ipv4_display ip @ s) = Some (ip, s)"
proof -
  have "length (ipv4_octets ip) = 4" by (simp add: ipv4_octets_def)
  from list4 [OF this] obtain a b c d where o4: "ipv4_octets ip = [a, b, c, d]" by blast
  have lt: "unat x < 256" for x :: byte using unsigned_less [of x] by simp
  have bk: "ipv4_of_octets [a, b, c, d] = ip"
    using from_to_be_full [of 4 ip] by (simp add: ipv4_of_octets_def ipv4_octets_def flip: o4)
  have sep: "read_separator 46 i (read_number 10 (Some 3) False 255) (46 # show_dec (unat x) @ t) =
      Some (unat x, t)" if "0 < i" "no_digit 10 t" for i t and x :: byte
    using that by (simp add: read_separator_def read_given_char_def read_octet [OF lt])
  have first: "read_separator 46 0 (read_number 10 (Some 3) False 255) (show_dec (unat x) @ t) =
      Some (unat x, t)" if "no_digit 10 t" for t and x :: byte
    using that by (simp add: read_separator_def read_octet [OF lt])
  have "(4::nat) = Suc (Suc (Suc (Suc 0)))" by simp
  then have four: "read_octets 0 4 t = read_octets 0 (Suc (Suc (Suc (Suc 0)))) t" for t
    by (simp only:)
  show ?thesis using assms
    by (simp add: read_ipv4_addr_def ipv4_display_def o4 four sep first bk)
qed

lemma socket_v4_roundtrip: "socket_v4_from_str (socket_v4_display a) = Some a"
proof -
  have "unat (v4_port a) < 65536" using unsigned_less [of "v4_port a"] by simp
  then show ?thesis
    using read_port_show [of "unat (v4_port a)" "[]"]
    by (simp add: socket_v4_from_str_def parse_with_def socket_v4_display_def
          read_socket_addr_v4_def read_ipv4_display)
qed

lemma socket_addr_v4_roundtrip:
  "socket_addr_from_str (socket_addr_display (SockV4 a)) = Some (SockV4 a)"
  using socket_v4_roundtrip [of a]
  by (simp add: socket_addr_from_str_def socket_v4_from_str_def socket_addr_display_def
        parse_with_def read_socket_addr_def split: option.splits prod.splits list.splits)

lemma intersperse_ascii:
  "is_ascii sep \<Longrightarrow> \<forall>x \<in> set xs. is_ascii x \<Longrightarrow> is_ascii (intersperse_bytes sep xs)"
  by (induction sep xs rule: intersperse_bytes.induct) simp_all

lemma ipv4_display_ascii [simp]: "is_ascii (ipv4_display ip)"
  by (simp add: ipv4_display_def intersperse_ascii)

lemma socket_v4_display_ascii [simp]: "is_ascii (socket_v4_display a)"
  by (simp add: socket_v4_display_def)

section \<open>Lengths\<close>

text \<open>No socket address prints to more than 58 bytes: brackets, 39 bytes of address, a scope and a port.\<close>

lemma length_show_dec: "n < 10 ^ Suc k \<Longrightarrow> length (show_dec n) \<le> Suc k"
  using length_digits [of 10 n k] by (simp add: show_dec_def)

lemma length_show_word:
  "length (show_dec (unat (a :: u8))) \<le> 3" "length (show_dec (unat (b :: u16))) \<le> 5"
  "length (show_dec (unat (c :: u32))) \<le> 10" "length (show_hex (unat (b :: u16))) \<le> 4"
proof -
  have "unat a < 256" "unat b < 65536" "unat c < 4294967296"
    using unsigned_less [of a] unsigned_less [of b] unsigned_less [of c] by simp_all
  then show "length (show_dec (unat a)) \<le> 3" "length (show_dec (unat b)) \<le> 5"
    "length (show_dec (unat c)) \<le> 10" "length (show_hex (unat b)) \<le> 4"
    using length_show_dec [of "unat a" 2] length_show_dec [of "unat b" 4] length_show_dec [of "unat c" 9]
      length_digits [of 16 "unat b" 3] by (simp_all add: show_hex_def)
qed

lemma length_intersperse:
  "\<forall>x \<in> set xs. length x \<le> k \<Longrightarrow> length (intersperse_bytes [c] xs) \<le> Suc k * length xs - 1"
  by (induction "[c]" xs rule: intersperse_bytes.induct) auto

lemma length_ipv4_display: "length (ipv4_display ip) \<le> 15"
  using length_intersperse [of "map (\<lambda>b. show_dec (unat b)) (ipv4_octets ip)" 3 46]
  by (simp add: ipv4_display_def length_show_word)

lemma length_segments: "length (segments_display gs) \<le> 5 * length gs - 1"
  using length_intersperse [of "map (\<lambda>g. show_hex (unat g)) gs" 4 58]
  by (simp add: segments_display_def length_show_word)

lemma zero_span_end:
  "fst longest + snd longest \<le> i \<Longrightarrow> snd current \<noteq> 0 \<longrightarrow> fst current + snd current \<le> i \<Longrightarrow>
     fst (zero_span i gs longest current) + snd (zero_span i gs longest current) \<le> i + length gs"
proof (induction i gs longest current rule: zero_span.induct)
  case (2 i g gs longest current)
  show ?case
    by (rule order_trans [rotated, of "(i + 1) + length gs"], simp)
       (use 2 in \<open>auto simp: Let_def\<close>)
qed simp

lemma length_ipv6_display: "length (ipv6_display ip) \<le> 39"
proof -
  let ?gs = "ipv6_segments ip"
  obtain i n where z: "zero_span 0 ?gs (0, 0) (0, 0) = (i, n)" by fastforce
  have len: "length ?gs = 8" by (simp add: ipv6_segments_def)
  have le: "i + n \<le> 8" using zero_span_end [of "(0, 0)" 0 "(0, 0)" ?gs] z len by simp
  have "length (segments_display (take i ?gs)) \<le> 5 * i - 1"
    "length (segments_display (drop (i + n) ?gs)) \<le> 5 * (8 - (i + n)) - 1"
    using length_segments [of "take i ?gs"] length_segments [of "drop (i + n) ?gs"] le len by simp_all
  then have "length (segments_display (take i ?gs) @ str ''::'' @ segments_display (drop (i + n) ?gs)) \<le> 39"
    if "1 < n" using that le by (simp add: str_def)
  moreover have "length (segments_display ?gs) \<le> 39" using length_segments [of ?gs] len by simp
  moreover have "length (str ''::ffff:'' @ ipv4_display (ucast ip)) \<le> 39"
    using length_ipv4_display [of "ucast ip"] by (simp add: str_def)
  ultimately show ?thesis unfolding ipv6_display_def by (simp only: Let_def z prod.case split: if_split) auto
qed

lemma length_socket_addr_display: "length (socket_addr_display a) \<le> 58"
proof (cases a)
  case (SockV4 x)
  show ?thesis
    using length_ipv4_display [of "v4_ip x"] length_show_word(2) [of "v4_port x"]
    by (simp add: SockV4 socket_addr_display_def socket_v4_display_def)
next
  case (SockV6 x)
  show ?thesis
    using length_ipv6_display [of "v6_ip x"] length_show_word(2) [of "v6_port x"]
      length_show_word(3) [of "v6_scope_id x"]
    by (simp add: SockV6 socket_addr_display_def socket_v6_display_def)
qed

end
