(* ===== verification/Master_Packets.thy ===== *)
theory Master_Packets
  imports Server_Types Net_Addr
begin

text \<open>
  The packets the master server sends (\<^verbatim>\<open>net/master.rs\<close>). The \<^verbatim>\<open>ServerAddress\<close> trait is the
  record \<open>server_address\<close> of its three functions, with the two instances of the code, and the locale
  \<open>address_codec\<close> is what the address list relies on.
\<close>

section \<open>ChallengeResponse\<close>

record challenge_response =
  cr_master_challenge :: u32
  cr_server_challenge :: "u32 option"

definition ChallengeResponse_HEADER :: bytes where
  "ChallengeResponse_HEADER = [0xff, 0xff, 0xff, 0xff, 115, 10]"

definition ChallengeResponse_decode :: "bytes \<Rightarrow> xerror + challenge_response" where
  "ChallengeResponse_decode src =
     rbind (qm (Cursor_expect ChallengeResponse_HEADER (Cursor_new src))) (\<lambda>(_, cur).
     rbind (qm (Cursor_get_u32_le cur)) (\<lambda>(master_challenge, cur).
     rbind (if Cursor_remaining cur = 4
            then rbind (qm (Cursor_get_u32_le cur)) (\<lambda>(x, cur). Inr (Some x, cur))
            else Inr (None, cur)) (\<lambda>(server_challenge, cur).
     rbind (qm (Cursor_expect_empty cur)) (\<lambda>_.
     Inr \<lparr>cr_master_challenge = master_challenge, cr_server_challenge = server_challenge\<rparr>))))"

definition ChallengeResponse_encode :: "challenge_response \<Rightarrow> bytes \<Rightarrow> xerror + bytes" where
  "ChallengeResponse_encode p buf = qm (encode_with (\<lambda>cur.
     rbind (put_bytes ChallengeResponse_HEADER cur) (\<lambda>cur.
     rbind (put_u32_le (cr_master_challenge p) cur) (\<lambda>cur.
     case cr_server_challenge p of
       Some server_challenge \<Rightarrow> put_u32_le server_challenge cur
     | None \<Rightarrow> Inr cur))) buf)"

definition ChallengeResponse_wire :: "challenge_response \<Rightarrow> bytes" where
  "ChallengeResponse_wire p =
     ChallengeResponse_HEADER @ to_le 4 (cr_master_challenge p) @
     (case cr_server_challenge p of None \<Rightarrow> [] | Some x \<Rightarrow> to_le 4 x)"

lemma ChallengeResponse_encode_wire:
  "ChallengeResponse_encode p buf =
     (if length (ChallengeResponse_wire p) \<le> length buf then Inr (ChallengeResponse_wire p)
      else Inl (ECursor BufferOverflow))"
  unfolding ChallengeResponse_encode_def
  by (rule qm_encode_writes, (rule writes_intros)+) (simp add: ChallengeResponse_wire_def)

lemma ChallengeResponse_decode_wire: "ChallengeResponse_decode (ChallengeResponse_wire p) = Inr p"
  by (cases "cr_server_challenge p")
     (simp_all add: ChallengeResponse_decode_def ChallengeResponse_wire_def wire_simps)

interpretation challenge_response_codec: packet_codec ChallengeResponse_wire "\<lambda>_. True" "\<lambda>_. 0"
    "\<lambda>r. r" ChallengeResponse_encode ChallengeResponse_decode "ECursor BufferOverflow"
  by unfold_locales (simp_all add: ChallengeResponse_encode_wire ChallengeResponse_decode_wire)

section \<open>Server addresses\<close>

record 'a server_address =
  sad_size :: nat
  sad_get :: "cursor \<Rightarrow> xerror + 'a \<times> cursor"
  sad_put :: "'a \<Rightarrow> cursor_mut \<Rightarrow> wres"

definition SocketAddrV4_get :: "cursor \<Rightarrow> xerror + socket_v4 \<times> cursor" where
  "SocketAddrV4_get cur =
     rbind (qm (Cursor_get_array 4 cur)) (\<lambda>(ip, cur).
     rbind (qm (Cursor_get_u16_be cur)) (\<lambda>(port, cur).
     Inr (\<lparr>v4_ip = ipv4_of_octets ip, v4_port = port\<rparr>, cur)))"

definition SocketAddrV4_put :: "socket_v4 \<Rightarrow> cursor_mut \<Rightarrow> wres" where
  "SocketAddrV4_put a cur =
     rbind (put_array (ipv4_octets (v4_ip a)) cur) (put_u16_be (v4_port a))"

definition SocketAddrV6_get :: "cursor \<Rightarrow> xerror + socket_v6 \<times> cursor" where
  "SocketAddrV6_get cur =
     rbind (qm (Cursor_get_array 16 cur)) (\<lambda>(ip, cur).
     rbind (qm (Cursor_get_u16_be cur)) (\<lambda>(port, cur).
     Inr (\<lparr>v6_ip = ipv6_of_octets ip, v6_port = port, v6_flowinfo = 0, v6_scope_id = 0\<rparr>, cur)))"

definition SocketAddrV6_put :: "socket_v6 \<Rightarrow> cursor_mut \<Rightarrow> wres" where
  "SocketAddrV6_put a cur =
     rbind (put_array (ipv6_octets (v6_ip a)) cur) (put_u16_be (v6_port a))"

definition SocketAddrV4 :: "socket_v4 server_address" where
  "SocketAddrV4 = \<lparr>sad_size = 6, sad_get = SocketAddrV4_get, sad_put = SocketAddrV4_put\<rparr>"

definition SocketAddrV6 :: "socket_v6 server_address" where
  "SocketAddrV6 = \<lparr>sad_size = 18, sad_get = SocketAddrV6_get, sad_put = SocketAddrV6_put\<rparr>"

section \<open>QueryServersResponse\<close>

record query_servers_response =
  qsr_inner :: bytes
  qsr_key :: "u32 option"

definition QueryServersResponse_HEADER :: bytes where
  "QueryServersResponse_HEADER = [0xff, 0xff, 0xff, 0xff, 102, 10]"

definition QueryServersResponse_new :: "u32 option \<Rightarrow> query_servers_response" where
  "QueryServersResponse_new key = \<lparr>qsr_inner = [], qsr_key = key\<rparr>"

definition QueryServersResponse_decode :: "bytes \<Rightarrow> xerror + query_servers_response" where
  "QueryServersResponse_decode src =
     rbind (qm (Cursor_expect QueryServersResponse_HEADER (Cursor_new src))) (\<lambda>(_, cur).
     let s = Cursor_end cur;
         (inner, key) =
           (if 6 \<le> length s \<and> s ! 0 = 0x7f \<and> s ! 5 = 8
            then (drop 6 s, Some (from_le [s ! 1, s ! 2, s ! 3, s ! 4]))
            else (s, None))
     in Inr \<lparr>qsr_inner = inner, qsr_key = key\<rparr>)"

definition QueryServersResponse_is_empty :: "query_servers_response \<Rightarrow> bool" where
  "QueryServersResponse_is_empty r \<longleftrightarrow> qsr_inner r = []"

definition QueryServersResponseIter_next ::
  "'a server_address \<Rightarrow> cursor \<Rightarrow> ('a \<times> cursor) option" where
  "QueryServersResponseIter_next D cur =
     (if Cursor_remaining cur = sad_size D \<and> ends_with [0, 0] (Cursor_end cur) then None
      else case sad_get D cur of Inr (a, cur) \<Rightarrow> Some (a, cur) | Inl _ \<Rightarrow> None)"

text \<open>
  The items of the iterator, in \<open>n\<close> calls at most. Every item takes at least one byte, so the
  bytes of the list are enough calls (\<open>QueryServersResponse_iter\<close>).
\<close>

fun iter_items :: "'a server_address \<Rightarrow> nat \<Rightarrow> cursor \<Rightarrow> 'a list" where
  "iter_items D 0 cur = []"
| "iter_items D (Suc n) cur =
     (case QueryServersResponseIter_next D cur of
        None \<Rightarrow> []
      | Some (a, cur) \<Rightarrow> a # iter_items D n cur)"

definition QueryServersResponse_iter :: "'a server_address \<Rightarrow> query_servers_response \<Rightarrow> 'a list" where
  "QueryServersResponse_iter D r =
     iter_items D (Suc (length (qsr_inner r))) (Cursor_new (qsr_inner r))"

text \<open>The loop of the encoder returns how many addresses it wrote.\<close>

fun put_addresses ::
  "'a server_address \<Rightarrow> 'a list \<Rightarrow> nat \<Rightarrow> cursor_mut \<Rightarrow> cursor_error + nat \<times> cursor_mut" where
  "put_addresses D [] count cur = Inr (count, cur)"
| "put_addresses D (a # xs) count cur =
     (if CursorMut_available cur < sad_size D * 2 then Inr (count, cur)
      else rbind (sad_put D a cur) (put_addresses D xs (count + 1)))"

definition QueryServersResponse_put_key :: "u32 option \<Rightarrow> cursor_mut \<Rightarrow> wres" where
  "QueryServersResponse_put_key key cur =
     (case key of
        Some key \<Rightarrow>
          rbind (put_u8 0x7f cur) (\<lambda>cur. rbind (put_u32_le key cur) (\<lambda>cur. put_u8 8 cur))
      | None \<Rightarrow> Inr cur)"

definition QueryServersResponse_encode ::
  "'a server_address \<Rightarrow> query_servers_response \<Rightarrow> bytes \<Rightarrow> 'a list \<Rightarrow> xerror + bytes \<times> nat" where
  "QueryServersResponse_encode D p buf xs = qm (
     rbind (put_bytes QueryServersResponse_HEADER (CursorMut_new buf)) (\<lambda>cur.
     rbind (QueryServersResponse_put_key (qsr_key p) cur) (\<lambda>cur.
     rbind (put_addresses D xs 0 cur) (\<lambda>(count, cur).
     rbind (put_bytes (take (sad_size D) (replicate 18 0)) cur) (\<lambda>cur.
     Inr (take (CursorMut_pos cur) (mbuffer cur), count))))))"

definition QueryServersResponse_prefix :: "u32 option \<Rightarrow> bytes" where
  "QueryServersResponse_prefix key =
     QueryServersResponse_HEADER @ (case key of None \<Rightarrow> [] | Some k \<Rightarrow> [0x7f] @ to_le 4 k @ [8])"

text \<open>How many of \<open>n\<close> addresses of size \<open>sz\<close> fit in \<open>room\<close> bytes besides the end marker.\<close>

definition addresses_fit :: "nat \<Rightarrow> nat \<Rightarrow> nat \<Rightarrow> nat" where
  "addresses_fit sz room n = Orderings.min n (room div sz - 1)"

text \<open>A list that starts like a key header; only a list without a key can be mistaken for one.\<close>

definition looks_like_key :: "bytes \<Rightarrow> bool" where
  "looks_like_key s \<longleftrightarrow> 6 \<le> length s \<and> s ! 0 = 0x7f \<and> s ! 5 = 8"

text \<open>The contract of an address type: its fixed size and its encoding.\<close>

locale address_codec =
  fixes D :: "'a server_address"
    and wire :: "'a \<Rightarrow> bytes"
    and valid :: "'a \<Rightarrow> bool"
  assumes size_pos: "2 \<le> sad_size D"
    and size_le: "sad_size D \<le> 18"
    and length_wire: "length (wire a) = sad_size D"
    and put_writes: "writes (sad_put D a) (wire a)"
    and get_wire: "valid a \<Longrightarrow> sad_get D (at pre (wire a @ s)) = Inr (a, at (pre @ wire a) s)"
begin

lemma length_wires: "length (concat (map wire xs)) = sad_size D * length xs"
  by (induction xs) (simp_all add: length_wire)

lemma put_addresses_wcur:
  "put_addresses D xs c (wcur w free off) =
     (let n = addresses_fit (sad_size D) (length free) (length xs);
          s = concat (map wire (take n xs))
      in Inr (c + n, wcur (w @ s) (drop (length s) free) off))"
proof (induction xs arbitrary: c w free)
  case Nil
  then show ?case by (simp add: addresses_fit_def)
next
  case (Cons a xs)
  let ?k = "sad_size D"
  have k: "0 < ?k" using size_pos by simp
  show ?case
  proof (cases "length free < ?k * 2")
    case True
    then have "length free div ?k - 1 = 0"
      using k by (simp add: div_less_iff_less_mult less_Suc_eq_le [symmetric] mult.commute)
    with True show ?thesis by (simp add: addresses_fit_def)
  next
    case False
    then have le: "?k \<le> length free" by simp
    have d: "length free div ?k = Suc ((length free - ?k) div ?k)"
      using le k by (simp add: le_div_geq)
    have "1 \<le> (length free - ?k) div ?k" using False k
      by (simp add: Suc_le_eq div_greater_zero_iff)
    then have fit: "addresses_fit ?k (length free) (Suc (length xs)) =
        Suc (addresses_fit ?k (length free - ?k) (length xs))"
      unfolding addresses_fit_def d by (simp add: min_def) linarith
    show ?thesis
      using False le by (simp add: writesD [OF put_writes] length_wire Cons.IH fit Let_def
            add.commute)
  qed
qed

lemma put_key_writes:
  "writes (QueryServersResponse_put_key key)
     (case key of None \<Rightarrow> [] | Some k \<Rightarrow> [0x7f] @ to_le 4 k @ [8])"
proof (cases key)
  case None
  then show ?thesis by (simp add: QueryServersResponse_put_key_def [abs_def] writes_nothing)
next
  case (Some k)
  have "writes (\<lambda>cur. rbind (put_u8 0x7f cur) (\<lambda>cur. rbind (put_u32_le k cur) (\<lambda>cur. put_u8 8 cur)))
      ([0x7f] @ to_le 4 k @ [8])"
    by (intro writes_rbind writes_prims)
  with Some show ?thesis by (simp add: QueryServersResponse_put_key_def [abs_def])
qed

text \<open>
  The encoder writes the header, as many addresses as fit and always the end marker; it fails only
  when not even the marker fits.
\<close>

lemma encode_spec:
  "QueryServersResponse_encode D p buf xs =
     (let pre = QueryServersResponse_prefix (qsr_key p);
          n = addresses_fit (sad_size D) (length buf - length pre) (length xs)
      in if length pre + sad_size D \<le> length buf
         then Inr (pre @ concat (map wire (take n xs)) @ replicate (sad_size D) 0, n)
         else Inl (ECursor BufferOverflow))"
proof -
  let ?k = "sad_size D"
  let ?pre = "QueryServersResponse_prefix (qsr_key p)"
  have m: "take ?k (replicate 18 0) = (replicate ?k 0 :: bytes)" using size_le by (simp add: min_def)
  have pre: "rbind (put_bytes QueryServersResponse_HEADER (CursorMut_new buf)) (\<lambda>cur.
     QueryServersResponse_put_key (qsr_key p) cur) =
     (if length ?pre \<le> length buf then Inr (wcur ?pre (drop (length ?pre) buf) 0)
      else Inl BufferOverflow)"
    using writesD [OF writes_rbind [OF writes_put_bytes [of QueryServersResponse_HEADER]
        put_key_writes [of "qsr_key p"]], of "[]" buf 0]
    by (simp add: CursorMut_new_wcur QueryServersResponse_prefix_def)
  have enc: "QueryServersResponse_encode D p buf xs = qm (
     rbind (rbind (put_bytes QueryServersResponse_HEADER (CursorMut_new buf)) (\<lambda>cur.
     QueryServersResponse_put_key (qsr_key p) cur)) (\<lambda>cur.
     rbind (put_addresses D xs 0 cur) (\<lambda>(count, cur).
     rbind (put_bytes (replicate ?k 0) cur) (\<lambda>cur.
     Inr (take (CursorMut_pos cur) (mbuffer cur), count)))))"
    unfolding QueryServersResponse_encode_def rbind_assoc m ..
  have fit: "?k * addresses_fit ?k room n + ?k \<le> room" if "?k \<le> room" for room n
  proof -
    have "addresses_fit ?k room n \<le> room div ?k - 1" by (simp add: addresses_fit_def)
    moreover have "1 \<le> room div ?k" using that size_pos by (simp add: Suc_le_eq div_greater_zero_iff)
    ultimately have "?k * (addresses_fit ?k room n + 1) \<le> ?k * (room div ?k)" by (intro mult_le_mono2) linarith
    also have "\<dots> \<le> room" by simp
    finally show ?thesis by simp
  qed
  have none: "addresses_fit ?k room n = 0" if "room < ?k" for room n
    using that by (simp add: addresses_fit_def)
  show ?thesis
  proof (cases "length ?pre \<le> length buf")
    case False
    then show ?thesis by (simp add: enc pre Let_def)
  next
    case True
    let ?room = "length buf - length ?pre"
    let ?n = "addresses_fit ?k ?room (length xs)"
    have len: "length (concat (map wire (take ?n xs))) = ?k * ?n"
      by (simp add: length_wires addresses_fit_def min_def)
    show ?thesis
    proof (cases "?k \<le> ?room")
      case ok: True
      then have "length ?pre + ?k \<le> length buf" using True by linarith
      then show ?thesis using True ok fit [OF ok, of "length xs"] len
        by (simp add: enc pre put_addresses_wcur Let_def writesD [OF writes_put_bytes])
    next
      case bad: False
      then have "\<not> length ?pre + ?k \<le> length buf" using True by linarith
      then show ?thesis using True bad none [of ?room "length xs"]
        by (simp add: enc pre put_addresses_wcur Let_def writesD [OF writes_put_bytes])
    qed
  qed
qed

lemma iter_next_item:
  assumes "valid a" "s \<noteq> []"
  shows "QueryServersResponseIter_next D (at pre (wire a @ s)) = Some (a, at (pre @ wire a) s)"
  using assms by (simp add: QueryServersResponseIter_next_def get_wire length_wire)

lemma iter_next_end: "QueryServersResponseIter_next D (at pre (replicate (sad_size D) 0)) = None"
proof -
  obtain m where m: "sad_size D = m + 2" using size_pos le_Suc_ex by (metis add.commute)
  have "replicate (sad_size D) (0::byte) = replicate m 0 @ [0, 0]"
    unfolding m replicate_add by (simp add: numeral_2_eq_2)
  then have "ends_with [0, 0] (replicate (sad_size D) (0::byte))" by simp
  then show ?thesis by (simp add: QueryServersResponseIter_next_def)
qed

lemma iter_items_wires:
  assumes "\<forall>a \<in> set xs. valid a" "length xs < n"
  shows "iter_items D n (at pre (concat (map wire xs) @ replicate (sad_size D) 0)) = xs"
  using assms
proof (induction xs arbitrary: n pre)
  case Nil
  then show ?case by (cases n) (simp_all add: iter_next_end)
next
  case (Cons a xs)
  then obtain m where n: "n = Suc m" by (cases n) auto
  have "replicate (sad_size D) (0::byte) \<noteq> []" using size_pos by simp
  with Cons n show ?case by (simp add: iter_next_item)
qed

lemma decode_prefix:
  assumes "key \<noteq> None \<or> \<not> looks_like_key s"
  shows "QueryServersResponse_decode (QueryServersResponse_prefix key @ s) =
     Inr \<lparr>qsr_inner = s, qsr_key = key\<rparr>"
proof (cases key)
  case None
  with assms have "\<not> (6 \<le> length s \<and> s ! 0 = 0x7f \<and> s ! 5 = 8)" by (simp add: looks_like_key_def)
  with None show ?thesis
    by (auto simp: QueryServersResponse_decode_def QueryServersResponse_prefix_def wire_simps)
next
  case (Some k)
  obtain a b c d where k: "to_le 4 k = [a, b, c, d]" using list4 [of "to_le 4 k"] by auto
  have "from_le [a, b, c, d] = k" using from_to_le_full [of 4 k] by (simp del: from_le.simps flip: k)
  with Some k show ?thesis
    by (simp add: QueryServersResponse_decode_def QueryServersResponse_prefix_def wire_simps
          del: from_le.simps)
qed

lemma encode_iter:
  assumes "QueryServersResponse_encode D p buf xs = Inr (s, n)"
    and "\<forall>a \<in> set xs. valid a"
    and "qsr_key p \<noteq> None \<or>
      \<not> looks_like_key (concat (map wire (take n xs)) @ replicate (sad_size D) 0)"
  shows "\<exists>r. QueryServersResponse_decode s = Inr r \<and> qsr_key r = qsr_key p \<and>
     QueryServersResponse_iter D r = take n xs"
proof -
  let ?s = "concat (map wire (take n xs)) @ replicate (sad_size D) 0"
  have s: "s = QueryServersResponse_prefix (qsr_key p) @ ?s"
    using assms(1) by (auto simp: encode_spec Let_def split: if_splits)
  have "1 * length (take n xs) \<le> sad_size D * length (take n xs)"
    using size_pos by (intro mult_le_mono1) simp
  then have "length (take n xs) < Suc (length ?s)"
    unfolding length_append length_wires by linarith
  then have "iter_items D (Suc (length ?s)) (Cursor_new ?s) = take n xs"
    unfolding Cursor_new_at using assms(2) by (intro iter_items_wires) (auto dest: in_set_takeD)
  then show ?thesis
    using decode_prefix [OF assms(3)] by (simp add: s QueryServersResponse_iter_def del: iter_items.simps)
qed

end

definition SocketAddrV4_wire :: "socket_v4 \<Rightarrow> bytes" where
  "SocketAddrV4_wire a = ipv4_octets (v4_ip a) @ to_be 2 (v4_port a)"

definition SocketAddrV6_wire :: "socket_v6 \<Rightarrow> bytes" where
  "SocketAddrV6_wire a = ipv6_octets (v6_ip a) @ to_be 2 (v6_port a)"

interpretation v4: address_codec SocketAddrV4 SocketAddrV4_wire "\<lambda>_. True"
proof unfold_locales
  show "writes (sad_put SocketAddrV4 a) (SocketAddrV4_wire a)" for a
    by (simp add: SocketAddrV4_def SocketAddrV4_put_def [abs_def] SocketAddrV4_wire_def)
       (intro writes_intros)
  show "sad_get SocketAddrV4 (at pre (SocketAddrV4_wire a @ s)) =
      Inr (a, at (pre @ SocketAddrV4_wire a) s)" for a pre s
    by (simp add: SocketAddrV4_def SocketAddrV4_get_def SocketAddrV4_wire_def Cursor_get_array_at
          wire_simps)
qed (simp_all add: SocketAddrV4_def SocketAddrV4_wire_def)

text \<open>The wire carries neither the flow label nor the scope of an IPv6 address.\<close>

interpretation v6: address_codec SocketAddrV6 SocketAddrV6_wire
    "\<lambda>a. v6_flowinfo a = 0 \<and> v6_scope_id a = 0"
proof unfold_locales
  show "writes (sad_put SocketAddrV6 a) (SocketAddrV6_wire a)" for a
    by (simp add: SocketAddrV6_def SocketAddrV6_put_def [abs_def] SocketAddrV6_wire_def)
       (intro writes_intros)
  show "sad_get SocketAddrV6 (at pre (SocketAddrV6_wire a @ s)) =
      Inr (a, at (pre @ SocketAddrV6_wire a) s)" if "v6_flowinfo a = 0 \<and> v6_scope_id a = 0" for a pre s
    using that by (cases a) (simp add: SocketAddrV6_def SocketAddrV6_get_def SocketAddrV6_wire_def
        Cursor_get_array_at wire_simps)
qed (simp_all add: SocketAddrV6_def SocketAddrV6_wire_def)

section \<open>ClientAnnounce\<close>

record client_announce =
  ca_addr :: socket_addr

definition ClientAnnounce_HEADER :: bytes where
  "ClientAnnounce_HEADER = [0xff, 0xff, 0xff, 0xff, 99, 32]"

definition ClientAnnounce_decode :: "bytes \<Rightarrow> xerror + client_announce" where
  "ClientAnnounce_decode src =
     rbind (qm (Cursor_expect ClientAnnounce_HEADER (Cursor_new src))) (\<lambda>(_, cur).
     rbind (qm (Cursor_get_str (Cursor_remaining cur) cur)) (\<lambda>(s, cur).
     rbind (ok_or InvalidClientAnnounceIp (socket_addr_from_str s)) (\<lambda>addr.
     rbind (qm (Cursor_expect_empty cur)) (\<lambda>_. Inr \<lparr>ca_addr = addr\<rparr>))))"

definition ClientAnnounce_encode :: "client_announce \<Rightarrow> bytes \<Rightarrow> xerror + bytes" where
  "ClientAnnounce_encode p buf = qm (encode_with (\<lambda>cur.
     rbind (put_bytes ClientAnnounce_HEADER cur)
       (put_as_str (socket_addr_display (ca_addr p)))) buf)"

definition ClientAnnounce_wire :: "client_announce \<Rightarrow> bytes" where
  "ClientAnnounce_wire p = ClientAnnounce_HEADER @ socket_addr_display (ca_addr p)"

definition ClientAnnounce_valid :: "client_announce \<Rightarrow> bool" where
  "ClientAnnounce_valid p \<longleftrightarrow> (case ca_addr p of SockV4 _ \<Rightarrow> True | SockV6 _ \<Rightarrow> False)"

lemma ClientAnnounce_encode_wire:
  "ClientAnnounce_encode p buf =
     (if length (ClientAnnounce_wire p) \<le> length buf then Inr (ClientAnnounce_wire p)
      else Inl (ECursor BufferOverflow))"
  unfolding ClientAnnounce_encode_def
  by (rule qm_encode_writes, (rule writes_intros)+) (simp add: ClientAnnounce_wire_def)

lemma ClientAnnounce_decode_wire:
  assumes "ClientAnnounce_valid p"
  shows "ClientAnnounce_decode (ClientAnnounce_wire p) = Inr p"
proof -
  obtain a where a: "ca_addr p = SockV4 a"
    using assms by (auto simp: ClientAnnounce_valid_def split: socket_addr.splits)
  have "is_utf8 (socket_addr_display (SockV4 a))"
    by (simp add: socket_addr_display_def is_utf8_ascii)
  then show ?thesis
    using a by (simp add: ClientAnnounce_decode_def ClientAnnounce_wire_def wire_simps
        socket_addr_v4_roundtrip)
qed

interpretation client_announce_codec: packet_codec ClientAnnounce_wire ClientAnnounce_valid
    "\<lambda>_. 0" "\<lambda>r. r" ClientAnnounce_encode ClientAnnounce_decode "ECursor BufferOverflow"
  by unfold_locales (simp_all add: ClientAnnounce_encode_wire ClientAnnounce_decode_wire)

section \<open>AdminChallengeResponse\<close>

record admin_challenge_response =
  acr_master_challenge :: u32
  acr_hash_challenge :: u32

definition AdminChallengeResponse_HEADER :: bytes where
  "AdminChallengeResponse_HEADER = [0xff, 0xff, 0xff, 0xff] @ str ''adminchallenge''"

definition AdminChallengeResponse_decode :: "bytes \<Rightarrow> xerror + admin_challenge_response" where
  "AdminChallengeResponse_decode src =
     rbind (qm (Cursor_expect AdminChallengeResponse_HEADER (Cursor_new src))) (\<lambda>(_, cur).
     rbind (qm (Cursor_get_u32_le cur)) (\<lambda>(master_challenge, cur).
     rbind (qm (Cursor_get_u32_le cur)) (\<lambda>(hash_challenge, cur).
     rbind (qm (Cursor_expect_empty cur)) (\<lambda>_.
     Inr \<lparr>acr_master_challenge = master_challenge, acr_hash_challenge = hash_challenge\<rparr>))))"

definition AdminChallengeResponse_encode :: "admin_challenge_response \<Rightarrow> bytes \<Rightarrow> xerror + bytes" where
  "AdminChallengeResponse_encode p buf = qm (encode_with (\<lambda>cur.
     rbind (put_bytes AdminChallengeResponse_HEADER cur) (\<lambda>cur.
     rbind (put_u32_le (acr_master_challenge p) cur) (put_u32_le (acr_hash_challenge p)))) buf)"

definition AdminChallengeResponse_wire :: "admin_challenge_response \<Rightarrow> bytes" where
  "AdminChallengeResponse_wire p =
     AdminChallengeResponse_HEADER @ to_le 4 (acr_master_challenge p) @ to_le 4 (acr_hash_challenge p)"

lemma AdminChallengeResponse_encode_wire:
  "AdminChallengeResponse_encode p buf =
     (if length (AdminChallengeResponse_wire p) \<le> length buf then Inr (AdminChallengeResponse_wire p)
      else Inl (ECursor BufferOverflow))"
  unfolding AdminChallengeResponse_encode_def
  by (rule qm_encode_writes, (rule writes_intros)+) (simp add: AdminChallengeResponse_wire_def)

lemma AdminChallengeResponse_decode_wire:
  "AdminChallengeResponse_decode (AdminChallengeResponse_wire p) = Inr p"
  by (simp add: AdminChallengeResponse_decode_def AdminChallengeResponse_wire_def wire_simps)

interpretation admin_challenge_response_codec: packet_codec AdminChallengeResponse_wire "\<lambda>_. True"
    "\<lambda>_. 0" "\<lambda>r. r" AdminChallengeResponse_encode AdminChallengeResponse_decode
    "ECursor BufferOverflow"
  by unfold_locales
     (simp_all add: AdminChallengeResponse_encode_wire AdminChallengeResponse_decode_wire)

section \<open>Master packets\<close>

datatype master_packet =
    MChallengeResponse challenge_response
  | MQueryServersResponse query_servers_response
  | MClientAnnounce client_announce
  | MAdminChallengeResponse admin_challenge_response

definition MasterPacket_decode :: "bytes \<Rightarrow> xerror + master_packet option" where
  "MasterPacket_decode src =
     (if starts_with ChallengeResponse_HEADER src then
        map_ok Some (map_ok MChallengeResponse (ChallengeResponse_decode src))
      else if starts_with QueryServersResponse_HEADER src then
        map_ok Some (map_ok MQueryServersResponse (QueryServersResponse_decode src))
      else if starts_with ClientAnnounce_HEADER src then
        map_ok Some (map_ok MClientAnnounce (ClientAnnounce_decode src))
      else if starts_with AdminChallengeResponse_HEADER src then
        map_ok Some (map_ok MAdminChallengeResponse (AdminChallengeResponse_decode src))
      else Inr None)"

lemmas master_headers = ChallengeResponse_HEADER_def QueryServersResponse_HEADER_def
  ClientAnnounce_HEADER_def AdminChallengeResponse_HEADER_def

fun MasterPacket_wire :: "master_packet \<Rightarrow> bytes" where
  "MasterPacket_wire (MChallengeResponse p) = ChallengeResponse_wire p"
| "MasterPacket_wire (MQueryServersResponse p) =
     QueryServersResponse_prefix (qsr_key p) @ qsr_inner p"
| "MasterPacket_wire (MClientAnnounce p) = ClientAnnounce_wire p"
| "MasterPacket_wire (MAdminChallengeResponse p) = AdminChallengeResponse_wire p"

fun MasterPacket_valid :: "master_packet \<Rightarrow> bool" where
  "MasterPacket_valid (MQueryServersResponse p) =
     (qsr_key p \<noteq> None \<or> \<not> looks_like_key (qsr_inner p))"
| "MasterPacket_valid (MClientAnnounce p) = ClientAnnounce_valid p"
| "MasterPacket_valid _ = True"

lemma MasterPacket_decode_wire:
  assumes "MasterPacket_valid p"
  shows "MasterPacket_decode (MasterPacket_wire p) = Inr (Some p)"
proof (cases p)
  case (MChallengeResponse x)
  have "starts_with ChallengeResponse_HEADER (ChallengeResponse_wire x)"
    by (simp add: ChallengeResponse_wire_def)
  with MChallengeResponse show ?thesis by (simp add: MasterPacket_decode_def ChallengeResponse_decode_wire)
next
  case (MQueryServersResponse x)
  then have d: "QueryServersResponse_decode (QueryServersResponse_prefix (qsr_key x) @ qsr_inner x) =
      Inr x"
    using assms v4.decode_prefix [of "qsr_key x" "qsr_inner x"] by simp
  with MQueryServersResponse show ?thesis
    by (simp add: MasterPacket_decode_def) (simp add: master_headers QueryServersResponse_prefix_def)
next
  case (MClientAnnounce x)
  with assms show ?thesis
    by (simp add: MasterPacket_decode_def ClientAnnounce_decode_wire)
       (simp add: master_headers ClientAnnounce_wire_def)
next
  case (MAdminChallengeResponse x)
  then show ?thesis
    by (simp add: MasterPacket_decode_def AdminChallengeResponse_decode_wire)
       (simp add: master_headers AdminChallengeResponse_wire_def str_def)
qed

end
