(* ===== verification/Admin_Packets.thy ===== *)
theory Admin_Packets
  imports Server_Types
begin

text \<open>
  The packets of administrators (\<^verbatim>\<open>net/admin.rs\<close>): the challenge request and the command with its
  password hash. \<^verbatim>\<open>Hide\<close> only changes how a value is printed; the value is its bytes.
\<close>

definition HASH_LEN :: nat where "HASH_LEN = 64"
definition HASH_KEY :: bytes where "HASH_KEY = str ''Half-Life''"
definition HASH_PERSONAL :: bytes where "HASH_PERSONAL = str ''Freeman''"

text \<open>\<^verbatim>\<open>Display\<close> and \<^verbatim>\<open>Debug\<close> of \<^verbatim>\<open>Hide<T>\<close> (\<^verbatim>\<open>wrappers.rs\<close>).\<close>

definition Hide_display :: "'a \<Rightarrow> bytes" where
  "Hide_display x = str ''<hidden>''"

definition AdminChallenge_HEADER :: bytes where
  "AdminChallenge_HEADER = str ''adminchallenge''"

definition AdminChallenge_decode :: "bytes \<Rightarrow> xerror + unit" where
  "AdminChallenge_decode src =
     (if src = AdminChallenge_HEADER then Inr () else Inl (ECursor Expect))"

definition AdminChallenge_encode :: "unit \<Rightarrow> bytes \<Rightarrow> xerror + bytes" where
  "AdminChallenge_encode p buf = qm (encode_with (put_bytes AdminChallenge_HEADER) buf)"

interpretation admin_challenge_codec: packet_codec "\<lambda>_. AdminChallenge_HEADER" "\<lambda>_. True" "\<lambda>_. 0"
    "\<lambda>r. r" AdminChallenge_encode AdminChallenge_decode "ECursor BufferOverflow"
  by unfold_locales
     (simp_all add: AdminChallenge_encode_def encode_with_writes [OF writes_put_bytes]
        AdminChallenge_decode_def)

record admin_command =
  ac_master_challenge :: u32
  ac_hash :: bytes
  ac_command :: bytes

definition AdminCommand_HEADER :: bytes where
  "AdminCommand_HEADER = str ''admin''"

definition AdminCommand_decode_with_hash_len :: "nat \<Rightarrow> bytes \<Rightarrow> xerror + admin_command" where
  "AdminCommand_decode_with_hash_len hash_len src =
     rbind (qm (Cursor_expect AdminCommand_HEADER (Cursor_new src))) (\<lambda>(_, cur).
     rbind (qm (Cursor_get_u32_le cur)) (\<lambda>(master_challenge, cur).
     rbind (qm (Cursor_get_bytes hash_len cur)) (\<lambda>(hash, cur).
     rbind (qm (Cursor_get_str (Cursor_remaining cur) cur)) (\<lambda>(command, cur).
     rbind (qm (Cursor_expect_empty cur)) (\<lambda>_.
     Inr \<lparr>ac_master_challenge = master_challenge, ac_hash = hash, ac_command = command\<rparr>)))))"

definition AdminCommand_decode :: "bytes \<Rightarrow> xerror + admin_command" where
  "AdminCommand_decode src = AdminCommand_decode_with_hash_len HASH_LEN src"

definition AdminCommand_encode :: "admin_command \<Rightarrow> bytes \<Rightarrow> xerror + bytes" where
  "AdminCommand_encode p buf = qm (encode_with (\<lambda>cur.
     rbind (put_bytes AdminCommand_HEADER cur) (\<lambda>cur.
     rbind (put_u32_le (ac_master_challenge p) cur) (\<lambda>cur.
     rbind (put_bytes (ac_hash p) cur) (put_str (ac_command p))))) buf)"

definition AdminCommand_wire :: "admin_command \<Rightarrow> bytes" where
  "AdminCommand_wire p =
     AdminCommand_HEADER @ to_le 4 (ac_master_challenge p) @ ac_hash p @ ac_command p"

text \<open>The two sides must agree on the length of the hash, and a \<^verbatim>\<open>&str\<close> is valid UTF-8.\<close>

definition AdminCommand_valid :: "nat \<Rightarrow> admin_command \<Rightarrow> bool" where
  "AdminCommand_valid hash_len p \<longleftrightarrow> length (ac_hash p) = hash_len \<and> is_utf8 (ac_command p)"

lemma AdminCommand_encode_wire:
  "AdminCommand_encode p buf =
     (if length (AdminCommand_wire p) \<le> length buf then Inr (AdminCommand_wire p)
      else Inl (ECursor BufferOverflow))"
  unfolding AdminCommand_encode_def
  by (rule qm_encode_writes, (rule writes_intros)+) (simp add: AdminCommand_wire_def)

lemma AdminCommand_decode_wire:
  "AdminCommand_valid n p \<Longrightarrow> AdminCommand_decode_with_hash_len n (AdminCommand_wire p) = Inr p"
  by (auto simp: AdminCommand_decode_with_hash_len_def AdminCommand_wire_def AdminCommand_valid_def
        wire_simps)

interpretation admin_command_codec: packet_codec AdminCommand_wire "AdminCommand_valid n" "\<lambda>_. 0"
    "\<lambda>r. r" AdminCommand_encode "AdminCommand_decode_with_hash_len n" "ECursor BufferOverflow" for n
  by unfold_locales (simp_all add: AdminCommand_encode_wire AdminCommand_decode_wire)

datatype admin_packet = AAdminChallenge | AAdminCommand admin_command

definition AdminPacket_decode :: "nat \<Rightarrow> bytes \<Rightarrow> xerror + admin_packet option" where
  "AdminPacket_decode hash_len src =
     (if starts_with AdminChallenge_HEADER src then
        map_ok Some (map_ok (\<lambda>_. AAdminChallenge) (AdminChallenge_decode src))
      else if starts_with AdminCommand_HEADER src then
        map_ok Some (map_ok AAdminCommand (AdminCommand_decode_with_hash_len hash_len src))
      else Inr None)"

text \<open>
  The header of the command is a prefix of the header of the challenge request. The packet goes to
  the wrong decoder only when the challenge number and the hash continue the longer header.
\<close>

definition shadows_challenge :: "admin_command \<Rightarrow> bool" where
  "shadows_challenge p \<longleftrightarrow> starts_with AdminChallenge_HEADER (AdminCommand_wire p)"

lemma AdminPacket_decode_command:
  "AdminCommand_valid n p \<Longrightarrow> \<not> shadows_challenge p \<Longrightarrow>
     AdminPacket_decode n (AdminCommand_wire p) = Inr (Some (AAdminCommand p))"
  by (simp add: AdminPacket_decode_def shadows_challenge_def AdminCommand_decode_wire)
     (simp add: AdminCommand_wire_def)

lemma AdminPacket_decode_shadowed:
  "AdminCommand_wire p \<noteq> AdminChallenge_HEADER \<Longrightarrow> shadows_challenge p \<Longrightarrow>
     AdminPacket_decode n (AdminCommand_wire p) = Inl (ECursor Expect)"
  by (simp add: AdminPacket_decode_def shadows_challenge_def AdminChallenge_decode_def)

end
