(* ===== verification/Broker_Packets.thy ===== *)
theory Broker_Packets
  imports Server_Types Net_Addr
begin

text \<open>
  The packets of the Steam API broker (\<^verbatim>\<open>net/broker.rs\<close>): a frame with a length, a command with its arguments
  in the payload, the four commands of a client and the binary answer of the broker. A frame is the list
  of its bytes; encoders give \<open>None\<close> for the panic of \<^verbatim>\<open>expect\<close>.
\<close>

section \<open>Arguments\<close>

type_synonym args = cursor

definition Args_new :: "bytes \<Rightarrow> args" where
  "Args_new raw = Cursor_new raw"

definition Args_is_empty :: "args \<Rightarrow> bool" where
  "Args_is_empty a \<longleftrightarrow> \<not> Cursor_has_remaining a"

definition Args_try_next :: "args \<Rightarrow> bytes option \<times> args" where
  "Args_try_next a =
     (let a = (case Cursor_take_while (\<lambda>c. c = 32) a of Inr (_, a) \<Rightarrow> a | Inl _ \<Rightarrow> a) in
      if \<not> Cursor_has_remaining a then (None, a)
      else case Cursor_take_while (\<lambda>c. c \<noteq> 32) a of
             Inr (i, a) \<Rightarrow> (Some i, a)
           | Inl _ \<Rightarrow> (let (i, a) = Cursor_get_tail a in (Some i, a)))"

definition Args_next :: "args \<Rightarrow> bytes cres" where
  "Args_next a = (case Args_try_next a of (None, _) \<Rightarrow> Inl Expect | (Some i, a) \<Rightarrow> Inr (i, a))"

text \<open>\<open>from_str\<close> is the \<^verbatim>\<open>FromStr\<close> of the wanted type.\<close>

definition Args_parse_next :: "(bytes \<Rightarrow> 'a option) \<Rightarrow> args \<Rightarrow> 'a cres" where
  "Args_parse_next from_str a =
     rbind (Args_next a) (\<lambda>(s, a).
     rbind (map_err (\<lambda>_. InvalidString) (from_utf8 s)) (\<lambda>s.
     rbind (ok_or InvalidString (from_str s)) (\<lambda>v. Inr (v, a))))"

definition Args_expect_empty :: "args \<Rightarrow> cursor_error + unit" where
  "Args_expect_empty a = (if \<not> Cursor_has_remaining a then Inr () else Inl ExpectEmpty)"

section \<open>Frames\<close>

record frame =
  fr_data :: bytes

definition Frame_HEADER :: bytes where
  "Frame_HEADER = str ''SBRK''"

definition FIXED_SIZE :: nat where
  "FIXED_SIZE = length Frame_HEADER + 2"

definition Frame_payload :: "frame \<Rightarrow> bytes" where
  "Frame_payload f = drop FIXED_SIZE (fr_data f)"

definition Frame_expect_command :: "bytes \<Rightarrow> frame \<Rightarrow> cursor_error + args" where
  "Frame_expect_command expect f =
     rbind (Args_next (Args_new (Frame_payload f))) (\<lambda>(name, args).
     if name = expect then Inr args else Inl Expect)"

definition Frame_expect_command_no_args :: "bytes \<Rightarrow> frame \<Rightarrow> cursor_error + unit" where
  "Frame_expect_command_no_args expect f =
     rbind (Frame_expect_command expect f) (\<lambda>args. if Args_is_empty args then Inr () else Inl ExpectEmpty)"

definition Frame_decode :: "bytes \<Rightarrow> cursor_error + frame" where
  "Frame_decode src =
     (if length src < FIXED_SIZE then Inl (NeedMoreBytes (FIXED_SIZE - length src))
      else
        rbind (Cursor_expect Frame_HEADER (Cursor_new src)) (\<lambda>(_, cur).
        rbind (Cursor_get_u16_le cur) (\<lambda>(payload_len, cur).
        rbind (Cursor_get_bytes (unat payload_len) cur) (\<lambda>(_, cur).
        Inr \<lparr>fr_data = take (cur_pos cur) src\<rparr>))))"

definition Frame_encode :: "(cursor_mut \<Rightarrow> wres) \<Rightarrow> bytes \<Rightarrow> (cursor_error + frame) option" where
  "Frame_encode payload buf =
     (case CursorMut_split FIXED_SIZE (CursorMut_new buf) of
        Inl e \<Rightarrow> Some (Inl e)
      | Inr (head, tail) \<Rightarrow>
          (case payload tail of
             Inl e \<Rightarrow> Some (Inl e)
           | Inr tail \<Rightarrow>
               if 2 ^ 16 \<le> CursorMut_current_pos tail then Some (Inl InvalidNumber)
               else
                 (case rbind (put_bytes Frame_HEADER head) (put_u16_le (of_nat (CursorMut_current_pos tail))) of
                    Inl e \<Rightarrow> Some (Inl e)
                  | Inr head \<Rightarrow>
                      (case CursorMut_expect_full head of
                         Inl _ \<Rightarrow> None
                       | Inr _ \<Rightarrow>
                           Some (Inr \<lparr>fr_data = take (CursorMut_pos tail) (mbuffer head @ mbuffer tail)\<rparr>)))))"

definition Frame_encode_fmt :: "bytes \<Rightarrow> bytes \<Rightarrow> (cursor_error + frame) option" where
  "Frame_encode_fmt text buf = Frame_encode (put_as_str text) buf"

section \<open>Commands\<close>

record gamedir =
  gd_gamedir :: bytes

definition Gamedir_HEADER :: bytes where
  "Gamedir_HEADER = str ''sb_gamedir''"

definition Gamedir_decode :: "frame \<Rightarrow> xerror + gamedir" where
  "Gamedir_decode f =
     rbind (qm (Frame_expect_command Gamedir_HEADER f)) (\<lambda>args.
     rbind (qm (Args_next args)) (\<lambda>(dir, args).
     rbind (qm (Args_expect_empty args)) (\<lambda>_. Inr \<lparr>gd_gamedir = dir\<rparr>)))"

definition Gamedir_encode :: "gamedir \<Rightarrow> bytes \<Rightarrow> (cursor_error + frame) option" where
  "Gamedir_encode p buf = Frame_encode_fmt (Gamedir_HEADER @ [32] @ str_format_bytes (gd_gamedir p)) buf"

record connect =
  cn_server_address :: socket_addr
  cn_server_steam_id :: u64
  cn_challenge :: u32
  cn_secure :: bool

definition Connect_HEADER :: bytes where
  "Connect_HEADER = str ''sb_connect''"

definition Connect_decode :: "frame \<Rightarrow> xerror + connect" where
  "Connect_decode f =
     rbind (qm (Frame_expect_command Connect_HEADER f)) (\<lambda>args.
     rbind (qm (Args_parse_next socket_addr_from_str args)) (\<lambda>(server_address, args).
     rbind (qm (Args_parse_next (parse_word 10) args)) (\<lambda>(server_steam_id, args).
     rbind (qm (Args_next args)) (\<lambda>(b, args).
     rbind (qm (if b = [48] then Inr False else if b = [49] then Inr True else Inl InvalidBool)) (\<lambda>secure.
     rbind (qm (Args_parse_next (parse_word 10) args)) (\<lambda>(challenge, args).
     rbind (qm (Args_expect_empty args)) (\<lambda>_.
     Inr \<lparr>cn_server_address = server_address, cn_server_steam_id = server_steam_id,
          cn_challenge = challenge, cn_secure = secure\<rparr>)))))))"

definition Connect_encode :: "connect \<Rightarrow> bytes \<Rightarrow> (cursor_error + frame) option" where
  "Connect_encode p buf = Frame_encode_fmt
     (Connect_HEADER @ [32] @ socket_addr_display (cn_server_address p) @ [32] @
      show_dec (unat (cn_server_steam_id p)) @ [32] @ show_dec (if cn_secure p then 1 else 0) @ [32] @
      show_dec (unat (cn_challenge p))) buf"

record disconnect =
  dc_server_address :: socket_addr
  dc_challenge :: u32

definition Disconnect_HEADER :: bytes where
  "Disconnect_HEADER = str ''sb_disconnect''"

definition Disconnect_decode :: "frame \<Rightarrow> xerror + disconnect" where
  "Disconnect_decode f =
     rbind (qm (Frame_expect_command Disconnect_HEADER f)) (\<lambda>args.
     rbind (qm (Args_parse_next socket_addr_from_str args)) (\<lambda>(server_address, args).
     rbind (qm (Args_parse_next (parse_word 10) args)) (\<lambda>(challenge, args).
     rbind (qm (Args_expect_empty args)) (\<lambda>_.
     Inr \<lparr>dc_server_address = server_address, dc_challenge = challenge\<rparr>))))"

definition Disconnect_encode :: "disconnect \<Rightarrow> bytes \<Rightarrow> (cursor_error + frame) option" where
  "Disconnect_encode p buf = Frame_encode_fmt
     (Disconnect_HEADER @ [32] @ socket_addr_display (dc_server_address p) @ [32] @
      show_dec (unat (dc_challenge p))) buf"

definition Terminate_HEADER :: bytes where
  "Terminate_HEADER = str ''sb_terminate''"

definition Terminate_decode :: "frame \<Rightarrow> xerror + unit" where
  "Terminate_decode f = rbind (qm (Frame_expect_command_no_args Terminate_HEADER f)) (\<lambda>_. Inr ())"

definition Terminate_encode :: "unit \<Rightarrow> bytes \<Rightarrow> (cursor_error + frame) option" where
  "Terminate_encode p buf = Frame_encode_fmt Terminate_HEADER buf"

record connect_response =
  crs_client_steam_id :: u64
  crs_ticket :: bytes
  crs_challenge :: u32

definition ConnectResponse_HEADER :: bytes where
  "ConnectResponse_HEADER = str ''sb_connect'' @ [10]"

definition ConnectResponse_decode :: "frame \<Rightarrow> xerror + connect_response" where
  "ConnectResponse_decode f =
     rbind (qm (Cursor_expect ConnectResponse_HEADER (Cursor_new (Frame_payload f)))) (\<lambda>(_, cur).
     rbind (qm (Cursor_get_u32_le cur)) (\<lambda>(challenge, cur).
     rbind (qm (Cursor_get_u64_le cur)) (\<lambda>(client_steam_id, cur).
     rbind (qm (Cursor_get_u32_le cur)) (\<lambda>(len, cur).
     rbind (qm (Cursor_get_bytes (unat len) cur)) (\<lambda>(ticket, cur).
     rbind (qm (Cursor_expect_empty cur)) (\<lambda>_.
     Inr \<lparr>crs_client_steam_id = client_steam_id, crs_ticket = ticket, crs_challenge = challenge\<rparr>))))))"

definition ConnectResponse_encode :: "connect_response \<Rightarrow> bytes \<Rightarrow> (cursor_error + frame) option" where
  "ConnectResponse_encode p buf = Frame_encode (\<lambda>cur.
     rbind (put_bytes ConnectResponse_HEADER cur) (\<lambda>cur.
     rbind (put_u32_le (crs_challenge p) cur) (\<lambda>cur.
     rbind (put_u64_le (crs_client_steam_id p) cur) (\<lambda>cur.
     if 2 ^ 32 \<le> length (crs_ticket p) then Inl InvalidNumber
     else rbind (put_u32_le (of_nat (length (crs_ticket p))) cur) (put_bytes (crs_ticket p)))))) buf"

datatype broker_client_packet =
    BGamedir gamedir
  | BConnect connect
  | BDisconnect disconnect
  | BTerminate

definition ClientPacket_decode :: "frame \<Rightarrow> xerror + broker_client_packet" where
  "ClientPacket_decode f =
     (let s = Frame_payload f in
      if starts_with Gamedir_HEADER s then map_ok BGamedir (Gamedir_decode f)
      else if starts_with Connect_HEADER s then map_ok BConnect (Connect_decode f)
      else if starts_with Disconnect_HEADER s then map_ok BDisconnect (Disconnect_decode f)
      else if starts_with Terminate_HEADER s then map_ok (\<lambda>_. BTerminate) (Terminate_decode f)
      else Inl InvalidPacket)"

datatype broker_server_packet = BConnectResponse connect_response

definition BrokerServerPacket_decode :: "frame \<Rightarrow> xerror + broker_server_packet" where
  "BrokerServerPacket_decode f =
     (if starts_with ConnectResponse_HEADER (Frame_payload f)
      then map_ok BConnectResponse (ConnectResponse_decode f) else Inl InvalidPacket)"

text \<open>The encoder of each client packet.\<close>

fun ClientPacket_encode :: "broker_client_packet \<Rightarrow> bytes \<Rightarrow> (cursor_error + frame) option" where
  "ClientPacket_encode (BGamedir p) buf = Gamedir_encode p buf"
| "ClientPacket_encode (BConnect p) buf = Connect_encode p buf"
| "ClientPacket_encode (BDisconnect p) buf = Disconnect_encode p buf"
| "ClientPacket_encode BTerminate buf = Terminate_encode () buf"

section \<open>Frames on the wire\<close>

definition frame_of :: "bytes \<Rightarrow> frame" where
  "frame_of s = \<lparr>fr_data = Frame_HEADER @ to_le 2 (of_nat (length s) :: u16) @ s\<rparr>"

lemma FIXED_SIZE_6: "FIXED_SIZE = 6"
  by (simp add: FIXED_SIZE_def Frame_HEADER_def)

lemma Frame_payload_of [simp]: "Frame_payload (frame_of s) = s"
  by (simp add: Frame_payload_def frame_of_def FIXED_SIZE_6 Frame_HEADER_def)

text \<open>What \<^verbatim>\<open>Frame::encode\<close> gives for a payload: it must fit behind the fixed part and its length in 16 bits.\<close>

definition frame_result :: "bytes \<Rightarrow> bytes \<Rightarrow> cursor_error + frame" where
  "frame_result s buf =
     (if length buf < 6 + length s then Inl BufferOverflow
      else if 2 ^ 16 \<le> length s then Inl InvalidNumber else Inr (frame_of s))"

lemma Frame_encode_writes:
  assumes "writes m s"
  shows "Frame_encode m buf = Some (frame_result s buf)"
proof (cases "length buf < 6")
  case True
  then show ?thesis
    by (simp add: Frame_encode_def FIXED_SIZE_6 CursorMut_new_wcur CursorMut_split_wcur frame_result_def)
next
  case False
  have head: "rbind (put_bytes Frame_HEADER (wcur [] (take 6 buf) 0)) (put_u16_le x) =
      Inr (wcur (Frame_HEADER @ to_le 2 x) [] 0)" for x
    using False writesD [OF writes_rbind [where m = "put_bytes Frame_HEADER" and k = "put_u16_le x",
        OF writes_put_bytes writes_prims(5)], of "[]" "take 6 buf" 0]
    by (simp add: Frame_HEADER_def)
  have len: "length Frame_HEADER = 4" by (simp add: Frame_HEADER_def)
  show ?thesis
    using False head
    by (auto simp: Frame_encode_def FIXED_SIZE_6 CursorMut_new_wcur CursorMut_split_wcur writesD [OF assms]
        CursorMut_expect_full_wcur frame_of_def len frame_result_def)
qed

lemma Frame_decode_of:
  assumes "length s < 2 ^ 16"
  shows "Frame_decode (fr_data (frame_of s) @ t) = Inr (frame_of s)"
proof -
  have u: "unat (of_nat (length s) :: u16) = length s" using assms by (simp add: unat_of_nat take_bit_eq_mod)
  show ?thesis
    by (simp add: Frame_decode_def frame_of_def FIXED_SIZE_6 wire_simps Frame_HEADER_def u Cursor_get_bytes_at)
       (simp add: at_def)
qed

section \<open>Arguments on the wire\<close>

text \<open>A word of a command: not empty and without a space.\<close>

definition is_arg :: "bytes \<Rightarrow> bool" where
  "is_arg w \<longleftrightarrow> w \<noteq> [] \<and> 32 \<notin> set w"

text \<open>Arguments, each behind a space.\<close>

definition args_wire :: "bytes list \<Rightarrow> bytes" where
  "args_wire ws = concat (map (\<lambda>w. 32 # w) ws)"

lemma args_wire_Nil [simp]: "args_wire [] = []"
  by (simp add: args_wire_def)

lemma args_wire_Cons: "args_wire (w # ws) = 32 # w @ args_wire ws"
  by (simp add: args_wire_def)

lemma Args_new_at: "Args_new s = at [] s"
  by (simp add: Args_new_def wire_simps)

lemma takeWhile_arg:
  assumes "32 \<notin> set w"
  shows "takeWhile (\<lambda>c. c \<noteq> 32) (w @ args_wire ws) = w"
    and "dropWhile (\<lambda>c. c \<noteq> 32) (w @ args_wire ws) = args_wire ws"
proof -
  have "takeWhile (\<lambda>c. c \<noteq> 32) (args_wire ws) = []" "dropWhile (\<lambda>c. c \<noteq> 32) (args_wire ws) = args_wire ws"
    by (cases ws; simp add: args_wire_Cons)+
  moreover have "\<forall>c \<in> set w. c \<noteq> 32" using assms by auto
  ultimately show "takeWhile (\<lambda>c. c \<noteq> 32) (w @ args_wire ws) = w"
    "dropWhile (\<lambda>c. c \<noteq> 32) (w @ args_wire ws) = args_wire ws"
    by (simp_all add: takeWhile_append2 dropWhile_append2)
qed

lemma Args_word:
  assumes "is_arg w"
  shows "Args_try_next (at pre (w @ args_wire ws)) = (Some w, at (pre @ w) (args_wire ws))"
    and "Args_try_next (at pre (args_wire (w # ws))) = (Some w, at (pre @ 32 # w) (args_wire ws))"
proof -
  obtain b w' where w: "w = b # w'" "b \<noteq> 32" "32 \<notin> set w'" using assms by (cases w) (auto simp: is_arg_def)
  note tw = takeWhile_arg [of w ws] takeWhile_arg [of w' ws]
  have all: "(\<forall>c \<in> set (w @ args_wire ws). c \<noteq> 32) \<longleftrightarrow> ws = []"
    using assms by (cases ws) (auto simp: is_arg_def args_wire_Cons)
  have "Cursor_take_while (\<lambda>c. c \<noteq> 32) (at p (w @ args_wire ws)) =
      (if ws = [] then Inl (NeedMoreBytes 1) else Inr (w, at (p @ w) (args_wire ws)))" for p
    unfolding Cursor_take_while_at all using assms tw by (simp add: is_arg_def)
  moreover have "Cursor_get_tail (at p w) = (w, at (p @ w) [])" for p
    by (simp add: Cursor_get_tail_def at_def w)
  ultimately show "Args_try_next (at pre (w @ args_wire ws)) = (Some w, at (pre @ w) (args_wire ws))"
    "Args_try_next (at pre (args_wire (w # ws))) = (Some w, at (pre @ 32 # w) (args_wire ws))"
    using w by (auto simp: Args_try_next_def Cursor_take_while_at wire_simps Let_def args_wire_Cons)
qed

lemma Args_next_word [simp]:
  "is_arg w \<Longrightarrow> Args_next (at pre (w @ args_wire ws)) = Inr (w, at (pre @ w) (args_wire ws))"
  "is_arg w \<Longrightarrow> Args_next (at pre (args_wire (w # ws))) = Inr (w, at (pre @ 32 # w) (args_wire ws))"
  "Args_next (at pre []) = Inl Expect"
  by (simp_all add: Args_next_def Args_word) (simp add: Args_try_next_def Cursor_take_while_at wire_simps)

lemma Args_parse_word [simp]:
  "is_arg w \<Longrightarrow> is_utf8 w \<Longrightarrow> Args_parse_next from_str (at pre (args_wire (w # ws))) =
     rbind (ok_or InvalidString (from_str w)) (\<lambda>v. Inr (v, at (pre @ 32 # w) (args_wire ws)))"
  by (simp add: Args_parse_next_def from_utf8_Inr)

lemma Args_expect_empty_at [simp]: "Args_expect_empty (at pre []) = Inr ()"
  by (simp add: Args_expect_empty_def wire_simps)

lemma expect_command_wire:
  assumes "is_arg name"
  shows "Frame_expect_command name (frame_of (name @ args_wire ws)) = Inr (at name (args_wire ws))"
  using assms by (simp add: Frame_expect_command_def Args_new_at)

lemma is_arg_show_dec [simp]: "is_arg (show_dec n)"
  using show_dec_clean [of 32 n] by (auto simp: is_arg_def show_dec_def)

lemma set_intersperse: "set (intersperse_bytes sep xs) \<subseteq> set sep \<union> (\<Union>x \<in> set xs. set x)"
  by (induction sep xs rule: intersperse_bytes.induct) auto

lemma is_arg_socket_v4 [simp]: "is_arg (socket_addr_display (SockV4 a))"
proof -
  have "32 \<notin> set (show_dec n)" for n using show_dec_clean by blast
  then have "32 \<notin> set (ipv4_display ip)" for ip
    using set_intersperse [of "[46]" "map (\<lambda>b. show_dec (unat b)) (ipv4_octets ip)"]
    by (auto simp: ipv4_display_def dest!: subsetD)
  then show ?thesis
    using show_dec_clean [of 32] by (auto simp: is_arg_def socket_addr_display_def socket_v4_display_def)
qed

section \<open>Client packets on the wire\<close>

text \<open>The text of each command, and the packets that survive it.\<close>

fun ClientPacket_text :: "broker_client_packet \<Rightarrow> bytes" where
  "ClientPacket_text (BGamedir p) = Gamedir_HEADER @ args_wire [gd_gamedir p]"
| "ClientPacket_text (BConnect p) =
     Connect_HEADER @ args_wire [socket_addr_display (cn_server_address p), show_dec (unat (cn_server_steam_id p)),
       show_dec (if cn_secure p then 1 else 0), show_dec (unat (cn_challenge p))]"
| "ClientPacket_text (BDisconnect p) =
     Disconnect_HEADER @ args_wire [socket_addr_display (dc_server_address p), show_dec (unat (dc_challenge p))]"
| "ClientPacket_text BTerminate = Terminate_HEADER @ args_wire []"

fun ClientPacket_valid :: "broker_client_packet \<Rightarrow> bool" where
  "ClientPacket_valid (BGamedir p) \<longleftrightarrow> is_arg (gd_gamedir p) \<and> (\<forall>c \<in> set (gd_gamedir p). is_printable c)"
| "ClientPacket_valid (BConnect p) \<longleftrightarrow> is_ipv4 (cn_server_address p)"
| "ClientPacket_valid (BDisconnect p) \<longleftrightarrow> is_ipv4 (dc_server_address p)"
| "ClientPacket_valid BTerminate \<longleftrightarrow> True"

lemmas broker_headers = Gamedir_HEADER_def Connect_HEADER_def Disconnect_HEADER_def Terminate_HEADER_def

lemma is_arg_headers [simp]:
  "is_arg Gamedir_HEADER" "is_arg Connect_HEADER" "is_arg Disconnect_HEADER" "is_arg Terminate_HEADER"
  by (simp_all add: is_arg_def broker_headers str_def)

lemma ClientPacket_encode_text:
  assumes "ClientPacket_valid p"
  shows "ClientPacket_encode p buf = Some (frame_result (ClientPacket_text p) buf)"
proof -
  have "ClientPacket_encode p buf = Frame_encode_fmt (ClientPacket_text p) buf"
    using assms
    by (cases p) (simp_all add: Gamedir_encode_def Connect_encode_def Disconnect_encode_def Terminate_encode_def
        args_wire_Cons str_format_bytes_printable)
  then show ?thesis by (simp add: Frame_encode_fmt_def Frame_encode_writes [OF writes_prims(4)])
qed

lemma is_ipv4_iff: "is_ipv4 a \<longleftrightarrow> (\<exists>x. a = SockV4 x)"
  by (cases a) (simp_all add: is_ipv4_def)

lemma socket_addr_v4_ascii [simp]: "is_ascii (socket_addr_display (SockV4 a))"
  by (simp add: socket_addr_display_def)

lemma flag_text: "show_dec 0 = [48]" "show_dec (Suc 0) = [49]"
  by (simp_all add: show_dec_def digits.simps digit_char_def)

lemma is_arg_flag [simp]: "is_arg [48]" "is_arg [49]"
  by (simp_all add: is_arg_def)

lemmas text_decode = expect_command_wire socket_addr_v4_roundtrip is_utf8_ascii flag_text is_ipv4_iff

lemma Gamedir_decode_text:
  "is_arg s \<Longrightarrow> Gamedir_decode (frame_of (Gamedir_HEADER @ args_wire [s])) = Inr \<lparr>gd_gamedir = s\<rparr>"
  by (simp add: Gamedir_decode_def text_decode)

lemma Connect_decode_text:
  "is_ipv4 (cn_server_address p) \<Longrightarrow> Connect_decode (frame_of (ClientPacket_text (BConnect p))) = Inr p"
  by (auto simp: Connect_decode_def text_decode)

lemma Disconnect_decode_text:
  "is_ipv4 (dc_server_address p) \<Longrightarrow> Disconnect_decode (frame_of (ClientPacket_text (BDisconnect p))) = Inr p"
  by (auto simp: Disconnect_decode_def text_decode)

lemma Terminate_decode_text: "Terminate_decode (frame_of (ClientPacket_text BTerminate)) = Inr ()"
  using expect_command_wire [of Terminate_HEADER "[]"]
  by (simp add: Terminate_decode_def Frame_expect_command_no_args_def Args_is_empty_def wire_simps)

lemma ClientPacket_decode_text:
  assumes "ClientPacket_valid p"
  shows "ClientPacket_decode (frame_of (ClientPacket_text p)) = Inr p"
proof -
  have other: "\<not> starts_with Gamedir_HEADER (Connect_HEADER @ s)" "\<not> starts_with Gamedir_HEADER (Disconnect_HEADER @ s)"
    "\<not> starts_with Gamedir_HEADER (Terminate_HEADER @ s)" "\<not> starts_with Connect_HEADER (Disconnect_HEADER @ s)"
    "\<not> starts_with Connect_HEADER (Terminate_HEADER @ s)" "\<not> starts_with Disconnect_HEADER (Terminate_HEADER @ s)" for s
    by (simp_all add: broker_headers str_def)
  show ?thesis
  proof (cases p)
    case (BGamedir g)
    with assms Gamedir_decode_text [of "gd_gamedir g"] show ?thesis by (simp add: ClientPacket_decode_def)
  next
    case (BConnect c)
    with assms Connect_decode_text [of c] other show ?thesis by (simp add: ClientPacket_decode_def)
  next
    case (BDisconnect d)
    with assms Disconnect_decode_text [of d] other show ?thesis by (simp add: ClientPacket_decode_def)
  next
    case BTerminate
    with Terminate_decode_text other [of "[]"] show ?thesis by (simp add: ClientPacket_decode_def)
  qed
qed

section \<open>The answer on the wire\<close>

definition ConnectResponse_payload :: "connect_response \<Rightarrow> bytes" where
  "ConnectResponse_payload p = ConnectResponse_HEADER @ to_le 4 (crs_challenge p) @ to_le 8 (crs_client_steam_id p) @
     to_le 4 (of_nat (length (crs_ticket p)) :: u32) @ crs_ticket p"

lemma ConnectResponse_encode_payload:
  assumes "length (crs_ticket p) < 2 ^ 32"
  shows "ConnectResponse_encode p buf = Some (frame_result (ConnectResponse_payload p) buf)"
proof -
  have "writes (\<lambda>cur.
     rbind (put_bytes ConnectResponse_HEADER cur) (\<lambda>cur.
     rbind (put_u32_le (crs_challenge p) cur) (\<lambda>cur.
     rbind (put_u64_le (crs_client_steam_id p) cur) (\<lambda>cur.
     rbind (put_u32_le (of_nat (length (crs_ticket p))) cur) (put_bytes (crs_ticket p))))))
     (ConnectResponse_payload p)"
    unfolding ConnectResponse_payload_def by (intro writes_intros)
  from Frame_encode_writes [OF this, of buf] assms show ?thesis
    by (simp add: ConnectResponse_encode_def)
qed

lemma ConnectResponse_decode_payload:
  assumes "length (crs_ticket p) < 2 ^ 32"
  shows "BrokerServerPacket_decode (frame_of (ConnectResponse_payload p)) = Inr (BConnectResponse p)"
proof -
  have u: "unat (of_nat (length (crs_ticket p)) :: u32) = length (crs_ticket p)"
    using assms by (simp add: unat_of_nat take_bit_eq_mod)
  show ?thesis
    by (simp add: BrokerServerPacket_decode_def ConnectResponse_decode_def ConnectResponse_payload_def wire_simps u
        Cursor_get_bytes_at)
qed

end
