(* ===== verification/Protocol_Spec.thy ===== *)
theory Protocol_Spec
  imports Info_Packets Game_Packets Master_Packets Admin_Packets Broker_Packets
begin

text \<open>
  The properties of the protocol crate: the codecs on the wire, the dispatch on packet headers, the
  query filter and the text formats it rests on. A codec property gives the exact result of the
  encoder for every buffer and the decoder's result on what was written.
\<close>

unbundle bit_operations_syntax

section \<open>Examples the witnesses evaluate on\<close>

definition demo_add :: server_add where
  "demo_add = ServerAdd_default
     \<lparr>sa_gamedir := str ''valve'', sa_map := str ''crossfire'', sa_version := Version 0 21 3,
      sa_challenge := 0x12345678, sa_server_type := Dedicated, sa_os := Linux, sa_region := Europe,
      sa_protocol := 49, sa_players := 4, sa_max := 32, sa_bots := 2, sa_flags := 21\<rparr>"

lemma demo_add_valid: "ServerAdd_valid demo_add"
  by (simp add: ServerAdd_valid_def demo_add_def ServerAdd_default_def info_clean_def str_def
      flags_contains_def SF_BOTS_def)

definition demo_filter :: filter_q where
  "demo_filter = Filter_default
     \<lparr>f_gamedir := Some (str ''valve''), f_clver := Some (Version 0 21 0), f_key := Some 0xdeadbeef,
      f_client_buildnum := Some 4500, f_flags := 65, f_flags_mask := 73\<rparr>"

lemma demo_filter_printable: "Filter_printable demo_filter"
  by (simp add: Filter_printable_def Filter_wf_def demo_filter_def Filter_default_def printable_def
      is_printable_def str_def)

definition demo_query :: "filter_q query_servers" where
  "demo_query = \<lparr>qs_region = Europe, qs_last = str ''0.0.0.0:0'', qs_filter = demo_filter\<rparr>"

lemma demo_query_printable: "printable (qs_last demo_query)"
  by (simp add: demo_query_def printable_def is_printable_def str_def)

section \<open>Announcements of game servers\<close>

text \<open>C6. The announcement of a game server: for every packet the format can carry, the encoder writes
  exactly the wire form when it fits into the buffer and reports an overflow otherwise, and decoding
  the wire form gives the packet back, with its version, region and flags rebuilt from text.\<close>

lemma server_add_codec_exact:
  assumes "memchr_ok mc" "ServerAdd_valid p"
  shows "ServerAdd_encode p buf =
       (if length (ServerAdd_wire p) \<le> length buf then Inr (ServerAdd_wire p)
        else Inl (ECursor BufferOverflow)) \<and>
     ServerAdd_decode mc (ServerAdd_wire p) = Inr p"
  using assms by (simp add: ServerAdd_encode_wire ServerAdd_decode_wire)

lemma server_add_codec_exact_witness:
  "ServerAdd_decode naive_memchr (ServerAdd_wire demo_add) = Inr demo_add"
  using server_add_codec_exact [OF naive_memchr_ok demo_add_valid] by blast

text \<open>C31. What the announcement decoder accepts, and nothing else: a packet it accepts is the header, the text of
  key/value entries without separators inside, and at most a separator and a newline behind them; the
  decoded packet is the fold of the entries over the default packet, and a challenge is one of them.\<close>

lemma server_add_accepts_only:
  assumes "memchr_ok mc" "ServerAdd_decode mc src = Inr p"
  shows "\<exists>kvs value. kv_clean kvs \<and> (str ''challenge'', value) \<in> set kvs \<and>
     fold_entries ServerAdd_step kvs (ServerAdd_default, False) = Inr (p, True) \<and>
     (\<exists>tail \<in> {[], [92], [10], [92, 10]}. src = ServerAdd_HEADER @ kv_wire kvs @ tail)"
  by (rule ServerAdd_decode_shape [OF assms])

lemma server_add_accepts_only_witness:
  "\<exists>kvs value. kv_clean kvs \<and> (str ''challenge'', value) \<in> set kvs \<and>
     fold_entries ServerAdd_step kvs (ServerAdd_default, False) = Inr (demo_add, True) \<and>
     (\<exists>tail \<in> {[], [92], [10], [92, 10]}. ServerAdd_wire demo_add = ServerAdd_HEADER @ kv_wire kvs @ tail)"
  by (rule server_add_accepts_only [OF naive_memchr_ok
        ServerAdd_decode_wire [OF naive_memchr_ok demo_add_valid]])

section \<open>Replies of game servers\<close>

definition demo_info :: get_server_info_response where
  "demo_info = GetServerInfoResponse_default
     \<lparr>gsi_gamedir := str ''valve'', gsi_map := str ''crossfire'', gsi_host := str ''Test'',
      gsi_protocol := 49, gsi_numcl := 4, gsi_maxcl := 32, gsi_dm := True\<rparr>"

lemma demo_info_valid: "GetServerInfoResponse_valid demo_info"
  by (simp add: GetServerInfoResponse_valid_def demo_info_def GetServerInfoResponse_default_def
      map_clean_def str_def)

text \<open>The information reply of the Xash3D protocol: the encoder writes exactly the wire form or reports an
  overflow, and the decoder, which also copes with a missing terminator, gives the packet back.\<close>

lemma get_server_info_response_codec:
  assumes "memchr_ok mc" "GetServerInfoResponse_valid p"
  shows "GetServerInfoResponse_encode p buf =
       (if length (GetServerInfoResponse_wire p) \<le> length buf then Inr (GetServerInfoResponse_wire p)
        else Inl (ECursor BufferOverflow)) \<and>
     GetServerInfoResponse_decode mc (GetServerInfoResponse_wire p) = Inr p"
  using assms by (simp add: GetServerInfoResponse_encode_wire GetServerInfoResponse_decode_wire)





definition demo_player :: "u8 \<Rightarrow> player_info" where
  "demo_player i = \<lparr>pi_id = i, pi_name = str ''player'', pi_frags = - 3, pi_time = 0x42f6e979\<rparr>"

text \<open>C32. The player list: with at most 255 players that have no NUL in their names the encoder returns the
  wire form or an overflow, and a client that decodes it iterates over exactly these players in order.\<close>

lemma get_players_response_codec:
  assumes "memchr_ok mc" "length ps \<le> 255" "\<forall>i \<in> set ps. cstr_clean (pi_name i)"
  shows "GetPlayersResponse_encode ps buf =
       Some (if length (GetPlayersResponse_wire ps) \<le> length buf then Inr (GetPlayersResponse_wire ps)
             else Inl (ECursor BufferOverflow)) \<and>
     (\<exists>r. GetPlayersResponse_decode (GetPlayersResponse_wire ps) = Inr r \<and>
        GetPlayersResponse_players mc r = map Inr ps)"
  using assms by (simp add: GetPlayersResponse_encode_wire GetPlayersResponse_decode_wire
      GetPlayersResponse_players_wire)

lemma get_players_response_codec_witness:
  "\<exists>r. GetPlayersResponse_decode (GetPlayersResponse_wire [demo_player 0, demo_player 1]) = Inr r \<and>
     GetPlayersResponse_players naive_memchr r = [Inr (demo_player 0), Inr (demo_player 1)]"
  using get_players_response_codec [OF naive_memchr_ok, of "[demo_player 0, demo_player 1]"]
  by (simp add: demo_player_def cstr_clean_def str_def)

text \<open>The documented panic of the player list: more than 255 players make the encoder panic as soon as the
  buffer holds the first 255 of them.\<close>

lemma get_players_response_panic:
  assumes "256 \<le> length ps" "length (GetPlayersResponse_wire (take 255 ps)) \<le> length buf"
  shows "GetPlayersResponse_encode ps buf = None"
  by (rule GetPlayersResponse_encode_panics [OF assms])

lemma length_demo_players: "length (GetPlayersResponse_wire (replicate n (demo_player 0))) = 6 + n * 16"
  by (simp add: GetPlayersResponse_wire_def GetPlayersResponse_HEADER_def length_concat sum_list_replicate
      PlayerInfo_wire_def demo_player_def)

section \<open>Dispatch\<close>

text \<open>Every packet of a game server is recognised: the dispatcher tries the headers in its order and hands
  each packet's wire form to the right decoder, although some headers are prefixes of longer texts.\<close>

lemma server_packet_dispatch:
  assumes "memchr_ok mc" "ServerPacket_valid p"
  shows "ServerPacket_decode mc (ServerPacket_wire p) = Inr (Some p)"
  by (rule ServerPacket_decode_wire [OF assms])

text \<open>Every packet of a game client is recognised, among them the challenge request and the player
  request, whose headers begin alike.\<close>

lemma game_packet_dispatch:
  assumes "memchr_ok mc" "GamePacket_valid p"
  shows "GamePacket_decode mc (GamePacket_wire p) = Inr (Some p)"
  by (rule GamePacket_decode_wire [OF assms])

text \<open>Every packet of the master server is recognised by the dispatcher of its clients.\<close>

lemma master_packet_dispatch:
  assumes "MasterPacket_valid p"
  shows "MasterPacket_decode (MasterPacket_wire p) = Inr (Some p)"
  by (rule MasterPacket_decode_wire [OF assms])

text \<open>Administrator commands and their dispatcher: a command comes back from its wire form when both
  sides use the same hash length; the dispatcher finds it unless its number and hash spell the longer
  header of the challenge request, and then it reports an unexpected header.\<close>

lemma admin_packet_dispatch:
  assumes "AdminCommand_valid n p" "AdminCommand_wire p \<noteq> AdminChallenge_HEADER"
  shows "AdminCommand_decode_with_hash_len n (AdminCommand_wire p) = Inr p \<and>
     AdminPacket_decode n (AdminCommand_wire p) =
       (if shadows_challenge p then Inl (ECursor Expect) else Inr (Some (AAdminCommand p)))"
  using assms by (simp add: AdminCommand_decode_wire AdminPacket_decode_command AdminPacket_decode_shadowed)

definition demo_shadow :: admin_command where
  "demo_shadow = \<lparr>ac_master_challenge = 0x6c616863, ac_hash = str ''lenge'' @ replicate 59 1,
     ac_command = str ''ban 1.2.3.4''\<rparr>"

lemma demo_shadow_wire:
  "AdminCommand_wire demo_shadow = str ''adminchallenge'' @ replicate 59 1 @ str ''ban 1.2.3.4''"
proof -
  have four: "(4 :: nat) = Suc (Suc (Suc (Suc 0)))" by simp
  have "to_le 4 (0x6c616863 :: u32) = str ''chal''" unfolding four by (simp add: str_def)
  then show ?thesis
    by (simp add: AdminCommand_wire_def AdminCommand_HEADER_def demo_shadow_def) (simp add: str_def)
qed

section \<open>Server lists\<close>

definition demo_v4 :: "u8 \<Rightarrow> socket_v4" where
  "demo_v4 n = \<lparr>v4_ip = 0xC0A80000 OR ucast n, v4_port = 27015\<rparr>"

text \<open>C30. The server list for IPv4: the encoder takes as many of the addresses as fit besides the end marker,
  says how many, and a client that decodes the packet reads the key and exactly these addresses in order.
  A list without a key must not begin with an address whose bytes read as a key header.\<close>

lemma server_list_v4_delivered:
  assumes "qsr_key p \<noteq> None \<or>
      \<not> looks_like_key (concat (map SocketAddrV4_wire (take n xs)) @ replicate 6 0)"
    and "QueryServersResponse_encode SocketAddrV4 p buf xs = Inr (s, n)"
  shows "n = addresses_fit 6 (length buf - length (QueryServersResponse_prefix (qsr_key p))) (length xs) \<and>
     (\<exists>r. QueryServersResponse_decode s = Inr r \<and> qsr_key r = qsr_key p \<and>
        QueryServersResponse_iter SocketAddrV4 r = take n xs)"
proof -
  have "sad_size SocketAddrV4 = 6" by (simp add: SocketAddrV4_def)
  with assms show ?thesis
    using v4.encode_spec [of p buf xs] v4.encode_iter [OF assms(2)]
    by (auto simp: Let_def split: if_splits)
qed

lemma server_list_v4_delivered_witness:
  "\<exists>s r. QueryServersResponse_encode SocketAddrV4 (QueryServersResponse_new (Some 77)) (replicate 24 0)
       [demo_v4 1, demo_v4 2, demo_v4 3] = Inr (s, 1) \<and>
     QueryServersResponse_decode s = Inr r \<and> qsr_key r = Some 77 \<and>
     QueryServersResponse_iter SocketAddrV4 r = [demo_v4 1]"
proof -
  have size: "sad_size SocketAddrV4 = 6" by (simp add: SocketAddrV4_def)
  obtain s n where e: "QueryServersResponse_encode SocketAddrV4 (QueryServersResponse_new (Some 77))
      (replicate 24 0) [demo_v4 1, demo_v4 2, demo_v4 3] = Inr (s, n)" and n: "n = 1"
    using v4.encode_spec [of "QueryServersResponse_new (Some 77)" "replicate 24 0" "[demo_v4 1, demo_v4 2, demo_v4 3]"]
    by (simp add: size QueryServersResponse_new_def QueryServersResponse_prefix_def
        QueryServersResponse_HEADER_def addresses_fit_def Let_def)
  show ?thesis
    using server_list_v4_delivered [OF _ e] e n by (auto simp: QueryServersResponse_new_def)
qed

section \<open>Queries and filters\<close>

text \<open>The query of a game client: region, last address and filter survive the wire when the strings are
  printable, also when the client leaves out the final terminator, as Xash3D clients do.\<close>

lemma query_servers_codec:
  assumes "memchr_ok mc" "printable (qs_last p)" "Filter_printable (qs_filter p)"
  shows "QueryServers_encode Filter_display p buf =
       (if length (QueryServers_wire Filter_display p) \<le> length buf then Inr (QueryServers_wire Filter_display p)
        else Inl (ECursor BufferOverflow)) \<and>
     QueryServers_decode mc (Filter_from_slice mc) (QueryServers_wire Filter_display p) = Inr p \<and>
     QueryServers_decode mc (Filter_from_slice mc) (butlast (QueryServers_wire Filter_display p)) = Inr p"
  using query_filter.decode_wire [OF QueryServers_filter [OF assms(1)] assms(2,3)]
    query_filter.decode_unterminated [OF QueryServers_filter [OF assms(1)] assms(2,3)]
  by (simp add: QueryServers_encode_wire)

text \<open>C13. The filter's text: printing a filter and parsing the text gives the filter back, for every flag, number,
  version and printable string, although the \<^verbatim>\<open>secure\<close> flag is printed twice.\<close>

lemma filter_print_parse:
  assumes "memchr_ok mc" "Filter_printable f"
  shows "Filter_from_slice mc (Filter_display f) = Inr f"
  by (rule Filter_from_display [OF assms])

lemma filter_print_parse_witness:
  "Filter_from_slice naive_memchr (Filter_display demo_filter) = Inr demo_filter"
  by (rule filter_print_parse [OF naive_memchr_ok demo_filter_printable])

text \<open>C37. The invariant of a parsed filter: whatever bytes are parsed, no flag is set outside the mask and the
  mask holds only declared flags.\<close>

lemma filter_parse_invariant:
  assumes "Filter_from_slice mc src = Inr f"
  shows "f_flags f AND f_flags_mask f = f_flags f \<and> f_flags_mask f AND 511 = f_flags_mask f"
  using Filter_from_slice_wf [OF assms] by (simp add: Filter_wf_def)

lemma filter_parse_invariant_witness:
  "f_flags demo_filter AND f_flags_mask demo_filter = f_flags demo_filter \<and>
     f_flags_mask demo_filter AND 511 = f_flags_mask demo_filter"
  by (rule filter_parse_invariant [OF Filter_from_display [OF naive_memchr_ok demo_filter_printable]])



section \<open>Broker packets\<close>

definition demo_connect :: broker_client_packet where
  "demo_connect = BConnect \<lparr>cn_server_address = SockV4 \<lparr>v4_ip = 0x7f000001, v4_port = 27010\<rparr>,
     cn_server_steam_id = 111222333, cn_challenge = 123456, cn_secure = True\<rparr>"

text \<open>C38. The commands to the Steam broker: each command with an IPv4 address or a printable game directory of one
  word is encoded exactly as its text in a frame, unless the frame does not fit the buffer or its
  length does not fit 16 bits; the receiver cuts that frame off a stream with more behind it,
  recognises the command and reads all its arguments back.\<close>

lemma broker_command_codec:
  assumes "ClientPacket_valid p"
  shows "ClientPacket_encode p buf = Some (frame_result (ClientPacket_text p) buf) \<and>
     (length (ClientPacket_text p) < 2 ^ 16 \<longrightarrow>
        Frame_decode (fr_data (frame_of (ClientPacket_text p)) @ rest) = Inr (frame_of (ClientPacket_text p))) \<and>
     ClientPacket_decode (frame_of (ClientPacket_text p)) = Inr p"
  by (simp add: ClientPacket_encode_text [OF assms] ClientPacket_decode_text [OF assms] Frame_decode_of)

lemma broker_command_codec_witness:
  "ClientPacket_encode demo_connect (replicate 128 0) =
     Some (Inr (frame_of (str ''sb_connect 127.0.0.1:27010 111222333 1 123456''))) \<and>
   ClientPacket_decode (frame_of (str ''sb_connect 127.0.0.1:27010 111222333 1 123456'')) = Inr demo_connect"
proof -
  have "ipv4_octets 0x7f000001 = [127, 0, 0, 1]" by code_simp
  then have t: "ClientPacket_text demo_connect = str ''sb_connect 127.0.0.1:27010 111222333 1 123456''"
    by (simp add: demo_connect_def args_wire_Cons socket_addr_display_def socket_v4_display_def ipv4_display_def
        show_dec_def digits.simps digit_char_def Connect_HEADER_def str_def)
  have "ClientPacket_valid demo_connect" by (simp add: demo_connect_def is_ipv4_def)
  from broker_command_codec [OF this, of "replicate 128 0"] show ?thesis
    by (simp add: t frame_result_def)
qed

text \<open>The broker's answer: its encoder is exact in the same sense and a client reads the challenge, the Steam
  id and the ticket back, for every ticket of less than 4 GiB.\<close>

lemma broker_answer_codec:
  assumes "length (crs_ticket p) < 2 ^ 32"
  shows "ConnectResponse_encode p buf = Some (frame_result (ConnectResponse_payload p) buf) \<and>
     BrokerServerPacket_decode (frame_of (ConnectResponse_payload p)) = Inr (BConnectResponse p)"
  by (simp add: ConnectResponse_encode_payload [OF assms] ConnectResponse_decode_payload [OF assms])

section \<open>Texts\<close>

text \<open>The printer of byte strings: the loop that writes printable runs at once and escapes single bytes
  prints exactly the concatenation of one byte's form per byte.\<close>

lemma str_format_bytewise: "str_format_bytes s = concat (map format_byte s)"
  by (rule str_format_bytes_concat)

text \<open>The key/value iterator is memory-safe and complete: each entry it yields is cut from the text at
  separators, nothing is skipped, and the keys and values hold no separator.\<close>

lemma map_iter_entry:
  assumes "memchr_ok mc" "MapIter_next mc text = (Some (Inr (k, v)), rest)"
  shows "92 \<notin> set k \<and> 92 \<notin> set v \<and>
     (text = k @ [92] @ v \<and> rest = [] \<or> text = k @ [92] @ v @ [92] @ rest)"
  using MapIter_next_entry [OF assms] by simp

text \<open>Versions: parsing the printed form of a version gives it back; the patch number is left out when it is
  zero and read as zero.\<close>

lemma version_print_parse: "Version_from_str (Version_display v) = Inr v"
  by (rule Version_from_display)

text \<open>IPv4 socket addresses: the standard library's parser reads back what its printer wrote, for every
  address and port, so the announcement of a client reaches the game server intact.\<close>

lemma client_announce_v4_codec:
  "socket_addr_from_str (socket_addr_display (SockV4 a)) = Some (SockV4 a) \<and>
   ClientAnnounce_decode (ClientAnnounce_wire \<lparr>ca_addr = SockV4 a\<rparr>) = Inr \<lparr>ca_addr = SockV4 a\<rparr>"
  by (simp add: socket_addr_v4_roundtrip ClientAnnounce_decode_wire ClientAnnounce_valid_def)

text \<open>The announcement of a client fits the 64 bytes the master server gives it, whatever the address, with
  a full-length IPv6 address and a ten-digit scope: the encoder never overflows there.\<close>

lemma client_announce_fits:
  "ClientAnnounce_encode \<lparr>ca_addr = a\<rparr> (replicate 64 0) = Inr (ClientAnnounce_wire \<lparr>ca_addr = a\<rparr>)"
  using length_socket_addr_display [of a]
  by (simp add: ClientAnnounce_encode_wire) (simp add: ClientAnnounce_wire_def ClientAnnounce_HEADER_def)

section \<open>Cursors\<close>

text \<open>Reading stays inside the buffer: a read that succeeds advances the position, never past the end of the
  buffer, and a C string that is read ends at a NUL inside the buffer.\<close>

lemma cursor_reads_inside:
  assumes "memchr_ok mc" "Cursor_get_cstr mc c = Inr (s, c')"
  shows "cur_buffer c' = cur_buffer c \<and> cur_pos c \<le> cur_pos c' \<and> cur_pos c' \<le> length (cur_buffer c) \<and>
     0 \<notin> set s"
  using Cursor_get_cstr_advances [OF assms] by (simp add: advances_def)

end
