(* ===== verification/Master_Config.thy ===== *)
theory Master_Config
  imports Admin_Packets Net_Addr
begin

text \<open>
  The configuration of the master server (\<^verbatim>\<open>config.rs\<close>), its fixed-size strings (\<^verbatim>\<open>str_arr.rs\<close>),
  its counters (\<^verbatim>\<open>stats/imp.rs\<close>) and its signal flags (\<^verbatim>\<open>signal_flags.rs\<close>). Reading the
  configuration file is the work of \<^verbatim>\<open>serde\<close> and \<^verbatim>\<open>toml\<close>; the values it fills in are here,
  \<^verbatim>\<open>load\<close> is in \<^verbatim>\<open>Master_Program\<close>.
\<close>

unbundle bit_operations_syntax

section \<open>Configuration\<close>

datatype level_filter = LOff | LError | LWarn | LInfo | LDebug | LTrace

text \<open>Any prefix of a level's name selects it, the first name in this order; a digit selects by
  number.\<close>

definition parse_log_level :: "bytes \<Rightarrow> level_filter option" where
  "parse_log_level s =
     (if starts_with s (str ''off'') then Some LOff
      else if starts_with s (str ''error'') then Some LError
      else if starts_with s (str ''warn'') then Some LWarn
      else if starts_with s (str ''info'') then Some LInfo
      else if starts_with s (str ''debug'') then Some LDebug
      else if starts_with s (str ''trace'') then Some LTrace
      else case (parse_word 10 s :: u8 option) of
        None \<Rightarrow> None
      | Some n \<Rightarrow>
          if n = 0 then Some LOff
          else if n = 1 then Some LError
          else if n = 2 then Some LWarn
          else if n = 3 then Some LInfo
          else if n = 4 then Some LDebug
          else if n = 5 then Some LTrace
          else None)"

record log_config =
  lc_level :: level_filter
  lc_time :: bool

record timeout_config =
  to_challenge :: u32
  to_server :: u32
  to_admin :: u32

record server_config =
  sc_ip :: ip_addr
  sc_port :: u16
  sc_max_servers_per_ip :: u16
  sc_min_version :: version
  sc_timeout :: timeout_config
  sc_client_rate_limit :: u32

record client_config =
  cc_min_version :: version
  cc_min_engine_buildnum :: u32
  cc_min_old_engine_buildnum :: u32
  cc_update_map :: bytes
  cc_update_title :: bytes
  cc_update_addr :: "bytes option"

record hash_config =
  hc_len :: nat
  hc_key :: bytes
  hc_personal :: bytes

record admin_config =
  adm_name :: bytes
  adm_password :: bytes

record stat_config =
  st_interval :: u32
  st_format :: bytes

record master_config =
  mc_server :: server_config
  mc_client :: client_config
  mc_hash :: hash_config
  mc_admin_list :: "admin_config list"

record config =
  cfg_log :: log_config
  cfg_master :: master_config
  cfg_stat :: stat_config

definition DEFAULT_MASTER_SERVER_IP :: ip_addr where "DEFAULT_MASTER_SERVER_IP = IpV4 0"
definition DEFAULT_MASTER_SERVER_PORT :: u16 where "DEFAULT_MASTER_SERVER_PORT = 27010"
definition DEFAULT_CHALLENGE_TIMEOUT :: u32 where "DEFAULT_CHALLENGE_TIMEOUT = 10"
definition DEFAULT_SERVER_TIMEOUT :: u32 where "DEFAULT_SERVER_TIMEOUT = 300"
definition DEFAULT_ADMIN_TIMEOUT :: u32 where "DEFAULT_ADMIN_TIMEOUT = 10"
definition DEFAULT_MAX_SERVERS_PER_IP :: u16 where "DEFAULT_MAX_SERVERS_PER_IP = 14"
definition DEFAULT_HASH_LEN :: nat where "DEFAULT_HASH_LEN = HASH_LEN"
definition DEFAULT_SERVER_MIN_VERSION :: version where "DEFAULT_SERVER_MIN_VERSION = Version_new 0 21"
definition DEFAULT_CLIENT_MIN_VERSION :: version where "DEFAULT_CLIENT_MIN_VERSION = Version_new 0 21"
definition DEFAULT_MIN_ENGINE_BUILDNUM :: u32 where "DEFAULT_MIN_ENGINE_BUILDNUM = 0"
definition DEFAULT_MIN_OLD_ENGINE_BUILDNUM :: u32 where "DEFAULT_MIN_OLD_ENGINE_BUILDNUM = 3500"

definition LogConfig_default :: log_config where
  "LogConfig_default = \<lparr>lc_level = LInfo, lc_time = True\<rparr>"

definition TimeoutConfig_default :: timeout_config where
  "TimeoutConfig_default =
     \<lparr>to_challenge = DEFAULT_CHALLENGE_TIMEOUT, to_server = DEFAULT_SERVER_TIMEOUT,
      to_admin = DEFAULT_ADMIN_TIMEOUT\<rparr>"

definition ServerConfig_default :: server_config where
  "ServerConfig_default =
     \<lparr>sc_ip = DEFAULT_MASTER_SERVER_IP, sc_port = DEFAULT_MASTER_SERVER_PORT,
      sc_max_servers_per_ip = DEFAULT_MAX_SERVERS_PER_IP,
      sc_min_version = DEFAULT_SERVER_MIN_VERSION, sc_timeout = TimeoutConfig_default,
      sc_client_rate_limit = 0\<rparr>"

definition ClientConfig_default :: client_config where
  "ClientConfig_default =
     \<lparr>cc_min_version = DEFAULT_CLIENT_MIN_VERSION,
      cc_min_engine_buildnum = DEFAULT_MIN_ENGINE_BUILDNUM,
      cc_min_old_engine_buildnum = DEFAULT_MIN_OLD_ENGINE_BUILDNUM,
      cc_update_map = str ''Update please'',
      cc_update_title = str ''https://github.com/FWGS/xash3d-fwgs'',
      cc_update_addr = None\<rparr>"

definition HashConfig_default :: hash_config where
  "HashConfig_default =
     \<lparr>hc_len = DEFAULT_HASH_LEN, hc_key = HASH_KEY, hc_personal = HASH_PERSONAL\<rparr>"

definition StatConfig_default :: stat_config where
  "StatConfig_default =
     \<lparr>st_interval = 0,
      st_format = str ''stats: %s servers, %a add/s, %d del/s, %q query/s, %e error/s''\<rparr>"

definition MasterConfig_default :: master_config where
  "MasterConfig_default =
     \<lparr>mc_server = ServerConfig_default, mc_client = ClientConfig_default,
      mc_hash = HashConfig_default, mc_admin_list = []\<rparr>"

definition Config_default :: config where
  "Config_default =
     \<lparr>cfg_log = LogConfig_default, cfg_master = MasterConfig_default,
      cfg_stat = StatConfig_default\<rparr>"

section \<open>Fixed-size strings\<close>

record str_arr =
  arr_len :: u8
  arr_bytes :: bytes

definition StrArr_new :: "nat \<Rightarrow> bytes \<Rightarrow> str_arr option" where
  "StrArr_new n s =
     (case from_utf8 s of
        Inl _ \<Rightarrow> None
      | Inr s \<Rightarrow>
          if length s \<le> n
          then Some \<lparr>arr_len = of_nat (length s), arr_bytes = write_at 0 s (replicate n 0)\<rparr>
          else None)"

definition StrArr_as_bytes :: "str_arr \<Rightarrow> bytes" where
  "StrArr_as_bytes a = take (unat (arr_len a)) (arr_bytes a)"

text \<open>\<^verbatim>\<open>as_str\<close> unwraps the UTF-8 check; \<open>None\<close> would be its panic.\<close>

definition StrArr_as_str :: "str_arr \<Rightarrow> bytes option" where
  "StrArr_as_str a = (case from_utf8 (StrArr_as_bytes a) of Inr s \<Rightarrow> Some s | Inl _ \<Rightarrow> None)"

lemma StrArr_roundtrip:
  assumes "StrArr_new n s = Some a" "n \<le> 255"
  shows "StrArr_as_str a = Some s \<and> length s \<le> n"
proof -
  have u: "is_utf8 s" and len: "length s \<le> n"
    and a: "a = \<lparr>arr_len = of_nat (length s), arr_bytes = write_at 0 s (replicate n 0)\<rparr>"
    using assms(1) from_utf8_InrD [of s] by (auto simp: StrArr_new_def split: sum.splits if_splits)
  have "unat (of_nat (length s) :: u8) = length s"
    using len assms(2) by (simp add: unat_of_nat take_bit_eq_mod)
  then have "StrArr_as_bytes a = s" by (simp add: StrArr_as_bytes_def a write_at_def)
  with u len show ?thesis by (simp add: StrArr_as_str_def from_utf8_Inr)
qed

lemma StrArr_new_iff: "StrArr_new n s \<noteq> None \<longleftrightarrow> is_utf8 s \<and> length s \<le> n"
proof (cases "from_utf8 s")
  case (Inl e)
  then show ?thesis by (simp add: StrArr_new_def is_utf8_def)
next
  case (Inr t)
  with from_utf8_InrD [OF Inr] show ?thesis by (simp add: StrArr_new_def)
qed

section \<open>Counters\<close>

text \<open>The counters are atomics; the printing thread resets all but the first.\<close>

record stats =
  stat_enabled :: bool
  stat_servers :: nat
  stat_server_add :: u32
  stat_server_del :: u32
  stat_query_servers :: u32
  stat_errors :: u32

definition Stats_new :: "stat_config \<Rightarrow> stats" where
  "Stats_new config =
     \<lparr>stat_enabled = (st_interval config \<noteq> 0), stat_servers = 0, stat_server_add = 0,
      stat_server_del = 0, stat_query_servers = 0, stat_errors = 0\<rparr>"

definition Stats_update_config :: "stat_config \<Rightarrow> stats \<Rightarrow> stats" where
  "Stats_update_config config s = s\<lparr>stat_enabled := (st_interval config \<noteq> 0)\<rparr>"

definition Stats_clear :: "stats \<Rightarrow> stats" where
  "Stats_clear s =
     s\<lparr>stat_servers := 0, stat_server_add := 0, stat_server_del := 0, stat_query_servers := 0,
       stat_errors := 0\<rparr>"

definition Stats_servers_count :: "nat \<Rightarrow> stats \<Rightarrow> stats" where
  "Stats_servers_count n s = (if stat_enabled s then s\<lparr>stat_servers := n\<rparr> else s)"

definition Stats_on_server_add :: "stats \<Rightarrow> stats" where
  "Stats_on_server_add s =
     (if stat_enabled s then s\<lparr>stat_server_add := stat_server_add s + 1\<rparr> else s)"

definition Stats_on_server_del :: "stats \<Rightarrow> stats" where
  "Stats_on_server_del s =
     (if stat_enabled s then s\<lparr>stat_server_del := stat_server_del s + 1\<rparr> else s)"

definition Stats_on_query_servers :: "stats \<Rightarrow> stats" where
  "Stats_on_query_servers s =
     (if stat_enabled s then s\<lparr>stat_query_servers := stat_query_servers s + 1\<rparr> else s)"

definition Stats_on_error :: "stats \<Rightarrow> stats" where
  "Stats_on_error s = (if stat_enabled s then s\<lparr>stat_errors := stat_errors s + 1\<rparr> else s)"

section \<open>Signal flags\<close>

definition SIG_EXIT :: u32 where "SIG_EXIT = 1"
definition SIG_RELOAD_CONFIG :: u32 where "SIG_RELOAD_CONFIG = 2"

text \<open>The atomic word: a signal handler ors its flag in, \<^verbatim>\<open>remove_reload\<close> takes the flag out and
  tells whether it was there.\<close>

definition SignalFlags_raise :: "u32 \<Rightarrow> u32 \<Rightarrow> u32" where
  "SignalFlags_raise flag bits = flags_insert bits flag"

definition SignalFlags_is_exit :: "u32 \<Rightarrow> bool" where
  "SignalFlags_is_exit bits \<longleftrightarrow> flags_intersects bits SIG_EXIT"

definition SignalFlags_remove :: "u32 \<Rightarrow> u32 \<Rightarrow> u32 \<times> u32" where
  "SignalFlags_remove flags bits = (bits, bits AND NOT flags)"

definition SignalFlags_remove_reload :: "u32 \<Rightarrow> bool \<times> u32" where
  "SignalFlags_remove_reload bits =
     (let (old, new) = SignalFlags_remove SIG_RELOAD_CONFIG bits
      in (flags_intersects old SIG_RELOAD_CONFIG, new))"

definition SignalFlags_is_empty :: "u32 \<Rightarrow> bool" where
  "SignalFlags_is_empty bits \<longleftrightarrow> bits = 0"

lemma remove_reload_once:
  "SignalFlags_remove_reload bits = (b, bits') \<Longrightarrow> fst (SignalFlags_remove_reload bits') = False"
  by (auto simp: SignalFlags_remove_reload_def SignalFlags_remove_def flags_intersects_def and.assoc)

lemma remove_reload_keeps_exit:
  "SignalFlags_is_exit (snd (SignalFlags_remove_reload bits)) \<longleftrightarrow> SignalFlags_is_exit bits"
proof -
  have "(bits AND NOT SIG_RELOAD_CONFIG) AND SIG_EXIT = bits AND (NOT SIG_RELOAD_CONFIG AND SIG_EXIT)"
    by (rule and.assoc)
  also have "NOT SIG_RELOAD_CONFIG AND SIG_EXIT = SIG_EXIT"
    by (simp add: SIG_RELOAD_CONFIG_def SIG_EXIT_def)
  finally show ?thesis
    by (simp add: SignalFlags_remove_reload_def SignalFlags_remove_def SignalFlags_is_exit_def
        flags_intersects_def)
qed

end
