(* ===== verification/Timed_Map.thy ===== *)
theory Timed_Map
  imports Prelude "HOL-Library.AList"
begin

text \<open>
  The timed hash map of the master server: \<^verbatim>\<open>time.rs\<close>, \<^verbatim>\<open>periodic.rs\<close> and \<^verbatim>\<open>hash_map.rs\<close>. Every
  call of \<^verbatim>\<open>RelativeTime::now()\<close> is an argument of the operation that makes it, in the order of
  the calls. The hash map is an association list with distinct keys, whose order stands for the
  iteration order.

  \<open>view m now\<close> is what the map means at a time: the entries younger than the timeout. The locale
  \<open>timed_store\<close> is the contract the master server relies on.
\<close>

section \<open>Relative time\<close>

text \<open>A \<^verbatim>\<open>RelativeTime\<close> counts units in a \<^verbatim>\<open>u32\<close>; \<^verbatim>\<open>now()\<close> converts the milliseconds since the
  start of the program.\<close>

type_synonym reltime = u32

definition MILLIS_PER_UNIT :: nat where "MILLIS_PER_UNIT = 125"
definition UNITS_PER_SEC :: nat where "UNITS_PER_SEC = 1000 div MILLIS_PER_UNIT"

definition RelativeTime_from_millis :: "u64 \<Rightarrow> reltime" where
  "RelativeTime_from_millis ms = of_nat (unat ms div UNITS_PER_SEC)"

definition RelativeTime_as_millis :: "reltime \<Rightarrow> u64" where
  "RelativeTime_as_millis t = ucast t * of_nat UNITS_PER_SEC"

text \<open>\<open>elapsed\<close> is the time since the first call in milliseconds, a \<^verbatim>\<open>u128\<close> in the code.\<close>

definition RelativeTime_now :: "nat \<Rightarrow> reltime" where
  "RelativeTime_now elapsed = RelativeTime_from_millis (of_nat elapsed)"

text \<open>A \<^verbatim>\<open>Duration\<close> in milliseconds, and its whole seconds.\<close>

definition RelativeTime_duration_since :: "reltime \<Rightarrow> reltime \<Rightarrow> nat" where
  "RelativeTime_duration_since self earlier =
     unat (RelativeTime_as_millis self) - unat (RelativeTime_as_millis earlier)"

definition as_secs :: "nat \<Rightarrow> nat" where
  "as_secs ms = ms div 1000"

lemma UNITS_PER_SEC_8 [simp]: "UNITS_PER_SEC = 8"
  by (simp add: UNITS_PER_SEC_def MILLIS_PER_UNIT_def)

lemma unat_as_millis: "unat (RelativeTime_as_millis t) = unat t * 8"
proof -
  have "unat t < 2 ^ 32" using unsigned_less [of t] by simp
  then show ?thesis
    by (simp add: RelativeTime_as_millis_def unat_word_ariths unsigned_ucast_eq take_bit_eq_mod)
qed

lemma duration_since_unat: "RelativeTime_duration_since t e = (unat t - unat e) * 8"
  by (simp add: RelativeTime_duration_since_def unat_as_millis diff_mult_distrib)

lemma duration_since_mono:
  "e \<le> t' \<Longrightarrow> t' \<le> t \<Longrightarrow> RelativeTime_duration_since t' e \<le> RelativeTime_duration_since t e"
  by (simp add: duration_since_unat word_le_nat_alt)

text \<open>
  The clock counts units of 8 ms for the first \<^verbatim>\<open>2^35\<close> ms, which are less than 398 days, and then starts again. Two
  readings are as far apart as the times they were taken at, up to 8 ms.
\<close>

lemma RelativeTime_now_unat: "elapsed < 2 ^ 35 \<Longrightarrow> unat (RelativeTime_now elapsed) = elapsed div 8"
  by (simp add: RelativeTime_now_def RelativeTime_from_millis_def unat_of_nat take_bit_eq_mod)

lemma RelativeTime_now_mono: "t \<le> t' \<Longrightarrow> t' < 2 ^ 35 \<Longrightarrow> RelativeTime_now t \<le> RelativeTime_now t'"
  by (simp add: word_le_nat_alt RelativeTime_now_unat div_le_mono)

lemma clock_wraps: "RelativeTime_now (2 ^ 35) = 0" "2 ^ 35 < (398 * 24 * 60 * 60 * 1000 :: nat)"
  by (simp_all add: RelativeTime_now_def RelativeTime_from_millis_def)

lemma RelativeTime_now_distance:
  assumes "t \<le> t'" "t' < 2 ^ 35"
  shows "RelativeTime_duration_since (RelativeTime_now t') (RelativeTime_now t) < t' - t + 8"
    and "t' - t < RelativeTime_duration_since (RelativeTime_now t') (RelativeTime_now t) + 8"
proof -
  have now: "unat (RelativeTime_now t') = t' div 8" "unat (RelativeTime_now t) = t div 8"
    using assms by (simp_all add: RelativeTime_now_unat)
  show "RelativeTime_duration_since (RelativeTime_now t') (RelativeTime_now t) < t' - t + 8"
    unfolding duration_since_unat now using assms(1) by linarith
  show "t' - t < RelativeTime_duration_since (RelativeTime_now t') (RelativeTime_now t) + 8"
    unfolding duration_since_unat now using assms(1) by linarith
qed

section \<open>Periodic actions\<close>

record periodic =
  p_limit :: u16
  p_cur :: u16

definition Periodic_DEFAULT_LIMIT :: u16 where "Periodic_DEFAULT_LIMIT = 100"

definition Periodic_with_limit :: "u16 \<Rightarrow> periodic" where
  "Periodic_with_limit limit = \<lparr>p_limit = limit, p_cur = 0\<rparr>"

definition Periodic_new :: periodic where
  "Periodic_new = Periodic_with_limit Periodic_DEFAULT_LIMIT"

definition Periodic_reset :: "periodic \<Rightarrow> periodic" where
  "Periodic_reset p = p\<lparr>p_cur := 0\<rparr>"

definition Periodic_next :: "periodic \<Rightarrow> bool \<times> periodic" where
  "Periodic_next p =
     (let p = p\<lparr>p_cur := p_cur p + 1\<rparr> in
      if p_cur p < p_limit p then (False, p) else (True, Periodic_reset p))"

text \<open>\<^verbatim>\<open>maybe_run\<close> with the action as a function on the state it changes.\<close>

definition Periodic_maybe_run :: "('s \<Rightarrow> 's) \<Rightarrow> periodic \<times> 's \<Rightarrow> periodic \<times> 's" where
  "Periodic_maybe_run f ps =
     (let (due, p) = Periodic_next (fst ps) in if due then (p, f (snd ps)) else (p, snd ps))"

text \<open>The counter stays below the limit, so that its increment never overflows.\<close>

definition periodic_inv :: "periodic \<Rightarrow> bool" where
  "periodic_inv p \<longleftrightarrow> p_cur p = 0 \<or> p_cur p < p_limit p"

lemma periodic_inv_init: "periodic_inv (Periodic_with_limit l)" "periodic_inv Periodic_new"
  by (simp_all add: periodic_inv_def Periodic_with_limit_def Periodic_new_def)

lemma periodic_no_overflow: "periodic_inv p \<Longrightarrow> unat (p_cur p + 1) = unat (p_cur p) + 1"
proof -
  assume "periodic_inv p"
  moreover have "unat (p_limit p) < 65536" using unsigned_less [of "p_limit p"] by simp
  ultimately have "unat (p_cur p) < 65535"
    by (auto simp: periodic_inv_def word_less_nat_alt)
  then show ?thesis by (simp add: unat_word_ariths)
qed

lemma Periodic_next_inv: "periodic_inv p \<Longrightarrow> periodic_inv (snd (Periodic_next p))"
  by (simp add: Periodic_next_def Periodic_reset_def periodic_inv_def Let_def)

lemma Periodic_next_limit: "p_limit (snd (Periodic_next p)) = p_limit p"
  by (simp add: Periodic_next_def Periodic_reset_def Let_def)

fun periodic_calls :: "nat \<Rightarrow> periodic \<Rightarrow> bool list \<times> periodic" where
  "periodic_calls 0 p = ([], p)"
| "periodic_calls (Suc n) p =
     (let (b, p) = Periodic_next p; (bs, p) = periodic_calls n p in (b # bs, p))"

text \<open>The counter as a number: how the calls count up to the limit.\<close>

lemma Periodic_next_unat:
  assumes "periodic_inv p"
  defines "l \<equiv> max 1 (unat (p_limit p))"
  shows "fst (Periodic_next p) \<longleftrightarrow> unat (p_cur p) + 1 = l"
    and "unat (p_cur (snd (Periodic_next p))) = (unat (p_cur p) + 1) mod l"
proof -
  note u = periodic_no_overflow [OF assms(1)]
  have c: "unat (p_cur p) < l"
    using assms(1) by (auto simp: periodic_inv_def l_def word_less_nat_alt)
  have due: "p_cur p + 1 < p_limit p \<longleftrightarrow> unat (p_cur p) + 1 < l"
    using u c by (auto simp: word_less_nat_alt l_def)
  show "fst (Periodic_next p) \<longleftrightarrow> unat (p_cur p) + 1 = l"
    using c by (auto simp: Periodic_next_def Let_def due)
  show "unat (p_cur (snd (Periodic_next p))) = (unat (p_cur p) + 1) mod l"
    using c u by (auto simp: Periodic_next_def Periodic_reset_def Let_def due not_less le_Suc_eq)
qed

lemma periodic_calls_nth:
  assumes "periodic_inv p" "i < n"
  shows "fst (periodic_calls n p) ! i \<longleftrightarrow>
     (unat (p_cur p) + i + 1) mod max 1 (unat (p_limit p)) = 0"
  using assms
proof (induction n arbitrary: p i)
  case 0
  then show ?case by simp
next
  case (Suc n)
  let ?l = "max 1 (unat (p_limit p))"
  have c: "unat (p_cur p) < ?l"
    using Suc.prems(1) by (auto simp: periodic_inv_def word_less_nat_alt)
  note nx = Periodic_next_unat [OF Suc.prems(1)]
  show ?case
  proof (cases i)
    case 0
    have "(unat (p_cur p) + 1) mod ?l = 0 \<longleftrightarrow> unat (p_cur p) + 1 = ?l"
      using c by (auto simp: mod_Suc)
    with 0 nx(1) show ?thesis by (simp add: split_beta Let_def)
  next
    case (Suc j)
    have "fst (periodic_calls n (snd (Periodic_next p))) ! j \<longleftrightarrow>
        ((unat (p_cur p) + 1) mod ?l + j + 1) mod ?l = 0"
      using Suc.IH [of "snd (Periodic_next p)" j] Suc Suc.prems Periodic_next_inv nx(2)
      by (simp add: Periodic_next_limit)
    also have "((unat (p_cur p) + 1) mod ?l + j + 1) mod ?l = (unat (p_cur p) + i + 1) mod ?l"
      using mod_add_left_eq [of "unat (p_cur p) + 1" ?l "j + 1"] Suc by (simp add: add.assoc)
    finally show ?thesis using Suc by (simp add: split_beta Let_def)
  qed
qed

section \<open>The map\<close>

record 'v timed =
  t_time :: reltime
  t_value :: 'v

definition Timed_new :: "reltime \<Rightarrow> 'v \<Rightarrow> 'v timed" where
  "Timed_new now v = \<lparr>t_time = now, t_value = v\<rparr>"

definition Timed_is_valid :: "reltime \<Rightarrow> u32 \<Rightarrow> 'v timed \<Rightarrow> bool" where
  "Timed_is_valid now secs e \<longleftrightarrow>
     as_secs (RelativeTime_duration_since now (t_time e)) < unat secs"

record ('k, 'v) timed_map =
  tm_timeout :: u32
  tm_periodic :: periodic
  tm_map :: "('k \<times> 'v timed) list"

definition TimedHashMap_new :: "u32 \<Rightarrow> ('k, 'v) timed_map" where
  "TimedHashMap_new timeout = \<lparr>tm_timeout = timeout, tm_periodic = Periodic_new, tm_map = []\<rparr>"

definition TimedHashMap_set_timeout :: "u32 \<Rightarrow> ('k, 'v) timed_map \<Rightarrow> ('k, 'v) timed_map" where
  "TimedHashMap_set_timeout timeout m = m\<lparr>tm_timeout := timeout\<rparr>"

definition TimedHashMap_len :: "('k, 'v) timed_map \<Rightarrow> nat" where
  "TimedHashMap_len m = length (tm_map m)"

definition TimedHashMap_clear :: "('k, 'v) timed_map \<Rightarrow> ('k, 'v) timed_map" where
  "TimedHashMap_clear m = m\<lparr>tm_map := []\<rparr>"

definition TimedHashMap_cleanup :: "reltime \<Rightarrow> ('k, 'v) timed_map \<Rightarrow> ('k, 'v) timed_map" where
  "TimedHashMap_cleanup now m =
     (let (p, al) = Periodic_maybe_run
            (filter (\<lambda>(_, v). Timed_is_valid now (tm_timeout m) v)) (tm_periodic m, tm_map m)
      in m\<lparr>tm_periodic := p, tm_map := al\<rparr>)"

definition TimedHashMap_insert ::
  "'k \<Rightarrow> 'v \<Rightarrow> reltime \<Rightarrow> reltime \<Rightarrow> ('k, 'v) timed_map \<Rightarrow> ('k, 'v) timed_map" where
  "TimedHashMap_insert k v now now' m =
     TimedHashMap_cleanup now' (m\<lparr>tm_map := AList.update k (Timed_new now v) (tm_map m)\<rparr>)"

definition TimedHashMap_remove ::
  "'k \<Rightarrow> reltime \<Rightarrow> ('k, 'v) timed_map \<Rightarrow> 'v timed option \<times> ('k, 'v) timed_map" where
  "TimedHashMap_remove k now m =
     ((case map_of (tm_map m) k of
         None \<Rightarrow> None
       | Some i \<Rightarrow> if Timed_is_valid now (tm_timeout m) i then Some i else None),
      m\<lparr>tm_map := AList.delete k (tm_map m)\<rparr>)"

text \<open>
  \<^verbatim>\<open>entry\<close> gives the entry of the key in the map it leaves: \<open>Some\<close> an occupied, \<open>None\<close> a
  vacant one. \<open>Entry_insert\<close> writes through it.
\<close>

definition TimedHashMap_entry ::
  "'k \<Rightarrow> reltime \<Rightarrow> ('k, 'v) timed_map \<Rightarrow> 'v timed option \<times> ('k, 'v) timed_map" where
  "TimedHashMap_entry k now m =
     (let m' = (case map_of (tm_map m) k of
                  Some v \<Rightarrow>
                    if \<not> Timed_is_valid now (tm_timeout m) v
                    then m\<lparr>tm_map := AList.delete k (tm_map m)\<rparr> else m
                | None \<Rightarrow> TimedHashMap_cleanup now m)
      in (map_of (tm_map m') k, m'))"

definition Entry_insert :: "'k \<Rightarrow> 'v timed \<Rightarrow> ('k, 'v) timed_map \<Rightarrow> ('k, 'v) timed_map" where
  "Entry_insert k e m = m\<lparr>tm_map := AList.update k e (tm_map m)\<rparr>"

definition TimedHashMap_iter :: "reltime \<Rightarrow> ('k, 'v) timed_map \<Rightarrow> ('k \<times> 'v timed) list" where
  "TimedHashMap_iter now m = filter (\<lambda>(_, i). Timed_is_valid now (tm_timeout m) i) (tm_map m)"

definition TimedHashMap_keys :: "reltime \<Rightarrow> ('k, 'v) timed_map \<Rightarrow> 'k list" where
  "TimedHashMap_keys now m = map fst (TimedHashMap_iter now m)"

definition TimedHashMap_get :: "'k \<Rightarrow> reltime \<Rightarrow> ('k, 'v) timed_map \<Rightarrow> 'v timed option" where
  "TimedHashMap_get k now m =
     (case map_of (tm_map m) k of
        None \<Rightarrow> None
      | Some i \<Rightarrow> if Timed_is_valid now (tm_timeout m) i then Some i else None)"

definition TimedHashMap_retain ::
  "('k \<Rightarrow> 'v \<Rightarrow> bool) \<Rightarrow> reltime \<Rightarrow> ('k, 'v) timed_map \<Rightarrow> ('k, 'v) timed_map" where
  "TimedHashMap_retain f now m =
     (if tm_map m = [] then m
      else m\<lparr>tm_map := filter (\<lambda>(k, v). Timed_is_valid now (tm_timeout m) v \<and> f k (t_value v)) (tm_map m),
             tm_periodic := Periodic_reset (tm_periodic m)\<rparr>)"

section \<open>Invariant\<close>

definition tm_inv :: "('k, 'v) timed_map \<Rightarrow> bool" where
  "tm_inv m \<longleftrightarrow> distinct (map fst (tm_map m)) \<and> periodic_inv (tm_periodic m)"

lemma distinct_map_fst_filter: "distinct (map fst xs) \<Longrightarrow> distinct (map fst (filter P xs))"
  by (induction xs) auto

lemma map_of_filter:
  assumes "distinct (map fst entries)"
  shows "map_of (filter ok entries) key =
     (case map_of entries key of Some v \<Rightarrow> if ok (key, v) then Some v else None | None \<Rightarrow> None)"
  using assms
proof (induction entries)
  case (Cons x xs)
  have "map_of xs key = None" if "key \<notin> set (map fst xs)"
    using that by (simp add: map_of_eq_None_iff)
  with Cons show ?case by (cases x) (auto split: option.splits)
qed simp

lemma cleanup_cases:
  obtains "TimedHashMap_cleanup now m = m\<lparr>tm_periodic := snd (Periodic_next (tm_periodic m))\<rparr>"
  | "TimedHashMap_cleanup now m = m\<lparr>tm_periodic := snd (Periodic_next (tm_periodic m)),
       tm_map := filter (\<lambda>(_, v). Timed_is_valid now (tm_timeout m) v) (tm_map m)\<rparr>"
  by (cases "fst (Periodic_next (tm_periodic m))")
     (simp_all add: TimedHashMap_cleanup_def Periodic_maybe_run_def Let_def split_beta)

lemma tm_inv_new: "tm_inv (TimedHashMap_new timeout)"
  by (simp add: tm_inv_def TimedHashMap_new_def periodic_inv_init)

lemma tm_inv_cleanup: "tm_inv m \<Longrightarrow> tm_inv (TimedHashMap_cleanup now m)"
  by (cases rule: cleanup_cases [of now m])
     (auto simp: tm_inv_def Periodic_next_inv intro: distinct_map_fst_filter)

lemma tm_inv_update: "tm_inv m \<Longrightarrow> tm_inv (m\<lparr>tm_map := AList.update k v (tm_map m)\<rparr>)"
  by (simp add: tm_inv_def distinct_update)

lemma tm_inv_delete: "tm_inv m \<Longrightarrow> tm_inv (m\<lparr>tm_map := AList.delete k (tm_map m)\<rparr>)"
  by (simp add: tm_inv_def distinct_delete)

lemma tm_inv_insert: "tm_inv m \<Longrightarrow> tm_inv (TimedHashMap_insert k v now now' m)"
  by (simp add: TimedHashMap_insert_def tm_inv_cleanup tm_inv_update)

lemma tm_inv_remove: "tm_inv m \<Longrightarrow> tm_inv (snd (TimedHashMap_remove k now m))"
  by (simp add: TimedHashMap_remove_def tm_inv_delete)

lemma tm_inv_entry: "tm_inv m \<Longrightarrow> tm_inv (snd (TimedHashMap_entry k now m))"
  by (simp add: TimedHashMap_entry_def Let_def tm_inv_delete tm_inv_cleanup split: option.split)

lemma tm_inv_Entry_insert: "tm_inv m \<Longrightarrow> tm_inv (Entry_insert k e m)"
  by (simp add: Entry_insert_def tm_inv_update)

lemma tm_inv_retain: "tm_inv m \<Longrightarrow> tm_inv (TimedHashMap_retain f now m)"
  by (auto simp: TimedHashMap_retain_def tm_inv_def Periodic_reset_def periodic_inv_def
        intro: distinct_map_fst_filter)

lemma tm_inv_others:
  "tm_inv m \<Longrightarrow> tm_inv (TimedHashMap_clear m)" "tm_inv m \<Longrightarrow> tm_inv (TimedHashMap_set_timeout t m)"
  by (simp_all add: tm_inv_def TimedHashMap_clear_def TimedHashMap_set_timeout_def)

lemmas tm_inv_intros = tm_inv_new tm_inv_insert tm_inv_remove tm_inv_entry tm_inv_Entry_insert
  tm_inv_retain tm_inv_others

section \<open>What the map means at a time\<close>

definition view :: "('k, 'v) timed_map \<Rightarrow> reltime \<Rightarrow> 'k \<Rightarrow> 'v option" where
  "view m now k =
     (case map_of (tm_map m) k of
        None \<Rightarrow> None
      | Some e \<Rightarrow> if Timed_is_valid now (tm_timeout m) e then Some (t_value e) else None)"

lemma view_get: "view m now k = map_option t_value (TimedHashMap_get k now m)"
  by (auto simp: view_def TimedHashMap_get_def split: option.splits)

lemma Timed_is_valid_earlier:
  "Timed_is_valid t secs e \<Longrightarrow> t' \<le> t \<Longrightarrow> Timed_is_valid t' secs e"
  unfolding Timed_is_valid_def as_secs_def duration_since_unat
  by (rule le_less_trans [rotated], assumption) (intro div_le_mono mult_le_mono1 diff_le_mono, simp add: word_le_nat_alt)

lemma view_new: "view (TimedHashMap_new timeout) now k = None"
  by (simp add: view_def TimedHashMap_new_def)

lemma view_clear: "view (TimedHashMap_clear m) now k = None"
  by (simp add: view_def TimedHashMap_clear_def)

text \<open>Cleaning up is invisible from then on.\<close>

lemma view_filter:
  assumes "tm_inv m" "now \<le> t"
  shows "view (m\<lparr>tm_map := filter (\<lambda>(_, v). Timed_is_valid now (tm_timeout m) v) (tm_map m)\<rparr>) t k =
     view m t k"
  using assms Timed_is_valid_earlier [of t "tm_timeout m" _ now]
  by (auto simp: view_def tm_inv_def map_of_filter split: option.splits)

lemma view_cleanup:
  assumes "tm_inv m" "now \<le> t"
  shows "view (TimedHashMap_cleanup now m) t k = view m t k"
  using view_filter [OF assms, of k]
  by (cases rule: cleanup_cases [of now m]) (auto simp: view_def split: option.splits)

lemma tm_timeout_simps [simp]:
  "tm_timeout (TimedHashMap_cleanup now m) = tm_timeout m"
  "tm_timeout (TimedHashMap_insert k v now now' m) = tm_timeout m"
  "tm_timeout (snd (TimedHashMap_remove k now m)) = tm_timeout m"
  "tm_timeout (snd (TimedHashMap_entry k now m)) = tm_timeout m"
  "tm_timeout (Entry_insert k e m) = tm_timeout m"
  "tm_timeout (TimedHashMap_retain f now m) = tm_timeout m"
  "tm_timeout (TimedHashMap_clear m) = tm_timeout m"
proof -
  show c: "tm_timeout (TimedHashMap_cleanup now m) = tm_timeout m" for m :: "('a, 'b) timed_map"
    by (cases rule: cleanup_cases [of now m]) simp_all
  show "tm_timeout (TimedHashMap_insert k v now now' m) = tm_timeout m"
    by (simp add: TimedHashMap_insert_def TimedHashMap_cleanup_def split_beta Let_def)
  show "tm_timeout (snd (TimedHashMap_entry k now m)) = tm_timeout m"
    by (simp add: TimedHashMap_entry_def TimedHashMap_cleanup_def split_beta Let_def
        split: option.split)
qed (simp_all add: TimedHashMap_remove_def Entry_insert_def TimedHashMap_retain_def
      TimedHashMap_clear_def)

text \<open>How long a value stored at \<open>t1\<close> is alive under the map's timeout.\<close>

definition alive :: "u32 \<Rightarrow> reltime \<Rightarrow> reltime \<Rightarrow> bool" where
  "alive timeout now t1 \<longleftrightarrow> as_secs (RelativeTime_duration_since now t1) < unat timeout"

lemma view_Entry_insert:
  "view (Entry_insert k e m) t k' =
     (if k' = k then if alive (tm_timeout m) t (t_time e) then Some (t_value e) else None
      else view m t k')"
  by (simp add: view_def Entry_insert_def update_conv' alive_def Timed_is_valid_def
        split: option.split)

lemma view_insert:
  assumes "tm_inv m" "t2 \<le> t"
  shows "view (TimedHashMap_insert k v t1 t2 m) t k' =
     (if k' = k then if alive (tm_timeout m) t t1 then Some v else None else view m t k')"
proof -
  let ?m = "Entry_insert k (Timed_new t1 v) m"
  have "view (TimedHashMap_insert k v t1 t2 m) t k' = view ?m t k'"
    using view_cleanup [OF tm_inv_Entry_insert [OF assms(1)] assms(2)]
    by (simp add: TimedHashMap_insert_def Entry_insert_def)
  then show ?thesis by (simp add: view_Entry_insert Timed_new_def)
qed

lemma view_remove:
  "view (snd (TimedHashMap_remove k now m)) t k' = (if k' = k then None else view m t k')"
  by (simp add: view_def TimedHashMap_remove_def delete_conv' split: option.split)

lemma remove_result:
  "map_option t_value (fst (TimedHashMap_remove k now m)) = view m now k"
  by (auto simp: view_def TimedHashMap_remove_def split: option.splits)

lemma view_entry:
  assumes "tm_inv m" "now \<le> t"
  shows "view (snd (TimedHashMap_entry k now m)) t k' = view m t k'"
proof (cases "map_of (tm_map m) k")
  case None
  then show ?thesis by (simp add: TimedHashMap_entry_def Let_def view_cleanup [OF assms])
next
  case (Some e)
  show ?thesis
    using Some assms(2) Timed_is_valid_earlier [of t "tm_timeout m" e now]
    by (auto simp: TimedHashMap_entry_def Let_def view_def delete_conv' split: option.splits)
qed

lemma map_of_cleanup_None: "tm_inv m \<Longrightarrow> map_of (tm_map m) k = None \<Longrightarrow>
    map_of (tm_map (TimedHashMap_cleanup now m)) k = None"
  by (cases rule: cleanup_cases [of now m]) (auto simp: tm_inv_def map_of_filter)

lemma entry_result:
  "tm_inv m \<Longrightarrow> map_option t_value (fst (TimedHashMap_entry k now m)) = view m now k"
  by (auto simp: view_def TimedHashMap_entry_def Let_def delete_conv' map_of_cleanup_None
        split: option.splits)

lemma view_retain:
  assumes "tm_inv m" "now \<le> t"
  shows "view (TimedHashMap_retain f now m) t k =
     (case view m t k of None \<Rightarrow> None | Some v \<Rightarrow> if f k v then Some v else None)"
  using assms Timed_is_valid_earlier [of t "tm_timeout m" _ now]
  by (auto simp: view_def tm_inv_def map_of_filter TimedHashMap_retain_def split: option.splits)

lemma iter_view:
  assumes "tm_inv m"
  shows "(k, e) \<in> set (TimedHashMap_iter now m) \<longleftrightarrow>
     map_of (tm_map m) k = Some e \<and> view m now k = Some (t_value e)"
  using assms by (auto simp: TimedHashMap_iter_def view_def tm_inv_def split: if_splits)

lemma keys_view:
  assumes "tm_inv m"
  shows "k \<in> set (TimedHashMap_keys now m) \<longleftrightarrow> view m now k \<noteq> None"
proof -
  have "k \<in> set (TimedHashMap_keys now m) \<longleftrightarrow> (\<exists>e. (k, e) \<in> set (TimedHashMap_iter now m))"
    by (force simp: TimedHashMap_keys_def)
  also have "\<dots> \<longleftrightarrow> view m now k \<noteq> None"
    by (auto simp: iter_view [OF assms]) (auto simp: view_def split: option.splits if_splits)
  finally show ?thesis .
qed

lemma distinct_keys: "tm_inv m \<Longrightarrow> distinct (TimedHashMap_keys now m)"
  by (simp add: TimedHashMap_keys_def TimedHashMap_iter_def tm_inv_def distinct_map_fst_filter)

section \<open>The contract\<close>

text \<open>
  What a user of a timed map relies on, with \<open>now\<close> a reading of the clock: a stored value is found
  until it expires, other keys are untouched, and a removed value is gone.
\<close>

locale timed_store =
  fixes get :: "'k \<Rightarrow> reltime \<Rightarrow> 's \<Rightarrow> 'v option"
    and insert :: "'k \<Rightarrow> 'v \<Rightarrow> reltime \<Rightarrow> reltime \<Rightarrow> 's \<Rightarrow> 's"
    and remove :: "'k \<Rightarrow> reltime \<Rightarrow> 's \<Rightarrow> 'v option \<times> 's"
    and inv :: "'s \<Rightarrow> bool"
    and lifetime :: "'s \<Rightarrow> u32"
  assumes inv_insert: "inv s \<Longrightarrow> inv (insert k v t1 t2 s)"
    and inv_remove: "inv s \<Longrightarrow> inv (snd (remove k t s))"
    and get_insert: "inv s \<Longrightarrow> t2 \<le> t \<Longrightarrow> get k' t (insert k v t1 t2 s) =
      (if k' = k then if alive (lifetime s) t t1 then Some v else None else get k' t s)"
    and remove_get: "fst (remove k t s) = get k t s"
    and get_remove: "get k' t (snd (remove k t' s)) = (if k' = k then None else get k' t s)"
    and lifetime_insert: "lifetime (insert k v t1 t2 s) = lifetime s"
    and lifetime_remove: "lifetime (snd (remove k t s)) = lifetime s"
    and get_expires: "get k t s = Some v \<Longrightarrow> t' \<le> t \<Longrightarrow> get k t' s = Some v"
begin

text \<open>A stored value can be taken once.\<close>

lemma take_once: "fst (remove k t2 (snd (remove k t1 s))) = None"
  by (simp add: remove_get get_remove)

lemma insert_remove:
  assumes "inv s" "t2 \<le> t" "alive (lifetime s) t t1"
  shows "fst (remove k t (insert k v t1 t2 s)) = Some v"
  using assms by (simp add: remove_get get_insert)

lemma insert_other:
  "inv s \<Longrightarrow> t2 \<le> t \<Longrightarrow> k' \<noteq> k \<Longrightarrow> get k' t (insert k v t1 t2 s) = get k' t s"
  by (simp add: get_insert)

lemma expired_stays: "get k t s = None \<Longrightarrow> t \<le> t' \<Longrightarrow> get k t' s = None"
  using get_expires [of k t' s] by (cases "get k t' s") auto

end

lemma view_expires: "view m t k = Some v \<Longrightarrow> t' \<le> t \<Longrightarrow> view m t' k = Some v"
  by (auto simp: view_def dest: Timed_is_valid_earlier split: option.splits if_splits)

interpretation timed: timed_store
    "\<lambda>k now m. view m now k"
    TimedHashMap_insert
    "\<lambda>k now m. (map_option t_value (fst (TimedHashMap_remove k now m)),
                snd (TimedHashMap_remove k now m))"
    tm_inv tm_timeout
  by unfold_locales
     (simp_all add: tm_inv_insert tm_inv_remove view_insert remove_result view_remove, rule view_expires)

end
