(* ===== verification/Master_Server.thy ===== *)
theory Master_Server
  imports Info_Packets Game_Packets Master_Packets Master_Config Timed_Map
begin

text \<open>
  The master server (\<^verbatim>\<open>master_server.rs\<close>): its state, one definition per handler, the dispatcher,
  the receive loop and the administrator's commands.

  The environment of one received packet is a parameter \<open>env\<close>: the readings of the clock and of the
  random generator it makes, in the order of the code (a reading that a branch skips is not looked
  at), whether a datagram can be sent, and the BLAKE2b function of the \<^verbatim>\<open>blake2b_simd\<close> crate. The
  datagrams sent so far are recorded in \<open>ms_sent\<close>. The address type of a server is the record
  \<open>addr_ext\<close> of the functions of the \<^verbatim>\<open>AddrExt\<close> trait.

  A handler returns its \<^verbatim>\<open>Result\<close> with the state it leaves, because an error keeps the changes made
  before it. Sending a server list loops until every address is sent; \<open>None\<close> is a loop that does not
  end.
\<close>

section \<open>State\<close>

record ('addr, 'ip) addr_ext =
  ax_extract :: "socket_addr \<Rightarrow> 'addr option"
  ax_ip :: "'addr \<Rightarrow> 'ip"
  ax_wrap :: "'addr \<Rightarrow> socket_addr"
  ax_mtu :: nat
  ax_sad :: "'addr server_address"
  ax_parse_ip :: "bytes \<Rightarrow> 'ip option"

definition AddrExt_V4 :: "(socket_v4, ipv4) addr_ext" where
  "AddrExt_V4 =
     \<lparr>ax_extract = (\<lambda>a. case a of SockV4 x \<Rightarrow> Some x | SockV6 _ \<Rightarrow> None),
      ax_ip = v4_ip, ax_wrap = SockV4, ax_mtu = 512, ax_sad = SocketAddrV4,
      ax_parse_ip = ipv4_from_str\<rparr>"

definition AddrExt_V6 :: "(socket_v6, ipv6) addr_ext" where
  "AddrExt_V6 =
     \<lparr>ax_extract = (\<lambda>a. case a of SockV6 x \<Rightarrow> Some x | SockV4 _ \<Rightarrow> None),
      ax_ip = v6_ip, ax_wrap = SockV6, ax_mtu = 1280, ax_sad = SocketAddrV6,
      ax_parse_ip = ipv6_from_str\<rparr>"

definition GAMEDIR_MAX_SIZE :: nat where "GAMEDIR_MAX_SIZE = 31"

text \<open>An \<^verbatim>\<open>io::Error\<close> carries nothing the code reads.\<close>

datatype master_error =
    EBindSocket
  | EProtocol xerror
  | EIo
  | EAdminChallengeNotFound
  | EUndefinedPacket
  | EGameRateLimit u32
  | EAdminRateLimit

record env =
  e_clk :: "nat \<Rightarrow> reltime"
  e_rng :: "nat \<Rightarrow> u32"
  e_send_ok :: "nat \<Rightarrow> bool"
  e_blake2b :: "nat \<Rightarrow> bytes \<Rightarrow> bytes \<Rightarrow> bytes \<Rightarrow> bytes"
  e_memchr :: memchr_ops

record ('addr, 'ip) master =
  ms_cfg :: master_config
  ms_challenges :: "('addr, u32) timed_map"
  ms_servers :: "('addr, server_info) timed_map"
  ms_admin_challenges :: "('ip, u32 \<times> u32) timed_map"
  ms_admin_limit :: "('ip, unit) timed_map"
  ms_update_addr :: socket_addr
  ms_update_gamedir :: "('addr, str_arr) timed_map"
  ms_client_rate_limit :: "('ip, u32) timed_map"
  ms_blocklist :: "'ip set"
  ms_stats :: stats
  ms_filtered_servers :: "'addr list"
  ms_filtered_servers_nat :: "'addr list"
  ms_sent :: "(bytes \<times> socket_addr) list"

type_synonym ('a, 'st) handler = "(master_error + 'a) \<times> 'st"

text \<open>\<^verbatim>\<open>?\<close> inside a handler.\<close>

definition hbind :: "('a, 'st) handler \<Rightarrow> ('a \<Rightarrow> 'st \<Rightarrow> ('b, 'st) handler) \<Rightarrow> ('b, 'st) handler" where
  "hbind r f = (case r of (Inl e, st) \<Rightarrow> (Inl e, st) | (Inr x, st) \<Rightarrow> f x st)"

lemma hbind_simps [simp]:
  "hbind (Inl e, st) f = (Inl e, st)"
  "hbind (Inr x, st) f = f x st"
  by (simp_all add: hbind_def)

definition lift_result :: "xerror + 'a \<Rightarrow> 'st \<Rightarrow> ('a, 'st) handler" where
  "lift_result r st = (map_err EProtocol r, st)"

lemma lift_result_simps [simp]:
  "lift_result (Inl e) st = (Inl (EProtocol e), st)"
  "lift_result (Inr x) st = (Inr x, st)"
  by (simp_all add: lift_result_def)

definition send_to :: "env \<Rightarrow> bytes \<Rightarrow> socket_addr \<Rightarrow> ('addr, 'ip) master \<Rightarrow>
    (unit, ('addr, 'ip) master) handler" where
  "send_to env packet dest st =
     (if e_send_ok env (length (ms_sent st))
      then (Inr (), st\<lparr>ms_sent := ms_sent st @ [(packet, dest)]\<rparr>)
      else (Inl EIo, st))"

section \<open>Addresses and configuration\<close>

text \<open>\<open>resolve\<close> is \<^verbatim>\<open>to_socket_addrs\<close>, which asks the name service; \<open>None\<close> is its error.\<close>

definition socket_port :: "socket_addr \<Rightarrow> u16" where
  "socket_port a = (case a of SockV4 x \<Rightarrow> v4_port x | SockV6 x \<Rightarrow> v6_port x)"

definition SocketAddr_new :: "ip_addr \<Rightarrow> u16 \<Rightarrow> socket_addr" where
  "SocketAddr_new ip port =
     (case ip of
        IpV4 a \<Rightarrow> SockV4 \<lparr>v4_ip = a, v4_port = port\<rparr>
      | IpV6 a \<Rightarrow> SockV6 \<lparr>v6_ip = a, v6_port = port, v6_flowinfo = 0, v6_scope_id = 0\<rparr>)"

definition resolve_socket_addr ::
  "(bytes \<Rightarrow> socket_addr list option) \<Rightarrow> bytes \<Rightarrow> bool \<Rightarrow> socket_addr option option" where
  "resolve_socket_addr resolve addr v4 =
     map_option (\<lambda>xs. find (\<lambda>i. is_ipv4 i = v4) xs) (resolve addr)"

definition resolve_update_addr ::
  "(bytes \<Rightarrow> socket_addr list option) \<Rightarrow> master_config \<Rightarrow> socket_addr \<Rightarrow> socket_addr" where
  "resolve_update_addr resolve cfg local_addr =
     (case cc_update_addr (mc_client cfg) of
        None \<Rightarrow> local_addr
      | Some s \<Rightarrow>
          (let addr = (if 58 \<notin> set s then s @ [58] @ show_dec (unat (socket_port local_addr)) else s)
           in case resolve_socket_addr resolve addr (is_ipv4 local_addr) of
                Some (Some x) \<Rightarrow> x
              | Some None \<Rightarrow> local_addr
              | None \<Rightarrow> local_addr))"

text \<open>
  \<open>bind\<close> is what opening the socket gives: \<open>None\<close> when it was bound and its timeout set,
  otherwise the error.
\<close>

definition MasterServer_new ::
  "('addr, 'ip) addr_ext \<Rightarrow> (bytes \<Rightarrow> socket_addr list option) \<Rightarrow> master_error option \<Rightarrow> config \<Rightarrow> 'addr \<Rightarrow>
     master_error + ('addr, 'ip) master" where
  "MasterServer_new ax resolve bind cfg addr =
     (case bind of
        Some e \<Rightarrow> Inl e
      | None \<Rightarrow>
        (let timeout = sc_timeout (mc_server (cfg_master cfg)) in
         Inr \<lparr>ms_cfg = cfg_master cfg,
              ms_challenges = TimedHashMap_new (to_challenge timeout),
              ms_servers = TimedHashMap_new (to_server timeout),
              ms_admin_challenges = TimedHashMap_new (to_challenge timeout),
              ms_admin_limit = TimedHashMap_new (to_admin timeout),
              ms_update_addr = resolve_update_addr resolve (cfg_master cfg) (ax_wrap ax addr),
              ms_update_gamedir = TimedHashMap_new 5,
              ms_client_rate_limit = TimedHashMap_new 1,
              ms_blocklist = {},
              ms_stats = Stats_new (cfg_stat cfg),
              ms_filtered_servers = [], ms_filtered_servers_nat = [], ms_sent = []\<rparr>))"

definition MasterServer_clear :: "('addr, 'ip) master \<Rightarrow> ('addr, 'ip) master" where
  "MasterServer_clear st =
     st\<lparr>ms_challenges := TimedHashMap_clear (ms_challenges st),
        ms_servers := TimedHashMap_clear (ms_servers st),
        ms_admin_challenges := TimedHashMap_clear (ms_admin_challenges st),
        ms_stats := Stats_clear (ms_stats st),
        ms_client_rate_limit := TimedHashMap_clear (ms_client_rate_limit st)\<rparr>"

text \<open>
  \<open>local\<close> is the address of the socket (\<open>None\<close>: it could not be asked). The result is the
  configuration when the IP version changed and the server must restart.
\<close>

definition MasterServer_update_config ::
  "(bytes \<Rightarrow> socket_addr list option) \<Rightarrow> master_error option \<Rightarrow> socket_addr option \<Rightarrow> config \<Rightarrow> ('addr, 'ip) master \<Rightarrow>
     (config option, ('addr, 'ip) master) handler" where
  "MasterServer_update_config resolve bind local cfg st =
     (case local of
        None \<Rightarrow> (Inl EIo, st)
      | Some local_addr \<Rightarrow>
     (let addr = SocketAddr_new (sc_ip (mc_server (cfg_master cfg))) (sc_port (mc_server (cfg_master cfg)))
      in if is_ipv4 local_addr \<noteq> is_ipv4 addr then (Inr (Some cfg), st)
      else
      hbind (if local_addr \<noteq> addr
             then case bind of None \<Rightarrow> (Inr (), MasterServer_clear st) | Some e \<Rightarrow> (Inl e, st)
             else (Inr (), st)) (\<lambda>_ st.
      let timeout = sc_timeout (mc_server (cfg_master cfg)) in
      (Inr None,
       st\<lparr>ms_update_addr := resolve_update_addr resolve (cfg_master cfg) addr,
          ms_stats := Stats_update_config (cfg_stat cfg) (ms_stats st),
          ms_cfg := cfg_master cfg,
          ms_challenges := TimedHashMap_set_timeout (to_challenge timeout) (ms_challenges st),
          ms_servers := TimedHashMap_set_timeout (to_server timeout) (ms_servers st),
          ms_admin_challenges := TimedHashMap_set_timeout (to_challenge timeout) (ms_admin_challenges st),
          ms_admin_limit := TimedHashMap_set_timeout (to_admin timeout) (ms_admin_limit st)\<rparr>))))"

section \<open>Game servers\<close>

definition server_challenge_add ::
  "env \<Rightarrow> 'addr \<Rightarrow> ('addr, 'ip) master \<Rightarrow> u32 \<times> ('addr, 'ip) master" where
  "server_challenge_add env addr st =
     (let (occupied, m) = TimedHashMap_entry addr (e_clk env 0) (ms_challenges st) in
      case occupied of
        Some e \<Rightarrow> (t_value e, st\<lparr>ms_challenges := m\<rparr>)
      | None \<Rightarrow>
          (let c = e_rng env 0 in
           (c, st\<lparr>ms_challenges := Entry_insert addr (Timed_new (e_clk env 1) c) m\<rparr>)))"

definition server_challenge_get :: "reltime \<Rightarrow> 'addr \<Rightarrow> ('addr, 'ip) master \<Rightarrow> u32 option" where
  "server_challenge_get now addr st =
     map_option t_value (TimedHashMap_get addr now (ms_challenges st))"

definition handle_server_challenge ::
  "('addr, 'ip) addr_ext \<Rightarrow> env \<Rightarrow> 'addr \<Rightarrow> challenge \<Rightarrow> ('addr, 'ip) master \<Rightarrow>
     (unit, ('addr, 'ip) master) handler" where
  "handle_server_challenge ax env from_addr msg st =
     (let (challenge, st) = server_challenge_add env from_addr st;
          resp = \<lparr>cr_master_challenge = challenge,
                  cr_server_challenge = ch_server_challenge msg\<rparr>
      in hbind (lift_result (ChallengeResponse_encode resp (replicate 32 0)) st) (\<lambda>packet st.
         send_to env packet (ax_wrap ax from_addr) st))"

definition count_servers :: "('addr, 'ip) addr_ext \<Rightarrow> reltime \<Rightarrow> 'ip \<Rightarrow> ('addr, 'ip) master \<Rightarrow> u16" where
  "count_servers ax now ip st =
     of_nat (length (filter (\<lambda>i. ax_ip ax i = ip) (TimedHashMap_keys now (ms_servers st))))"

text \<open>\<open>i\<close> is the index of the first clock reading of the call.\<close>

definition add_server ::
  "('addr, 'ip) addr_ext \<Rightarrow> env \<Rightarrow> nat \<Rightarrow> 'addr \<Rightarrow> server_info \<Rightarrow> ('addr, 'ip) master \<Rightarrow>
     ('addr, 'ip) master" where
  "add_server ax env i addr server st =
     (let (occupied, m) = TimedHashMap_entry addr (e_clk env i) (ms_servers st);
          st = st\<lparr>ms_servers := m\<rparr>
      in case occupied of
           Some _ \<Rightarrow>
             st\<lparr>ms_servers := Entry_insert addr (Timed_new (e_clk env (i + 1)) server) (ms_servers st)\<rparr>
         | None \<Rightarrow>
             if sc_max_servers_per_ip (mc_server (ms_cfg st)) \<le>
                count_servers ax (e_clk env (i + 1)) (ax_ip ax addr) st
             then st
             else st\<lparr>ms_servers := TimedHashMap_insert addr server (e_clk env (i + 2))
                      (e_clk env (i + 3)) (ms_servers st)\<rparr>)"

definition handle_server_add ::
  "('addr, 'ip) addr_ext \<Rightarrow> env \<Rightarrow> 'addr \<Rightarrow> server_add \<Rightarrow> ('addr, 'ip) master \<Rightarrow>
     (unit, ('addr, 'ip) master) handler" where
  "handle_server_add ax env from_addr msg st =
     (if sa_version msg < sc_min_version (mc_server (ms_cfg st)) then (Inr (), st)
      else case server_challenge_get (e_clk env 0) from_addr st of
        None \<Rightarrow> (Inr (), st)
      | Some challenge \<Rightarrow>
          if sa_challenge msg \<noteq> challenge then (Inr (), st)
          else
            (let (removed, m) = TimedHashMap_remove from_addr (e_clk env 1) (ms_challenges st);
                 st = st\<lparr>ms_challenges := m\<rparr>
             in case removed of
                  None \<Rightarrow> (Inr (), st)
                | Some _ \<Rightarrow>
                    (let st = add_server ax env 2 from_addr (ServerInfo_new msg) st;
                         st = st\<lparr>ms_stats := Stats_on_server_add (ms_stats st)\<rparr>
                     in (Inr (), st\<lparr>ms_stats :=
                           Stats_servers_count (TimedHashMap_len (ms_servers st)) (ms_stats st)\<rparr>))))"

definition handle_server_remove ::
  "'addr \<Rightarrow> ('addr, 'ip) master \<Rightarrow> (unit, ('addr, 'ip) master) handler" where
  "handle_server_remove from_addr st = (Inr (), st\<lparr>ms_stats := Stats_on_server_del (ms_stats st)\<rparr>)"

section \<open>Game clients\<close>

text \<open>\<^verbatim>\<open>u32::saturating_add(1)\<close>.\<close>

definition saturating_inc :: "u32 \<Rightarrow> u32" where
  "saturating_inc n = (if n = - 1 then - 1 else n + 1)"

definition allow_game_request ::
  "('addr, 'ip) addr_ext \<Rightarrow> env \<Rightarrow> 'addr \<Rightarrow> ('addr, 'ip) master \<Rightarrow>
     (unit, ('addr, 'ip) master) handler" where
  "allow_game_request ax env from_addr st =
     (if 0 < sc_client_rate_limit (mc_server (ms_cfg st)) then
        (let ip = ax_ip ax from_addr;
             (occupied, m) = TimedHashMap_entry ip (e_clk env 0) (ms_client_rate_limit st);
             counter = (case occupied of Some e \<Rightarrow> e | None \<Rightarrow> Timed_new (e_clk env 1) 0);
             counter = counter\<lparr>t_value := saturating_inc (t_value counter)\<rparr>;
             st = st\<lparr>ms_client_rate_limit := Entry_insert ip counter m\<rparr>
         in if sc_client_rate_limit (mc_server (ms_cfg st)) < t_value counter
            then (Inl (EGameRateLimit (t_value counter)), st)
            else (Inr (), st))
      else (Inr (), st))"

definition is_buildnum_valid :: "filter_q query_servers \<Rightarrow> u32 \<Rightarrow> bool" where
  "is_buildnum_valid query min_num =
     (if min_num = 0 then True
      else case f_client_buildnum (qs_filter query) of
        None \<Rightarrow> False
      | Some buildnum \<Rightarrow> if buildnum < min_num then False else True)"

definition is_query_servers_valid :: "master_config \<Rightarrow> filter_q query_servers \<Rightarrow> bool" where
  "is_query_servers_valid cfg query =
     (case f_clver (qs_filter query) of
        None \<Rightarrow> False
      | Some version \<Rightarrow>
          if version < cc_min_version (mc_client cfg) then False
          else is_buildnum_valid query
                 (if version < Version_new 0 20 then cc_min_old_engine_buildnum (mc_client cfg)
                  else cc_min_engine_buildnum (mc_client cfg)))"

text \<open>The loop of \<^verbatim>\<open>send_server_list\<close> from an offset.\<close>

partial_function (option) send_list_from ::
  "env \<Rightarrow> nat \<Rightarrow> 's server_address \<Rightarrow> socket_addr \<Rightarrow> u32 option \<Rightarrow> 's list \<Rightarrow> nat \<Rightarrow>
     ('addr, 'ip) master \<Rightarrow> (unit, ('addr, 'ip) master) handler option" where
  "send_list_from env mtu D dest key servers offset st =
     (case QueryServersResponse_encode D (QueryServersResponse_new key) (replicate mtu 0)
             (drop offset servers) of
        Inl e \<Rightarrow> Some (Inl (EProtocol e), st)
      | Inr pc \<Rightarrow>
          (case send_to env (fst pc) dest st of (r, st') \<Rightarrow>
           (case r of
              Inl e \<Rightarrow> Some (Inl e, st')
            | Inr u \<Rightarrow>
                if length servers \<le> offset + snd pc then Some (Inr (), st')
                else send_list_from env mtu D dest key servers (offset + snd pc) st')))"

definition send_server_list ::
  "('addr, 'ip) addr_ext \<Rightarrow> env \<Rightarrow> 's server_address \<Rightarrow> socket_addr \<Rightarrow> u32 option \<Rightarrow> 's list \<Rightarrow>
     ('addr, 'ip) master \<Rightarrow> (unit, ('addr, 'ip) master) handler option" where
  "send_server_list ax env D dest key servers st =
     send_list_from env (ax_mtu ax) D dest key servers 0 st"

definition send_fake_server ::
  "('addr, 'ip) addr_ext \<Rightarrow> env \<Rightarrow> 'addr \<Rightarrow> u32 option \<Rightarrow> socket_addr \<Rightarrow> ('addr, 'ip) master \<Rightarrow>
     (unit, ('addr, 'ip) master) handler option" where
  "send_fake_server ax env from_addr key update_addr st =
     (case update_addr of
        SockV4 addr \<Rightarrow> send_server_list ax env SocketAddrV4 (ax_wrap ax from_addr) key [addr] st
      | SockV6 addr \<Rightarrow> send_server_list ax env SocketAddrV6 (ax_wrap ax from_addr) key [addr] st)"

fun send_announces :: "env \<Rightarrow> bytes \<Rightarrow> socket_addr list \<Rightarrow> ('addr, 'ip) master \<Rightarrow>
    (unit, ('addr, 'ip) master) handler" where
  "send_announces env packet [] st = (Inr (), st)"
| "send_announces env packet (a # xs) st =
     hbind (send_to env packet a st) (\<lambda>_ st. send_announces env packet xs st)"

definition send_client_to_nat_servers ::
  "('addr, 'ip) addr_ext \<Rightarrow> env \<Rightarrow> 'addr \<Rightarrow> 'addr list \<Rightarrow> ('addr, 'ip) master \<Rightarrow>
     (unit, ('addr, 'ip) master) handler" where
  "send_client_to_nat_servers ax env dest servers st =
     hbind (lift_result (ClientAnnounce_encode \<lparr>ca_addr = ax_wrap ax dest\<rparr> (replicate 64 0)) st)
       (\<lambda>packet st. send_announces env packet (map (ax_wrap ax) servers) st)"

definition save_client_gamedir ::
  "env \<Rightarrow> 'addr \<Rightarrow> bytes option \<Rightarrow> ('addr, 'ip) master \<Rightarrow> ('addr, 'ip) master" where
  "save_client_gamedir env from_addr gamedir st =
     (case gamedir of
        None \<Rightarrow> st
      | Some gamedir \<Rightarrow>
          (case StrArr_new GAMEDIR_MAX_SIZE gamedir of
             None \<Rightarrow> st
           | Some gamedir \<Rightarrow>
               st\<lparr>ms_update_gamedir := TimedHashMap_insert from_addr gamedir (e_clk env 2)
                    (e_clk env 3) (ms_update_gamedir st)\<rparr>))"

text \<open>The loop over the servers: \<open>push_filtered\<close> is its body.\<close>

definition push_filtered ::
  "filter_q query_servers \<Rightarrow> version \<Rightarrow> 'addr \<times> server_info timed \<Rightarrow> 'addr list \<times> 'addr list \<Rightarrow>
     'addr list \<times> 'addr list" where
  "push_filtered query client_version server acc =
     (let (addr, info) = server; info = t_value info; (filtered, nat_servers) = acc in
      if si_region info \<noteq> qs_region query \<or> \<not> Filter_matches (qs_filter query) info then acc
      else if client_version < Version_new 0 20 \<and> si_protocol info \<noteq> 48 then acc
      else (filtered @ [addr],
            if flags_contains (si_flags info) FF_NAT then nat_servers @ [addr] else nat_servers))"

definition handle_game_query_servers ::
  "('addr, 'ip) addr_ext \<Rightarrow> env \<Rightarrow> 'addr \<Rightarrow> filter_q query_servers \<Rightarrow> ('addr, 'ip) master \<Rightarrow>
     (unit, ('addr, 'ip) master) handler option" where
  "handle_game_query_servers ax env from_addr query st =
     (let f = qs_filter query;
          st = st\<lparr>ms_stats := Stats_on_query_servers (ms_stats st)\<rparr>
      in if \<not> is_query_servers_valid (ms_cfg st) query then
           (let st = save_client_gamedir env from_addr (f_gamedir f) st
            in send_fake_server ax env from_addr (f_key f) (ms_update_addr st) st)
         else case f_clver f of
           None \<Rightarrow> Some (Inr (), st)
         | Some client_version \<Rightarrow>
             (let (filtered, nat_servers) =
                    fold (push_filtered query client_version)
                      (TimedHashMap_iter (e_clk env 4) (ms_servers st)) ([], []);
                  st = st\<lparr>ms_filtered_servers := filtered, ms_filtered_servers_nat := nat_servers\<rparr>
              in case send_server_list ax env (ax_sad ax) (ax_wrap ax from_addr) (f_key f)
                        (ms_filtered_servers st) st of
                   None \<Rightarrow> None
                 | Some (Inl e, st) \<Rightarrow> Some (Inl e, st)
                 | Some (Inr _, st) \<Rightarrow>
                     Some (if (case Filter_contains_flags f FF_NAT of Some b \<Rightarrow> b | None \<Rightarrow> True)
                           then send_client_to_nat_servers ax env from_addr
                                  (ms_filtered_servers_nat st) st
                           else (Inr (), st))))"

definition handle_game_get_server_info ::
  "('addr, 'ip) addr_ext \<Rightarrow> env \<Rightarrow> 'addr \<Rightarrow> get_server_info \<Rightarrow> ('addr, 'ip) master \<Rightarrow>
     (unit, ('addr, 'ip) master) handler" where
  "handle_game_get_server_info ax env from_addr msg st =
     (let (gamedir, m) = TimedHashMap_remove from_addr (e_clk env 2) (ms_update_gamedir st);
          st = st\<lparr>ms_update_gamedir := m\<rparr>;
          resp = GetServerInfoResponse_default
            \<lparr>gsi_map := cc_update_map (mc_client (ms_cfg st)),
             gsi_host := cc_update_title (mc_client (ms_cfg st)),
             gsi_protocol := gi_protocol msg, gsi_dm := True, gsi_maxcl := 32,
             gsi_gamedir := (case gamedir of
                               None \<Rightarrow> str ''valve''
                             | Some i \<Rightarrow> (case StrArr_as_str (t_value i) of Some s \<Rightarrow> s | None \<Rightarrow> []))\<rparr>
      in hbind (lift_result (GetServerInfoResponse_encode resp (replicate (ax_mtu ax) 0)) st)
           (\<lambda>packet st. send_to env packet (ax_wrap ax from_addr) st))"

section \<open>Administrators\<close>

definition allow_admin_request ::
  "('addr, 'ip) addr_ext \<Rightarrow> env \<Rightarrow> 'addr \<Rightarrow> ('addr, 'ip) master \<Rightarrow>
     (unit, ('addr, 'ip) master) handler" where
  "allow_admin_request ax env from_addr st =
     (case TimedHashMap_get (ax_ip ax from_addr) (e_clk env 0) (ms_admin_limit st) of
        None \<Rightarrow> (Inr (), st)
      | Some _ \<Rightarrow> (Inl EAdminRateLimit, st))"

definition admin_challenge_add ::
  "('addr, 'ip) addr_ext \<Rightarrow> env \<Rightarrow> 'addr \<Rightarrow> ('addr, 'ip) master \<Rightarrow>
     (u32 \<times> u32) \<times> ('addr, 'ip) master" where
  "admin_challenge_add ax env addr st =
     (let x = e_rng env 0; y = e_rng env 1 in
      ((x, y), st\<lparr>ms_admin_challenges := TimedHashMap_insert (ax_ip ax addr) (x, y) (e_clk env 1)
                    (e_clk env 2) (ms_admin_challenges st)\<rparr>))"

definition admin_challenge_remove ::
  "('addr, 'ip) addr_ext \<Rightarrow> reltime \<Rightarrow> 'addr \<Rightarrow> ('addr, 'ip) master \<Rightarrow> ('addr, 'ip) master" where
  "admin_challenge_remove ax now addr st =
     st\<lparr>ms_admin_challenges := snd (TimedHashMap_remove (ax_ip ax addr) now (ms_admin_challenges st))\<rparr>"

definition handle_admin_challenge ::
  "('addr, 'ip) addr_ext \<Rightarrow> env \<Rightarrow> 'addr \<Rightarrow> ('addr, 'ip) master \<Rightarrow>
     (unit, ('addr, 'ip) master) handler" where
  "handle_admin_challenge ax env from_addr st =
     (let ((master_challenge, hash_challenge), st) = admin_challenge_add ax env from_addr st;
          resp = \<lparr>acr_master_challenge = master_challenge, acr_hash_challenge = hash_challenge\<rparr>
      in hbind (lift_result (AdminChallengeResponse_encode resp (replicate 64 0)) st) (\<lambda>packet st.
         send_to env packet (ax_wrap ax from_addr) st))"

definition remove_servers_by_ip ::
  "('addr, 'ip) addr_ext \<Rightarrow> reltime \<Rightarrow> 'ip \<Rightarrow> ('addr, 'ip) master \<Rightarrow> ('addr, 'ip) master" where
  "remove_servers_by_ip ax now ip st =
     st\<lparr>ms_servers := TimedHashMap_retain (\<lambda>addr _. ax_ip ax addr \<noteq> ip) now (ms_servers st)\<rparr>"

definition ban_ip ::
  "('addr, 'ip) addr_ext \<Rightarrow> reltime \<Rightarrow> 'ip \<Rightarrow> ('addr, 'ip) master \<Rightarrow> ('addr, 'ip) master" where
  "ban_ip ax now ip st =
     (if ip \<notin> ms_blocklist st
      then remove_servers_by_ip ax now ip (st\<lparr>ms_blocklist := insert ip (ms_blocklist st)\<rparr>)
      else st)"

definition unban_ip :: "'ip \<Rightarrow> ('addr, 'ip) master \<Rightarrow> ('addr, 'ip) master" where
  "unban_ip ip st = st\<lparr>ms_blocklist := ms_blocklist st - {ip}\<rparr>"

text \<open>\<^verbatim>\<open>helper\<close>: \<open>op\<close> on every argument that parses as an address, with the index of its clock
  reading.\<close>

fun admin_helper ::
  "('addr, 'ip) addr_ext \<Rightarrow> (nat \<Rightarrow> 'ip \<Rightarrow> 'st \<Rightarrow> 'st) \<Rightarrow> nat \<Rightarrow> bytes list \<Rightarrow> 'st \<Rightarrow> 'st" where
  "admin_helper ax oper i [] st = st"
| "admin_helper ax oper i (a # args) st =
     (case ax_parse_ip ax a of
        Some ip \<Rightarrow> admin_helper ax oper (i + 1) args (oper i ip st)
      | None \<Rightarrow> admin_helper ax oper (i + 1) args st)"

definition run_admin_command ::
  "('addr, 'ip) addr_ext \<Rightarrow> env \<Rightarrow> nat \<Rightarrow> bytes \<Rightarrow> ('addr, 'ip) master \<Rightarrow> ('addr, 'ip) master" where
  "run_admin_command ax env i cmd st =
     (let args = split_on 32 cmd in
      if hd args = str ''ban'' then
        admin_helper ax (\<lambda>i ip. ban_ip ax (e_clk env i) ip) i (tl args) st
      else if hd args = str ''unban'' then
        admin_helper ax (\<lambda>i ip. unban_ip ip) i (tl args) st
      else st)"

definition admin_hash :: "env \<Rightarrow> hash_config \<Rightarrow> bytes \<Rightarrow> u32 \<Rightarrow> bytes" where
  "admin_hash env h password challenge =
     e_blake2b env (hc_len h) (hc_key h) (hc_personal h) (password @ to_le 4 challenge)"

text \<open>The readings from \<open>i\<close> on belong to the command; the removal of the challenge comes last.\<close>

definition handle_admin_command ::
  "('addr, 'ip) addr_ext \<Rightarrow> env \<Rightarrow> 'addr \<Rightarrow> admin_command \<Rightarrow> ('addr, 'ip) master \<Rightarrow>
     (unit, ('addr, 'ip) master) handler" where
  "handle_admin_command ax env from_addr msg st =
     (case TimedHashMap_get (ax_ip ax from_addr) (e_clk env 1) (ms_admin_challenges st) of
        None \<Rightarrow> (Inl EAdminChallengeNotFound, st)
      | Some e \<Rightarrow>
          (let entry = t_value e in
           if fst entry \<noteq> ac_master_challenge msg then (Inr (), st)
           else case find (\<lambda>i. ac_hash msg =
                       admin_hash env (mc_hash (ms_cfg st)) (adm_password i) (snd entry))
                     (mc_admin_list (ms_cfg st)) of
                  Some admin \<Rightarrow>
                    (let n = length (split_on 32 (ac_command msg));
                         st = run_admin_command ax env 2 (ac_command msg) st
                     in (Inr (), admin_challenge_remove ax (e_clk env (2 + n)) from_addr st))
                | None \<Rightarrow>
                    (Inr (), st\<lparr>ms_admin_limit := TimedHashMap_insert (ax_ip ax from_addr) ()
                       (e_clk env 2) (e_clk env 3) (ms_admin_limit st)\<rparr>)))"

section \<open>Dispatch\<close>

definition handle_packet ::
  "('addr, 'ip) addr_ext \<Rightarrow> env \<Rightarrow> 'addr \<Rightarrow> bytes \<Rightarrow> ('addr, 'ip) master \<Rightarrow>
     (unit, ('addr, 'ip) master) handler option" where
  "handle_packet ax env from_addr src st =
     (if starts_with Challenge_HEADER src then
        Some (hbind (lift_result (Challenge_decode src) st) (\<lambda>msg st.
              handle_server_challenge ax env from_addr msg st))
      else if starts_with ServerAdd_HEADER src then
        Some (hbind (lift_result (ServerAdd_decode (e_memchr env) src) st) (\<lambda>msg st.
              handle_server_add ax env from_addr msg st))
      else if starts_with ServerRemove_HEADER src then
        Some (hbind (lift_result (ServerRemove_decode src) st) (\<lambda>_ st.
              handle_server_remove from_addr st))
      else if starts_with QueryServers_HEADER src then
        (case hbind (allow_game_request ax env from_addr st) (\<lambda>_ st.
               lift_result (QueryServers_decode (e_memchr env) (Filter_from_slice (e_memchr env)) src) st) of
           (Inl e, st) \<Rightarrow> Some (Inl e, st)
         | (Inr msg, st) \<Rightarrow> handle_game_query_servers ax env from_addr msg st)
      else if starts_with GetServerInfo_HEADER src then
        Some (hbind (allow_game_request ax env from_addr st) (\<lambda>_ st.
              hbind (lift_result (GetServerInfo_decode src) st) (\<lambda>msg st.
              handle_game_get_server_info ax env from_addr msg st)))
      else if starts_with AdminChallenge_HEADER src then
        Some (hbind (allow_admin_request ax env from_addr st) (\<lambda>_ st.
              hbind (lift_result (AdminChallenge_decode src) st) (\<lambda>_ st.
              handle_admin_challenge ax env from_addr st)))
      else if starts_with AdminCommand_HEADER src then
        Some (hbind (allow_admin_request ax env from_addr st) (\<lambda>_ st.
              hbind (lift_result (AdminCommand_decode_with_hash_len (hc_len (mc_hash (ms_cfg st))) src) st)
                (\<lambda>msg st. handle_admin_command ax env from_addr msg st)))
      else Some (Inl EUndefinedPacket, st))"

section \<open>The receive loop\<close>

text \<open>
  One turn of the loop: the signal flags at its start and what \<^verbatim>\<open>recv_from\<close> gave. The loop ends on
  a signal or an unexpected error; the end of the list is a server still waiting.
\<close>

datatype recv_result = Received bytes socket_addr | RInterrupted | RTimedOut | RWouldBlock | RError

record turn =
  tn_signals :: u32
  tn_recv :: recv_result
  tn_env :: env

definition is_blocked :: "'ip \<Rightarrow> ('addr, 'ip) master \<Rightarrow> bool" where
  "is_blocked ip st \<longleftrightarrow> ip \<in> ms_blocklist st"

text \<open>What one datagram does to the state.\<close>

definition receive ::
  "('addr, 'ip) addr_ext \<Rightarrow> env \<Rightarrow> bytes \<Rightarrow> socket_addr \<Rightarrow> ('addr, 'ip) master \<Rightarrow>
     ('addr, 'ip) master option" where
  "receive ax env src from_addr st =
     (case ax_extract ax from_addr of
        None \<Rightarrow> Some st
      | Some from_addr \<Rightarrow>
          if is_blocked (ax_ip ax from_addr) st then Some st
          else (case handle_packet ax env from_addr src st of
                  None \<Rightarrow> None
                | Some (Inl err, st) \<Rightarrow> Some (st\<lparr>ms_stats := Stats_on_error (ms_stats st)\<rparr>)
                | Some (Inr _, st) \<Rightarrow> Some st))"

fun run_turns ::
  "('addr, 'ip) addr_ext \<Rightarrow> turn list \<Rightarrow> ('addr, 'ip) master \<Rightarrow>
     (unit, ('addr, 'ip) master) handler option" where
  "run_turns ax [] st = Some (Inr (), st)"
| "run_turns ax (t # ts) st =
     (if \<not> SignalFlags_is_empty (tn_signals t) then Some (Inr (), st)
      else case tn_recv t of
        Received src from_addr \<Rightarrow>
          (case receive ax (tn_env t) src from_addr st of
             None \<Rightarrow> None
           | Some st \<Rightarrow> run_turns ax ts st)
      | RInterrupted \<Rightarrow> Some (Inr (), st)
      | RTimedOut \<Rightarrow> run_turns ax ts st
      | RWouldBlock \<Rightarrow> run_turns ax ts st
      | RError \<Rightarrow> Some (Inl EIo, st))"

end
