(* ===== verification/Master_Safety.thy ===== *)
theory Master_Safety
  imports Master_Server
begin

text \<open>
  What the master server guarantees over all its runs: its steps as a transition relation, the
  invariant of its maps, and the agreement of the block list with the server list.
\<close>

section \<open>Changes that only send\<close>

definition only_sent :: "('addr, 'ip) master \<Rightarrow> ('addr, 'ip) master \<Rightarrow> bool" where
  "only_sent st st' \<longleftrightarrow> (\<exists>s. st' = st\<lparr>ms_sent := s\<rparr>)"

lemma only_sent_refl [simp]: "only_sent st st"
proof -
  have "st = st\<lparr>ms_sent := ms_sent st\<rparr>" by simp
  then show ?thesis unfolding only_sent_def by blast
qed

lemma only_sent_trans: "only_sent a b \<Longrightarrow> only_sent b c \<Longrightarrow> only_sent a c"
  by (auto simp: only_sent_def)

lemma send_to_only: "only_sent st (snd (send_to env packet dest st))"
  by (auto simp: send_to_def only_sent_def intro: exI [of _ "ms_sent st"])

lemma hbind_cases:
  obtains e where "fst r = Inl e" "hbind r f = (Inl e, snd r)"
  | x where "fst r = Inr x" "hbind r f = f x (snd r)"
  by (cases r; cases "fst r") auto

lemma hbind_only:
  assumes "only_sent st (snd r)" "\<And>x. only_sent (snd r) (snd (f x (snd r)))"
  shows "only_sent st (snd (hbind r f))"
  using assms by (cases rule: hbind_cases [of r f]) (auto intro: only_sent_trans)

lemma lift_result_snd [simp]: "snd (lift_result r st) = st"
  by (simp add: lift_result_def)

lemma send_encoded_only: "only_sent st (snd (hbind (lift_result r st) (\<lambda>packet st. send_to env packet d st)))"
  by (rule hbind_only) (simp_all add: send_to_only)

lemma send_announces_only: "only_sent st (snd (send_announces env packet xs st))"
proof (induction xs arbitrary: st)
  case (Cons a xs)
  show ?case unfolding send_announces.simps
    by (rule hbind_only) (simp_all add: send_to_only Cons.IH)
qed simp

lemma send_client_to_nat_servers_only:
  "only_sent st (snd (send_client_to_nat_servers ax env dest servers st))"
  unfolding send_client_to_nat_servers_def by (rule hbind_only) (simp_all add: send_announces_only)

lemma send_list_from_only:
  assumes "send_list_from env mtu D dest key servers offset st = Some h"
  shows "only_sent st (snd h)"
proof (rule send_list_from.raw_induct
    [where P = "\<lambda>env mtu D dest key servers offset st h. only_sent st (snd h)", OF _ assms])
  fix f :: "env \<Rightarrow> nat \<Rightarrow> 's server_address \<Rightarrow> socket_addr \<Rightarrow> u32 option \<Rightarrow> 's list \<Rightarrow> nat \<Rightarrow>
      ('a, 'b) master \<Rightarrow> (unit, ('a, 'b) master) handler option"
    and env mtu and D :: "'s server_address" and dest key servers offset
    and st :: "('a, 'b) master" and h
  assume IH: "\<And>env mtu D dest key servers offset st h.
      f env mtu D dest key servers offset st = Some h \<Longrightarrow> only_sent st (snd h)"
    and eq: "(case QueryServersResponse_encode D (QueryServersResponse_new key) (replicate mtu 0)
             (drop offset servers) of
        Inl e \<Rightarrow> Some (Inl (EProtocol e), st)
      | Inr pc \<Rightarrow>
          (case send_to env (fst pc) dest st of (r, st') \<Rightarrow>
           (case r of
              Inl e \<Rightarrow> Some (Inl e, st')
            | Inr u \<Rightarrow>
                if length servers \<le> offset + snd pc then Some (Inr (), st')
                else f env mtu D dest key servers (offset + snd pc) st'))) = Some h"
  show "only_sent st (snd h)"
  proof (cases "QueryServersResponse_encode D (QueryServersResponse_new key) (replicate mtu 0)
      (drop offset servers)")
    case (Inl e)
    with eq show ?thesis by auto
  next
    case enc: (Inr pc)
    obtain r st' where s: "send_to env (fst pc) dest st = (r, st')" by fastforce
    then have o: "only_sent st st'" using send_to_only [of st env "fst pc" dest] by simp
    from eq enc s have "snd h = st' \<or> f env mtu D dest key servers (offset + snd pc) st' = Some h"
      by (cases r; cases "length servers \<le> offset + snd pc") auto
    then show ?thesis
    proof
      assume "f env mtu D dest key servers (offset + snd pc) st' = Some h"
      from only_sent_trans [OF o IH [OF this]] show ?thesis .
    qed (simp add: o)
  qed
qed

lemma send_server_list_only:
  "send_server_list ax env D dest key servers st = Some h \<Longrightarrow> only_sent st (snd h)"
  unfolding send_server_list_def by (rule send_list_from_only)

lemma send_fake_server_only:
  "send_fake_server ax env a key u st = Some h \<Longrightarrow> only_sent st (snd h)"
  by (auto simp: send_fake_server_def split: socket_addr.splits dest: send_server_list_only)

section \<open>The invariant of the maps\<close>

definition ms_inv :: "('addr, 'ip) master \<Rightarrow> bool" where
  "ms_inv st \<longleftrightarrow> tm_inv (ms_challenges st) \<and> tm_inv (ms_servers st) \<and>
     tm_inv (ms_admin_challenges st) \<and> tm_inv (ms_admin_limit st) \<and>
     tm_inv (ms_update_gamedir st) \<and> tm_inv (ms_client_rate_limit st)"

lemma ms_inv_only_sent: "only_sent st st' \<Longrightarrow> ms_inv st' = ms_inv st"
  by (auto simp: only_sent_def ms_inv_def)

text \<open>Keys of the maps after each operation.\<close>

definition raw_keys :: "('k, 'v) timed_map \<Rightarrow> 'k set" where
  "raw_keys m = fst ` set (tm_map m)"

lemma raw_keys_cleanup: "raw_keys (TimedHashMap_cleanup now m) \<subseteq> raw_keys m"
  by (cases rule: cleanup_cases [of now m]) (auto simp: raw_keys_def)

lemma raw_keys_update: "raw_keys (Entry_insert k e m) \<subseteq> insert k (raw_keys m)"
  by (simp add: raw_keys_def Entry_insert_def dom_update)

lemma raw_keys_insert: "raw_keys (TimedHashMap_insert k v t t' m) \<subseteq> insert k (raw_keys m)"
proof -
  have "raw_keys (m\<lparr>tm_map := AList.update k (Timed_new t v) (tm_map m)\<rparr>) \<subseteq> insert k (raw_keys m)"
    by (simp add: raw_keys_def dom_update)
  then show ?thesis
    unfolding TimedHashMap_insert_def by (rule order_trans [OF raw_keys_cleanup])
qed

lemma raw_keys_entry: "raw_keys (snd (TimedHashMap_entry k now m)) \<subseteq> raw_keys m"
proof -
  have "raw_keys (m\<lparr>tm_map := AList.delete k (tm_map m)\<rparr>) \<subseteq> raw_keys m"
    by (simp add: raw_keys_def dom_delete_subset)
  then show ?thesis
    using raw_keys_cleanup [of now m]
    by (simp add: TimedHashMap_entry_def Let_def split: option.split)
qed

lemma raw_keys_retain: "raw_keys (TimedHashMap_retain f now m) \<subseteq> {k \<in> raw_keys m. \<exists>v. f k v}"
  by (auto simp: raw_keys_def TimedHashMap_retain_def)

text \<open>No address of a blocked IP is in the server list.\<close>

definition blocked_clean :: "('addr, 'ip) addr_ext \<Rightarrow> ('addr, 'ip) master \<Rightarrow> bool" where
  "blocked_clean ax st \<longleftrightarrow>
     (\<forall>a \<in> raw_keys (ms_servers st). ax_ip ax a \<notin> ms_blocklist st)"

lemma blocked_clean_only_sent: "only_sent st st' \<Longrightarrow> blocked_clean ax st' = blocked_clean ax st"
  unfolding only_sent_def blocked_clean_def by (elim exE) simp

text \<open>Both, for a packet that comes from an IP that is not blocked.\<close>

definition ms_ok :: "('addr, 'ip) addr_ext \<Rightarrow> ('addr, 'ip) master \<Rightarrow> bool" where
  "ms_ok ax st \<longleftrightarrow> ms_inv st \<and> blocked_clean ax st"

lemma ms_ok_only_sent: "only_sent st st' \<Longrightarrow> ms_ok ax st' = ms_ok ax st"
  by (simp add: ms_ok_def ms_inv_only_sent blocked_clean_only_sent)

lemma ms_ok_hbind:
  assumes "ms_ok ax (snd r)" "\<And>x st. fst r = Inr x \<Longrightarrow> st = snd r \<Longrightarrow> ms_ok ax (snd (f x st))"
  shows "ms_ok ax (snd (hbind r f))"
  using assms by (cases rule: hbind_cases [of r f]) auto

lemma ms_ok_send:
  "ms_ok ax st \<Longrightarrow> ms_ok ax (snd (hbind (lift_result r st) (\<lambda>packet st. send_to env packet d st)))"
  using ms_ok_only_sent [OF send_encoded_only] by blast

section \<open>Every handler keeps the invariant\<close>

lemmas ms_ok_defs = ms_ok_def ms_inv_def blocked_clean_def

lemma ms_ok_parts:
  "ms_ok ax (st\<lparr>ms_stats := s\<rparr>) = ms_ok ax st"
  "ms_ok ax (st\<lparr>ms_filtered_servers := a, ms_filtered_servers_nat := b\<rparr>) = ms_ok ax st"
  "ms_ok ax st \<Longrightarrow> tm_inv c \<Longrightarrow> ms_ok ax (st\<lparr>ms_challenges := c\<rparr>)"
  "ms_ok ax st \<Longrightarrow> tm_inv d \<Longrightarrow> ms_ok ax (st\<lparr>ms_admin_challenges := d\<rparr>)"
  "ms_ok ax st \<Longrightarrow> tm_inv e \<Longrightarrow> ms_ok ax (st\<lparr>ms_admin_limit := e\<rparr>)"
  "ms_ok ax st \<Longrightarrow> tm_inv f \<Longrightarrow> ms_ok ax (st\<lparr>ms_update_gamedir := f\<rparr>)"
  "ms_ok ax st \<Longrightarrow> tm_inv g \<Longrightarrow> ms_ok ax (st\<lparr>ms_client_rate_limit := g\<rparr>)"
  by (simp_all add: ms_ok_defs)

lemma ms_okD:
  "ms_ok ax st \<Longrightarrow> tm_inv (ms_challenges st)" "ms_ok ax st \<Longrightarrow> tm_inv (ms_servers st)"
  "ms_ok ax st \<Longrightarrow> tm_inv (ms_admin_challenges st)" "ms_ok ax st \<Longrightarrow> tm_inv (ms_admin_limit st)"
  "ms_ok ax st \<Longrightarrow> tm_inv (ms_update_gamedir st)" "ms_ok ax st \<Longrightarrow> tm_inv (ms_client_rate_limit st)"
  by (simp_all add: ms_ok_defs)

lemma ms_ok_servers:
  assumes "ms_ok ax st" "tm_inv m" "raw_keys m \<subseteq> insert a (raw_keys (ms_servers st))"
    and "ax_ip ax a \<notin> ms_blocklist st"
  shows "ms_ok ax (st\<lparr>ms_servers := m\<rparr>)"
  using assms unfolding ms_ok_defs by (auto simp: subset_iff)

lemma server_challenge_add_ok:
  "ms_ok ax st \<Longrightarrow> ms_ok ax (snd (server_challenge_add env a st))"
  by (auto simp: server_challenge_add_def Let_def split_beta intro!: ms_ok_parts tm_inv_intros
      dest: ms_okD split: option.splits)

lemma handle_server_challenge_ok:
  "ms_ok ax st \<Longrightarrow> ms_ok ax (snd (handle_server_challenge ax env a msg st))"
  unfolding handle_server_challenge_def Let_def split_beta
  by (intro ms_ok_send server_challenge_add_ok)

lemma add_server_ok:
  assumes "ms_ok ax st" "ax_ip ax a \<notin> ms_blocklist st"
  shows "ms_ok ax (add_server ax env i a server st)"
proof -
  obtain occ m where e: "TimedHashMap_entry a (e_clk env i) (ms_servers st) = (occ, m)" by fastforce
  note inv = ms_okD(2) [OF assms(1)]
  have m: "tm_inv m" "raw_keys m \<subseteq> raw_keys (ms_servers st)"
    using tm_inv_entry [OF inv, of a "e_clk env i"]
      raw_keys_entry [of a "e_clk env i" "ms_servers st"] e by simp_all
  let ?st = "st\<lparr>ms_servers := m\<rparr>"
  have "ms_ok ax ?st"
    using assms m by (intro ms_ok_servers [where a = a]) auto
  moreover have "ms_ok ax (st\<lparr>ms_servers := Entry_insert a x m\<rparr>)" for x
    using assms m raw_keys_update [of a x m] by (intro ms_ok_servers [where a = a] tm_inv_Entry_insert) auto
  moreover have "ms_ok ax (st\<lparr>ms_servers := TimedHashMap_insert a server t t' m\<rparr>)" for t t'
    using assms m raw_keys_insert [of a server t t' m] by (intro ms_ok_servers [where a = a] tm_inv_insert) auto
  ultimately show ?thesis
    by (simp add: add_server_def e Let_def split: option.split)
qed

lemma handle_server_add_ok:
  assumes "ms_ok ax st" "ax_ip ax a \<notin> ms_blocklist st"
  shows "ms_ok ax (snd (handle_server_add ax env a msg st))"
proof -
  have "ms_ok ax (add_server ax env 2 a x (st\<lparr>ms_challenges := snd (TimedHashMap_remove a t (ms_challenges st))\<rparr>))"
    for x t
    using assms by (intro add_server_ok ms_ok_parts tm_inv_remove ms_okD(1) [of ax st]) auto
  moreover have "ms_ok ax (st\<lparr>ms_challenges := snd (TimedHashMap_remove a t (ms_challenges st))\<rparr>)" for t
    using assms by (intro ms_ok_parts tm_inv_remove ms_okD(1) [of ax st])
  ultimately show ?thesis
    using assms by (simp add: handle_server_add_def Let_def split_beta ms_ok_parts split: option.split)
qed

lemma handle_server_remove_ok: "ms_ok ax st \<Longrightarrow> ms_ok ax (snd (handle_server_remove a st))"
  by (simp add: handle_server_remove_def ms_ok_parts)

lemma allow_game_request_ok: "ms_ok ax st \<Longrightarrow> ms_ok ax (snd (allow_game_request ax env a st))"
  by (auto simp: allow_game_request_def Let_def split_beta
      intro!: ms_ok_parts(7) tm_inv_Entry_insert tm_inv_entry dest: ms_okD(6))

lemma save_client_gamedir_ok: "ms_ok ax st \<Longrightarrow> ms_ok ax (save_client_gamedir env a g st)"
  by (auto simp: save_client_gamedir_def intro!: ms_ok_parts(6) tm_inv_insert dest: ms_okD(5)
      split: option.splits)

lemma handle_game_query_servers_ok:
  assumes "ms_ok ax st" "handle_game_query_servers ax env a query st = Some h"
  shows "ms_ok ax (snd h)"
proof -
  let ?st = "st\<lparr>ms_stats := Stats_on_query_servers (ms_stats st)\<rparr>"
  have ok: "ms_ok ax ?st" using assms(1) by (simp add: ms_ok_parts)
  show ?thesis
  proof (cases "is_query_servers_valid (ms_cfg st) query")
    case False
    then have "send_fake_server ax env a (f_key (qs_filter query))
        (ms_update_addr (save_client_gamedir env a (f_gamedir (qs_filter query)) ?st))
        (save_client_gamedir env a (f_gamedir (qs_filter query)) ?st) = Some h"
      using assms(2) by (simp add: handle_game_query_servers_def Let_def)
    from ms_ok_only_sent [OF send_fake_server_only [OF this]] save_client_gamedir_ok [OF ok]
    show ?thesis by blast
  next
    case True
    then obtain v where v: "f_clver (qs_filter query) = Some v"
      by (auto simp: is_query_servers_valid_def split: option.splits)
    obtain fs ns where fn: "fold (push_filtered query v)
        (TimedHashMap_iter (e_clk env 4) (ms_servers ?st)) ([], []) = (fs, ns)" by fastforce
    let ?st' = "?st\<lparr>ms_filtered_servers := fs, ms_filtered_servers_nat := ns\<rparr>"
    have ok': "ms_ok ax ?st'" using ok by (simp add: ms_ok_parts)
    obtain h' where h': "send_server_list ax env (ax_sad ax) (ax_wrap ax a) (f_key (qs_filter query))
        (ms_filtered_servers ?st') ?st' = Some h'"
      and h: "h = h' \<or> h = send_client_to_nat_servers ax env a (ms_filtered_servers_nat (snd h')) (snd h')
        \<or> h = (Inr (), snd h')"
      using assms(2) True v fn
      by (auto simp: handle_game_query_servers_def Let_def split: option.splits prod.splits sum.splits if_splits)
    have "ms_ok ax (snd h')"
      using ms_ok_only_sent [OF send_server_list_only [OF h']] ok' by blast
    with h ms_ok_only_sent [OF send_client_to_nat_servers_only [of "snd h'"]] show ?thesis by auto
  qed
qed

lemma handle_game_get_server_info_ok:
  "ms_ok ax st \<Longrightarrow> ms_ok ax (snd (handle_game_get_server_info ax env a msg st))"
  unfolding handle_game_get_server_info_def Let_def split_beta
  by (intro ms_ok_send) (auto intro!: ms_ok_parts(6) tm_inv_remove dest: ms_okD(5))

lemma allow_admin_request_state [simp]: "snd (allow_admin_request ax env a st) = st"
  by (simp add: allow_admin_request_def split: option.split)

lemma handle_admin_challenge_ok:
  "ms_ok ax st \<Longrightarrow> ms_ok ax (snd (handle_admin_challenge ax env a st))"
  unfolding handle_admin_challenge_def admin_challenge_add_def Let_def split_beta
  by (intro ms_ok_send) (auto intro!: ms_ok_parts(4) tm_inv_insert dest: ms_okD(3))

lemma ban_ip_ok: "ms_ok ax st \<Longrightarrow> ms_ok ax (ban_ip ax now ip st)"
  using raw_keys_retain [of "\<lambda>addr _. ax_ip ax addr \<noteq> ip" now "ms_servers st"]
  by (auto simp: ban_ip_def remove_servers_by_ip_def ms_ok_defs tm_inv_retain subset_iff)

lemma unban_ip_ok: "ms_ok ax st \<Longrightarrow> ms_ok ax (unban_ip ip st)"
  by (auto simp: unban_ip_def ms_ok_defs)

lemma admin_helper_ok:
  "(\<And>i ip st. ms_ok ax st \<Longrightarrow> ms_ok ax (oper i ip st)) \<Longrightarrow> ms_ok ax st \<Longrightarrow>
     ms_ok ax (admin_helper ax oper i args st)"
  by (induction ax oper i args st rule: admin_helper.induct) (auto split: option.splits)

lemma run_admin_command_ok: "ms_ok ax st \<Longrightarrow> ms_ok ax (run_admin_command ax env i cmd st)"
  by (simp add: run_admin_command_def Let_def admin_helper_ok ban_ip_ok unban_ip_ok)

lemma handle_admin_command_ok:
  "ms_ok ax st \<Longrightarrow> ms_ok ax (snd (handle_admin_command ax env a msg st))"
proof -
  assume ok: "ms_ok ax st"
  have "ms_ok ax (admin_challenge_remove ax t a (run_admin_command ax env 2 (ac_command msg) st))" for t
    unfolding admin_challenge_remove_def
    using run_admin_command_ok [OF ok] by (intro ms_ok_parts(4) tm_inv_remove ms_okD(3))
  moreover have "ms_ok ax (st\<lparr>ms_admin_limit := TimedHashMap_insert k () t t' (ms_admin_limit st)\<rparr>)"
    for k t t' using ok by (intro ms_ok_parts(5) tm_inv_insert ms_okD(4))
  ultimately show ?thesis
    using ok by (simp add: handle_admin_command_def Let_def split: option.split)
qed

lemma handle_packet_ok:
  assumes "ms_ok ax st" "ax_ip ax a \<notin> ms_blocklist st" "handle_packet ax env a src st = Some h"
  shows "ms_ok ax (snd h)"
proof -
  have q: "ms_ok ax (snd h)"
    if "(case hbind (allow_game_request ax env a st) (\<lambda>_ st. lift_result r st) of
           (Inl e, st) \<Rightarrow> Some (Inl e, st)
         | (Inr msg, st) \<Rightarrow> handle_game_query_servers ax env a msg st) = Some h" for r
  proof -
    have "ms_ok ax (snd (hbind (allow_game_request ax env a st) (\<lambda>_ st. lift_result r st)))"
      by (rule ms_ok_hbind) (simp_all add: allow_game_request_ok assms(1))
    with that show ?thesis
      by (auto split: prod.splits sum.splits dest: handle_game_query_servers_ok)
  qed
  show ?thesis
    using assms(1,2,3) q unfolding handle_packet_def
    by (auto split: if_splits intro!: ms_ok_hbind allow_game_request_ok handle_server_challenge_ok
        handle_server_add_ok handle_server_remove_ok handle_game_get_server_info_ok
        handle_admin_challenge_ok handle_admin_command_ok simp: allow_game_request_ok)
qed

lemma receive_ok:
  assumes "ms_ok ax st" "receive ax env src from_addr st = Some st'"
  shows "ms_ok ax st'"
  using assms handle_packet_ok [of ax st _ env src]
  by (fastforce simp: receive_def is_blocked_def ms_ok_parts split: option.splits if_splits prod.splits sum.splits)

section \<open>Runs\<close>

text \<open>
  A step is one received datagram or one reload of the configuration, in any environment; a
  reachable state comes from a new server by steps.
\<close>

inductive master_step ::
  "('addr, 'ip) addr_ext \<Rightarrow> ('addr, 'ip) master \<Rightarrow> ('addr, 'ip) master \<Rightarrow> bool" for ax where
  step_receive:
    "receive ax env src from_addr st = Some st' \<Longrightarrow> master_step ax st st'"
| step_config:
    "MasterServer_update_config resolve bind local cfg st = (r, st') \<Longrightarrow> master_step ax st st'"

inductive reachable :: "('addr, 'ip) addr_ext \<Rightarrow> ('addr, 'ip) master \<Rightarrow> bool" for ax where
  reach_new: "MasterServer_new ax resolve bind cfg addr = Inr st \<Longrightarrow> reachable ax st"
| reach_step: "reachable ax st \<Longrightarrow> master_step ax st st' \<Longrightarrow> reachable ax st'"

inductive_cases master_step_cases: "master_step ax st st'"

lemma MasterServer_new_ok: "MasterServer_new ax resolve bind cfg addr = Inr st \<Longrightarrow> ms_ok ax st"
  by (auto simp: MasterServer_new_def Let_def ms_ok_defs tm_inv_new raw_keys_def TimedHashMap_new_def
      split: option.splits) (simp_all add: tm_inv_def periodic_inv_init)

lemma MasterServer_update_config_ok:
  assumes "ms_ok ax st"
  shows "ms_ok ax (snd (MasterServer_update_config resolve bind local cfg st))"
proof -
  have clear: "ms_ok ax (MasterServer_clear st)"
    using assms by (simp add: MasterServer_clear_def ms_ok_defs tm_inv_others)
      (simp add: raw_keys_def TimedHashMap_clear_def)
  have rest: "ms_ok ax (s\<lparr>ms_update_addr := u, ms_stats := t, ms_cfg := c,
      ms_challenges := TimedHashMap_set_timeout t1 (ms_challenges s),
      ms_servers := TimedHashMap_set_timeout t2 (ms_servers s),
      ms_admin_challenges := TimedHashMap_set_timeout t3 (ms_admin_challenges s),
      ms_admin_limit := TimedHashMap_set_timeout t4 (ms_admin_limit s)\<rparr>)"
    if "ms_ok ax s" for s u t c t1 t2 t3 t4
    using that by (simp add: ms_ok_defs tm_inv_others) (simp add: raw_keys_def TimedHashMap_set_timeout_def)
  show ?thesis
    using assms clear rest by (simp add: MasterServer_update_config_def Let_def split: option.split)
qed

lemma master_step_ok: "master_step ax st st' \<Longrightarrow> ms_ok ax st \<Longrightarrow> ms_ok ax st'"
  by (erule master_step_cases)
     (auto dest: receive_ok, metis MasterServer_update_config_ok snd_conv)

lemma reachable_ok: "reachable ax st \<Longrightarrow> ms_ok ax st"
  by (induction rule: reachable.induct) (auto dest: MasterServer_new_ok master_step_ok)

lemma run_turns_reachable:
  "reachable ax st \<Longrightarrow> run_turns ax ts st = Some h \<Longrightarrow> reachable ax (snd h)"
proof (induction ts arbitrary: st)
  case (Cons t ts)
  then show ?case
    by (cases "tn_recv t")
       (auto split: if_splits option.splits intro: reachable.intros master_step.intros)
qed auto

section \<open>Sending a server list\<close>

text \<open>\<open>returns r\<close>: the code returns, with whatever result.\<close>

definition returns :: "'r option \<Rightarrow> bool" where
  "returns r \<longleftrightarrow> r \<noteq> None"

lemma returns_Some [simp]: "returns (Some x)"
  by (simp add: returns_def)

lemma returnsE: "returns r \<Longrightarrow> (\<And>x. r = Some x \<Longrightarrow> thesis) \<Longrightarrow> thesis"
  by (auto simp: returns_def)

text \<open>An address list needs room for the key header, one address and the end marker.\<close>

locale list_sender = address_codec D wire valid
  for D :: "'s server_address" and wire :: "'s \<Rightarrow> bytes" and valid :: "'s \<Rightarrow> bool" +
  fixes mtu :: nat
  assumes mtu_room: "12 + 2 * sad_size D \<le> mtu"
begin

lemma prefix_le: "length (QueryServersResponse_prefix key) \<le> 12"
  by (cases key) (simp_all add: QueryServersResponse_prefix_def QueryServersResponse_HEADER_def)

definition fits :: "u32 option \<Rightarrow> nat \<Rightarrow> nat" where
  "fits key n = addresses_fit (sad_size D) (mtu - length (QueryServersResponse_prefix key)) n"

lemma fits_pos: "0 < n \<Longrightarrow> 0 < fits key n"
proof -
  assume "0 < n"
  have "2 * sad_size D \<le> mtu - length (QueryServersResponse_prefix key)"
    using prefix_le [of key] mtu_room by linarith
  then have "2 \<le> (mtu - length (QueryServersResponse_prefix key)) div sad_size D"
    using size_pos by (simp add: less_eq_div_iff_mult_less_eq)
  with \<open>0 < n\<close> show ?thesis by (simp add: fits_def addresses_fit_def)
qed

lemma fits_le: "fits key n \<le> n"
  by (simp add: fits_def addresses_fit_def)

lemma encode_ok:
  "\<exists>packet. QueryServersResponse_encode D (QueryServersResponse_new key) (replicate mtu 0) xs =
     Inr (packet, fits key (length xs)) \<and> length packet \<le> mtu"
proof -
  let ?pre = "QueryServersResponse_prefix key"
  let ?n = "fits key (length xs)"
  have room: "length ?pre + sad_size D \<le> mtu" using prefix_le [of key] mtu_room by linarith
  let ?p = "?pre @ concat (map wire (take ?n xs)) @ replicate (sad_size D) 0"
  have "QueryServersResponse_encode D (QueryServersResponse_new key) (replicate mtu 0) xs = Inr (?p, ?n)"
    using room by (simp add: encode_spec QueryServersResponse_new_def fits_def Let_def)
  moreover have "length ?p \<le> mtu"
  proof -
    let ?q = "(mtu - length ?pre) div sad_size D"
    have "?n + 1 \<le> ?q"
    proof -
      have "1 \<le> ?q" using room size_pos by (simp add: Suc_le_eq div_greater_zero_iff)
      then show ?thesis by (simp add: fits_def addresses_fit_def min_def) linarith
    qed
    then have "sad_size D * (?n + 1) \<le> sad_size D * ?q" by (rule mult_le_mono2)
    also have "\<dots> \<le> mtu - length ?pre" by simp
    finally have "sad_size D * ?n + sad_size D \<le> mtu - length ?pre" by simp
    moreover have "length (take ?n xs) = ?n" using fits_le [of key "length xs"] by simp
    ultimately show ?thesis
      unfolding length_append length_wires length_replicate using room by simp
  qed
  ultimately show ?thesis by blast
qed

text \<open>Sending always ends.\<close>

lemma send_list_ends: "returns (send_list_from env mtu D dest key servers offset st)"
proof (induction "length servers - offset" arbitrary: offset st rule: less_induct)
  case less
  let ?n = "fits key (length (drop offset servers))"
  obtain packet where enc: "QueryServersResponse_encode D (QueryServersResponse_new key)
      (replicate mtu 0) (drop offset servers) = Inr (packet, ?n)"
    using encode_ok by blast
  obtain r st' where s: "send_to env packet dest st = (r, st')" by fastforce
  show ?case
  proof (cases "length servers \<le> offset + ?n")
    case True
    then show ?thesis by (subst send_list_from.simps) (cases r; simp add: enc s)
  next
    case False
    then have "0 < ?n" by (intro fits_pos) simp
    with False have "length servers - (offset + ?n) < length servers - offset" by simp
    then have "returns (send_list_from env mtu D dest key servers (offset + ?n) st')" by (rule less)
    then obtain h where h: "send_list_from env mtu D dest key servers (offset + ?n) st' = Some h"
      by (rule returnsE)
    show ?thesis
      by (subst send_list_from.simps) (cases r; use False h in \<open>simp add: enc s\<close>)
  qed
qed

text \<open>
  When the socket takes every datagram, the datagrams carry all the addresses, in order, and none
  is larger than the buffer. Only a list without a key can start with bytes that read as a key.
\<close>

definition carries :: "u32 option \<Rightarrow> 's list \<Rightarrow> bytes \<Rightarrow> bool" where
  "carries key xs packet \<longleftrightarrow> length packet \<le> mtu \<and>
     (\<exists>r. QueryServersResponse_decode packet = Inr r \<and> qsr_key r = key \<and>
        QueryServersResponse_iter D r = xs)"

lemma send_list_all:
  assumes "\<And>i. e_send_ok env i" "key \<noteq> None" "\<forall>a \<in> set servers. valid a"
  shows "\<exists>packets parts. send_list_from env mtu D dest key servers offset st =
       Some (Inr (), st\<lparr>ms_sent := ms_sent st @ map (\<lambda>p. (p, dest)) packets\<rparr>) \<and>
     concat parts = drop offset servers \<and> packets \<noteq> [] \<and> list_all2 (carries key) parts packets"
proof (induction "length servers - offset" arbitrary: offset st rule: less_induct)
  case less
  let ?rest = "drop offset servers"
  let ?n = "fits key (length ?rest)"
  obtain packet where enc: "QueryServersResponse_encode D (QueryServersResponse_new key)
      (replicate mtu 0) ?rest = Inr (packet, ?n)" and len: "length packet \<le> mtu"
    using encode_ok by blast
  have "\<exists>r. QueryServersResponse_decode packet = Inr r \<and>
      qsr_key r = qsr_key (QueryServersResponse_new key) \<and> QueryServersResponse_iter D r = take ?n ?rest"
    using assms(2,3) by (intro encode_iter [OF enc])
      (auto simp: QueryServersResponse_new_def dest: in_set_dropD)
  then have car: "carries key (take ?n ?rest) packet"
    using len by (simp add: carries_def QueryServersResponse_new_def)
  let ?st = "st\<lparr>ms_sent := ms_sent st @ [(packet, dest)]\<rparr>"
  have s: "send_to env packet dest st = (Inr (), ?st)" using assms(1) by (simp add: send_to_def)
  show ?case
  proof (cases "length servers \<le> offset + ?n")
    case True
    then have "take ?n ?rest = ?rest" by simp
    with True car show ?thesis
      by (subst send_list_from.simps)
         (intro exI [of _ "[packet]"] exI [of _ "[?rest]"], simp add: enc s)
  next
    case False
    then have "0 < ?n" by (intro fits_pos) simp
    with False have "length servers - (offset + ?n) < length servers - offset" by simp
    from less [OF this, of ?st] obtain packets parts where
      run: "send_list_from env mtu D dest key servers (offset + ?n) ?st =
        Some (Inr (), ?st\<lparr>ms_sent := ms_sent ?st @ map (\<lambda>p. (p, dest)) packets\<rparr>)"
      and parts: "concat parts = drop (offset + ?n) servers" "list_all2 (carries key) parts packets"
      by blast
    have "take ?n ?rest @ drop (offset + ?n) servers = ?rest"
      by (metis append_take_drop_id drop_drop add.commute)
    with False car run parts show ?thesis
      by (subst send_list_from.simps)
         (intro exI [of _ "packet # packets"] exI [of _ "take ?n ?rest # parts"], simp add: enc s)
  qed
qed

end

interpretation v4_list: list_sender SocketAddrV4 SocketAddrV4_wire "\<lambda>_. True" 512
  by unfold_locales (simp add: SocketAddrV4_def)

interpretation v6_list: list_sender SocketAddrV6 SocketAddrV6_wire
    "\<lambda>a. v6_flowinfo a = 0 \<and> v6_scope_id a = 0" 1280
  by unfold_locales (simp add: SocketAddrV6_def)

text \<open>The update address may be of the other family; its one-address list fits as well.\<close>

interpretation v6_in_v4: list_sender SocketAddrV6 SocketAddrV6_wire
    "\<lambda>a. v6_flowinfo a = 0 \<and> v6_scope_id a = 0" 512
  by unfold_locales (simp add: SocketAddrV6_def)

interpretation v4_in_v6: list_sender SocketAddrV4 SocketAddrV4_wire "\<lambda>_. True" 1280
  by unfold_locales (simp add: SocketAddrV4_def)

end
