(* ===== verification/Master_Behaviour.thy ===== *)
theory Master_Behaviour
  imports Master_Safety
begin

text \<open>
  What the single operations of the master server do: that every packet is answered in finitely many
  steps, the challenge handshake, the limits per address, the query and the administrator's commands.
\<close>

section \<open>Every packet is handled\<close>

text \<open>What the server relies on in its address type: sending a list of its own addresses, or the
  update address of either family, ends.\<close>

locale master_net =
  fixes ax :: "('addr, 'ip) addr_ext"
  assumes own_ends: "returns (send_list_from env (ax_mtu ax) (ax_sad ax) dest key servers 0
      (st :: ('addr, 'ip) master))"
    and v4_ends: "returns (send_list_from env (ax_mtu ax) SocketAddrV4 dest key servers4 0
      (st :: ('addr, 'ip) master))"
    and v6_ends: "returns (send_list_from env (ax_mtu ax) SocketAddrV6 dest key servers6 0
      (st :: ('addr, 'ip) master))"
begin

lemma send_fake_server_total:
  "returns (send_fake_server ax env a key u (st :: ('addr, 'ip) master))"
  by (simp add: send_fake_server_def send_server_list_def v4_ends v6_ends split: socket_addr.split)

lemma handle_game_query_servers_total:
  "returns (handle_game_query_servers ax env a query (st :: ('addr, 'ip) master))"
proof (cases "is_query_servers_valid (ms_cfg st) query")
  case False
  then show ?thesis
    by (simp add: handle_game_query_servers_def Let_def send_fake_server_total)
next
  case True
  then obtain v where v: "f_clver (qs_filter query) = Some v"
    by (auto simp: is_query_servers_valid_def split: option.splits)
  have own: "returns (send_server_list ax env (ax_sad ax) dest key servers s)"
    for dest key servers and s :: "('addr, 'ip) master"
    unfolding send_server_list_def by (rule own_ends)
  have branch: "returns (case send_server_list ax env (ax_sad ax) dest key servers s of
      None \<Rightarrow> None | Some (Inl e, st) \<Rightarrow> Some (Inl e, st) | Some (Inr _, st) \<Rightarrow> Some (k st))"
    for dest key servers k and s :: "('addr, 'ip) master"
    by (rule returnsE [OF own, of dest key servers s]) (auto split: sum.split prod.split)
  show ?thesis
    using True v by (simp add: handle_game_query_servers_def Let_def branch split: prod.split)
qed

lemma handle_packet_total: "returns (handle_packet ax env a src (st :: ('addr, 'ip) master))"
  by (simp add: handle_packet_def handle_game_query_servers_total split: prod.split sum.split)

lemma receive_total: "returns (receive ax env src from_addr (st :: ('addr, 'ip) master))"
proof (cases "ax_extract ax from_addr")
  case None
  then show ?thesis by (simp add: receive_def)
next
  case (Some a)
  show ?thesis
  proof (rule returnsE [OF handle_packet_total, of env a src st])
    fix h assume "handle_packet ax env a src st = Some h"
    with Some show ?thesis by (simp add: receive_def split: prod.split sum.split)
  qed
qed

lemma run_turns_total: "returns (run_turns ax ts (st :: ('addr, 'ip) master))"
proof (induction ts arbitrary: st)
  case (Cons t ts)
  show ?case
  proof (cases "tn_recv t")
    case (Received src from_addr)
    show ?thesis
      by (rule returnsE [OF receive_total, of "tn_env t" src from_addr st])
         (simp add: Received Cons)
  qed (simp_all add: Cons)
qed simp

end

interpretation net4: master_net AddrExt_V4
  by unfold_locales (simp_all add: AddrExt_V4_def v4_list.send_list_ends v6_in_v4.send_list_ends)

interpretation net6: master_net AddrExt_V6
  by unfold_locales (simp_all add: AddrExt_V6_def v6_list.send_list_ends v4_in_v6.send_list_ends)

section \<open>The challenge handshake\<close>

definition clock_ok :: "env \<Rightarrow> bool" where
  "clock_ok env \<longleftrightarrow> mono (e_clk env)"

lemma clock_le: "clock_ok env \<Longrightarrow> i \<le> j \<Longrightarrow> e_clk env i \<le> e_clk env j"
  by (simp add: clock_ok_def monoD)

lemma server_challenge_get_view: "server_challenge_get now a st = view (ms_challenges st) now a"
  by (simp add: server_challenge_get_def view_get)

text \<open>A request answers with the outstanding number, or with a fresh one that is outstanding from
  then on.\<close>

lemma server_challenge_add_spec:
  assumes "tm_inv (ms_challenges st)" "server_challenge_add env a st = (c, st')"
  shows "c = (case view (ms_challenges st) (e_clk env 0) a of Some c \<Rightarrow> c | None \<Rightarrow> e_rng env 0)"
    and "e_clk env 0 \<le> t \<Longrightarrow> b \<noteq> a \<Longrightarrow> view (ms_challenges st') t b = view (ms_challenges st) t b"
    and "view (ms_challenges st) (e_clk env 0) a = None \<Longrightarrow>
      view (ms_challenges st') t a =
        (if alive (tm_timeout (ms_challenges st)) t (e_clk env 1) then Some c else None)"
    and "view (ms_challenges st) (e_clk env 0) a \<noteq> None \<Longrightarrow> e_clk env 0 \<le> t \<Longrightarrow>
      view (ms_challenges st') t a = view (ms_challenges st) t a"
proof -
  obtain occ m where e: "TimedHashMap_entry a (e_clk env 0) (ms_challenges st) = (occ, m)" by fastforce
  have occ: "map_option t_value occ = view (ms_challenges st) (e_clk env 0) a"
    using entry_result [OF assms(1), of a "e_clk env 0"] e by simp
  have m: "view m t k = view (ms_challenges st) t k" if "e_clk env 0 \<le> t" for t k
    using view_entry [OF assms(1) that, of a k] e by simp
  have to: "tm_timeout m = tm_timeout (ms_challenges st)"
    using tm_timeout_simps(4) [of a "e_clk env 0" "ms_challenges st"] e by simp
  show "c = (case view (ms_challenges st) (e_clk env 0) a of Some c \<Rightarrow> c | None \<Rightarrow> e_rng env 0)"
    using assms(2) e by (auto simp: server_challenge_add_def Let_def occ [symmetric] split: option.splits)
  show "e_clk env 0 \<le> t \<Longrightarrow> b \<noteq> a \<Longrightarrow> view (ms_challenges st') t b = view (ms_challenges st) t b"
    using assms(2) e m by (auto simp: server_challenge_add_def Let_def view_Entry_insert split: option.splits)
  show "view (ms_challenges st) (e_clk env 0) a = None \<Longrightarrow> view (ms_challenges st') t a =
        (if alive (tm_timeout (ms_challenges st)) t (e_clk env 1) then Some c else None)"
    using assms(2) e to
    by (auto simp: server_challenge_add_def Let_def occ [symmetric] view_Entry_insert Timed_new_def split: option.splits)
  show "view (ms_challenges st) (e_clk env 0) a \<noteq> None \<Longrightarrow> e_clk env 0 \<le> t \<Longrightarrow>
      view (ms_challenges st') t a = view (ms_challenges st) t a"
    using assms(2) e m
    by (auto simp: server_challenge_add_def Let_def occ [symmetric] split: option.splits)
qed

lemma handle_server_add_rejected:
  assumes "sa_version msg < sc_min_version (mc_server (ms_cfg st)) \<or>
     view (ms_challenges st) (e_clk env 0) a \<noteq> Some (sa_challenge msg)"
  shows "handle_server_add ax env a msg st = (Inr (), st)"
  using assms by (auto simp: handle_server_add_def server_challenge_get_view split: option.split)

lemma add_server_fields [simp]:
  "ms_challenges (add_server ax env i a s st) = ms_challenges st"
  "ms_cfg (add_server ax env i a s st) = ms_cfg st"
  "ms_blocklist (add_server ax env i a s st) = ms_blocklist st"
  "ms_sent (add_server ax env i a s st) = ms_sent st"
  "ms_stats (add_server ax env i a s st) = ms_stats st"
  by (simp_all add: add_server_def Let_def split_beta split: option.split)

lemma handle_server_add_accepted:
  assumes "\<not> sa_version msg < sc_min_version (mc_server (ms_cfg st))"
    and "view (ms_challenges st) (e_clk env 0) a = Some (sa_challenge msg)"
    and "view (ms_challenges st) (e_clk env 1) a \<noteq> None"
    and "handle_server_add ax env a msg st = (r, st')"
  shows "r = Inr ()"
    and "view (ms_challenges st') t b = (if b = a then None else view (ms_challenges st) t b)"
    and "ms_servers st' = ms_servers (add_server ax env 2 a (ServerInfo_new msg) st)"
proof -
  let ?m = "snd (TimedHashMap_remove a (e_clk env 1) (ms_challenges st))"
  have rm: "fst (TimedHashMap_remove a (e_clk env 1) (ms_challenges st)) \<noteq> None"
    using assms(3) by (simp flip: remove_result)
  have same: "ms_servers (add_server ax env 2 a s (st\<lparr>ms_challenges := m\<rparr>)) =
      ms_servers (add_server ax env 2 a s st)" for s m
    by (simp add: add_server_def Let_def split_beta count_servers_def split: option.split)
  have "r = Inr () \<and> ms_challenges st' = ?m \<and>
      ms_servers st' = ms_servers (add_server ax env 2 a (ServerInfo_new msg) st)"
    using assms(1,2,4) rm
    by (auto simp: handle_server_add_def server_challenge_get_view Let_def split_beta same
        split: option.splits)
  then show "r = Inr ()" "ms_servers st' = ms_servers (add_server ax env 2 a (ServerInfo_new msg) st)"
    and "view (ms_challenges st') t b = (if b = a then None else view (ms_challenges st) t b)"
    by (simp_all add: view_remove)
qed

section \<open>Handlers that leave the servers alone\<close>

definition same_core :: "('addr, 'ip) master \<Rightarrow> ('addr, 'ip) master \<Rightarrow> bool" where
  "same_core st st' \<longleftrightarrow> ms_servers st' = ms_servers st \<and> ms_cfg st' = ms_cfg st \<and>
     ms_blocklist st' = ms_blocklist st"

lemma same_core_refl [simp]: "same_core st st"
  by (simp add: same_core_def)

lemma same_core_trans: "same_core a b \<Longrightarrow> same_core b c \<Longrightarrow> same_core a c"
  by (simp add: same_core_def)

lemma same_core_only_sent: "only_sent st st' \<Longrightarrow> same_core st st'"
  unfolding only_sent_def by (elim exE) (simp add: same_core_def)

lemma same_core_parts [simp]:
  "same_core st (st\<lparr>ms_stats := s\<rparr>)" "same_core st (st\<lparr>ms_challenges := c\<rparr>)"
  "same_core st (st\<lparr>ms_admin_challenges := d\<rparr>)" "same_core st (st\<lparr>ms_admin_limit := e\<rparr>)"
  "same_core st (st\<lparr>ms_update_gamedir := f\<rparr>)" "same_core st (st\<lparr>ms_client_rate_limit := g\<rparr>)"
  "same_core st (st\<lparr>ms_filtered_servers := a, ms_filtered_servers_nat := b\<rparr>)"
  by (simp_all add: same_core_def)

lemma same_core_hbind:
  assumes "same_core st (snd r)" "\<And>x. fst r = Inr x \<Longrightarrow> same_core (snd r) (snd (f x (snd r)))"
  shows "same_core st (snd (hbind r f))"
  using assms by (cases rule: hbind_cases [of r f]) (auto intro: same_core_trans)

lemma same_core_send:
  "same_core st s \<Longrightarrow> same_core st (snd (hbind (lift_result r s) (\<lambda>packet st. send_to env packet d st)))"
  using same_core_only_sent [OF send_encoded_only] same_core_trans by blast

lemma server_challenge_add_core: "same_core st (snd (server_challenge_add env a st))"
  by (simp add: server_challenge_add_def Let_def split_beta split: option.split)

lemma handle_server_challenge_core: "same_core st (snd (handle_server_challenge ax env a msg st))"
  unfolding handle_server_challenge_def Let_def split_beta
  by (intro same_core_send server_challenge_add_core)

lemma handle_server_remove_core: "same_core st (snd (handle_server_remove a st))"
  by (simp add: handle_server_remove_def)

lemma allow_game_request_core: "same_core st (snd (allow_game_request ax env a st))"
  by (simp add: allow_game_request_def Let_def split_beta)

lemma save_client_gamedir_core: "same_core st (save_client_gamedir env a g st)"
  by (simp add: save_client_gamedir_def split: option.split)

lemma handle_game_get_server_info_core:
  "same_core st (snd (handle_game_get_server_info ax env a msg st))"
  unfolding handle_game_get_server_info_def Let_def split_beta by (intro same_core_send) simp

lemma handle_admin_challenge_core: "same_core st (snd (handle_admin_challenge ax env a st))"
  unfolding handle_admin_challenge_def admin_challenge_add_def Let_def split_beta
  by (intro same_core_send) simp

text \<open>The answer to a query, taken apart.\<close>

lemma handle_game_query_servers_cases:
  assumes "handle_game_query_servers ax env a query st = Some h"
  obtains (invalid) s where
      "\<not> is_query_servers_valid (ms_cfg st) query"
      "s = save_client_gamedir env a (f_gamedir (qs_filter query))
         (st\<lparr>ms_stats := Stats_on_query_servers (ms_stats st)\<rparr>)"
      "send_fake_server ax env a (f_key (qs_filter query)) (ms_update_addr s) s = Some h"
  | (valid) v fs ns s h' where
      "is_query_servers_valid (ms_cfg st) query" "f_clver (qs_filter query) = Some v"
      "fold (push_filtered query v) (TimedHashMap_iter (e_clk env 4) (ms_servers st)) ([], []) = (fs, ns)"
      "s = st\<lparr>ms_stats := Stats_on_query_servers (ms_stats st), ms_filtered_servers := fs,
              ms_filtered_servers_nat := ns\<rparr>"
      "send_server_list ax env (ax_sad ax) (ax_wrap ax a) (f_key (qs_filter query)) fs s = Some h'"
      "h = (case fst h' of
              Inl e \<Rightarrow> h'
            | Inr _ \<Rightarrow>
                if (case Filter_contains_flags (qs_filter query) FF_NAT of Some b \<Rightarrow> b | None \<Rightarrow> True)
                then send_client_to_nat_servers ax env a (ms_filtered_servers_nat (snd h')) (snd h')
                else (Inr (), snd h'))"
proof (cases "is_query_servers_valid (ms_cfg st) query")
  case False
  with assms show ?thesis
    by (intro invalid [OF False refl]) (simp add: handle_game_query_servers_def Let_def)
next
  case True
  then obtain v where v: "f_clver (qs_filter query) = Some v"
    by (auto simp: is_query_servers_valid_def split: option.splits)
  let ?st = "st\<lparr>ms_stats := Stats_on_query_servers (ms_stats st)\<rparr>"
  obtain fs ns where fn: "fold (push_filtered query v)
      (TimedHashMap_iter (e_clk env 4) (ms_servers st)) ([], []) = (fs, ns)" by fastforce
  let ?s = "?st\<lparr>ms_filtered_servers := fs, ms_filtered_servers_nat := ns\<rparr>"
  show ?thesis
  proof (cases "send_server_list ax env (ax_sad ax) (ax_wrap ax a) (f_key (qs_filter query)) fs ?s")
    case None
    with assms True v fn show ?thesis by (simp add: handle_game_query_servers_def Let_def)
  next
    case (Some h')
    then show ?thesis
      using assms True v fn
      by (intro valid [OF True v fn refl Some]; cases h'; cases "fst h'")
         (auto simp: handle_game_query_servers_def Let_def)
  qed
qed

lemma handle_game_query_servers_core:
  assumes "handle_game_query_servers ax env a query st = Some h"
  shows "same_core st (snd h)"
  using assms
proof (cases rule: handle_game_query_servers_cases)
  case (invalid s)
  have "same_core st s" unfolding invalid(2)
    by (rule same_core_trans [OF _ save_client_gamedir_core]) simp
  then show ?thesis
    using same_core_only_sent [OF send_fake_server_only [OF invalid(3)]] same_core_trans by blast
next
  case (valid v fs ns s h')
  have "same_core st s" unfolding valid(4) by (simp add: same_core_def)
  then have "same_core st (snd h')"
    using same_core_only_sent [OF send_server_list_only [OF valid(5)]] same_core_trans by blast
  moreover have "same_core (snd h')
      (snd (send_client_to_nat_servers ax env a (ms_filtered_servers_nat (snd h')) (snd h')))"
    by (rule same_core_only_sent [OF send_client_to_nat_servers_only])
  ultimately show ?thesis
    unfolding valid(6) by (auto split: sum.split intro: same_core_trans)
qed

text \<open>Only an announcement and a command change the servers or the block list.\<close>

lemma handle_packet_core:
  assumes "handle_packet ax env a src st = Some h"
  obtains (core) "same_core st (snd h)"
  | (add) msg where "starts_with ServerAdd_HEADER src" "ServerAdd_decode (e_memchr env) src = Inr msg"
      "h = handle_server_add ax env a msg st"
  | (admin) msg where "starts_with AdminCommand_HEADER src" "fst (allow_admin_request ax env a st) = Inr ()"
      "AdminCommand_decode_with_hash_len (hc_len (mc_hash (ms_cfg st))) src = Inr msg"
      "h = handle_admin_command ax env a msg st"
proof -
  have lift: "same_core s (snd (hbind (lift_result r s) f))"
    if "\<And>x. same_core s (snd (f x s))" for r s and f :: "_ \<Rightarrow> _ \<Rightarrow> (unit, ('a, 'b) master) handler"
    using that by (intro same_core_hbind) simp_all
  have game: "same_core st (snd (hbind (allow_game_request ax env a st) f))"
    if "\<And>x s. same_core s (snd (f x s))" for f :: "_ \<Rightarrow> _ \<Rightarrow> ('z, ('a, 'b) master) handler"
    using that by (intro same_core_hbind allow_game_request_core) simp_all
  note cases = assms [unfolded handle_packet_def]
  show thesis
  proof (cases "starts_with Challenge_HEADER src")
    case True
    with cases show thesis by (intro core) (auto intro!: lift handle_server_challenge_core)
  next
    case c: False
    show thesis
    proof (cases "starts_with ServerAdd_HEADER src")
      case True
      show thesis
      proof (cases "ServerAdd_decode (e_memchr env) src")
        case (Inl e)
        with cases c True show thesis by (intro core) auto
      next
        case (Inr msg)
        with cases c True show thesis by (intro add [OF True Inr]) simp
      qed
    next
      case a: False
      show thesis
      proof (cases "starts_with ServerRemove_HEADER src")
        case True
        with cases c a show thesis by (intro core) (auto intro!: lift handle_server_remove_core)
      next
        case r: False
        show thesis
        proof (cases "starts_with QueryServers_HEADER src")
          case True
          let ?r = "hbind (allow_game_request ax env a st) (\<lambda>_ st. lift_result (QueryServers_decode
            (e_memchr env) (Filter_from_slice (e_memchr env)) src) st)"
          have "same_core st (snd ?r)" by (rule game) simp
          with cases c a r True show thesis
            by (intro core) (auto split: prod.splits sum.splits
                dest!: handle_game_query_servers_core intro: same_core_trans)
        next
          case q: False
          show thesis
          proof (cases "starts_with GetServerInfo_HEADER src")
            case True
            with cases c a r q show thesis
              by (intro core) (auto intro!: game lift handle_game_get_server_info_core)
          next
            case g: False
            show thesis
            proof (cases "starts_with AdminChallenge_HEADER src")
              case True
              with cases c a r q g show thesis
                by (intro core) (auto intro!: same_core_hbind lift handle_admin_challenge_core)
            next
              case ac: False
              note rest = cases [simplified c a r q g ac, simplified]
              show thesis
              proof (cases "starts_with AdminCommand_HEADER src \<and> fst (allow_admin_request ax env a st) = Inr ()")
                case True
                then have al: "allow_admin_request ax env a st = (Inr (), st)"
                  by (metis allow_admin_request_state prod.collapse)
                show thesis
                proof (cases "AdminCommand_decode_with_hash_len (hc_len (mc_hash (ms_cfg st))) src")
                  case (Inl e)
                  with rest True al show thesis by (intro core) auto
                next
                  case (Inr msg)
                  with rest True al show thesis by (intro admin [of msg]) auto
                qed
              next
                case False
                then have "same_core st (snd h)"
                  using rest by (cases "allow_admin_request ax env a st"; cases "fst (allow_admin_request ax env a st)")
                    (auto split: if_splits simp: allow_admin_request_def split: option.splits)
                then show thesis by (rule core)
              qed
            qed
          qed
        qed
      qed
    qed
  qed
qed

section \<open>The number of servers of one IP\<close>

definition listed :: "('k, 'v) timed_map \<Rightarrow> reltime \<Rightarrow> 'k \<Rightarrow> bool" where
  "listed m t k \<longleftrightarrow> view m t k \<noteq> None"

lemma listed_keys: "tm_inv m \<Longrightarrow> k \<in> set (TimedHashMap_keys t m) \<longleftrightarrow> listed m t k"
  by (simp only: keys_view listed_def)

lemma listed_antimono: "listed m t' k \<Longrightarrow> t \<le> t' \<Longrightarrow> listed m t k"
  unfolding listed_def by (metis timed.expired_stays)

definition servers_at ::
  "('addr, 'ip) addr_ext \<Rightarrow> ('addr, server_info) timed_map \<Rightarrow> reltime \<Rightarrow> 'ip \<Rightarrow> 'addr set" where
  "servers_at ax m t ip = {a. listed m t a \<and> ax_ip ax a = ip}"

lemma servers_at_keys:
  "tm_inv m \<Longrightarrow> servers_at ax m t ip = set (filter (\<lambda>i. ax_ip ax i = ip) (TimedHashMap_keys t m))"
  by (auto simp: servers_at_def listed_keys)

lemma finite_servers_at: "tm_inv m \<Longrightarrow> finite (servers_at ax m t ip)"
  by (simp add: servers_at_keys)

lemma card_servers_at:
  "tm_inv m \<Longrightarrow> card (servers_at ax m t ip) =
     length (filter (\<lambda>i. ax_ip ax i = ip) (TimedHashMap_keys t m))"
  by (simp only: servers_at_keys distinct_card [OF distinct_filter [OF distinct_keys]])

lemma servers_at_antimono: "t \<le> t' \<Longrightarrow> servers_at ax m t' ip \<subseteq> servers_at ax m t ip"
  by (auto simp: servers_at_def dest: listed_antimono)

text \<open>What an announcement does to the server list, from its last clock reading on.\<close>

definition ip_full ::
  "('addr, 'ip) addr_ext \<Rightarrow> ('addr, server_info) timed_map \<Rightarrow> reltime \<Rightarrow> 'ip \<Rightarrow> u16 \<Rightarrow> bool" where
  "ip_full ax m t ip mx \<longleftrightarrow> mx \<le> of_nat (card (servers_at ax m t ip))"

lemma add_server_view:
  assumes "tm_inv (ms_servers st)" "clock_ok env" "e_clk env (i + 3) \<le> t"
    and known: "known \<longleftrightarrow> listed (ms_servers st) (e_clk env i) a"
    and full: "full \<longleftrightarrow> ip_full ax (ms_servers st) (e_clk env (i + 1)) (ax_ip ax a)
      (sc_max_servers_per_ip (mc_server (ms_cfg st)))"
  shows "view (ms_servers (add_server ax env i a s st)) t k =
     (if k = a \<and> (known \<or> \<not> full)
      then if alive (tm_timeout (ms_servers st)) t (e_clk env (if known then i + 1 else i + 2))
           then Some s else None
      else view (ms_servers st) t k)"
proof -
  let ?t0 = "e_clk env i"
  have le: "?t0 \<le> t" "?t0 \<le> e_clk env (i + 1)"
    using assms(3) clock_le [OF assms(2), of i "i + 3"] clock_le [OF assms(2), of i "i + 1"] by auto
  obtain occ m where e: "TimedHashMap_entry a ?t0 (ms_servers st) = (occ, m)" by fastforce
  have occ: "occ = None \<longleftrightarrow> \<not> known"
    using entry_result [OF assms(1), of a ?t0] e unfolding known listed_def by (cases occ; cases "view (ms_servers st) ?t0 a") auto
  have inv: "tm_inv m" using tm_inv_entry [OF assms(1), of a ?t0] e by simp
  have m: "view m u b = view (ms_servers st) u b" if "?t0 \<le> u" for u b
    using view_entry [OF assms(1) that, of a b] e by simp
  have to: "tm_timeout m = tm_timeout (ms_servers st)"
    using tm_timeout_simps(4) [of a ?t0 "ms_servers st"] e by simp
  have "servers_at ax m (e_clk env (i + 1)) ip = servers_at ax (ms_servers st) (e_clk env (i + 1)) ip" for ip
    using m le by (simp add: servers_at_def listed_def)
  then have cnt: "count_servers ax (e_clk env (i + 1)) (ax_ip ax a) (st\<lparr>ms_servers := m\<rparr>) =
      of_nat (card (servers_at ax (ms_servers st) (e_clk env (i + 1)) (ax_ip ax a)))"
    by (simp add: count_servers_def card_servers_at [OF inv, symmetric])
  show ?thesis
    using occ cnt m le assms(3)
    by (auto simp: add_server_def e Let_def full ip_full_def view_Entry_insert view_insert [OF inv] to
        Timed_new_def split: option.split)
qed

text \<open>The limit is never exceeded by an announcement.\<close>

lemma unat_u16_less: "unat (w :: u16) < 65536"
  using unsigned_less [of w] by simp

lemma add_server_limit:
  assumes "tm_inv (ms_servers st)" "clock_ok env" "e_clk env (i + 3) \<le> t"
    and "\<And>ip. card (servers_at ax (ms_servers st) (e_clk env i) ip)
      \<le> unat (sc_max_servers_per_ip (mc_server (ms_cfg st)))"
  shows "card (servers_at ax (ms_servers (add_server ax env i a s st)) t ip)
    \<le> unat (sc_max_servers_per_ip (mc_server (ms_cfg st)))" (is "card ?new \<le> ?max")
proof -
  let ?m = "ms_servers st"
  let ?t1 = "e_clk env (i + 1)"
  have le: "e_clk env i \<le> ?t1" "?t1 \<le> t"
    using assms(3) clock_le [OF assms(2), of i "i + 1"] clock_le [OF assms(2), of "i + 1" "i + 3"]
    by auto
  have fin: "finite (servers_at ax ?m u p)" for u p by (rule finite_servers_at [OF assms(1)])
  note sub1 = servers_at_antimono [OF le(1), of ax ?m] and sub2 = servers_at_antimono [OF le(2), of ax ?m]
  note v = add_server_view [OF assms(1-3) refl refl, of ax a s, unfolded ip_full_def]
  have listed_new: "listed (ms_servers (add_server ax env i a s st)) t k \<longleftrightarrow>
      (if k = a \<and> (listed ?m (e_clk env i) a \<or> \<not> sc_max_servers_per_ip (mc_server (ms_cfg st)) \<le>
        of_nat (card (servers_at ax ?m ?t1 (ax_ip ax a))))
       then alive (tm_timeout ?m) t (e_clk env (if listed ?m (e_clk env i) a then i + 1 else i + 2))
       else listed ?m t k)" for k
    by (simp add: listed_def [of "ms_servers (add_server ax env i a s st)"] v) (simp add: listed_def)
  have card1: "card (servers_at ax ?m ?t1 p) \<le> ?max" for p
    using card_mono [OF fin sub1] assms(4) le_trans by blast
  consider (known) "listed ?m (e_clk env i) a"
    | (full) "\<not> listed ?m (e_clk env i) a" "sc_max_servers_per_ip (mc_server (ms_cfg st)) \<le>
      of_nat (card (servers_at ax ?m ?t1 (ax_ip ax a)))"
    | (room) "\<not> sc_max_servers_per_ip (mc_server (ms_cfg st)) \<le>
      of_nat (card (servers_at ax ?m ?t1 (ax_ip ax a)))" by blast
  then show ?thesis
  proof cases
    case known
    have "?new \<subseteq> servers_at ax ?m (e_clk env i) ip"
      using known sub1 [of ip] sub2 [of ip] by (auto simp: servers_at_def listed_new split: if_splits)
    then show ?thesis using card_mono [OF fin] assms(4) le_trans by blast
  next
    case full
    then have "?new = servers_at ax ?m t ip" by (simp add: servers_at_def listed_new)
    then show ?thesis using card_mono [OF fin sub2] card1 [of ip] by (metis le_trans)
  next
    case room
    have new: "?new \<subseteq> (if ip = ax_ip ax a then insert a (servers_at ax ?m ?t1 ip) else servers_at ax ?m ?t1 ip)"
      using sub2 [of ip] by (auto simp: servers_at_def listed_new split: if_splits)
    have lt: "card (servers_at ax ?m ?t1 (ax_ip ax a)) < ?max"
    proof -
      have "card (servers_at ax ?m ?t1 (ax_ip ax a)) < 65536"
        using card1 [of "ax_ip ax a"] unat_u16_less [of "sc_max_servers_per_ip (mc_server (ms_cfg st))"]
        by linarith
      then have "unat (of_nat (card (servers_at ax ?m ?t1 (ax_ip ax a))) :: u16) =
          card (servers_at ax ?m ?t1 (ax_ip ax a))"
        by (simp add: unat_of_nat take_bit_eq_mod)
      with room show ?thesis by (simp add: word_le_nat_alt)
    qed
    show ?thesis
    proof (cases "ip = ax_ip ax a")
      case True
      then have "card ?new \<le> card (insert a (servers_at ax ?m ?t1 ip))"
        using new fin by (intro card_mono) auto
      also have "\<dots> \<le> Suc (card (servers_at ax ?m ?t1 ip))"
        by (simp add: card_insert_if fin)
      finally show ?thesis using lt True by simp
    next
      case False
      then have "card ?new \<le> card (servers_at ax ?m ?t1 ip)" using new fin by (intro card_mono) auto
      then show ?thesis using card1 [of ip] by simp
    qed
  qed
qed

end
