(* ===== verification/Master_Access.thy ===== *)
theory Master_Access
  imports Master_Behaviour
begin

text \<open>
  Who may do what: the rate limit of game clients, the administrator's challenge, hash and penalty,
  and what banning and unbanning do to the block list and the servers.
\<close>

section \<open>The rate limit of game clients\<close>

text \<open>The requests counted for an IP.\<close>

definition requests_of :: "('ip, u32) timed_map \<Rightarrow> reltime \<Rightarrow> 'ip \<Rightarrow> u32" where
  "requests_of m t ip = (case view m t ip of None \<Rightarrow> 0 | Some n \<Rightarrow> n)"

lemma allow_game_request_off:
  "sc_client_rate_limit (mc_server (ms_cfg st)) = 0 \<Longrightarrow> allow_game_request ax env a st = (Inr (), st)"
  by (simp add: allow_game_request_def)

lemma allow_game_request_result:
  assumes "tm_inv (ms_client_rate_limit st)" "0 < sc_client_rate_limit (mc_server (ms_cfg st))"
  shows "fst (allow_game_request ax env a st) =
     (let n = saturating_inc (requests_of (ms_client_rate_limit st) (e_clk env 0) (ax_ip ax a)) in
      if sc_client_rate_limit (mc_server (ms_cfg st)) < n then Inl (EGameRateLimit n) else Inr ())"
proof -
  obtain occ m where e: "TimedHashMap_entry (ax_ip ax a) (e_clk env 0) (ms_client_rate_limit st) = (occ, m)"
    by fastforce
  have "map_option t_value occ = view (ms_client_rate_limit st) (e_clk env 0) (ax_ip ax a)"
    using entry_result [OF assms(1), of "ax_ip ax a" "e_clk env 0"] e by simp
  then have "t_value (case occ of Some e \<Rightarrow> e | None \<Rightarrow> Timed_new (e_clk env 1) 0) =
      requests_of (ms_client_rate_limit st) (e_clk env 0) (ax_ip ax a)"
    unfolding requests_of_def by (cases occ) (auto simp: Timed_new_def dest: sym)
  then show ?thesis using assms(2) by (simp add: allow_game_request_def e Let_def)
qed

text \<open>
  The window of an IP opens at its first request and lasts as long as the map's timeout: when every
  clock reading lies between \<open>lo\<close> and \<open>hi\<close> and a value of \<open>lo\<close> is still alive at \<open>hi\<close>, the counter
  counts the requests of the IP and nothing else.
\<close>

definition counted :: "('ip, u32) timed_map \<Rightarrow> reltime \<Rightarrow> reltime \<Rightarrow> 'ip \<Rightarrow> nat \<Rightarrow> bool" where
  "counted m lo hi ip n \<longleftrightarrow> (\<forall>t. lo \<le> t \<longrightarrow> t \<le> hi \<longrightarrow>
     view m t ip = (if n = 0 then None else Some (of_nat n)))"

lemma alive_between: "alive timeout hi lo \<Longrightarrow> lo \<le> x \<Longrightarrow> t \<le> hi \<Longrightarrow> alive timeout t x"
  unfolding alive_def as_secs_def duration_since_unat
  by (rule le_less_trans [rotated], assumption)
     (intro div_le_mono mult_le_mono1 diff_le_mono diff_le_mono2 order_trans [OF diff_le_mono diff_le_mono2],
      simp_all add: word_le_nat_alt)

lemma view_entry_stays:
  assumes "tm_inv m" "view m now k = Some v \<or> view m t k = None"
  shows "view (snd (TimedHashMap_entry k' now m)) t k = view m t k"
proof -
  have "view (TimedHashMap_cleanup now m) t k = view m t k"
    using assms by (cases rule: cleanup_cases [of now m])
      (auto simp: view_def tm_inv_def map_of_filter simp del: map_of_eq_Some_iff Some_eq_map_of_iff
        split: option.splits if_splits)
  then show ?thesis
    using assms(2) by (auto simp: TimedHashMap_entry_def Let_def view_def delete_conv' split: option.splits if_splits)
qed

lemma counted_entry:
  assumes "tm_inv m" "counted m lo hi ip n" "lo \<le> now" "now \<le> hi"
  shows "counted (snd (TimedHashMap_entry k now m)) lo hi ip n"
  unfolding counted_def
proof (intro allI impI)
  fix t assume "lo \<le> t" "t \<le> hi"
  with assms(2-4) have v: "view m t ip = (if n = 0 then None else Some (of_nat n))"
      "view m now ip = (if n = 0 then None else Some (of_nat n))"
    by (simp_all add: counted_def)
  then have "view (snd (TimedHashMap_entry k now m)) t ip = view m t ip"
    by (intro view_entry_stays [OF assms(1), where v = "of_nat n"]) auto
  with v show "view (snd (TimedHashMap_entry k now m)) t ip = (if n = 0 then None else Some (of_nat n))"
    by simp
qed

lemma saturating_inc_of_nat: "n + 1 < 2 ^ 32 \<Longrightarrow> saturating_inc (of_nat n) = of_nat (n + 1)"
proof -
  assume n: "n + 1 < 2 ^ 32"
  have "(of_nat n :: u32) \<noteq> - 1"
  proof
    assume "(of_nat n :: u32) = - 1"
    then have "unat (of_nat n + 1 :: u32) = 0" by simp
    moreover have "unat (of_nat (n + 1) :: u32) = n + 1" using n by (simp only: unat_of_nat) (simp add: take_bit_eq_mod)
    ultimately show False by (simp add: add.commute)
  qed
  then show ?thesis by (simp add: saturating_inc_def)
qed

lemma allow_game_request_counted:
  assumes inv: "tm_inv (ms_client_rate_limit st)" and c: "counted (ms_client_rate_limit st) lo hi ip n"
    and clk: "\<And>i. lo \<le> e_clk env i" "\<And>i. e_clk env i \<le> hi"
    and window: "alive (tm_timeout (ms_client_rate_limit st)) hi lo"
    and on: "0 < sc_client_rate_limit (mc_server (ms_cfg st))" and n: "n + 1 < 2 ^ 32"
  shows "counted (ms_client_rate_limit (snd (allow_game_request ax env a st))) lo hi ip
      (if ax_ip ax a = ip then n + 1 else n)"
proof -
  let ?k = "ax_ip ax a"
  let ?m = "ms_client_rate_limit st"
  obtain occ m where e: "TimedHashMap_entry ?k (e_clk env 0) ?m = (occ, m)" by fastforce
  have m: "counted m lo hi ip n" using counted_entry [OF inv c clk(1) [of 0] clk(2) [of 0], of ?k] e by simp
  let ?c = "case occ of Some e \<Rightarrow> e | None \<Rightarrow> Timed_new (e_clk env 1) 0"
  let ?e = "?c\<lparr>t_value := saturating_inc (t_value ?c)\<rparr>"
  have st: "ms_client_rate_limit (snd (allow_game_request ax env a st)) = Entry_insert ?k ?e m"
    using on by (simp add: allow_game_request_def e Let_def)
  show ?thesis
  proof (cases "?k = ip")
    case False
    then show ?thesis using m by (simp add: st counted_def view_Entry_insert)
  next
    case True
    have to: "tm_timeout m = tm_timeout ?m"
      using tm_timeout_simps(4) [of ?k "e_clk env 0" ?m] e by simp
    have occ: "occ = map_of (tm_map m) ip" "map_option t_value occ = view ?m (e_clk env 0) ip"
      using e True entry_result [OF inv, of ?k "e_clk env 0"]
      by (auto simp: TimedHashMap_entry_def Let_def)
    have now: "view ?m (e_clk env 0) ip = (if n = 0 then None else Some (of_nat n))"
      using c clk by (simp add: counted_def)
    have val: "t_value ?e = of_nat (n + 1)"
      using occ(2) now saturating_inc_of_nat [OF n]
      by (cases occ) (auto simp: Timed_new_def split: if_splits)
    have live: "alive (tm_timeout m) t (t_time ?e)" if t: "lo \<le> t" "t \<le> hi" for t
    proof (cases occ)
      case None
      then show ?thesis using alive_between [OF window clk(1) t(2)] by (simp add: to Timed_new_def)
    next
      case (Some x)
      then have "n \<noteq> 0" using occ(2) now by (cases "n = 0") auto
      then have "view m t ip = Some (of_nat n)" using m t by (simp add: counted_def)
      then show ?thesis
        using Some occ(1) by (auto simp: view_def alive_def Timed_is_valid_def split: if_splits)
    qed
    show ?thesis using True val live by (simp add: st counted_def view_Entry_insert)
  qed
qed

text \<open>The answers to a sequence of requests, from any addresses.\<close>

fun game_requests ::
  "('addr, 'ip) addr_ext \<Rightarrow> ('addr \<times> env) list \<Rightarrow> ('addr, 'ip) master \<Rightarrow> ('addr \<times> bool) list" where
  "game_requests ax [] st = []"
| "game_requests ax ((a, env) # rs) st =
     (let (r, st') = allow_game_request ax env a st in
      (a, r = Inr ()) # game_requests ax rs st')"

lemma allow_game_request_keeps:
  "ms_cfg (snd (allow_game_request ax env a st)) = ms_cfg st"
  "tm_inv (ms_client_rate_limit st) \<Longrightarrow> tm_inv (ms_client_rate_limit (snd (allow_game_request ax env a st)))"
  "tm_timeout (ms_client_rate_limit (snd (allow_game_request ax env a st))) =
     tm_timeout (ms_client_rate_limit st)"
  using tm_timeout_simps(4) [of "ax_ip ax a" "e_clk env 0" "ms_client_rate_limit st"]
  by (auto simp: allow_game_request_def Let_def split_beta tm_inv_Entry_insert tm_inv_entry)

lemma counted_answer:
  assumes "tm_inv (ms_client_rate_limit st)" "counted (ms_client_rate_limit st) lo hi (ax_ip ax a) n"
    and "lo \<le> e_clk env 0" "e_clk env 0 \<le> hi"
    and "0 < sc_client_rate_limit (mc_server (ms_cfg st))" "n + 1 < 2 ^ 32"
  shows "fst (allow_game_request ax env a st) = Inr () \<longleftrightarrow>
      n < unat (sc_client_rate_limit (mc_server (ms_cfg st)))"
proof -
  have r: "requests_of (ms_client_rate_limit st) (e_clk env 0) (ax_ip ax a) = of_nat n"
    using assms(2-4) by (auto simp: counted_def requests_of_def)
  have u: "unat (of_nat (n + 1) :: u32) = n + 1"
    using assms(6) by (simp only: unat_of_nat) (simp add: take_bit_eq_mod)
  show ?thesis
    using allow_game_request_result [OF assms(1,5), where ax = ax and env = env and a = a]
    by (simp add: r Let_def saturating_inc_of_nat [OF assms(6)] word_less_nat_alt del: of_nat_Suc)
       (use u in \<open>auto simp: not_less\<close>)
qed

text \<open>Within one window exactly the first requests of an IP, up to the limit, are allowed.\<close>

lemma game_requests_window:
  assumes "tm_inv (ms_client_rate_limit st)" "counted (ms_client_rate_limit st) lo hi ip n"
    and "\<And>a env i. (a, env) \<in> set rs \<Longrightarrow> lo \<le> e_clk env i \<and> e_clk env i \<le> hi"
    and "alive (tm_timeout (ms_client_rate_limit st)) hi lo"
    and "0 < sc_client_rate_limit (mc_server (ms_cfg st))" "n + length rs < 2 ^ 32"
  shows "map snd (filter (\<lambda>(a, _). ax_ip ax a = ip) (game_requests ax rs st)) =
     map (\<lambda>k. k < unat (sc_client_rate_limit (mc_server (ms_cfg st))))
       [n ..< n + length (filter (\<lambda>(a, _). ax_ip ax a = ip) rs)]"
  using assms
proof (induction rs arbitrary: n st)
  case (Cons x rs)
  obtain a env where x: "x = (a, env)" by fastforce
  obtain r st' where r: "allow_game_request ax env a st = (r, st')" by fastforce
  have clk: "\<And>i. lo \<le> e_clk env i" "\<And>i. e_clk env i \<le> hi" using Cons.prems(3) [of a env] x by auto
  have n: "n + 1 < 2 ^ 32" using Cons.prems(6) by simp
  have st': "ms_cfg st' = ms_cfg st" "tm_inv (ms_client_rate_limit st')"
      "tm_timeout (ms_client_rate_limit st') = tm_timeout (ms_client_rate_limit st)"
    using allow_game_request_keeps [where ax = ax and env = env and a = a and st = st] Cons.prems(1) r by simp_all
  have c: "counted (ms_client_rate_limit st') lo hi ip (if ax_ip ax a = ip then n + 1 else n)"
    using allow_game_request_counted [OF Cons.prems(1,2) clk Cons.prems(4,5) n, of ax a] r by simp
  have "lo \<le> e_clk env i \<and> e_clk env i \<le> hi" if "(a, env) \<in> set rs" for a env i
    using Cons.prems(3) [of a env i] that by simp
  note IH = Cons.IH [OF st'(2) c this]
  show ?case
  proof (cases "ax_ip ax a = ip")
    case True
    have "r = Inr () \<longleftrightarrow> n < unat (sc_client_rate_limit (mc_server (ms_cfg st)))"
      using counted_answer [of st lo hi ax a n env] Cons.prems True clk n r by simp
    then show ?thesis
      using IH Cons.prems True by (simp add: x r st' upt_conv_Cons del: upt_Suc)
  next
    case False
    then show ?thesis using IH Cons.prems by (simp add: x r st')
  qed
qed simp

section \<open>Banning\<close>

lemma ban_ip_fields [simp]:
  "ms_blocklist (ban_ip ax now ip st) = insert ip (ms_blocklist st)"
  "ms_admin_challenges (ban_ip ax now ip st) = ms_admin_challenges st"
  "ms_admin_limit (ban_ip ax now ip st) = ms_admin_limit st"
  "ms_challenges (ban_ip ax now ip st) = ms_challenges st"
  "ms_sent (ban_ip ax now ip st) = ms_sent st"
  "ms_cfg (ban_ip ax now ip st) = ms_cfg st"
  by (auto simp: ban_ip_def remove_servers_by_ip_def)

lemma blocked_clean_view:
  "blocked_clean ax st \<Longrightarrow> ax_ip ax a \<in> ms_blocklist st \<Longrightarrow> view (ms_servers st) t a = None"
  by (cases "map_of (tm_map (ms_servers st)) a")
     (force simp: blocked_clean_def raw_keys_def view_def dest: map_of_SomeD)+

text \<open>A banned IP loses its servers, and nobody else does.\<close>

lemma ban_ip_view:
  assumes "ms_ok ax st" "now \<le> t"
  shows "view (ms_servers (ban_ip ax now ip st)) t a =
     (if ax_ip ax a = ip then None else view (ms_servers st) t a)"
proof (cases "ip \<in> ms_blocklist st")
  case True
  then show ?thesis using assms(1) by (auto simp: ban_ip_def ms_ok_def dest: blocked_clean_view)
next
  case False
  have "tm_inv (ms_servers st)" by (rule ms_okD(2) [OF assms(1)])
  with False show ?thesis
    by (simp add: ban_ip_def remove_servers_by_ip_def view_retain [OF _ assms(2)] split: option.split)
qed

definition parsed_ips :: "('addr, 'ip) addr_ext \<Rightarrow> bytes list \<Rightarrow> 'ip set" where
  "parsed_ips ax args = {ip. \<exists>a \<in> set args. ax_parse_ip ax a = Some ip}"

lemma parsed_ips_simps [simp]:
  "parsed_ips ax [] = {}"
  "parsed_ips ax (a # args) =
     (case ax_parse_ip ax a of Some ip \<Rightarrow> insert ip (parsed_ips ax args) | None \<Rightarrow> parsed_ips ax args)"
  by (auto simp: parsed_ips_def split: option.split)

text \<open>The commands over all their arguments.\<close>

lemma ban_all:
  assumes "ms_ok ax st" "\<And>j. e_clk env j \<le> t"
  shows "ms_blocklist (admin_helper ax (\<lambda>i ip. ban_ip ax (e_clk env i) ip) i args st) =
       ms_blocklist st \<union> parsed_ips ax args"
    and "view (ms_servers (admin_helper ax (\<lambda>i ip. ban_ip ax (e_clk env i) ip) i args st)) t a =
       (if ax_ip ax a \<in> parsed_ips ax args then None else view (ms_servers st) t a)"
  using assms(1)
  by (induction args arbitrary: i st)
     (auto simp: ban_ip_ok ban_ip_view [OF _ assms(2)] split: option.split)

lemma unban_all:
  "admin_helper ax (\<lambda>i ip. unban_ip ip) i args st =
     st\<lparr>ms_blocklist := ms_blocklist st - parsed_ips ax args\<rparr>"
proof (induction args arbitrary: i st)
  case (Cons a args)
  have "ms_blocklist st - {ip} - parsed_ips ax args = ms_blocklist st - insert ip (parsed_ips ax args)" for ip
    by blast
  moreover have "unban_ip ip st = st\<lparr>ms_blocklist := ms_blocklist st - {ip}\<rparr>" for ip
    by (simp add: unban_ip_def)
  ultimately show ?case by (simp add: Cons.IH split: option.split)
qed simp

section \<open>Administrators\<close>

text \<open>Who is an administrator: somebody with the password of one, hashed with the second number of
  the challenge his IP was given.\<close>

definition authorised ::
  "('addr, 'ip) addr_ext \<Rightarrow> env \<Rightarrow> 'addr \<Rightarrow> admin_command \<Rightarrow> ('addr, 'ip) master \<Rightarrow> bool" where
  "authorised ax env a msg st \<longleftrightarrow>
     (case view (ms_admin_challenges st) (e_clk env 1) (ax_ip ax a) of
        None \<Rightarrow> False
      | Some (master, hash) \<Rightarrow> master = ac_master_challenge msg \<and>
          (\<exists>adm \<in> set (mc_admin_list (ms_cfg st)).
             ac_hash msg = admin_hash env (mc_hash (ms_cfg st)) (adm_password adm) hash))"

lemma handle_admin_command_authorised:
  assumes "authorised ax env a msg st"
  shows "handle_admin_command ax env a msg st =
     (Inr (), admin_challenge_remove ax (e_clk env (2 + length (split_on 32 (ac_command msg)))) a
        (run_admin_command ax env 2 (ac_command msg) st))"
  using assms
  by (auto simp: authorised_def handle_admin_command_def view_get find_None_iff Let_def
      split: option.splits prod.splits)

lemma handle_admin_command_refused:
  assumes "\<not> authorised ax env a msg st"
  shows "snd (handle_admin_command ax env a msg st) = st \<or>
     snd (handle_admin_command ax env a msg st) = st\<lparr>ms_admin_limit :=
       TimedHashMap_insert (ax_ip ax a) () (e_clk env 2) (e_clk env 3) (ms_admin_limit st)\<rparr>"
  using assms
  by (auto simp: authorised_def handle_admin_command_def view_get find_Some_iff Let_def
      split: option.splits prod.splits)

text \<open>A wrong password for the right challenge shuts the IP out until the penalty is over.\<close>

lemma handle_admin_command_wrong_hash:
  assumes "tm_inv (ms_admin_limit st)" "clock_ok env"
    and "view (ms_admin_challenges st) (e_clk env 1) (ax_ip ax a) = Some (ac_master_challenge msg, hash)"
    and "\<not> authorised ax env a msg st"
    and "e_clk env 3 \<le> e_clk env' 0" "alive (tm_timeout (ms_admin_limit st)) (e_clk env' 0) (e_clk env 2)"
    and "ax_ip ax a' = ax_ip ax a"
  shows "allow_admin_request ax env' a' (snd (handle_admin_command ax env a msg st)) =
     (Inl EAdminRateLimit, snd (handle_admin_command ax env a msg st))"
proof -
  have "snd (handle_admin_command ax env a msg st) = st\<lparr>ms_admin_limit :=
       TimedHashMap_insert (ax_ip ax a) () (e_clk env 2) (e_clk env 3) (ms_admin_limit st)\<rparr>" (is "_ = ?st")
    using assms(3,4)
    by (auto simp: authorised_def handle_admin_command_def view_get find_Some_iff Let_def
        split: option.splits)
  moreover have "view (ms_admin_limit ?st) (e_clk env' 0) (ax_ip ax a') = Some ()"
    using assms(5-7) by (simp add: view_insert [OF assms(1,5)])
  ultimately show ?thesis
    by (auto simp: allow_admin_request_def view_get split: option.split)
qed

text \<open>A command is not run twice: its challenge is gone.\<close>

lemma admin_helper_challenges:
  "(\<And>i ip s. ms_admin_challenges (oper i ip s) = ms_admin_challenges s) \<Longrightarrow>
     ms_admin_challenges (admin_helper ax oper i args st) = ms_admin_challenges st"
  by (induction args arbitrary: i st) (auto split: option.split)

lemma run_admin_command_challenges:
  "ms_admin_challenges (run_admin_command ax env i cmd st) = ms_admin_challenges st"
  by (simp add: run_admin_command_def Let_def unban_ip_def admin_helper_challenges)

lemma handle_admin_command_no_challenge:
  "view (ms_admin_challenges st) (e_clk env 1) (ax_ip ax a) = None \<Longrightarrow>
     handle_admin_command ax env a msg st = (Inl EAdminChallengeNotFound, st)"
  by (auto simp: handle_admin_command_def view_get split: option.split)

lemma handle_admin_command_replay:
  assumes "authorised ax env a msg st" "ax_ip ax a' = ax_ip ax a"
  shows "handle_admin_command ax env' a' msg' (snd (handle_admin_command ax env a msg st)) =
     (Inl EAdminChallengeNotFound, snd (handle_admin_command ax env a msg st))"
  by (rule handle_admin_command_no_challenge)
     (simp add: handle_admin_command_authorised [OF assms(1)] admin_challenge_remove_def view_remove assms(2))

text \<open>Only an authorised command touches the block list.\<close>

lemma handle_server_add_blocklist:
  "ms_blocklist (snd (handle_server_add ax env a msg st)) = ms_blocklist st"
  by (simp add: handle_server_add_def Let_def split_beta split: option.split)

lemma handle_packet_blocklist:
  assumes "handle_packet ax env a src st = Some h" "ms_blocklist (snd h) \<noteq> ms_blocklist st"
  obtains msg where "AdminCommand_decode_with_hash_len (hc_len (mc_hash (ms_cfg st))) src = Inr msg"
    "fst (allow_admin_request ax env a st) = Inr ()" "authorised ax env a msg st"
  using assms(1)
proof (cases rule: handle_packet_core)
  case core
  then show ?thesis using assms(2) by (simp add: same_core_def)
next
  case (add msg)
  then show ?thesis using assms(2) by (simp add: handle_server_add_blocklist)
next
  case (admin msg)
  have "authorised ax env a msg st"
  proof (rule ccontr)
    assume "\<not> authorised ax env a msg st"
    from handle_admin_command_refused [OF this] show False using assms(2) admin(4) by auto
  qed
  then show ?thesis using admin by (intro that)
qed

text \<open>Only an announcement with the outstanding challenge lists a server.\<close>

lemma handle_server_add_view:
  assumes inv: "tm_inv (ms_servers st)" and clk: "clock_ok env" "e_clk env 5 \<le> t"
    and new: "view (ms_servers (snd (handle_server_add ax env a msg st))) t b \<noteq> view (ms_servers st) t b"
  shows "b = a" "sc_min_version (mc_server (ms_cfg st)) \<le> sa_version msg"
    "view (ms_challenges st) (e_clk env 0) a = Some (sa_challenge msg)"
proof -
  let ?h = "handle_server_add ax env a msg st"
  have acc: "\<not> sa_version msg < sc_min_version (mc_server (ms_cfg st))"
      "view (ms_challenges st) (e_clk env 0) a = Some (sa_challenge msg)"
    using new handle_server_add_rejected [of msg st env a ax]
    by (metis snd_conv)+
  have one: "view (ms_challenges st) (e_clk env 1) a \<noteq> None"
  proof
    assume "view (ms_challenges st) (e_clk env 1) a = None"
    then have "fst (TimedHashMap_remove a (e_clk env 1) (ms_challenges st)) = None"
      by (simp flip: remove_result)
    then have "ms_servers (snd ?h) = ms_servers st"
      by (simp add: handle_server_add_def Let_def split_beta split: option.split)
    with new show False by simp
  qed
  have "ms_servers (snd ?h) = ms_servers (add_server ax env 2 a (ServerInfo_new msg) st)"
    by (rule handle_server_add_accepted(3) [OF acc one prod.collapse [symmetric]])
  then have "b = a"
    using new add_server_view [OF inv clk(1), of 2 t, OF _ refl refl, of ax a "ServerInfo_new msg" b] clk(2)
    by (auto split: if_splits)
  with acc show "b = a" "sc_min_version (mc_server (ms_cfg st)) \<le> sa_version msg"
    "view (ms_challenges st) (e_clk env 0) a = Some (sa_challenge msg)"
    by (simp_all add: not_less)
qed

text \<open>What one packet does to the entry of an address: nothing, a removal by an administrator, or the
  announcement of that address.\<close>

lemma run_admin_command_view:
  assumes "ms_ok ax st" "\<And>j. e_clk env j \<le> t"
  shows "view (ms_servers (run_admin_command ax env i cmd st)) t b =
     (if hd (split_on 32 cmd) = str ''ban'' \<and> ax_ip ax b \<in> parsed_ips ax (tl (split_on 32 cmd))
      then None else view (ms_servers st) t b)"
  using ban_all(2) [OF assms] by (simp add: run_admin_command_def Let_def unban_all)

lemma run_admin_command_blocklist:
  assumes "ms_ok ax st" "\<And>j. e_clk env j \<le> t"
  shows "ms_blocklist (run_admin_command ax env i cmd st) =
     (let ips = parsed_ips ax (tl (split_on 32 cmd)) in
      if hd (split_on 32 cmd) = str ''ban'' then ms_blocklist st \<union> ips
      else if hd (split_on 32 cmd) = str ''unban'' then ms_blocklist st - ips
      else ms_blocklist st)"
  using ban_all(1) [OF assms] by (simp add: run_admin_command_def Let_def unban_all)

lemma handle_admin_command_listed:
  assumes "ms_ok ax st" "\<And>j. e_clk env j \<le> t"
    and "view (ms_servers (snd (handle_admin_command ax env a msg st))) t b = Some s"
  shows "view (ms_servers st) t b = Some s"
proof (cases "authorised ax env a msg st")
  case True
  then show ?thesis
    using assms(3) run_admin_command_view [OF assms(1), of env t, OF assms(2)]
    by (simp add: handle_admin_command_authorised admin_challenge_remove_def split: if_splits)
next
  case False
  with handle_admin_command_refused [OF False] assms(3) show ?thesis by auto
qed

lemma handle_packet_listed:
  assumes "ms_ok ax st" "clock_ok env" "\<And>j. e_clk env j \<le> t"
    and h: "handle_packet ax env a src st = Some h"
    and new: "view (ms_servers (snd h)) t b = Some s" "view (ms_servers st) t b \<noteq> Some s"
  obtains msg where "b = a" "ServerAdd_decode (e_memchr env) src = Inr msg"
    "sc_min_version (mc_server (ms_cfg st)) \<le> sa_version msg"
    "view (ms_challenges st) (e_clk env 0) a = Some (sa_challenge msg)"
  using h
proof (cases rule: handle_packet_core)
  case core
  then show ?thesis using new by (simp add: same_core_def)
next
  case (add msg)
  have ne: "view (ms_servers (snd (handle_server_add ax env a msg st))) t b \<noteq> view (ms_servers st) t b"
    using new add by simp
  note v = handle_server_add_view [OF ms_okD(2) [OF assms(1)] assms(2,3) ne]
  show ?thesis using v add by (intro that)
next
  case (admin msg)
  then show ?thesis using handle_admin_command_listed [OF assms(1,3)] new by auto
qed

end
