(* ===== verification/Master_Runs.thy ===== *)
theory Master_Runs
  imports Master_Access
begin

text \<open>
  Runs of the master server in time: the limit of servers per IP along the receive loop, the whole
  handshake of a game server, and the packets of a blocked IP.
\<close>

section \<open>The number of servers of an IP, along a run\<close>

definition within_limit :: "('addr, 'ip) addr_ext \<Rightarrow> reltime \<Rightarrow> ('addr, 'ip) master \<Rightarrow> bool" where
  "within_limit ax t st \<longleftrightarrow>
     (\<forall>ip. card (servers_at ax (ms_servers st) t ip) \<le> unat (sc_max_servers_per_ip (mc_server (ms_cfg st))))"

lemma within_limitI:
  assumes "tm_inv (ms_servers st)" "within_limit ax t st" "t \<le> t'" "ms_cfg st' = ms_cfg st"
    and sub: "\<And>a. listed (ms_servers st') t' a \<Longrightarrow> listed (ms_servers st) t' a"
  shows "within_limit ax t' st'"
  unfolding within_limit_def
proof
  fix ip
  have "servers_at ax (ms_servers st') t' ip \<subseteq> servers_at ax (ms_servers st) t' ip"
    using sub by (auto simp: servers_at_def)
  also have "\<dots> \<subseteq> servers_at ax (ms_servers st) t ip" by (rule servers_at_antimono [OF assms(3)])
  finally have "card (servers_at ax (ms_servers st') t' ip) \<le> card (servers_at ax (ms_servers st) t ip)"
    by (rule card_mono [OF finite_servers_at [OF assms(1)]])
  also have "\<dots> \<le> unat (sc_max_servers_per_ip (mc_server (ms_cfg st)))"
    using assms(2) by (simp add: within_limit_def)
  finally show "card (servers_at ax (ms_servers st') t' ip) \<le> unat (sc_max_servers_per_ip (mc_server (ms_cfg st')))"
    by (simp add: assms(4))
qed

lemma within_limit_later:
  "tm_inv (ms_servers st) \<Longrightarrow> within_limit ax t st \<Longrightarrow> t \<le> t' \<Longrightarrow> within_limit ax t' st"
  by (rule within_limitI) simp_all

lemma handle_server_add_servers:
  obtains "ms_servers (snd (handle_server_add ax env a msg st)) = ms_servers st"
  | "ms_servers (snd (handle_server_add ax env a msg st)) =
      ms_servers (add_server ax env 2 a (ServerInfo_new msg) st)"
proof -
  have same: "ms_servers (add_server ax env 2 a s (st\<lparr>ms_challenges := m\<rparr>)) =
      ms_servers (add_server ax env 2 a s st)" for s m
    by (simp add: add_server_def Let_def split_beta count_servers_def split: option.split)
  have "ms_servers (snd (handle_server_add ax env a msg st)) = ms_servers st \<or>
    ms_servers (snd (handle_server_add ax env a msg st)) =
      ms_servers (add_server ax env 2 a (ServerInfo_new msg) st)"
    by (simp add: handle_server_add_def Let_def split_beta same split: option.split)
  then show ?thesis using that by blast
qed

lemma handler_cfg:
  "ms_cfg (snd (handle_server_add ax env a msg st)) = ms_cfg st"
  by (simp add: handle_server_add_def Let_def split_beta split: option.split)

lemma admin_helper_cfg:
  "(\<And>i ip s. ms_cfg (oper i ip s) = ms_cfg s) \<Longrightarrow> ms_cfg (admin_helper ax oper i args st) = ms_cfg st"
  by (induction args arbitrary: i st) (auto split: option.split)

lemma handle_admin_command_cfg: "ms_cfg (snd (handle_admin_command ax env a msg st)) = ms_cfg st"
  by (simp add: handle_admin_command_def Let_def run_admin_command_def admin_challenge_remove_def
      admin_helper_cfg unban_ip_def split: option.split)

lemma handle_packet_limit:
  assumes ok: "ms_ok ax st" and clk: "clock_ok env" "\<And>j. e_clk env j \<le> t"
    and lim: "within_limit ax (e_clk env 0) st" and h: "handle_packet ax env a src st = Some h"
  shows "within_limit ax t (snd h) \<and> ms_cfg (snd h) = ms_cfg st"
  using h
proof (cases rule: handle_packet_core)
  case core
  then show ?thesis
    using within_limitI [OF ms_okD(2) [OF ok] lim clk(2), of "snd h"] by (simp add: same_core_def)
next
  case (add msg)
  have cfg: "ms_cfg (snd h) = ms_cfg st" using add by (simp add: handler_cfg)
  show ?thesis
  proof (cases rule: handle_server_add_servers [of ax env a msg st])
    case 1
    then show ?thesis
      using within_limitI [OF ms_okD(2) [OF ok] lim clk(2) cfg] add cfg by simp
  next
    case 2
    have "card (servers_at ax (ms_servers st) (e_clk env 2) ip)
        \<le> unat (sc_max_servers_per_ip (mc_server (ms_cfg st)))" for ip
      using within_limit_later [OF ms_okD(2) [OF ok] lim clock_le [OF clk(1)], of 2]
      by (simp add: within_limit_def)
    from add_server_limit [OF ms_okD(2) [OF ok] clk(1) clk(2) this, where a = a and s = "ServerInfo_new msg"]
    show ?thesis using 2 add cfg by (simp add: within_limit_def)
  qed
next
  case (admin msg)
  have "listed (ms_servers (snd h)) t b \<Longrightarrow> listed (ms_servers st) t b" for b
    using handle_admin_command_listed [OF ok clk(2), of a msg b] admin(4)
    by (auto simp: listed_def)
  then show ?thesis
    using within_limitI [OF ms_okD(2) [OF ok] lim clk(2)] admin(4) by (simp add: handle_admin_command_cfg)
qed

lemma receive_limit:
  assumes "ms_ok ax st" "clock_ok env" "\<And>j. e_clk env j \<le> t" "within_limit ax (e_clk env 0) st"
    and "receive ax env src from_addr st = Some st'"
  shows "within_limit ax t st' \<and> ms_cfg st' = ms_cfg st"
proof -
  have stay: "within_limit ax t st"
    by (rule within_limit_later [OF ms_okD(2) [OF assms(1)] assms(4,3)])
  have stats: "within_limit ax t (s\<lparr>ms_stats := u\<rparr>) = within_limit ax t s" for s :: "('a, 'b) master" and u
    by (simp add: within_limit_def)
  show ?thesis
    using assms(5) stay handle_packet_limit [OF assms(1-4)]
    by (auto simp: receive_def stats split: option.splits if_splits prod.splits sum.splits)
qed

text \<open>The clock readings of the turns do not run backwards; all lie between the two times.\<close>

inductive clocked :: "reltime \<Rightarrow> turn list \<Rightarrow> reltime \<Rightarrow> bool" where
  clocked_Nil: "t \<le> t' \<Longrightarrow> clocked t [] t'"
| clocked_Cons: "clock_ok (tn_env x) \<Longrightarrow> t \<le> e_clk (tn_env x) 0 \<Longrightarrow> (\<And>j. e_clk (tn_env x) j \<le> u) \<Longrightarrow>
    clocked u xs t' \<Longrightarrow> clocked t (x # xs) t'"

inductive_cases clocked_ConsE: "clocked t (x # xs) t'"

lemma clocked_le: "clocked t ts t' \<Longrightarrow> t \<le> t'"
  by (induction rule: clocked.induct) (auto intro: order_trans)

lemma clocked_earlier: "clocked u ts t' \<Longrightarrow> t \<le> u \<Longrightarrow> clocked t ts t'"
  by (erule clocked.cases) (auto intro: clocked.intros order_trans)

lemma run_turns_limit:
  assumes "ms_ok ax st" "within_limit ax t st" "clocked t ts t'" "run_turns ax ts st = Some h"
  shows "within_limit ax t' (snd h)"
  using assms
proof (induction ts arbitrary: t st)
  case Nil
  then show ?case using clocked_le within_limit_later ms_okD(2) by fastforce
next
  case (Cons x ts)
  note ok = Cons.prems(1) and lim = Cons.prems(2)
  note all = within_limit_later [OF ms_okD(2) [OF ok] lim clocked_le [OF Cons.prems(3)]]
  obtain u where u: "clock_ok (tn_env x)" "t \<le> e_clk (tn_env x) 0" "\<And>j. e_clk (tn_env x) j \<le> u"
      "clocked u ts t'"
    using Cons.prems(3) by (rule clocked_ConsE) blast
  have "t \<le> u" using u(2) u(3) [of 0] by simp
  note next_turn = clocked_earlier [OF u(4) this]
  show ?case
  proof (cases "\<not> SignalFlags_is_empty (tn_signals x)")
    case True
    then show ?thesis using Cons.prems(4) all by auto
  next
    case False
    show ?thesis
    proof (cases "tn_recv x")
      case (Received src from_addr)
      with False Cons.prems(4) obtain st' where st': "receive ax (tn_env x) src from_addr st = Some st'"
          "run_turns ax ts st' = Some h" by (auto split: option.splits)
      have "within_limit ax u st'"
        using receive_limit [OF ok u(1,3) within_limit_later [OF ms_okD(2) [OF ok] lim u(2)] st'(1)] by simp
      then show ?thesis using Cons.IH [OF receive_ok [OF ok st'(1)] _ u(4) st'(2)] by simp
    qed (use False Cons.prems(4) all Cons.IH [OF ok lim next_turn] in auto)
  qed
qed

section \<open>The handshake of a game server\<close>

lemma handle_packet_challenge:
  "handle_packet ax env a (Challenge_wire ch) st = Some (handle_server_challenge ax env a ch st)"
proof -
  have "starts_with Challenge_HEADER (Challenge_wire ch)" by (simp add: Challenge_wire_def)
  then show ?thesis by (simp add: handle_packet_def Challenge_decode_wire)
qed

lemma handle_packet_server_add:
  assumes "memchr_ok (e_memchr env)" "ServerAdd_valid msg"
  shows "handle_packet ax env a (ServerAdd_wire msg) st = Some (handle_server_add ax env a msg st)"
proof -
  have "\<not> starts_with Challenge_HEADER (ServerAdd_wire msg)" "starts_with ServerAdd_HEADER (ServerAdd_wire msg)"
    by (simp_all add: ServerAdd_wire_def server_headers)
  then show ?thesis by (simp add: handle_packet_def ServerAdd_decode_wire assms)
qed

lemma handle_packet_admin_command:
  assumes "AdminCommand_valid (hc_len (mc_hash (ms_cfg st))) msg" "\<not> shadows_challenge msg"
    and "allow_admin_request ax env a st = (Inr (), st)"
  shows "handle_packet ax env a (AdminCommand_wire msg) st = Some (handle_admin_command ax env a msg st)"
proof -
  let ?src = "AdminCommand_wire msg"
  have "starts_with AdminCommand_HEADER ?src" by (simp add: AdminCommand_wire_def)
  moreover have "\<not> starts_with AdminChallenge_HEADER ?src" using assms(2) by (simp add: shadows_challenge_def)
  moreover have "\<not> starts_with Challenge_HEADER ?src" "\<not> starts_with ServerAdd_HEADER ?src"
    "\<not> starts_with ServerRemove_HEADER ?src" "\<not> starts_with QueryServers_HEADER ?src"
    "\<not> starts_with GetServerInfo_HEADER ?src"
    by (simp_all add: AdminCommand_wire_def AdminCommand_HEADER_def server_headers game_headers str_def
        starts_with_def)
  ultimately show ?thesis
    by (simp add: handle_packet_def AdminCommand_decode_wire [OF assms(1)] assms(3))
qed

text \<open>The reply to a challenge request, when the socket takes it.\<close>

definition challenge_reply :: "u32 \<Rightarrow> challenge \<Rightarrow> bytes" where
  "challenge_reply c ch = ChallengeResponse_wire
     \<lparr>cr_master_challenge = c, cr_server_challenge = ch_server_challenge ch\<rparr>"

lemma server_challenge_add_sent [simp]:
  "ms_sent (snd (server_challenge_add env a st)) = ms_sent st"
  by (simp add: server_challenge_add_def Let_def split_beta split: option.split)

lemma handle_server_challenge_sends:
  assumes "server_challenge_add env a st = (c, st')" "e_send_ok env (length (ms_sent st))"
  shows "handle_server_challenge ax env a ch st =
     (Inr (), st'\<lparr>ms_sent := ms_sent st @ [(challenge_reply c ch, ax_wrap ax a)]\<rparr>)"
proof -
  have "ms_sent st' = ms_sent st" using server_challenge_add_sent [of env a st] assms(1) by simp
  moreover have "length (challenge_reply c ch) \<le> 32"
    by (simp add: challenge_reply_def ChallengeResponse_wire_def ChallengeResponse_HEADER_def split: option.split)
  ultimately show ?thesis
    using assms(2)
    by (simp add: handle_server_challenge_def assms(1) ChallengeResponse_encode_wire
        flip: challenge_reply_def) (simp add: send_to_def)
qed

text \<open>A request, the reply and an announcement that carries the number: the server is listed.\<close>

lemma handshake_lists:
  assumes ok: "ms_ok ax st" and clk: "clock_ok env1" "clock_ok env2" "e_clk env1 1 \<le> e_clk env2 0"
    and fresh: "view (ms_challenges st) (e_clk env1 0) a = None"
    and in_time: "alive (tm_timeout (ms_challenges st)) (e_clk env2 1) (e_clk env1 1)"
    and msg: "sa_challenge msg = e_rng env1 0" "sc_min_version (mc_server (ms_cfg st)) \<le> sa_version msg"
    and room: "\<not> ip_full ax (ms_servers st) (e_clk env2 3) (ax_ip ax a)
        (sc_max_servers_per_ip (mc_server (ms_cfg st)))"
    and t: "e_clk env2 5 \<le> t" "alive (tm_timeout (ms_servers st)) t (e_clk env2 3)"
    and runs: "server_challenge_add env1 a st = (c, st1)"
      "handle_server_add ax env2 a msg (st1\<lparr>ms_sent := sent\<rparr>) = (r, st2)"
  shows "c = e_rng env1 0" "r = Inr ()" "view (ms_servers st2) t a = Some (ServerInfo_new msg)"
    "view (ms_challenges st2) t a = None"
proof -
  note spec = server_challenge_add_spec [OF ms_okD(1) [OF ok] runs(1)]
  let ?st1 = "st1\<lparr>ms_sent := sent\<rparr>"
  have core: "ms_servers st1 = ms_servers st" "ms_cfg st1 = ms_cfg st"
    using server_challenge_add_core [of st env1 a] runs(1) by (simp_all add: same_core_def)
  show c: "c = e_rng env1 0" using spec(1) fresh by simp
  have al: "alive (tm_timeout (ms_challenges st)) u (e_clk env1 1)" if "u \<le> e_clk env2 1" for u
    using alive_between [OF in_time order_refl that] .
  have v: "view (ms_challenges st1) u a = Some (sa_challenge msg)" if "u \<le> e_clk env2 1" for u
    using spec(3) [OF fresh] al [OF that] c msg by simp
  have acc: "\<not> sa_version msg < sc_min_version (mc_server (ms_cfg ?st1))"
      "view (ms_challenges ?st1) (e_clk env2 0) a = Some (sa_challenge msg)"
      "view (ms_challenges ?st1) (e_clk env2 1) a \<noteq> None"
    using v [of "e_clk env2 0"] v [of "e_clk env2 1"] clock_le [OF clk(2), of 0 1] msg(2) core
    by (simp_all add: not_less)
  note res = handle_server_add_accepted [OF acc runs(2)]
  show "r = Inr ()" "view (ms_challenges st2) t a = None" using res by simp_all
  have inv: "tm_inv (ms_servers ?st1)" using ms_okD(2) [OF ok] core by simp
  have al4: "alive (tm_timeout (ms_servers st)) t (e_clk env2 4)"
    using t alive_between [OF t(2) clock_le [OF clk(2)] order_refl, of 4] by simp
  have "view (ms_servers (add_server ax env2 2 a (ServerInfo_new msg) ?st1)) t a = Some (ServerInfo_new msg)"
    using add_server_view [OF inv clk(2) _ refl refl, of 2 t ax a "ServerInfo_new msg" a] t room al4
    by (simp add: core)
  then show "view (ms_servers st2) t a = Some (ServerInfo_new msg)" using res(3) by simp
qed

section \<open>Blocked addresses\<close>

lemma receive_blocked:
  "ax_extract ax from_addr = Some a \<Longrightarrow> ax_ip ax a \<in> ms_blocklist st \<Longrightarrow>
     receive ax env src from_addr st = Some st"
  by (simp add: receive_def is_blocked_def)

text \<open>A packet with none of the known headers is only counted as an error.\<close>

definition known_header :: "bytes \<Rightarrow> bool" where
  "known_header src \<longleftrightarrow> list_ex (\<lambda>h. starts_with h src)
     [Challenge_HEADER, ServerAdd_HEADER, ServerRemove_HEADER, QueryServers_HEADER,
      GetServerInfo_HEADER, AdminChallenge_HEADER, AdminCommand_HEADER]"

lemma handle_packet_unknown:
  "\<not> known_header src \<Longrightarrow> handle_packet ax env a src st = Some (Inl EUndefinedPacket, st)"
  by (simp add: handle_packet_def known_header_def)

end
