(* ===== verification/Master_Query.thy ===== *)
theory Master_Query
  imports Master_Runs
begin

text \<open>
  What a game client is told: the servers that answer its query, in datagrams that fit, the
  announcement to the servers behind NAT, and the server it is sent to when its query is refused.
\<close>

section \<open>The servers that answer a query\<close>

text \<open>The conditions of the loop. A client below 0.20 only sees servers of protocol 48.\<close>

definition answers :: "filter_q query_servers \<Rightarrow> version \<Rightarrow> server_info \<Rightarrow> bool" where
  "answers query v info \<longleftrightarrow> si_region info = qs_region query \<and> Filter_matches (qs_filter query) info \<and>
     (v < Version_new 0 20 \<longrightarrow> si_protocol info = 48)"

definition behind_nat :: "server_info \<Rightarrow> bool" where
  "behind_nat info \<longleftrightarrow> flags_contains (si_flags info) FF_NAT"

lemma fold_push_filtered:
  "fold (push_filtered query v) xs (fs, ns) =
     (fs @ map fst (filter (\<lambda>(_, e). answers query v (t_value e)) xs),
      ns @ map fst (filter (\<lambda>(_, e). answers query v (t_value e) \<and> behind_nat (t_value e)) xs))"
  by (induction xs arbitrary: fs ns)
     (auto simp: push_filtered_def answers_def behind_nat_def Let_def split: prod.split)

definition query_result ::
  "filter_q query_servers \<Rightarrow> version \<Rightarrow> (server_info \<Rightarrow> bool) \<Rightarrow> reltime \<Rightarrow> ('addr, server_info) timed_map \<Rightarrow>
     'addr list" where
  "query_result query v P t m =
     map fst (filter (\<lambda>(_, e). answers query v (t_value e) \<and> P (t_value e)) (TimedHashMap_iter t m))"

lemma query_result_set:
  assumes "tm_inv m"
  shows "set (query_result query v P t m) = {a. \<exists>s. view m t a = Some s \<and> answers query v s \<and> P s}"
proof -
  have "a \<in> set (query_result query v P t m) \<longleftrightarrow>
      (\<exists>e. (a, e) \<in> set (TimedHashMap_iter t m) \<and> answers query v (t_value e) \<and> P (t_value e))" for a
    by (force simp: query_result_def)
  moreover have "(\<exists>e. (a, e) \<in> set (TimedHashMap_iter t m) \<and> answers query v (t_value e) \<and> P (t_value e)) \<longleftrightarrow>
      (\<exists>s. view m t a = Some s \<and> answers query v s \<and> P s)" for a
    by (auto simp: iter_view [OF assms]) (auto simp: view_def split: option.splits if_splits)
  ultimately show ?thesis by blast
qed

lemma query_result_distinct:
  assumes "tm_inv m" shows "distinct (query_result query v P t m)"
proof -
  have "distinct (map fst (TimedHashMap_iter t m))"
    using assms by (simp add: TimedHashMap_iter_def tm_inv_def distinct_map_fst_filter)
  then show ?thesis unfolding query_result_def by (rule distinct_map_fst_filter)
qed

section \<open>The announcement to servers behind NAT\<close>

lemma send_announces_all:
  assumes "\<And>i. e_send_ok env i"
  shows "send_announces env packet xs st =
     (Inr (), st\<lparr>ms_sent := ms_sent st @ map (\<lambda>x. (packet, x)) xs\<rparr>)"
  by (induction xs arbitrary: st) (simp_all add: send_to_def assms)

definition wants_nat :: "filter_q \<Rightarrow> bool" where
  "wants_nat f \<longleftrightarrow> Filter_contains_flags f FF_NAT \<noteq> Some False"

lemma wants_nat_case:
  "(case Filter_contains_flags f FF_NAT of Some b \<Rightarrow> b | None \<Rightarrow> True) \<longleftrightarrow> wants_nat f"
  by (auto simp: wants_nat_def split: option.split)

text \<open>The announcement fits its buffer whatever the address.\<close>

definition announcement :: "socket_addr \<Rightarrow> bytes" where
  "announcement a = ClientAnnounce_wire \<lparr>ca_addr = a\<rparr>"

lemma ClientAnnounce_fits: "length (announcement a) \<le> 64"
  using length_socket_addr_display [of a]
  by (simp add: announcement_def ClientAnnounce_wire_def ClientAnnounce_HEADER_def)

lemma send_client_to_nat_servers_all:
  assumes "\<And>i. e_send_ok env i"
  shows "send_client_to_nat_servers ax env a xs st =
     (Inr (), st\<lparr>ms_sent := ms_sent st @ map (\<lambda>x. (announcement (ax_wrap ax a), ax_wrap ax x)) xs\<rparr>)"
  using ClientAnnounce_fits [of "ax_wrap ax a"]
  by (simp add: send_client_to_nat_servers_def ClientAnnounce_encode_wire send_announces_all assms
      announcement_def comp_def)

section \<open>The whole answer\<close>

text \<open>A datagram of a server list: it fits, and a client reads the key and the addresses from it.\<close>

definition carries_list :: "'a server_address \<Rightarrow> nat \<Rightarrow> u32 option \<Rightarrow> 'a list \<Rightarrow> bytes \<Rightarrow> bool" where
  "carries_list D mtu key xs packet \<longleftrightarrow> length packet \<le> mtu \<and>
     (\<exists>r. QueryServersResponse_decode packet = Inr r \<and> qsr_key r = key \<and>
        QueryServersResponse_iter D r = xs)"

context list_sender
begin

lemma carries_list: "carries = carries_list D mtu"
  by (intro ext) (simp add: carries_def carries_list_def)

lemma query_answered:
  assumes ax: "ax_sad ax = D" "ax_mtu ax = mtu" and inv: "tm_inv (ms_servers st)"
    and send: "\<And>i. e_send_ok env i" and query: "is_query_servers_valid (ms_cfg st) query"
    and v: "f_clver (qs_filter query) = Some v" and key: "f_key (qs_filter query) \<noteq> None"
    and valid: "\<forall>a \<in> set (query_result query v (\<lambda>_. True) (e_clk env 4) (ms_servers st)). valid a"
  shows "\<exists>st' packets parts. handle_game_query_servers ax env a query st = Some (Inr (), st') \<and>
     ms_sent st' = ms_sent st @ map (\<lambda>p. (p, ax_wrap ax a)) packets @
       (if wants_nat (qs_filter query)
        then map (\<lambda>x. (announcement (ax_wrap ax a), ax_wrap ax x))
               (query_result query v behind_nat (e_clk env 4) (ms_servers st))
        else []) \<and>
     packets \<noteq> [] \<and> concat parts = query_result query v (\<lambda>_. True) (e_clk env 4) (ms_servers st) \<and>
     list_all2 (carries_list D mtu (f_key (qs_filter query))) parts packets"
proof -
  let ?fs = "query_result query v (\<lambda>_. True) (e_clk env 4) (ms_servers st)"
  let ?ns = "query_result query v behind_nat (e_clk env 4) (ms_servers st)"
  let ?st = "st\<lparr>ms_stats := Stats_on_query_servers (ms_stats st), ms_filtered_servers := ?fs,
      ms_filtered_servers_nat := ?ns\<rparr>"
  have fold: "fold (push_filtered query v) (TimedHashMap_iter (e_clk env 4) (ms_servers st)) ([], []) = (?fs, ?ns)"
    by (simp add: fold_push_filtered query_result_def)
  obtain packets parts where sent: "send_list_from env mtu D (ax_wrap ax a) (f_key (qs_filter query)) ?fs 0 ?st =
       Some (Inr (), ?st\<lparr>ms_sent := ms_sent ?st @ map (\<lambda>p. (p, ax_wrap ax a)) packets\<rparr>)"
    and parts: "concat parts = ?fs" "packets \<noteq> []"
      "list_all2 (carries_list D mtu (f_key (qs_filter query))) parts packets"
    using send_list_all [OF send key valid, of "ax_wrap ax a" 0 ?st] unfolding carries_list by auto
  show ?thesis
    using query v sent parts
    by (intro exI [of _ "snd (the (handle_game_query_servers ax env a query st))"] exI [of _ packets]
        exI [of _ parts])
       (simp add: handle_game_query_servers_def Let_def fold send_server_list_def ax wants_nat_case
         send_client_to_nat_servers_all [OF send])
qed

end

text \<open>A refused query is answered with the one address of the update server.\<close>

lemma handle_game_query_servers_refused:
  assumes "\<not> is_query_servers_valid (ms_cfg st) query"
  shows "handle_game_query_servers ax env a query st =
     (let s = save_client_gamedir env a (f_gamedir (qs_filter query))
            (st\<lparr>ms_stats := Stats_on_query_servers (ms_stats st)\<rparr>)
      in send_fake_server ax env a (f_key (qs_filter query)) (ms_update_addr st) s)"
proof -
  have "ms_update_addr (save_client_gamedir env a g s) = ms_update_addr s" for g and s :: "('a, 'b) master"
    by (simp add: save_client_gamedir_def split: option.split)
  then show ?thesis using assms by (simp add: handle_game_query_servers_def Let_def)
qed

end
