(* ===== verification/Master_Spec.thy ===== *)
theory Master_Spec
  imports Master_Query
begin

text \<open>
  The properties of the master server: the handshake that lists a game server, the answer to a query,
  the limits, the administrator, and that every packet is handled in finitely many steps. Each holds for
  both address families unless it names one.
\<close>

section \<open>Examples the witnesses evaluate on\<close>

definition demo_env :: "reltime \<Rightarrow> env" where
  "demo_env t = \<lparr>e_clk = (\<lambda>_. t), e_rng = (\<lambda>i. 42 + of_nat i), e_send_ok = (\<lambda>_. True),
     e_blake2b = (\<lambda>n key personal text. take n (text @ replicate n 0)), e_memchr = naive_memchr\<rparr>"

lemma demo_env_simps [simp]:
  "e_clk (demo_env t) i = t" "e_rng (demo_env t) i = 42 + of_nat i" "e_send_ok (demo_env t) i"
  "e_memchr (demo_env t) = naive_memchr" "clock_ok (demo_env t)"
  by (simp_all add: demo_env_def clock_ok_def mono_def)

definition demo_addr :: "u32 \<Rightarrow> socket_v4" where
  "demo_addr n = \<lparr>v4_ip = 0x0A000000 + n, v4_port = 27015\<rparr>"

definition demo_config :: config where
  "demo_config = Config_default
     \<lparr>cfg_master := MasterConfig_default
        \<lparr>mc_server := ServerConfig_default\<lparr>sc_client_rate_limit := 2\<rparr>,
         mc_admin_list := [\<lparr>adm_name = str ''admin'', adm_password = str ''secret''\<rparr>]\<rparr>\<rparr>"

definition demo_master :: "(socket_v4, ipv4) master" where
  "demo_master = (case MasterServer_new AddrExt_V4 (\<lambda>_. None) None demo_config (demo_addr 0) of
     Inr st \<Rightarrow> st | Inl _ \<Rightarrow> undefined)"

lemmas config_defs = Config_default_def MasterConfig_default_def ServerConfig_default_def
  TimeoutConfig_default_def ClientConfig_default_def HashConfig_default_def StatConfig_default_def
  DEFAULT_CHALLENGE_TIMEOUT_def DEFAULT_SERVER_TIMEOUT_def DEFAULT_ADMIN_TIMEOUT_def
  DEFAULT_MAX_SERVERS_PER_IP_def DEFAULT_SERVER_MIN_VERSION_def DEFAULT_CLIENT_MIN_VERSION_def
  DEFAULT_MIN_ENGINE_BUILDNUM_def DEFAULT_MIN_OLD_ENGINE_BUILDNUM_def DEFAULT_HASH_LEN_def HASH_LEN_def

lemma demo_master_new: "MasterServer_new AddrExt_V4 (\<lambda>_. None) None demo_config (demo_addr 0) = Inr demo_master"
  by (simp add: demo_master_def MasterServer_new_def Let_def)

lemma demo_master_ok: "ms_ok AddrExt_V4 demo_master"
  by (rule MasterServer_new_ok [OF demo_master_new])

lemma demo_master_reachable: "reachable AddrExt_V4 demo_master"
  by (rule reach_new [OF demo_master_new])

lemma demo_master_fields:
  "ms_challenges demo_master = TimedHashMap_new 10" "ms_servers demo_master = TimedHashMap_new 300"
  "ms_admin_challenges demo_master = TimedHashMap_new 10" "ms_admin_limit demo_master = TimedHashMap_new 10"
  "ms_client_rate_limit demo_master = TimedHashMap_new 1" "ms_blocklist demo_master = {}"
  "ms_sent demo_master = []" "ms_cfg demo_master = cfg_master demo_config"
  by (simp_all add: demo_master_def MasterServer_new_def Let_def demo_config_def config_defs)

lemma demo_config_fields:
  "sc_max_servers_per_ip (mc_server (cfg_master demo_config)) = 14"
  "sc_min_version (mc_server (cfg_master demo_config)) = Version_new 0 21"
  "sc_client_rate_limit (mc_server (cfg_master demo_config)) = 2"
  "mc_hash (cfg_master demo_config) = HashConfig_default"
  by (simp_all add: demo_config_def config_defs)

definition demo_announce :: server_add where
  "demo_announce = ServerAdd_default
     \<lparr>sa_gamedir := str ''valve'', sa_map := str ''crossfire'', sa_version := Version 0 21 0,
      sa_challenge := 42, sa_server_type := Dedicated, sa_protocol := 49, sa_players := 4, sa_max := 32\<rparr>"

lemma demo_announce_valid: "ServerAdd_valid demo_announce"
  by (simp add: ServerAdd_valid_def demo_announce_def ServerAdd_default_def info_clean_def str_def
      flags_contains_def SF_BOTS_def)

lemma demo_announce_version: "sc_min_version (mc_server (ms_cfg demo_master)) \<le> sa_version demo_announce"
  by (simp add: demo_master_fields demo_config_fields demo_announce_def Version_new_def less_eq_version_def)

lemma tm_timeout_new [simp]: "tm_timeout (TimedHashMap_new n) = n"
  by (simp add: TimedHashMap_new_def)

lemma servers_at_new: "servers_at ax (TimedHashMap_new n) t ip = {}"
  by (simp add: servers_at_def listed_def view_new)

text \<open>A server's handshake, an administrator's login and a ban, as reachable states.\<close>

lemma reachable_packet:
  assumes "reachable AddrExt_V4 st" "handle_packet AddrExt_V4 env a src st = Some (Inr (), st')"
    and "v4_ip a \<notin> ms_blocklist st"
  shows "reachable AddrExt_V4 st'"
proof -
  have "receive AddrExt_V4 env src (SockV4 a) st = Some st'"
    using assms(2,3) by (simp add: receive_def AddrExt_V4_def is_blocked_def)
  then show ?thesis by (intro reach_step [OF assms(1)] step_receive)
qed

definition demo_challenge :: challenge where
  "demo_challenge = \<lparr>ch_server_challenge = Some 5\<rparr>"

definition demo_challenged :: "(socket_v4, ipv4) master" where
  "demo_challenged =
     snd (handle_server_challenge AddrExt_V4 (demo_env 0) (demo_addr 1) demo_challenge demo_master)"

definition demo_listed :: "(socket_v4, ipv4) master" where
  "demo_listed = snd (handle_server_add AddrExt_V4 (demo_env 8) (demo_addr 1) demo_announce demo_challenged)"

lemma demo_challenge_step:
  "handle_packet AddrExt_V4 (demo_env 0) (demo_addr 1) (Challenge_wire demo_challenge) demo_master =
     Some (Inr (), demo_challenged)"
  using handle_server_challenge_sends [of "demo_env 0" "demo_addr 1" demo_master _ _ AddrExt_V4 demo_challenge,
      OF prod.collapse [symmetric]]
  by (simp add: handle_packet_challenge demo_challenged_def)

lemma demo_handshake:
  "handle_server_add AddrExt_V4 (demo_env 8) (demo_addr 1) demo_announce demo_challenged = (Inr (), demo_listed)"
  "t \<le> 2000 \<Longrightarrow> 8 \<le> t \<Longrightarrow> view (ms_servers demo_listed) t (demo_addr 1) = Some (ServerInfo_new demo_announce)"
proof -
  obtain c s where c: "server_challenge_add (demo_env 0) (demo_addr 1) demo_master = (c, s)" by fastforce
  obtain sent where st: "demo_challenged = s\<lparr>ms_sent := sent\<rparr>"
    using handle_server_challenge_sends [OF c, of AddrExt_V4 demo_challenge] by (simp add: demo_challenged_def)
  obtain r where r: "handle_server_add AddrExt_V4 (demo_env 8) (demo_addr 1) demo_announce (s\<lparr>ms_sent := sent\<rparr>) =
      (r, demo_listed)" by (metis st demo_listed_def prod.collapse)
  have main: "r = Inr () \<and> view (ms_servers demo_listed) t (demo_addr 1) = Some (ServerInfo_new demo_announce)"
    if "t \<le> 2000" "8 \<le> t" for t
  proof -
    have "unat t \<le> 2000" "8 \<le> unat t" using that by (simp_all add: word_le_nat_alt)
    then have "(unat t - 8) * 8 div 1000 < 300" by simp
    with that show ?thesis
      by (intro conjI; intro handshake_lists(2,3) [OF demo_master_ok _ _ _ _ _ _ demo_announce_version _ _ _ c r])
         (simp_all add: demo_master_fields demo_config_fields view_new alive_def as_secs_def
           duration_since_unat ip_full_def servers_at_new demo_announce_def)
  qed
  show "t \<le> 2000 \<Longrightarrow> 8 \<le> t \<Longrightarrow> view (ms_servers demo_listed) t (demo_addr 1) = Some (ServerInfo_new demo_announce)"
    using main by blast
  show "handle_server_add AddrExt_V4 (demo_env 8) (demo_addr 1) demo_announce demo_challenged = (Inr (), demo_listed)"
    using main [of 8] r st by simp
qed

lemma demo_listed_step:
  "handle_packet AddrExt_V4 (demo_env 8) (demo_addr 1) (ServerAdd_wire demo_announce) demo_challenged =
     Some (Inr (), demo_listed)"
  by (subst handle_packet_server_add [OF _ demo_announce_valid]) (simp_all add: naive_memchr_ok demo_handshake)

lemma demo_blocklists: "ms_blocklist demo_challenged = {}" "ms_blocklist demo_listed = {}"
  using handle_server_challenge_core [of demo_master AddrExt_V4 "demo_env 0" "demo_addr 1" demo_challenge]
    handle_server_add_blocklist [of AddrExt_V4 "demo_env 8" "demo_addr 1" demo_announce demo_challenged]
  by (simp_all add: demo_challenged_def demo_listed_def same_core_def demo_master_fields)

lemma demo_challenged_reachable: "reachable AddrExt_V4 demo_challenged"
  by (rule reachable_packet [OF demo_master_reachable demo_challenge_step]) (simp add: demo_master_fields)

lemma demo_listed_reachable: "reachable AddrExt_V4 demo_listed"
  by (rule reachable_packet [OF demo_challenged_reachable demo_listed_step]) (simp add: demo_blocklists)

lemma demo_listed_cfg: "ms_cfg demo_listed = cfg_master demo_config"
  using handle_server_challenge_core [of demo_master AddrExt_V4 "demo_env 0" "demo_addr 1" demo_challenge]
    handler_cfg [of AddrExt_V4 "demo_env 8" "demo_addr 1" demo_announce demo_challenged]
  by (simp add: demo_challenged_def demo_listed_def same_core_def demo_master_fields)

lemma demo_challenged_empty: "view (ms_servers demo_challenged) t b = None"
  using handle_server_challenge_core [of demo_master AddrExt_V4 "demo_env 0" "demo_addr 1" demo_challenge]
  by (simp add: demo_challenged_def same_core_def demo_master_fields view_new)

text \<open>An administrator logs in from \<open>demo_addr 9\<close> and bans an IP.\<close>

definition demo_admin :: "(socket_v4, ipv4) master" where
  "demo_admin = snd (handle_admin_challenge AddrExt_V4 (demo_env 16) (demo_addr 9) demo_master)"

definition demo_ban :: admin_command where
  "demo_ban = \<lparr>ac_master_challenge = 42,
     ac_hash = admin_hash (demo_env 17) HashConfig_default (str ''secret'') 43,
     ac_command = str ''ban 10.0.0.1''\<rparr>"

definition demo_banned :: "(socket_v4, ipv4) master" where
  "demo_banned = snd (handle_admin_command AddrExt_V4 (demo_env 17) (demo_addr 9) demo_ban demo_admin)"

lemma demo_admin_step:
  "handle_packet AddrExt_V4 (demo_env 16) (demo_addr 9) AdminChallenge_HEADER demo_master = Some (Inr (), demo_admin)"
proof -
  have "AdminChallenge_decode AdminChallenge_HEADER = Inr ()" by (rule admin_challenge_codec.decode_wire) simp
  moreover have "fst (handle_admin_challenge AddrExt_V4 (demo_env 16) (demo_addr 9) demo_master) = Inr ()"
    by (simp add: handle_admin_challenge_def admin_challenge_add_def AdminChallengeResponse_encode_wire
        AdminChallengeResponse_wire_def AdminChallengeResponse_HEADER_def send_to_def)
  moreover have "fst (allow_admin_request AddrExt_V4 (demo_env 16) (demo_addr 9) demo_master) = Inr ()"
    by (simp add: allow_admin_request_def demo_master_fields TimedHashMap_get_def TimedHashMap_new_def)
  ultimately show ?thesis
    by (simp add: handle_packet_def demo_admin_def hbind_def lift_result_def split_beta)
       (simp add: AdminChallenge_HEADER_def str_def Challenge_HEADER_def ServerAdd_HEADER_def
         ServerRemove_HEADER_def QueryServers_HEADER_def GetServerInfo_HEADER_def starts_with_def prod_eq_iff)
qed

lemma demo_admin_fields:
  "ms_cfg demo_admin = cfg_master demo_config" "ms_blocklist demo_admin = {}"
  "ms_servers demo_admin = TimedHashMap_new 300"
  using handle_admin_challenge_core [of demo_master AddrExt_V4 "demo_env 16" "demo_addr 9"]
  by (simp_all add: demo_admin_def same_core_def demo_master_fields)

lemma demo_admin_limit: "ms_admin_limit demo_admin = TimedHashMap_new 10"
  by (simp add: demo_admin_def handle_admin_challenge_def admin_challenge_add_def hbind_def lift_result_def
      send_to_def map_err_def demo_master_fields split: sum.split)

lemma demo_admin_challenge:
  "view (ms_admin_challenges demo_admin) 17 (ax_ip AddrExt_V4 (demo_addr 9)) = Some (42, 43)"
  by (simp add: demo_admin_def handle_admin_challenge_def admin_challenge_add_def hbind_def lift_result_def
      send_to_def map_err_def demo_master_fields view_insert tm_inv_new alive_def as_secs_def
      duration_since_unat split: sum.split)

lemma demo_ban_authorised: "authorised AddrExt_V4 (demo_env 17) (demo_addr 9) demo_ban demo_admin"
  by (simp add: authorised_def demo_admin_challenge demo_ban_def demo_admin_fields demo_config_def config_defs)

lemma demo_ban_args: "split_on 32 (ac_command demo_ban) = [str ''ban'', str ''10.0.0.1'']"
  by (simp add: demo_ban_def str_def)

lemma demo_ban_ip: "parsed_ips AddrExt_V4 [str ''10.0.0.1''] = {v4_ip (demo_addr 1)}"
proof -
  have "ipv4_from_str (str ''10.0.0.1'') = Some 0x0A000001" by code_simp
  then show ?thesis by (auto simp: AddrExt_V4_def demo_addr_def)
qed

lemma demo_ban_valid: "AdminCommand_valid 64 demo_ban"
  by (simp add: AdminCommand_valid_def demo_ban_def admin_hash_def demo_env_def config_defs is_utf8_ascii
      is_ascii_def str_def)

lemma demo_ban_unshadowed: "\<not> shadows_challenge demo_ban"
proof -
  have four: "(4 :: nat) = Suc (Suc (Suc (Suc 0)))" by simp
  have "to_le 4 (42 :: u32) = [42, 0, 0, 0]" unfolding four by simp
  then show ?thesis
    by (simp add: shadows_challenge_def AdminCommand_wire_def demo_ban_def)
       (simp add: AdminCommand_HEADER_def AdminChallenge_HEADER_def str_def starts_with_def)
qed

lemma demo_ban_step:
  "handle_packet AddrExt_V4 (demo_env 17) (demo_addr 9) (AdminCommand_wire demo_ban) demo_admin =
     Some (Inr (), demo_banned)"
proof -
  have "handle_admin_command AddrExt_V4 (demo_env 17) (demo_addr 9) demo_ban demo_admin = (Inr (), demo_banned)"
    using handle_admin_command_authorised [OF demo_ban_authorised] by (simp add: demo_banned_def)
  moreover have "allow_admin_request AddrExt_V4 (demo_env 17) (demo_addr 9) demo_admin = (Inr (), demo_admin)"
    by (simp add: allow_admin_request_def demo_admin_limit TimedHashMap_get_def TimedHashMap_new_def)
  moreover have "hc_len (mc_hash (ms_cfg demo_admin)) = 64" by (simp add: demo_admin_fields demo_config_def config_defs)
  ultimately show ?thesis by (subst handle_packet_admin_command [OF _ demo_ban_unshadowed]) (simp_all add: demo_ban_valid)
qed

lemma demo_admin_reachable: "reachable AddrExt_V4 demo_admin"
  by (rule reachable_packet [OF demo_master_reachable demo_admin_step]) (simp add: demo_master_fields)

lemma demo_banned_reachable: "reachable AddrExt_V4 demo_banned"
  by (rule reachable_packet [OF demo_admin_reachable demo_ban_step]) (simp add: demo_admin_fields)

lemma demo_banned_blocklist: "ms_blocklist demo_banned = {v4_ip (demo_addr 1)}"
  using run_admin_command_blocklist [OF reachable_ok [OF demo_admin_reachable], of "demo_env 17" 17 2 "ac_command demo_ban"]
  by (simp add: demo_banned_def handle_admin_command_authorised [OF demo_ban_authorised]
      admin_challenge_remove_def demo_ban_args demo_ban_ip demo_admin_fields del: parsed_ips_simps)

section \<open>The handshake\<close>

text \<open>C2. The handshake lists a game server: a challenge request from an address without an outstanding
  challenge is answered with a fresh number, sent in the reply with the server's own number, and an
  announcement from that address that carries the number, arrives before it expires, has an accepted
  version and finds room for its IP lists the server with exactly the announced data and uses the
  challenge up.\<close>

theorem handshake_lists_server:
  assumes "reachable ax st" "clock_ok env1" "clock_ok env2" "e_clk env1 1 \<le> e_clk env2 0"
    and "e_send_ok env1 (length (ms_sent st))"
    and "view (ms_challenges st) (e_clk env1 0) a = None"
    and "alive (tm_timeout (ms_challenges st)) (e_clk env2 1) (e_clk env1 1)"
    and "memchr_ok (e_memchr env2)" "ServerAdd_valid msg" "sa_challenge msg = e_rng env1 0"
    and "sc_min_version (mc_server (ms_cfg st)) \<le> sa_version msg"
    and "\<not> ip_full ax (ms_servers st) (e_clk env2 3) (ax_ip ax a) (sc_max_servers_per_ip (mc_server (ms_cfg st)))"
    and "e_clk env2 5 \<le> t" "alive (tm_timeout (ms_servers st)) t (e_clk env2 3)"
    and "handle_packet ax env1 a (Challenge_wire ch) st = Some (r1, st1)"
    and "handle_packet ax env2 a (ServerAdd_wire msg) st1 = Some (r2, st2)"
  shows "r1 = Inr () \<and> ms_sent st1 = ms_sent st @ [(challenge_reply (e_rng env1 0) ch, ax_wrap ax a)] \<and>
    r2 = Inr () \<and> view (ms_servers st2) t a = Some (ServerInfo_new msg) \<and> view (ms_challenges st2) t a = None"
proof -
  obtain c s where c: "server_challenge_add env1 a st = (c, s)" by fastforce
  let ?sent = "ms_sent st @ [(challenge_reply c ch, ax_wrap ax a)]"
  have st1: "r1 = Inr ()" "st1 = s\<lparr>ms_sent := ?sent\<rparr>"
    using assms(15) handle_server_challenge_sends [OF c assms(5), of ax ch]
    by (simp_all add: handle_packet_challenge)
  have "handle_server_add ax env2 a msg (s\<lparr>ms_sent := ?sent\<rparr>) = (r2, st2)"
    using assms(16) by (simp add: handle_packet_server_add assms(8,9) st1)
  from handshake_lists [OF reachable_ok [OF assms(1)] assms(2-4,6,7,10-14) c this] st1
  show ?thesis by simp
qed

lemma handshake_lists_server_witness:
  "view (ms_servers demo_listed) 16 (demo_addr 1) = Some (ServerInfo_new demo_announce)"
  using handshake_lists_server [OF demo_master_reachable _ _ _ _ _ _ _ demo_announce_valid _
      demo_announce_version _ _ _ demo_challenge_step demo_listed_step, of 16]
  by (simp add: demo_master_fields demo_config_fields view_new naive_memchr_ok alive_def as_secs_def
      duration_since_unat ip_full_def servers_at_new demo_announce_def)

text \<open>C1. Nobody is listed without the handshake: when a packet changes what the list says about an address to
  some server, the packet came from that address, it is an announcement with an accepted version, and it
  carried the number outstanding for the address.\<close>

theorem only_challenged_servers_listed:
  assumes "reachable ax st" "clock_ok env" "\<And>j. e_clk env j \<le> t"
    and "handle_packet ax env a src st = Some (r, st')"
    and "view (ms_servers st') t b = Some s" "view (ms_servers st) t b \<noteq> Some s"
  shows "b = a \<and> (\<exists>msg. ServerAdd_decode (e_memchr env) src = Inr msg \<and>
     sc_min_version (mc_server (ms_cfg st)) \<le> sa_version msg \<and>
     view (ms_challenges st) (e_clk env 0) a = Some (sa_challenge msg))"
proof -
  have new: "view (ms_servers (snd (r, st'))) t b = Some s" using assms(5) by simp
  show ?thesis
    by (rule handle_packet_listed [OF reachable_ok [OF assms(1)] assms(2,3,4) new assms(6)]) blast
qed

lemma only_challenged_servers_listed_witness:
  "\<exists>msg. ServerAdd_decode naive_memchr (ServerAdd_wire demo_announce) = Inr msg \<and>
     view (ms_challenges demo_challenged) 8 (demo_addr 1) = Some (sa_challenge msg)"
  using only_challenged_servers_listed [OF demo_challenged_reachable _ _ demo_listed_step
      demo_handshake(2) [of 16]]
  by (auto simp: demo_challenged_empty)

text \<open>The challenge of an address is stable: until it expires, every further request of the address is
  answered with the number already outstanding, and its life is not prolonged by asking again.\<close>

theorem challenge_is_stable:
  assumes "reachable ax st" "view (ms_challenges st) (e_clk env 0) a = Some c" "e_clk env 0 \<le> t"
    and "server_challenge_add env a st = (c', st')"
  shows "c' = c \<and> view (ms_challenges st') t a = view (ms_challenges st) t a"
  using server_challenge_add_spec(1,4) [OF ms_okD(1) [OF reachable_ok [OF assms(1)]] assms(4)] assms(2,3)
  by simp

section \<open>Queries\<close>

definition demo_request :: "filter_q query_servers" where
  "demo_request = \<lparr>qs_region = RestOfTheWorld, qs_last = [],
     qs_filter = Filter_default\<lparr>f_clver := Some (Version 0 21 0), f_key := Some 7\<rparr>\<rparr>"

lemma demo_request_fields:
  "f_clver (qs_filter demo_request) = Some (Version 0 21 0)" "f_key (qs_filter demo_request) = Some 7"
  by (simp_all add: demo_request_def)

lemma demo_request_valid: "is_query_servers_valid (ms_cfg demo_listed) demo_request"
  by (simp add: is_query_servers_valid_def demo_listed_cfg demo_config_def config_defs demo_request_def
      Version_new_def less_version_def is_buildnum_valid_def)

text \<open>C3. The answer to a valid query over IPv4, when every datagram is taken: the client gets datagrams of at
  most 512 bytes, from which it reads back its own key and addresses; together these are exactly the
  addresses listed at that time whose server answers the query, each of them once; and unless the query
  excludes servers behind NAT, each of those among them is told the client's address.\<close>

theorem query_lists_matching_servers:
  fixes st :: "(socket_v4, ipv4) master"
  assumes "reachable AddrExt_V4 st" "\<And>i. e_send_ok env i"
    and "is_query_servers_valid (ms_cfg st) query" "f_clver (qs_filter query) = Some v"
    and "f_key (qs_filter query) \<noteq> None"
  shows "\<exists>st' packets parts nats. handle_game_query_servers AddrExt_V4 env a query st = Some (Inr (), st') \<and>
     ms_sent st' = ms_sent st @ map (\<lambda>p. (p, SockV4 a)) packets @ map (\<lambda>b. (announcement (SockV4 a), SockV4 b)) nats \<and>
     list_all2 (carries_list SocketAddrV4 512 (f_key (qs_filter query))) parts packets \<and>
     distinct (concat parts) \<and>
     set (concat parts) = {b. \<exists>s. view (ms_servers st) (e_clk env 4) b = Some s \<and> answers query v s} \<and>
     set nats = {b. wants_nat (qs_filter query) \<and>
        (\<exists>s. view (ms_servers st) (e_clk env 4) b = Some s \<and> answers query v s \<and> behind_nat s)}"
proof -
  have inv: "tm_inv (ms_servers st)" by (rule ms_okD(2) [OF reachable_ok [OF assms(1)]])
  have ax: "ax_sad AddrExt_V4 = SocketAddrV4" "ax_mtu AddrExt_V4 = 512" "ax_wrap AddrExt_V4 = SockV4"
    by (simp_all add: AddrExt_V4_def)
  let ?res = "\<lambda>P. query_result query v P (e_clk env 4) (ms_servers st)"
  obtain st' packets parts where r:
    "handle_game_query_servers AddrExt_V4 env a query st = Some (Inr (), st')"
    "ms_sent st' = ms_sent st @ map (\<lambda>p. (p, ax_wrap AddrExt_V4 a)) packets @
       (if wants_nat (qs_filter query)
        then map (\<lambda>x. (announcement (ax_wrap AddrExt_V4 a), ax_wrap AddrExt_V4 x)) (?res behind_nat) else [])"
    "concat parts = ?res (\<lambda>_. True)"
    "list_all2 (carries_list SocketAddrV4 512 (f_key (qs_filter query))) parts packets"
    using v4_list.query_answered [OF ax(1,2) inv assms(2-5)] by blast
  let ?nats = "if wants_nat (qs_filter query) then ?res behind_nat else []"
  have "set (concat parts) = {b. \<exists>s. view (ms_servers st) (e_clk env 4) b = Some s \<and> answers query v s}"
    "distinct (concat parts)"
    unfolding r(3) query_result_set [OF inv] using query_result_distinct [OF inv] by auto
  moreover have "set ?nats = {b. wants_nat (qs_filter query) \<and>
      (\<exists>s. view (ms_servers st) (e_clk env 4) b = Some s \<and> answers query v s \<and> behind_nat s)}"
    using query_result_set [OF inv] by simp
  moreover have "ms_sent st' = ms_sent st @ map (\<lambda>p. (p, SockV4 a)) packets @
      map (\<lambda>b. (announcement (SockV4 a), SockV4 b)) ?nats"
    using r(2) by (simp add: ax)
  ultimately show ?thesis using r(1,4) by blast
qed

lemma query_lists_matching_servers_witness:
  "\<exists>st' packets parts. handle_game_query_servers AddrExt_V4 (demo_env 16) (demo_addr 7) demo_request demo_listed =
       Some (Inr (), st') \<and>
     list_all2 (carries_list SocketAddrV4 512 (Some 7)) parts packets \<and> demo_addr 1 \<in> set (concat parts)"
proof -
  have "answers demo_request (Version 0 21 0) (ServerInfo_new demo_announce)"
    by (simp add: answers_def demo_request_def ServerInfo_new_def demo_announce_def ServerAdd_default_def
        Filter_matches_def Filter_default_def Version_new_def less_version_def)
  moreover have "view (ms_servers demo_listed) (e_clk (demo_env 16) 4) (demo_addr 1) = Some (ServerInfo_new demo_announce)"
    using demo_handshake(2) [of 16] by simp
  moreover have "f_key (qs_filter demo_request) \<noteq> None" by (simp add: demo_request_fields)
  moreover note query_lists_matching_servers [OF demo_listed_reachable demo_env_simps(3) demo_request_valid
      demo_request_fields(1) calculation(3), of 16 "demo_addr 7"]
  ultimately show ?thesis unfolding demo_request_fields by blast
qed



section \<open>Limits\<close>

lemma demo_within_limit: "within_limit AddrExt_V4 0 demo_master"
  by (simp add: within_limit_def demo_master_fields servers_at_new)

definition demo_turn :: "reltime \<Rightarrow> bytes \<Rightarrow> socket_v4 \<Rightarrow> turn" where
  "demo_turn t src a = \<lparr>tn_signals = 0, tn_recv = Received src (SockV4 a), tn_env = demo_env t\<rparr>"

lemma demo_turn_env [simp]: "tn_env (demo_turn t src a) = demo_env t"
  by (simp add: demo_turn_def)

text \<open>C5. The number of servers of one IP never exceeds the configured maximum along the receive loop: if it
  holds at the start of a run, whose clock does not run backwards, it holds at its end, whatever packets
  arrive from whom, errors and administrator commands included.\<close>

theorem servers_per_ip_bounded:
  assumes "reachable ax st" "within_limit ax t st" "clocked t ts t'" "run_turns ax ts st = Some (r, st')"
  shows "card (servers_at ax (ms_servers st') t' ip) \<le> unat (sc_max_servers_per_ip (mc_server (ms_cfg st')))"
  using run_turns_limit [OF reachable_ok [OF assms(1)] assms(2-4)] by (simp add: within_limit_def)

lemma servers_per_ip_bounded_witness:
  "\<exists>r st'. run_turns AddrExt_V4 [demo_turn 0 (Challenge_wire demo_challenge) (demo_addr 1),
       demo_turn 8 (ServerAdd_wire demo_announce) (demo_addr 1)] demo_master = Some (r, st') \<and>
     card (servers_at AddrExt_V4 (ms_servers st') 9 (v4_ip (demo_addr 1)))
       \<le> unat (sc_max_servers_per_ip (mc_server (ms_cfg st')))"
proof -
  let ?ts = "[demo_turn 0 (Challenge_wire demo_challenge) (demo_addr 1),
      demo_turn 8 (ServerAdd_wire demo_announce) (demo_addr 1)]"
  have "clocked 8 [] 9" by (simp add: clocked_Nil)
  then have "clocked 0 [demo_turn 8 (ServerAdd_wire demo_announce) (demo_addr 1)] 9"
    using clocked_Cons [of "demo_turn 8 (ServerAdd_wire demo_announce) (demo_addr 1)" 0 8] by simp
  then have "clocked 0 ?ts 9"
    using clocked_Cons [of "demo_turn 0 (Challenge_wire demo_challenge) (demo_addr 1)" 0 0] by simp
  moreover obtain r st' where run: "run_turns AddrExt_V4 ?ts demo_master = Some (r, st')"
    by (rule returnsE [OF net4.run_turns_total [where ts = ?ts and st = demo_master]]) (metis surj_pair)
  ultimately show ?thesis
    using servers_per_ip_bounded [OF demo_master_reachable demo_within_limit] by blast
qed

text \<open>C7. The rate limit: among the requests that arrive within one window, from any addresses in any order,
  an IP that had no open window is answered exactly for its first requests up to the limit, and each
  later request of it is refused; requests of other IPs do not count.\<close>

theorem rate_limit_window:
  assumes "reachable ax st" "\<And>t. lo \<le> t \<Longrightarrow> t \<le> hi \<Longrightarrow> view (ms_client_rate_limit st) t ip = None"
    and "\<And>a env i. (a, env) \<in> set rs \<Longrightarrow> lo \<le> e_clk env i \<and> e_clk env i \<le> hi"
    and "alive (tm_timeout (ms_client_rate_limit st)) hi lo"
    and "0 < sc_client_rate_limit (mc_server (ms_cfg st))" "length rs < 2 ^ 32"
  shows "map snd (filter (\<lambda>(a, _). ax_ip ax a = ip) (game_requests ax rs st)) =
     map (\<lambda>k. k < unat (sc_client_rate_limit (mc_server (ms_cfg st))))
       [0 ..< length (filter (\<lambda>(a, _). ax_ip ax a = ip) rs)]"
  using game_requests_window [OF ms_okD(6) [OF reachable_ok [OF assms(1)]], of lo hi ip 0 rs] assms(2-)
  by (simp add: counted_def)

lemma rate_limit_window_witness:
  "map snd (filter (\<lambda>(a, _). v4_ip a = v4_ip (demo_addr 1))
       (game_requests AddrExt_V4 [(demo_addr 1, demo_env 0), (demo_addr 2, demo_env 1), (demo_addr 1, demo_env 2),
          (demo_addr 1, demo_env 3)] demo_master)) = [True, True, False]"
proof -
  have ip: "ax_ip AddrExt_V4 = v4_ip" by (simp add: AddrExt_V4_def)
  have up: "[0 ..< 3] = [0, 1, 2 :: nat]" by (simp add: upt_rec)
  show ?thesis
    using rate_limit_window [OF demo_master_reachable, of 0 3 "v4_ip (demo_addr 1)"
        "[(demo_addr 1, demo_env 0), (demo_addr 2, demo_env 1), (demo_addr 1, demo_env 2), (demo_addr 1, demo_env 3)]"]
    by (simp add: demo_master_fields demo_config_fields view_new alive_def as_secs_def duration_since_unat ip
        demo_addr_def up; fastforce)
qed

section \<open>Blocked addresses and administrators\<close>

text \<open>C12. A blocked IP has no server in the list of any reachable state, whatever packets and configuration
  reloads led there, and no packet from it changes anything.\<close>

theorem blocked_ips_are_out:
  assumes "reachable ax st" "ax_ip ax a \<in> ms_blocklist st"
  shows "view (ms_servers st) t a = None \<and>
     (ax_extract ax from_addr = Some a \<longrightarrow> receive ax env src from_addr st = Some st)"
  using blocked_clean_view [of ax st a t] reachable_ok [OF assms(1)] receive_blocked [of ax from_addr a st] assms(2)
  by (simp add: ms_ok_def)

lemma blocked_ips_are_out_witness:
  "receive AddrExt_V4 (demo_env 18) (Challenge_wire demo_challenge) (SockV4 (demo_addr 1)) demo_banned = Some demo_banned"
  using blocked_ips_are_out [OF demo_banned_reachable, of "demo_addr 1" 18 "SockV4 (demo_addr 1)"]
  by (simp add: demo_banned_blocklist AddrExt_V4_def)

text \<open>C9. Only an administrator touches the block list: a packet that changes it is a command whose sender is not
  shut out, carries the number outstanding for his IP, and proves by the hash that he knows the password of
  a configured administrator for this very challenge.\<close>

theorem blocklist_needs_admin:
  assumes "handle_packet ax env a src st = Some (r, st')" "ms_blocklist st' \<noteq> ms_blocklist st"
  shows "\<exists>msg hash. AdminCommand_decode_with_hash_len (hc_len (mc_hash (ms_cfg st))) src = Inr msg \<and>
     view (ms_admin_limit st) (e_clk env 0) (ax_ip ax a) = None \<and>
     view (ms_admin_challenges st) (e_clk env 1) (ax_ip ax a) = Some (ac_master_challenge msg, hash) \<and>
     (\<exists>adm \<in> set (mc_admin_list (ms_cfg st)).
        ac_hash msg = admin_hash env (mc_hash (ms_cfg st)) (adm_password adm) hash)"
proof -
  have "ms_blocklist (snd (r, st')) \<noteq> ms_blocklist st" using assms(2) by simp
  from handle_packet_blocklist [OF assms(1) this] obtain msg where
    "AdminCommand_decode_with_hash_len (hc_len (mc_hash (ms_cfg st))) src = Inr msg"
    "fst (allow_admin_request ax env a st) = Inr ()" "authorised ax env a msg st" by blast
  then show ?thesis
    by (intro exI [of _ msg]) (auto simp: authorised_def allow_admin_request_def view_get split: option.splits)
qed

lemma blocklist_needs_admin_witness:
  "\<exists>msg. AdminCommand_decode_with_hash_len 64 (AdminCommand_wire demo_ban) = Inr msg \<and>
     (\<exists>adm \<in> set (mc_admin_list (cfg_master demo_config)).
        ac_hash msg = admin_hash (demo_env 17) HashConfig_default (adm_password adm) 43)"
  using blocklist_needs_admin [OF demo_ban_step] demo_admin_challenge
  by (auto simp: demo_banned_blocklist demo_admin_fields demo_config_fields config_defs)

text \<open>C8. What a ban does: an authorised ban command with any number of arguments blocks exactly the arguments
  that are addresses, takes their servers and no others off the list, and uses the challenge up, so that
  the same or any other command for it is refused from then on.\<close>

theorem ban_command_effect:
  assumes "reachable ax st" "authorised ax env a msg st" "\<And>j. e_clk env j \<le> t"
    and "split_on 32 (ac_command msg) = str ''ban'' # args"
    and "handle_admin_command ax env a msg st = (r, st')"
  shows "r = Inr () \<and> ms_blocklist st' = ms_blocklist st \<union> parsed_ips ax args \<and>
     view (ms_servers st') t b = (if ax_ip ax b \<in> parsed_ips ax args then None else view (ms_servers st) t b) \<and>
     handle_admin_command ax env' a msg' st' = (Inl EAdminChallengeNotFound, st')"
proof -
  note ok = reachable_ok [OF assms(1)]
  note h = handle_admin_command_authorised [OF assms(2)]
  let ?run = "run_admin_command ax env 2 (ac_command msg) st"
  have same: "ms_servers st' = ms_servers ?run" "ms_blocklist st' = ms_blocklist ?run" "r = Inr ()"
    using h assms(5) by (simp_all add: admin_challenge_remove_def)
  have "ms_blocklist st' = ms_blocklist st \<union> parsed_ips ax args"
    using run_admin_command_blocklist [OF ok assms(3), where i = 2 and cmd = "ac_command msg"]
    by (simp add: same assms(4) Let_def)
  moreover have "view (ms_servers st') t b = (if ax_ip ax b \<in> parsed_ips ax args then None else view (ms_servers st) t b)"
    using run_admin_command_view [OF ok assms(3), where i = 2 and cmd = "ac_command msg" and b = b]
    by (simp add: same(1) assms(4))
  moreover have "handle_admin_command ax env' a msg' st' = (Inl EAdminChallengeNotFound, st')"
    using handle_admin_command_replay [OF assms(2) refl, where env' = env' and msg' = msg'] assms(5) by simp
  ultimately show ?thesis by (simp add: same(3))
qed

lemma ban_command_effect_witness:
  "ms_blocklist demo_banned = {v4_ip (demo_addr 1)} \<and>
   handle_admin_command AddrExt_V4 (demo_env 18) (demo_addr 9) demo_ban demo_banned =
     (Inl EAdminChallengeNotFound, demo_banned)"
proof -
  have h: "handle_admin_command AddrExt_V4 (demo_env 17) (demo_addr 9) demo_ban demo_admin = (Inr (), demo_banned)"
    using handle_admin_command_authorised [OF demo_ban_authorised] by (simp add: demo_banned_def)
  show ?thesis
    using ban_command_effect [OF demo_admin_reachable demo_ban_authorised _ demo_ban_args h, of 17 "demo_addr 1"
        "demo_env 18" demo_ban]
    by (simp add: demo_ban_ip demo_admin_fields del: parsed_ips_simps)
qed



section \<open>Termination and errors\<close>


text \<open>A datagram with none of the known headers is an error that leaves the whole state alone but for the
  error counter.\<close>

theorem unknown_packet_ignored:
  assumes "\<not> known_header src"
  shows "handle_packet ax env a src st = Some (Inl EUndefinedPacket, st) \<and>
    (ax_extract ax from_addr = Some a \<longrightarrow> ax_ip ax a \<notin> ms_blocklist st \<longrightarrow>
       receive ax env src from_addr st = Some (st\<lparr>ms_stats := Stats_on_error (ms_stats st)\<rparr>))"
  using handle_packet_unknown [OF assms, of ax env a st] by (simp add: receive_def is_blocked_def)

end
