(* ===== verification/Observer_Types.thy ===== *)
theory Observer_Types
  imports Info_Packets Game_Packets Master_Packets
begin

text \<open>
  What the observer library (\<^verbatim>\<open>xash3d-observer\<close>) is made of besides its state: its socket with the world
  behind it (\<^verbatim>\<open>net.rs\<close>), the filter it sends to master servers (\<^verbatim>\<open>filter.rs\<close>) and the events it reports
  (\<^verbatim>\<open>event.rs\<close>).
\<close>

section \<open>The socket and the world behind it\<close>

text \<open>
  The world gives the readings of \<^verbatim>\<open>Instant::now\<close> (in nanoseconds), the numbers of \<^verbatim>\<open>fastrand::u32\<close>, the
  fate of every datagram sent and the result of every \<^verbatim>\<open>recv_from\<close>, each as a stream with the position
  reached. \<open>w_trace\<close> is \<^verbatim>\<open>log_enabled!(Level::Trace)\<close>; the datagrams sent are collected in \<open>w_sent\<close>.
\<close>

datatype recv_outcome = RecvFrom bytes socket_addr | RecvAddrInUse | RecvWouldBlock | RecvFailed

record world =
  w_clk :: "nat \<Rightarrow> nat"
  w_clk_pos :: nat
  w_rng :: "nat \<Rightarrow> u32"
  w_rng_pos :: nat
  w_accepts :: "nat \<Rightarrow> bool"
  w_send_pos :: nat
  w_recv :: "nat \<Rightarrow> recv_outcome"
  w_recv_pos :: nat
  w_trace :: bool
  w_sent :: "(bytes \<times> socket_addr) list"

datatype observer_error = OIo | OPanic

definition Instant_now :: "world \<Rightarrow> nat \<times> world" where
  "Instant_now w = (w_clk w (w_clk_pos w), w\<lparr>w_clk_pos := Suc (w_clk_pos w)\<rparr>)"

definition fastrand_u32 :: "world \<Rightarrow> u32 \<times> world" where
  "fastrand_u32 w = (w_rng w (w_rng_pos w), w\<lparr>w_rng_pos := Suc (w_rng_pos w)\<rparr>)"

definition Socket_send_to :: "bytes \<Rightarrow> socket_addr \<Rightarrow> world \<Rightarrow> (observer_error + unit) \<times> world" where
  "Socket_send_to buf addr w =
     (if w_accepts w (w_send_pos w)
      then (Inr (), w\<lparr>w_send_pos := Suc (w_send_pos w), w_sent := w_sent w @ [(buf, addr)]\<rparr>)
      else (Inl OIo, w\<lparr>w_send_pos := Suc (w_send_pos w)\<rparr>))"

definition Socket_recv_from :: "world \<Rightarrow> recv_outcome \<times> world" where
  "Socket_recv_from w = (w_recv w (w_recv_pos w), w\<lparr>w_recv_pos := Suc (w_recv_pos w)\<rparr>)"

text \<open>\<^verbatim>\<open>Result::unwrap\<close> on the result of an encoder, followed by sending the packet.\<close>

definition send_unwrapped :: "xerror + bytes \<Rightarrow> socket_addr \<Rightarrow> world \<Rightarrow> (observer_error + unit) \<times> world" where
  "send_unwrapped packet addr w =
     (case packet of Inl _ \<Rightarrow> (Inl OPanic, w) | Inr data \<Rightarrow> Socket_send_to data addr w)"

section \<open>The filter\<close>

text \<open>A \<^verbatim>\<open>String\<close> is the list of its bytes.\<close>

record observer_filter =
  of_client_version :: "version option"
  of_client_build_number :: "u32 option"
  of_gamedir :: "bytes option"
  of_nat :: "bool option"
  of_raw :: "bytes option"

definition Filter_new :: observer_filter where
  "Filter_new = \<lparr>of_client_version = None, of_client_build_number = None, of_gamedir = None, of_nat = None,
     of_raw = None\<rparr>"

definition Filter_with_default_client_version :: observer_filter where
  "Filter_with_default_client_version = Filter_new\<lparr>of_client_version := Some CLIENT_VERSION\<rparr>"

definition Filter_set_client_version :: "version \<Rightarrow> observer_filter \<Rightarrow> observer_filter" where
  "Filter_set_client_version v f = f\<lparr>of_client_version := Some v\<rparr>"

definition Filter_set_client_build_number :: "u32 \<Rightarrow> observer_filter \<Rightarrow> observer_filter" where
  "Filter_set_client_build_number n f = f\<lparr>of_client_build_number := Some n\<rparr>"

definition Filter_set_gamedir :: "bytes \<Rightarrow> observer_filter \<Rightarrow> observer_filter" where
  "Filter_set_gamedir s f = f\<lparr>of_gamedir := Some s\<rparr>"

definition Filter_set_nat :: "bool \<Rightarrow> observer_filter \<Rightarrow> observer_filter" where
  "Filter_set_nat b f = f\<lparr>of_nat := Some b\<rparr>"

definition Filter_set_raw :: "bytes \<Rightarrow> observer_filter \<Rightarrow> observer_filter" where
  "Filter_set_raw s f = f\<lparr>of_raw := Some s\<rparr>"

text \<open>The local function \<^verbatim>\<open>append\<close>, with the value's \<^verbatim>\<open>Display\<close> as an argument.\<close>

definition append_entry :: "string \<Rightarrow> ('a \<Rightarrow> bytes) \<Rightarrow> 'a option \<Rightarrow> bytes \<Rightarrow> bytes" where
  "append_entry key display value out =
     (case value of None \<Rightarrow> out | Some v \<Rightarrow> out @ [92] @ str key @ [92] @ display v)"

definition Filter_to_raw_string :: "observer_filter \<Rightarrow> bytes" where
  "Filter_to_raw_string f =
     (let raw = [];
          raw = append_entry ''clver'' Version_display (of_client_version f) raw;
          raw = append_entry ''buildnum'' (\<lambda>n. show_dec (unat n)) (of_client_build_number f) raw;
          raw = append_entry ''nat'' show_dec (map_option (\<lambda>b. if b then 1 else 0) (of_nat f)) raw;
          raw = append_entry ''gamedir'' id (of_gamedir f) raw
      in case of_raw f of None \<Rightarrow> raw | Some s \<Rightarrow> raw @ s)"

section \<open>Events\<close>

record server_list =
  sl_master :: socket_addr
  sl_response :: query_servers_response

text \<open>The addresses of the family of the master server's own address.\<close>

definition ServerList_iter :: "server_list \<Rightarrow> socket_addr list" where
  "ServerList_iter l =
     (if is_ipv4 (sl_master l) then map SockV4 (QueryServersResponse_iter SocketAddrV4 (sl_response l))
      else map SockV6 (QueryServersResponse_iter SocketAddrV6 (sl_response l)))"

record server_info_event =
  sie_server :: socket_addr
  sie_ping :: nat
  sie_changed :: bool
  sie_response :: get_server_info_response

definition ServerPlayers_len :: "get_players_response \<Rightarrow> nat" where
  "ServerPlayers_len r = unat (GetPlayersResponse_players_count r)"

definition ServerPlayers_is_empty :: "get_players_response \<Rightarrow> bool" where
  "ServerPlayers_is_empty r \<longleftrightarrow> ServerPlayers_len r = 0"

definition ServerPlayers_iter :: "memchr_ops \<Rightarrow> get_players_response \<Rightarrow> (unit + player_info) list" where
  "ServerPlayers_iter mc r = map (map_err (\<lambda>_. ())) (GetPlayersResponse_players mc r)"

datatype event =
    EvTimeout
  | EvServerList server_list
  | EvServerInfo server_info_event
  | EvServerInfoTimeout socket_addr
  | EvServerPlayers socket_addr get_players_response
  | EvServerRemove socket_addr
  | EvMasterInvalidPacket socket_addr bytes
  | EvServerInvalidProtocol socket_addr
  | EvServerInvalidPacket socket_addr bytes

section \<open>The filter on the wire\<close>

text \<open>The entries of the filter's text, when it has no raw part.\<close>

definition Filter_entries :: "observer_filter \<Rightarrow> (bytes \<times> bytes) list" where
  "Filter_entries f =
     opt_kv ''clver'' Version_display (of_client_version f) @
     opt_kv ''buildnum'' (\<lambda>n. show_dec (unat n)) (of_client_build_number f) @
     opt_kv ''nat'' kv_bool (of_nat f) @
     opt_kv ''gamedir'' id (of_gamedir f)"

lemma show_dec_bool: "show_dec (if b then 1 else 0) = kv_bool b"
  by (cases b) (simp_all add: kv_bool_def show_dec_def digits.simps digit_char_def)

lemma append_entry_kv: "append_entry key display value out = out @ kv_wire (opt_kv key display value)"
  by (cases "value") (simp_all add: append_entry_def opt_kv_def kv_wire_simps)

lemma Filter_to_raw_string_kvs:
  "of_raw f = None \<Longrightarrow> Filter_to_raw_string f = kv_wire (Filter_entries f)"
proof -
  assume "of_raw f = None"
  moreover have "opt_kv ''nat'' show_dec (map_option (\<lambda>b. if b then 1 else 0) (of_nat f)) = opt_kv ''nat'' kv_bool (of_nat f)"
    by (cases "of_nat f") (simp_all add: opt_kv_def show_dec_bool del: One_nat_def)
  ultimately show ?thesis
    by (simp add: Filter_to_raw_string_def Let_def append_entry_kv Filter_entries_def kv_wire_append)
qed

end
