(* ===== verification/Observer_Connection.thy ===== *)
theory Observer_Connection
  imports Observer_Types
begin

text \<open>
  One game server as the observer sees it (\<^verbatim>\<open>connection.rs\<close>): a state machine that first finds out which
  protocol version the server speaks, then alternates between waiting for its information and idling,
  and a challenge it needs to ask for the players. Methods that send take the world and give it back.
\<close>

section \<open>State\<close>

datatype connection_state = ProtocolDetection | Idle | WaitingInfo

record connection =
  con_address :: socket_addr
  con_protocol :: u8
  con_players :: bool
  con_state :: connection_state
  con_request_time :: nat
  con_response_time :: nat
  con_challenge :: "u32 option"
  con_wait_players :: bool
  con_data :: bytes

text \<open>In nanoseconds.\<close>

definition SERVER_TIMEOUT :: nat where
  "SERVER_TIMEOUT = 16 * 10 ^ 9"

definition Connection_new :: "socket_addr \<Rightarrow> bool \<Rightarrow> world \<Rightarrow> connection \<times> world" where
  "Connection_new address players w =
     (let (now, w) = Instant_now w in
      (\<lparr>con_address = address, con_protocol = PROTOCOL_VERSION, con_players = players,
        con_state = ProtocolDetection, con_request_time = now, con_response_time = now,
        con_challenge = None, con_wait_players = False, con_data = []\<rparr>, w))"

definition Connection_set_legacy_protocol :: "connection \<Rightarrow> connection" where
  "Connection_set_legacy_protocol con = con\<lparr>con_protocol := PROTOCOL_VERSION - 1\<rparr>"

text \<open>\<^verbatim>\<open>Instant::duration_since\<close> saturates at zero, as the difference of naturals.\<close>

definition Connection_is_valid :: "nat \<Rightarrow> connection \<Rightarrow> bool" where
  "Connection_is_valid now con \<longleftrightarrow> now - con_response_time con < SERVER_TIMEOUT"

definition Connection_update_response_time :: "connection \<Rightarrow> world \<Rightarrow> connection \<times> world" where
  "Connection_update_response_time con w =
     (let (now, w) = Instant_now w in (con\<lparr>con_response_time := now\<rparr>, w))"

definition Connection_update_raw_info :: "bytes \<Rightarrow> connection \<Rightarrow> bool \<times> connection" where
  "Connection_update_raw_info buf con =
     (let con = con\<lparr>con_state := Idle\<rparr> in
      if con_data con = buf then (False, con) else (True, con\<lparr>con_data := buf\<rparr>))"

definition Connection_ping :: "connection \<Rightarrow> nat" where
  "Connection_ping con = con_response_time con - con_request_time con"

section \<open>Requests\<close>

text \<open>
  \<open>n\<close> is the size of the buffer the request is encoded in. The Source query is sent too when trace
  logging is on.
\<close>

definition GetServerInfo2_new :: get_server_info2 where
  "GetServerInfo2_new = \<lparr>gi2_challenge = None\<rparr>"

definition GetServerInfo2_with_challenge :: "u32 \<Rightarrow> get_server_info2" where
  "GetServerInfo2_with_challenge challenge = \<lparr>gi2_challenge = Some challenge\<rparr>"

definition Connection_query_info ::
  "nat \<Rightarrow> connection \<Rightarrow> world \<Rightarrow> (observer_error + unit) \<times> connection \<times> world" where
  "Connection_query_info n con w =
     (let (now, w) = Instant_now w;
          con = con\<lparr>con_request_time := now\<rparr>;
          con = (if con_state con = Idle then con\<lparr>con_state := WaitingInfo\<rparr> else con)
      in case send_unwrapped (GetServerInfo_encode \<lparr>gi_protocol = con_protocol con\<rparr> (replicate n 0))
                (con_address con) w of
           (Inl e, w) \<Rightarrow> (Inl e, con, w)
         | (Inr _, w) \<Rightarrow>
             if w_trace w then
               (let req = (case con_challenge con of
                             Some c \<Rightarrow> GetServerInfo2_with_challenge c | None \<Rightarrow> GetServerInfo2_new);
                    (r, w) = send_unwrapped (GetServerInfo2_encode req (replicate n 0)) (con_address con) w
                in (r, con, w))
             else (Inr (), con, w))"

definition Connection_query_players ::
  "nat \<Rightarrow> connection \<Rightarrow> world \<Rightarrow> (observer_error + unit) \<times> connection \<times> world" where
  "Connection_query_players n con w =
     (let con = con\<lparr>con_wait_players := True\<rparr>;
          packet = (case Option.bind (con_challenge con) GetPlayers_new of
                      Some req \<Rightarrow> GetPlayers_encode req (replicate n 0)
                    | None \<Rightarrow> GetChallenge_encode () (replicate n 0));
          (r, w) = send_unwrapped packet (con_address con) w
      in (r, con, w))"

definition Connection_query ::
  "nat \<Rightarrow> connection \<Rightarrow> world \<Rightarrow> (observer_error + unit) \<times> connection \<times> world" where
  "Connection_query n con w =
     (case Connection_query_info n con w of
        (Inl e, con, w) \<Rightarrow> (Inl e, con, w)
      | (Inr _, con, w) \<Rightarrow>
          if con_players con then Connection_query_players n con w else (Inr (), con, w))"

section \<open>Replies\<close>

text \<open>The two Source replies are decoded for the trace log only.\<close>

definition Connection_handle_packet ::
  "memchr_ops \<Rightarrow> bytes \<Rightarrow> connection \<Rightarrow> world \<Rightarrow>
     (observer_error + event option) \<times> connection \<times> world" where
  "Connection_handle_packet mc data con w =
     (case GetChallengeResponse_decode data of
        Inr response \<Rightarrow>
          (let con = con\<lparr>con_challenge := Some (gcr_challenge response)\<rparr> in
           if con_wait_players con then
             (case Connection_query_players 32 con w of
                (Inl e, con, w) \<Rightarrow> (Inl e, con, w)
              | (Inr _, con, w) \<Rightarrow> (Inr None, con, w))
           else (Inr None, con, w))
      | Inl _ \<Rightarrow>
      if starts_with GetServerInfo2Response_HEADER data then (Inr None, con, w)
      else if starts_with GetServerInfo2ResponseOld_HEADER data then (Inr None, con, w)
      else (case GetPlayersResponse_decode data of
        Inr response \<Rightarrow>
          if \<not> con_wait_players con then (Inr None, con, w)
          else (Inr (Some (EvServerPlayers (con_address con) response)),
                con\<lparr>con_wait_players := False\<rparr>, w)
      | Inl _ \<Rightarrow>
      (case GetServerInfoResponse_decode mc data of
        Inr response \<Rightarrow>
          (let (con, w) = Connection_update_response_time con w;
               ping = Connection_ping con;
               (changed, con) = Connection_update_raw_info data con
           in (Inr (Some (EvServerInfo
                 \<lparr>sie_server = con_address con, sie_ping = ping, sie_changed = changed,
                  sie_response = response\<rparr>)), con, w))
      | Inl InvalidProtocolVersion \<Rightarrow>
          if con_state con = ProtocolDetection \<and> con_protocol con = PROTOCOL_VERSION then
            (case Connection_query 512 (Connection_set_legacy_protocol con) w of
               (Inl e, con, w) \<Rightarrow> (Inl e, con, w)
             | (Inr _, con, w) \<Rightarrow> (Inr None, con, w))
          else (Inr (Some (EvServerInvalidProtocol (con_address con))), con, w)
      | Inl _ \<Rightarrow> (Inr (Some (EvServerInvalidPacket (con_address con) data)), con, w))))"

end
