(* ===== verification/Observer.thy ===== *)
theory Observer
  imports Observer_Connection
begin

text \<open>
  The observer (\<^verbatim>\<open>observer.rs\<close>): it asks master servers for lists, queries the servers it was given, and
  reports what happens as events. Its timers, the requests it owes (\<^verbatim>\<open>pending\<close>), the events it has put
  off and its connections are one state; a vector's end is the end of the list, and the hash map of
  connections is an association list in the order of its iteration.
\<close>

section \<open>Master servers, tasks and pending work\<close>

definition MASTER_INTERVAL :: nat where "MASTER_INTERVAL = 8 * 10 ^ 9"
definition SERVER_INTERVAL :: nat where "SERVER_INTERVAL = 2 * 10 ^ 9"
definition SERVER_CLEAN_INTERVAL :: nat where "SERVER_CLEAN_INTERVAL = 16 * 10 ^ 9"

record observed_master =
  om_addr :: socket_addr
  om_key :: u32

definition Master_new :: "socket_addr \<Rightarrow> observed_master" where
  "Master_new addr = \<lparr>om_addr = addr, om_key = 0\<rparr>"

text \<open>The \<^verbatim>\<open>Display\<close> of \<^verbatim>\<open>FilterKey\<close>: the filter's text with a \<^verbatim>\<open>key\<close> entry behind it.\<close>

definition FilterKey_display :: "bytes \<times> u32 \<Rightarrow> bytes" where
  "FilterKey_display fk = fst fk @ str [CHR 0x5C] @ str ''key'' @ str [CHR 0x5C] @ show_hex (unat (snd fk))"

text \<open>\<open>Inl ()\<close> is the panic of \<^verbatim>\<open>unwrap\<close>.\<close>

definition Master_encode_query_servers_packet ::
  "bytes \<Rightarrow> nat \<Rightarrow> observed_master \<Rightarrow> world \<Rightarrow> (xerror + bytes) \<times> observed_master \<times> world" where
  "Master_encode_query_servers_packet flt n m w =
     (let (key, w) = fastrand_u32 w;
          m = m\<lparr>om_key := key\<rparr>
      in (QueryServers_encode FilterKey_display (QueryServers_new (flt, om_key m)) (replicate n 0), m, w))"

record server_request =
  sr_addr :: socket_addr
  sr_players :: bool

definition Server_new :: "socket_addr \<Rightarrow> server_request" where
  "Server_new addr = \<lparr>sr_addr = addr, sr_players = False\<rparr>"

definition Server_with_players :: "bool \<Rightarrow> server_request \<Rightarrow> server_request" where
  "Server_with_players players s = s\<lparr>sr_players := players\<rparr>"

datatype delayed_event = DServerTimeout socket_addr | DServerRemove socket_addr

definition Event_from :: "delayed_event \<Rightarrow> event" where
  "Event_from e =
     (case e of DServerTimeout addr \<Rightarrow> EvServerInfoTimeout addr | DServerRemove addr \<Rightarrow> EvServerRemove addr)"

definition BUFFER_SIZE :: nat where "BUFFER_SIZE = 2048"

record task =
  tk_time :: nat
  tk_interval :: nat

definition Task_new :: "nat \<Rightarrow> nat \<Rightarrow> task" where
  "Task_new time interval = \<lparr>tk_time = time, tk_interval = interval\<rparr>"

definition Task_update_time :: "nat \<Rightarrow> task \<Rightarrow> bool \<times> task" where
  "Task_update_time now t =
     (if tk_time t \<le> now then
        (let t = t\<lparr>tk_time := tk_time t + tk_interval t\<rparr>;
             t = (if tk_time t \<le> now then t\<lparr>tk_time := now + tk_interval t\<rparr> else t)
         in (True, t))
      else (False, t))"

datatype pending = PMaster socket_addr | PServer socket_addr

section \<open>The state and its registrations\<close>

record observer =
  ob_sock :: world
  ob_filter :: bytes
  ob_masters :: "observed_master list"
  ob_query_servers_task :: task
  ob_query_info_task :: task
  ob_cleanup_task :: task
  ob_connections :: "(socket_addr \<times> connection) list"
  ob_delayed_events :: "delayed_event list"
  ob_pending :: "pending list"

definition Observer_bind :: "world \<Rightarrow> observer" where
  "Observer_bind w =
     (let (now, w) = Instant_now w in
      \<lparr>ob_sock = w, ob_filter = [], ob_masters = [],
       ob_query_servers_task = Task_new now MASTER_INTERVAL,
       ob_query_info_task = Task_new now SERVER_INTERVAL,
       ob_cleanup_task = Task_new now SERVER_CLEAN_INTERVAL,
       ob_connections = [], ob_delayed_events = [], ob_pending = []\<rparr>)"

definition set_filter_raw :: "bytes \<Rightarrow> observer \<Rightarrow> observer" where
  "set_filter_raw flt ob = ob\<lparr>ob_filter := flt\<rparr>"

definition set_filter :: "observer_filter \<Rightarrow> observer \<Rightarrow> observer" where
  "set_filter flt ob = set_filter_raw (Filter_to_raw_string flt) ob"

text \<open>\<^verbatim>\<open>Vec::swap_remove\<close>: the last element takes the place of the removed one.\<close>

definition swap_remove :: "nat \<Rightarrow> 'a list \<Rightarrow> 'a list" where
  "swap_remove i xs = (if i + 1 = length xs then butlast xs else (butlast xs)[i := last xs])"

definition remove_pending :: "pending \<Rightarrow> observer \<Rightarrow> observer" where
  "remove_pending p ob =
     (case position (\<lambda>i. i = p) (ob_pending ob) of
        Some i \<Rightarrow> ob\<lparr>ob_pending := swap_remove i (ob_pending ob)\<rparr>
      | None \<Rightarrow> ob)"

definition get_master :: "socket_addr \<Rightarrow> observer \<Rightarrow> observed_master option" where
  "get_master addr ob = find (\<lambda>m. om_addr m = addr) (ob_masters ob)"

definition insert_master :: "observed_master \<Rightarrow> observer \<Rightarrow> observer" where
  "insert_master m ob =
     (if get_master (om_addr m) ob = None
      then ob\<lparr>ob_pending := ob_pending ob @ [PMaster (om_addr m)], ob_masters := ob_masters ob @ [m]\<rparr>
      else ob)"

definition remove_master :: "socket_addr \<Rightarrow> observer \<Rightarrow> observed_master option \<times> observer" where
  "remove_master addr ob =
     (let ob = remove_pending (PMaster addr) ob in
      case position (\<lambda>m. om_addr m = addr) (ob_masters ob) of
        Some i \<Rightarrow> (Some (ob_masters ob ! i), ob\<lparr>ob_masters := swap_remove i (ob_masters ob)\<rparr>)
      | None \<Rightarrow> (None, ob))"

definition insert_server :: "server_request \<Rightarrow> observer \<Rightarrow> observer" where
  "insert_server s ob =
     (case map_of (ob_connections ob) (sr_addr s) of
        None \<Rightarrow>
          (let ob = ob\<lparr>ob_pending := ob_pending ob @ [PServer (sr_addr s)]\<rparr>;
               (con, w) = Connection_new (sr_addr s) (sr_players s) (ob_sock ob)
           in ob\<lparr>ob_sock := w, ob_connections := ob_connections ob @ [(sr_addr s, con)]\<rparr>)
      | Some _ \<Rightarrow> ob)"

text \<open>\<^verbatim>\<open>HashMap::remove\<close> and the assignment through \<^verbatim>\<open>get_mut\<close>.\<close>

definition connections_remove :: "socket_addr \<Rightarrow> (socket_addr \<times> 'c) list \<Rightarrow> (socket_addr \<times> 'c) list" where
  "connections_remove addr cs = filter (\<lambda>(a, _). a \<noteq> addr) cs"

definition connections_set :: "socket_addr \<Rightarrow> 'c \<Rightarrow> (socket_addr \<times> 'c) list \<Rightarrow> (socket_addr \<times> 'c) list" where
  "connections_set addr con cs = map (\<lambda>(a, c). (a, if a = addr then con else c)) cs"

definition remove_server :: "socket_addr \<Rightarrow> observer \<Rightarrow> observer" where
  "remove_server addr ob =
     (let ob = remove_pending (PServer addr) ob in
      ob\<lparr>ob_connections := connections_remove addr (ob_connections ob)\<rparr>)"

section \<open>Requests\<close>

text \<open>The loop over the masters: the result, the masters with their new keys and the world.\<close>

fun query_masters ::
  "bytes \<Rightarrow> pending list \<Rightarrow> observed_master list \<Rightarrow> world \<Rightarrow>
     (observer_error + unit) \<times> observed_master list \<times> world" where
  "query_masters flt pending [] w = (Inr (), [], w)"
| "query_masters flt pending (m # ms) w =
     (case Master_encode_query_servers_packet flt BUFFER_SIZE m w of
        (Inl _, m, w) \<Rightarrow> (Inl OPanic, m # ms, w)
      | (Inr packet, m, w) \<Rightarrow>
          (case (if PMaster (om_addr m) \<in> set pending then (Inr (), w)
                 else Socket_send_to packet (om_addr m) w) of
             (Inl e, w) \<Rightarrow> (Inl e, m # ms, w)
           | (Inr _, w) \<Rightarrow>
               (let (r, ms, w) = query_masters flt pending ms w in (r, m # ms, w))))"

definition query_servers_from_masters :: "observer \<Rightarrow> (observer_error + unit) \<times> observer" where
  "query_servers_from_masters ob =
     (let (r, ms, w) = query_masters (ob_filter ob) (ob_pending ob) (ob_masters ob) (ob_sock ob)
      in (r, ob\<lparr>ob_masters := ms, ob_sock := w\<rparr>))"

text \<open>The loop over the connections, which collects the events to put off.\<close>

fun query_connections ::
  "nat \<Rightarrow> pending list \<Rightarrow> (socket_addr \<times> connection) list \<Rightarrow> delayed_event list \<Rightarrow> world \<Rightarrow>
     (observer_error + unit) \<times> (socket_addr \<times> connection) list \<times> delayed_event list \<times> world" where
  "query_connections now pending [] evs w = (Inr (), [], evs, w)"
| "query_connections now pending ((addr, con) # cs) evs w =
     (if \<not> Connection_is_valid now con \<or> PServer addr \<in> set pending then
        (let (r, cs, evs, w) = query_connections now pending cs evs w in (r, (addr, con) # cs, evs, w))
      else
        (let evs = (if con_state con \<noteq> Idle then evs @ [DServerTimeout addr] else evs) in
         case Connection_query BUFFER_SIZE con w of
           (Inl e, con, w) \<Rightarrow> (Inl e, (addr, con) # cs, evs, w)
         | (Inr _, con, w) \<Rightarrow>
             (let (r, cs, evs, w) = query_connections now pending cs evs w
              in (r, (addr, con) # cs, evs, w))))"

definition query_info_from_servers :: "observer \<Rightarrow> (observer_error + unit) \<times> observer" where
  "query_info_from_servers ob =
     (let (now, w) = Instant_now (ob_sock ob);
          (r, cs, evs, w) =
            query_connections now (ob_pending ob) (ob_connections ob) (ob_delayed_events ob) w
      in (r, ob\<lparr>ob_connections := cs, ob_delayed_events := evs, ob_sock := w\<rparr>))"

section \<open>Replies\<close>

definition handle_master_packet ::
  "memchr_ops \<Rightarrow> socket_addr \<Rightarrow> bytes \<Rightarrow> u32 \<Rightarrow> event option" where
  "handle_master_packet mc from_addr data key =
     (case QueryServersResponse_decode data of
        Inr response \<Rightarrow>
          if qsr_key response \<noteq> Some key then None
          else Some (EvServerList \<lparr>sl_master = from_addr, sl_response = response\<rparr>)
      | Inl _ \<Rightarrow>
          (case GetServerInfoResponse_decode mc data of
             Inr response \<Rightarrow>
               Some (EvServerInfo \<lparr>sie_server = from_addr, sie_ping = 0, sie_changed = True,
                  sie_response = response\<rparr>)
           | Inl _ \<Rightarrow> Some (EvMasterInvalidPacket from_addr data)))"

definition is_invalid_protocol :: "observer_error + event option \<Rightarrow> bool" where
  "is_invalid_protocol r = (case r of Inr (Some (EvServerInvalidProtocol _)) \<Rightarrow> True | _ \<Rightarrow> False)"

definition handle_server_packet ::
  "memchr_ops \<Rightarrow> socket_addr \<Rightarrow> bytes \<Rightarrow> observer \<Rightarrow> (observer_error + event option) \<times> observer" where
  "handle_server_packet mc from_addr data ob =
     (case map_of (ob_connections ob) from_addr of
        Some con \<Rightarrow>
          (let (result, con, w) = Connection_handle_packet mc data con (ob_sock ob);
               ob = ob\<lparr>ob_connections := connections_set from_addr con (ob_connections ob), ob_sock := w\<rparr>
           in (result,
               if is_invalid_protocol result
               then ob\<lparr>ob_connections := connections_remove from_addr (ob_connections ob)\<rparr> else ob))
      | None \<Rightarrow> (Inr None, ob))"

definition Observer_handle_packet ::
  "memchr_ops \<Rightarrow> socket_addr \<Rightarrow> bytes \<Rightarrow> observer \<Rightarrow> (observer_error + event option) \<times> observer" where
  "Observer_handle_packet mc from_addr buffer ob =
     (case get_master from_addr ob of
        Some m \<Rightarrow> (Inr (handle_master_packet mc from_addr buffer (om_key m)), ob)
      | None \<Rightarrow> handle_server_packet mc from_addr buffer ob)"

text \<open>The loop of \<^verbatim>\<open>receive\<close>: each turn waits for a datagram, at most until the deadline.\<close>

partial_function (option) receive_until ::
  "memchr_ops \<Rightarrow> nat \<Rightarrow> nat \<Rightarrow> observer \<Rightarrow> ((observer_error + event option) \<times> observer) option" where
  "receive_until mc deadline now ob =
     (if now < deadline then
        (case Socket_recv_from (ob_sock ob) of (result, w) \<Rightarrow>
         (case result of
            RecvFrom data from_addr \<Rightarrow>
              (case Observer_handle_packet mc from_addr data (ob\<lparr>ob_sock := w\<rparr>) of (r, ob') \<Rightarrow>
               (case r of
                  Inl e \<Rightarrow> Some (Inl e, ob')
                | Inr event \<Rightarrow>
                    (case event of
                       Some ev \<Rightarrow> Some (Inr (Some ev), ob')
                     | None \<Rightarrow>
                         (case Instant_now (ob_sock ob') of (now', w') \<Rightarrow>
                            receive_until mc deadline now' (ob'\<lparr>ob_sock := w'\<rparr>)))))
          | RecvAddrInUse \<Rightarrow> Some (Inr None, ob\<lparr>ob_sock := w\<rparr>)
          | RecvWouldBlock \<Rightarrow> Some (Inr None, ob\<lparr>ob_sock := w\<rparr>)
          | RecvFailed \<Rightarrow> Some (Inl OIo, ob\<lparr>ob_sock := w\<rparr>)))
      else Some (Inr None, ob))"

definition receive_event ::
  "memchr_ops \<Rightarrow> nat option \<Rightarrow> observer \<Rightarrow> ((observer_error + event option) \<times> observer) option" where
  "receive_event mc user_deadline ob =
     (let deadline = min (tk_time (ob_query_servers_task ob)) (tk_time (ob_query_info_task ob));
          deadline = (case user_deadline of None \<Rightarrow> deadline | Some d \<Rightarrow> min deadline d);
          (now, w) = Instant_now (ob_sock ob)
      in receive_until mc deadline now (ob\<lparr>ob_sock := w\<rparr>))"

section \<open>Pending requests and periodic tasks\<close>

text \<open>The query of the first master with the address, as in the loop that breaks there.\<close>

fun query_pending_master ::
  "bytes \<Rightarrow> socket_addr \<Rightarrow> observed_master list \<Rightarrow> world \<Rightarrow>
     (observer_error + unit) \<times> observed_master list \<times> world" where
  "query_pending_master flt addr [] w = (Inr (), [], w)"
| "query_pending_master flt addr (m # ms) w =
     (if om_addr m = addr then
        (case Master_encode_query_servers_packet flt BUFFER_SIZE m w of
           (Inl _, m, w) \<Rightarrow> (Inl OPanic, m # ms, w)
         | (Inr packet, m, w) \<Rightarrow>
             (let (r, w) = Socket_send_to packet (om_addr m) w in (r, m # ms, w)))
      else (let (r, ms, w) = query_pending_master flt addr ms w in (r, m # ms, w)))"

definition process_one :: "pending \<Rightarrow> observer \<Rightarrow> (observer_error + unit) \<times> observer" where
  "process_one p ob =
     (case p of
        PMaster addr \<Rightarrow>
          (let (r, ms, w) = query_pending_master (ob_filter ob) addr (ob_masters ob) (ob_sock ob)
           in (r, ob\<lparr>ob_masters := ms, ob_sock := w\<rparr>))
      | PServer addr \<Rightarrow>
          (case map_of (ob_connections ob) addr of
             None \<Rightarrow> (Inr (), ob)
           | Some con \<Rightarrow>
               (let (r, con, w) = Connection_query BUFFER_SIZE con (ob_sock ob)
                in (r, ob\<lparr>ob_connections := connections_set addr con (ob_connections ob), ob_sock := w\<rparr>))))"

text \<open>\<open>ps\<close> is the vector of pending requests from its end, where \<^verbatim>\<open>pop\<close> takes them.\<close>

fun process_pending_from :: "pending list \<Rightarrow> observer \<Rightarrow> (observer_error + unit) \<times> observer" where
  "process_pending_from [] ob = (Inr (), ob\<lparr>ob_pending := []\<rparr>)"
| "process_pending_from (p # ps) ob =
     (case process_one p (ob\<lparr>ob_pending := rev ps\<rparr>) of
        (Inl e, ob) \<Rightarrow> (Inl e, ob)
      | (Inr _, ob) \<Rightarrow> process_pending_from ps ob)"

definition process_pending :: "observer \<Rightarrow> (observer_error + unit) \<times> observer" where
  "process_pending ob = process_pending_from (rev (ob_pending ob)) ob"

definition cleanup_servers :: "nat \<Rightarrow> observer \<Rightarrow> observer" where
  "cleanup_servers now ob =
     ob\<lparr>ob_delayed_events := ob_delayed_events ob @
          map (\<lambda>(a, _). DServerRemove a) (filter (\<lambda>(_, c). \<not> Connection_is_valid now c) (ob_connections ob)),
        ob_connections := filter (\<lambda>(_, c). Connection_is_valid now c) (ob_connections ob)\<rparr>"

definition process_tasks :: "nat \<Rightarrow> observer \<Rightarrow> (observer_error + unit) \<times> observer" where
  "process_tasks now ob =
     (let (due, t) = Task_update_time now (ob_query_servers_task ob);
          ob = ob\<lparr>ob_query_servers_task := t\<rparr>
      in case (if due then query_servers_from_masters ob else (Inr (), ob)) of
           (Inl e, ob) \<Rightarrow> (Inl e, ob)
         | (Inr _, ob) \<Rightarrow>
      (let (due, t) = Task_update_time now (ob_query_info_task ob);
           ob = ob\<lparr>ob_query_info_task := t\<rparr>
       in case (if due then query_info_from_servers ob else (Inr (), ob)) of
            (Inl e, ob) \<Rightarrow> (Inl e, ob)
          | (Inr _, ob) \<Rightarrow>
      (let (due, t) = Task_update_time now (ob_cleanup_task ob);
           ob = ob\<lparr>ob_cleanup_task := t\<rparr>
       in (Inr (), if due then cleanup_servers now ob else ob))))"

section \<open>Waiting for an event\<close>

definition pop_delayed :: "observer \<Rightarrow> (event \<times> observer) option" where
  "pop_delayed ob =
     (if ob_delayed_events ob = [] then None
      else Some (Event_from (last (ob_delayed_events ob)),
                 ob\<lparr>ob_delayed_events := butlast (ob_delayed_events ob)\<rparr>))"

text \<open>One turn of the loop up to the call of \<^verbatim>\<open>receive\<close>: \<open>Inl\<close> the result it returns, \<open>Inr\<close> the state to
  receive in.\<close>

definition wait_turn :: "nat option \<Rightarrow> observer \<Rightarrow> (observer_error + event) \<times> observer + observer" where
  "wait_turn deadline ob =
     (let (now, w) = Instant_now (ob_sock ob);
          ob = ob\<lparr>ob_sock := w\<rparr>
      in if (case deadline of Some d \<Rightarrow> d \<le> now | None \<Rightarrow> False) then Inl (Inr EvTimeout, ob)
         else case process_tasks now ob of
           (Inl e, ob) \<Rightarrow> Inl (Inl e, ob)
         | (Inr _, ob) \<Rightarrow>
             (case process_pending ob of
                (Inl e, ob) \<Rightarrow> Inl (Inl e, ob)
              | (Inr _, ob) \<Rightarrow>
                  (case pop_delayed ob of
                     Some (ev, ob) \<Rightarrow> Inl (Inr ev, ob)
                   | None \<Rightarrow> Inr ob)))"

partial_function (option) wait_loop ::
  "memchr_ops \<Rightarrow> nat option \<Rightarrow> observer \<Rightarrow> ((observer_error + event) \<times> observer) option" where
  "wait_loop mc deadline ob =
     (case wait_turn deadline ob of
        Inl result \<Rightarrow> Some result
      | Inr ob' \<Rightarrow>
          Option.bind (receive_event mc deadline ob') (\<lambda>received.
            (case fst received of
               Inl e \<Rightarrow> Some (Inl e, snd received)
             | Inr event \<Rightarrow>
                 (case event of
                    Some ev \<Rightarrow> Some (Inr ev, snd received)
                  | None \<Rightarrow> wait_loop mc deadline (snd received)))))"

definition wait_event ::
  "memchr_ops \<Rightarrow> nat option \<Rightarrow> observer \<Rightarrow> ((observer_error + event) \<times> observer) option" where
  "wait_event mc timeout ob =
     (case pop_delayed ob of
        Some (ev, ob) \<Rightarrow> Some (Inr ev, ob)
      | None \<Rightarrow>
          (case timeout of
             None \<Rightarrow> wait_loop mc None ob
           | Some t \<Rightarrow>
               (let (now, w) = Instant_now (ob_sock ob)
                in wait_loop mc (Some (now + t)) (ob\<lparr>ob_sock := w\<rparr>))))"

end
