(* ===== verification/Observer_Facts.thy ===== *)
theory Observer_Facts
  imports Observer "HOL-Library.Multiset"
begin

text \<open>
  Lemmas about the observer. Every operation is described once by what it does to the state
  (\<open>step_of\<close> facts: addresses and filter are kept, the clock only moves on, no panic); the locale
  \<open>observer_loop\<close> carries such facts through the event loop.
\<close>

section \<open>Requests fit their buffers\<close>

lemma length_show_hex_u32: "length (show_hex (unat (w :: u32))) \<le> 8"
  using length_digits [of 16 "unat w" 7] unsigned_less [of w] by (simp add: show_hex_def)

lemma GetServerInfo_fits: "12 \<le> n \<Longrightarrow> GetServerInfo_encode p (replicate n 0) = Inr (GetServerInfo_wire p)"
  using length_show_word(1) [of "gi_protocol p"]
  by (simp add: GetServerInfo_encode_wire GetServerInfo_wire_def GetServerInfo_HEADER_def)

lemma GetServerInfo2_fits: "29 \<le> n \<Longrightarrow> GetServerInfo2_encode p (replicate n 0) = Inr (GetServerInfo2_wire p)"
  by (simp add: GetServerInfo2_encode_wire GetServerInfo2_wire_def GetServerInfo2_HEADER_def split: option.split)

lemma GetPlayers_fits: "9 \<le> n \<Longrightarrow> GetPlayers_encode p (replicate n 0) = Inr (GetPlayers_wire p)"
  by (simp add: GetPlayers_encode_wire GetPlayers_wire_def GetPlayers_HEADER_def)

lemma GetChallenge_fits: "9 \<le> n \<Longrightarrow> GetChallenge_encode () (replicate n 0) = Inr GetChallenge_HEADER"
  by (simp add: GetChallenge_encode_def encode_with_writes [OF writes_put_bytes] GetChallenge_HEADER_def)

definition query_packet :: "bytes \<Rightarrow> u32 \<Rightarrow> bytes" where
  "query_packet flt key = QueryServers_wire FilterKey_display (QueryServers_new (flt, key))"

lemma printable_FIRST_ADDRESS: "printable FIRST_ADDRESS"
  by (simp add: printable_def FIRST_ADDRESS_def str_def is_printable_def)

lemma query_packet_eq:
  "query_packet flt key =
     QueryServers_HEADER @ Region_as_u8 RestOfTheWorld # FIRST_ADDRESS @ 0 # FilterKey_display (flt, key) @ [0]"
  using printable_FIRST_ADDRESS
  by (simp add: query_packet_def QueryServers_wire_def QueryServers_new_def
      str_format_bytes_printable printable_def)

lemma length_query_packet: "length (query_packet flt key) \<le> length flt + 26"
  using length_show_hex_u32 [of key] by (simp add: query_packet_eq FilterKey_display_def FIRST_ADDRESS_def QueryServers_HEADER_def)

text \<open>The longest filter for which a query fits the buffer whatever the key.\<close>

definition filter_fits :: "bytes \<Rightarrow> bool" where
  "filter_fits flt \<longleftrightarrow> length flt + 26 \<le> BUFFER_SIZE"

lemma Master_encode_fits:
  "filter_fits flt \<Longrightarrow> Master_encode_query_servers_packet flt BUFFER_SIZE m w =
     (let key = w_rng w (w_rng_pos w) in
      (Inr (query_packet flt key), m\<lparr>om_key := key\<rparr>, w\<lparr>w_rng_pos := Suc (w_rng_pos w)\<rparr>))"
  using length_query_packet [of flt "w_rng w (w_rng_pos w)"]
  by (simp add: Master_encode_query_servers_packet_def fastrand_u32_def QueryServers_encode_wire Let_def
      filter_fits_def flip: query_packet_def)

section \<open>The world moves on\<close>

text \<open>What no operation changes and the clock position, which only grows.\<close>

definition later :: "world \<Rightarrow> world \<Rightarrow> bool" where
  "later w w' \<longleftrightarrow> w_clk w' = w_clk w \<and> w_clk_pos w \<le> w_clk_pos w'"

lemma later_refl [simp]: "later w w"
  by (simp add: later_def)

lemma later_trans [trans]: "later u v \<Longrightarrow> later v w \<Longrightarrow> later u w"
  by (simp add: later_def)

lemma Instant_now_later: "Instant_now w = (now, w') \<Longrightarrow> later w w' \<and> now = w_clk w (w_clk_pos w) \<and> w_clk_pos w < w_clk_pos w'"
  by (auto simp: Instant_now_def later_def)

lemma Socket_send_to_later: "Socket_send_to s a w = (r, w') \<Longrightarrow> later w w' \<and> r \<noteq> Inl OPanic"
  by (auto simp: Socket_send_to_def later_def split: if_splits)

lemma send_unwrapped_later:
  "send_unwrapped packet a w = (r, w') \<Longrightarrow> later w w' \<and> (is_ok packet \<longrightarrow> r \<noteq> Inl OPanic)"
  by (auto simp: send_unwrapped_def dest: Socket_send_to_later split: sum.splits)

lemma Socket_recv_from_later: "Socket_recv_from w = (r, w') \<Longrightarrow> later w w'"
  by (auto simp: Socket_recv_from_def later_def)

section \<open>Connections\<close>

text \<open>
  The connection's invariant: it keeps its address, knows only the two protocol versions and has no
  information as long as the version is unknown.
\<close>

definition con_ok :: "socket_addr \<Rightarrow> connection \<Rightarrow> bool" where
  "con_ok a con \<longleftrightarrow> con_address con = a \<and> con_protocol con \<in> {PROTOCOL_VERSION, PROTOCOL_VERSION - 1} \<and>
     (con_state con = ProtocolDetection \<longrightarrow> con_data con = [])"

lemma Connection_query_info_step:
  assumes "Connection_query_info n con w = (r, con', w')" "29 \<le> n"
  shows "later w w' \<and> r \<noteq> Inl OPanic \<and> (con_ok a con \<longrightarrow> con_ok a con')"
  using assms
  by (auto simp: Connection_query_info_def Instant_now_def Let_def GetServerInfo_fits GetServerInfo2_fits con_ok_def
      later_def split: prod.splits sum.splits if_splits dest!: send_unwrapped_later)

lemma Connection_query_players_step:
  assumes "Connection_query_players n con w = (r, con', w')" "9 \<le> n"
  shows "later w w' \<and> r \<noteq> Inl OPanic \<and> (con_ok a con \<longrightarrow> con_ok a con')"
  using assms
  by (auto simp: Connection_query_players_def Let_def GetPlayers_fits GetChallenge_fits con_ok_def
      split: prod.splits option.splits dest!: send_unwrapped_later)

lemma Connection_query_step:
  assumes "Connection_query n con w = (r, con', w')" "29 \<le> n"
  shows "later w w' \<and> r \<noteq> Inl OPanic \<and> (con_ok a con \<longrightarrow> con_ok a con')"
proof -
  obtain r1 con1 w1 where q: "Connection_query_info n con w = (r1, con1, w1)"
    by (metis prod_cases3)
  note i = Connection_query_info_step [OF q assms(2), of a]
  show ?thesis
    using assms i Connection_query_players_step [of n con1 w1 r con' w' a]
    by (auto simp: Connection_query_def q intro: later_trans split: sum.splits if_splits)
qed

lemma Connection_handle_packet_step:
  assumes "Connection_handle_packet mc data con w = (r, con', w')"
  shows "later w w' \<and> r \<noteq> Inl OPanic \<and> (con_ok a con \<longrightarrow> con_ok a con')"
proof (cases "GetChallengeResponse_decode data")
  case (Inr response)
  show ?thesis
    using assms Inr Connection_query_players_step [of 32 "con\<lparr>con_challenge := Some (gcr_challenge response)\<rparr>" w _ con' w' a]
    by (auto simp: Connection_handle_packet_def con_ok_def Let_def split: prod.splits sum.splits if_splits)
next
  case (Inl e)
  show ?thesis
  proof (cases "GetServerInfoResponse_decode mc data")
    case (Inr response)
    then show ?thesis
      using assms Inl
      by (auto simp: Connection_handle_packet_def Connection_update_response_time_def Connection_update_raw_info_def
          Instant_now_def later_def con_ok_def Let_def split: prod.splits sum.splits if_splits)
  next
    case (Inl e')
    show ?thesis
      using assms \<open>GetChallengeResponse_decode data = Inl e\<close> Inl
        Connection_query_step [of 512 "Connection_set_legacy_protocol con" w _ con' w' a]
      by (auto simp: Connection_handle_packet_def con_ok_def Connection_set_legacy_protocol_def Let_def
          split: prod.splits sum.splits if_splits xerror.splits)
  qed
qed

section \<open>Steps of the observer\<close>

text \<open>
  The invariant of the observer: master servers and connections are keyed by distinct addresses and each
  connection is in order.
\<close>

definition ob_ok :: "observer \<Rightarrow> bool" where
  "ob_ok ob \<longleftrightarrow> distinct (map om_addr (ob_masters ob)) \<and> distinct (map fst (ob_connections ob)) \<and>
     (\<forall>(a, con) \<in> set (ob_connections ob). con_ok a con)"

text \<open>A server is known, or its removal is waiting to be reported.\<close>

definition known :: "socket_addr \<Rightarrow> observer \<Rightarrow> bool" where
  "known a ob \<longleftrightarrow> a \<in> fst ` set (ob_connections ob) \<or> DServerRemove a \<in> set (ob_delayed_events ob)"

text \<open>What every operation of the loop does.\<close>

definition step_of :: "observer \<Rightarrow> observer_error + 'a \<Rightarrow> observer \<Rightarrow> bool" where
  "step_of ob r ob' \<longleftrightarrow>
     ob_filter ob' = ob_filter ob \<and> map om_addr (ob_masters ob') = map om_addr (ob_masters ob) \<and>
     later (ob_sock ob) (ob_sock ob') \<and> (filter_fits (ob_filter ob) \<longrightarrow> r \<noteq> Inl OPanic) \<and>
     (ob_ok ob \<longrightarrow> ob_ok ob')"

lemma step_of_trans:
  "step_of ob (Inr x) ob' \<Longrightarrow> step_of ob' r ob'' \<Longrightarrow> step_of ob r ob''"
  by (auto simp: step_of_def intro: later_trans)

lemma step_of_refl [simp]: "step_of ob (Inr x) ob"
  by (simp add: step_of_def)

lemma query_masters_step:
  "query_masters flt pending ms w = (r, ms', w') \<Longrightarrow>
     map om_addr ms' = map om_addr ms \<and> later w w' \<and> (filter_fits flt \<longrightarrow> r \<noteq> Inl OPanic)"
proof (induction flt pending ms w arbitrary: r ms' w' rule: query_masters.induct)
  case (2 flt pending m ms w)
  obtain e m1 w1 where enc: "Master_encode_query_servers_packet flt BUFFER_SIZE m w = (e, m1, w1)"
    by (metis prod_cases3)
  have m1: "om_addr m1 = om_addr m" "later w w1"
    using enc by (auto simp: Master_encode_query_servers_packet_def fastrand_u32_def later_def)
  show ?case
  proof (cases e)
    case (Inl x)
    then show ?thesis
      using "2.prems" enc m1 by (auto simp: Master_encode_fits Let_def)
  next
    case (Inr packet)
    obtain s w2 where snd: "(if PMaster (om_addr m1) \<in> set pending then (Inr (), w1)
        else Socket_send_to packet (om_addr m1) w1) = (s, w2)" by (metis surj_pair)
    have w2: "later w1 w2" "s \<noteq> Inl OPanic"
      using snd Socket_send_to_later [of packet "om_addr m1" w1 s w2] by (auto split: if_splits)
    show ?thesis
    proof (cases s)
      case (Inl x)
      with "2.prems" enc Inr snd m1 w2 show ?thesis by (auto intro: later_trans)
    next
      case s: (Inr u)
      obtain r3 ms3 w3 where rest: "query_masters flt pending ms w2 = (r3, ms3, w3)" by (metis prod_cases3)
      note ih = "2.IH" [OF enc [symmetric] Inr refl snd [symmetric] s rest]
      with "2.prems" enc Inr snd s m1 w2 rest show ?thesis by (auto intro: later_trans)
    qed
  qed
qed simp

lemma query_connections_step:
  "query_connections now pending cs evs w = (r, cs', evs', w') \<Longrightarrow>
     map fst cs' = map fst cs \<and> later w w' \<and> r \<noteq> Inl OPanic \<and> set evs \<subseteq> set evs' \<and>
     ((\<forall>(a, con) \<in> set cs. con_ok a con) \<longrightarrow> (\<forall>(a, con) \<in> set cs'. con_ok a con))"
proof (induction now pending cs evs w arbitrary: r cs' evs' w' rule: query_connections.induct)
  case (2 now pending addr con cs evs w)
  show ?case
  proof (cases "\<not> Connection_is_valid now con \<or> PServer addr \<in> set pending")
    case True
    obtain r3 cs3 evs3 w3 where rest: "query_connections now pending cs evs w = (r3, cs3, evs3, w3)"
      by (metis prod_cases4)
    from "2.IH"(1) [OF True rest] "2.prems" True rest show ?thesis by auto
  next
    case False
    let ?evs = "if con_state con \<noteq> Idle then evs @ [DServerTimeout addr] else evs"
    obtain s con1 w1 where q: "Connection_query BUFFER_SIZE con w = (s, con1, w1)" by (metis prod_cases3)
    have c: "later w w1" "s \<noteq> Inl OPanic" "con_ok addr con \<longrightarrow> con_ok addr con1"
      using Connection_query_step [OF q, of addr] by (simp_all add: BUFFER_SIZE_def)
    show ?thesis
    proof (cases s)
      case (Inl x)
      with "2.prems" False q c show ?thesis by (auto simp: Let_def split: if_splits)
    next
      case (Inr u)
      obtain r3 cs3 evs3 w3 where rest: "query_connections now pending cs ?evs w1 = (r3, cs3, evs3, w3)"
        by (metis prod_cases4)
      note ih = "2.IH"(2) [OF False refl q [symmetric] Inr refl rest]
      from "2.prems" False q Inr rest
      have eqs: "r = r3" "cs' = (addr, con1) # cs3" "evs' = evs3" "w' = w3"
        by (simp_all add: Let_def)
      from ih have "set evs \<subseteq> set evs3" by (auto split: if_splits)
      with ih c show ?thesis unfolding eqs by (auto intro: later_trans)
    qed
  qed
qed simp

lemma connections_set_fst [simp]: "map fst (connections_set a con cs) = map fst cs"
  by (induction cs) (auto simp: connections_set_def)

lemma connections_set_ok:
  assumes "con_ok a con'" "\<forall>(b, con) \<in> set cs. con_ok b con"
  shows "\<forall>(b, con) \<in> set (connections_set a con' cs). con_ok b con"
  using assms by (auto simp: connections_set_def)

lemma query_servers_from_masters_step:
  assumes "query_servers_from_masters ob = (r, ob')"
  shows "step_of ob r ob' \<and> (known a ob \<longrightarrow> known a ob')"
proof -
  obtain s ms w where q: "query_masters (ob_filter ob) (ob_pending ob) (ob_masters ob) (ob_sock ob) = (s, ms, w)"
    by (metis prod_cases3)
  show ?thesis
    using assms query_masters_step [OF q]
    by (auto simp: query_servers_from_masters_def q step_of_def ob_ok_def known_def)
qed

lemma query_info_from_servers_step:
  assumes "query_info_from_servers ob = (r, ob')"
  shows "step_of ob r ob' \<and> (known a ob \<longrightarrow> known a ob')"
proof -
  obtain now w where t: "Instant_now (ob_sock ob) = (now, w)" by (metis surj_pair)
  obtain s cs evs w2 where q:
    "query_connections now (ob_pending ob) (ob_connections ob) (ob_delayed_events ob) w = (s, cs, evs, w2)"
    by (metis prod_cases4)
  note c = query_connections_step [OF q]
  have keys: "fst ` set cs = fst ` set (ob_connections ob)"
    using c by (metis list.set_map)
  have ob': "r = s" "ob' = ob\<lparr>ob_connections := cs, ob_delayed_events := evs, ob_sock := w2\<rparr>"
    using assms by (simp_all add: query_info_from_servers_def t q)
  show ?thesis
    using c keys Instant_now_later [OF t] unfolding ob'
    by (auto simp: step_of_def ob_ok_def known_def intro: later_trans)
qed

lemma cleanup_servers_step:
  "step_of ob (Inr x) (cleanup_servers now ob) \<and> (known a ob \<longrightarrow> known a (cleanup_servers now ob))"
  by (force simp: step_of_def cleanup_servers_def ob_ok_def known_def distinct_map_filter)

lemma step_of_tasks [simp]:
  "step_of (ob\<lparr>ob_query_servers_task := t\<rparr>) r ob' \<longleftrightarrow> step_of ob r ob'"
  "step_of (ob\<lparr>ob_query_info_task := t\<rparr>) r ob' \<longleftrightarrow> step_of ob r ob'"
  "step_of (ob\<lparr>ob_cleanup_task := t\<rparr>) r ob' \<longleftrightarrow> step_of ob r ob'"
  "known a (ob\<lparr>ob_query_servers_task := t\<rparr>) \<longleftrightarrow> known a ob"
  "known a (ob\<lparr>ob_query_info_task := t\<rparr>) \<longleftrightarrow> known a ob"
  "known a (ob\<lparr>ob_cleanup_task := t\<rparr>) \<longleftrightarrow> known a ob"
  by (simp_all add: step_of_def ob_ok_def known_def)

lemma process_tasks_step:
  assumes "process_tasks now ob = (r, ob')"
  shows "step_of ob r ob' \<and> (known a ob \<longrightarrow> known a ob')"
proof -
  obtain due1 t1 where t1: "Task_update_time now (ob_query_servers_task ob) = (due1, t1)" by (metis surj_pair)
  let ?ob1 = "ob\<lparr>ob_query_servers_task := t1\<rparr>"
  obtain r2 ob2 where q1: "(if due1 then query_servers_from_masters ?ob1 else (Inr (), ?ob1)) = (r2, ob2)"
    by (metis surj_pair)
  have s1: "step_of ob r2 ob2 \<and> (known a ob \<longrightarrow> known a ob2)"
    using q1 query_servers_from_masters_step [of ?ob1 r2 ob2 a] by (auto split: if_splits simp: step_of_def ob_ok_def)
  show ?thesis
  proof (cases r2)
    case (Inl e)
    with assms s1 show ?thesis by (simp add: process_tasks_def t1 q1)
  next
    case (Inr u)
    obtain due2 t2 where t2: "Task_update_time now (ob_query_info_task ob2) = (due2, t2)" by (metis surj_pair)
    let ?ob2 = "ob2\<lparr>ob_query_info_task := t2\<rparr>"
    obtain r3 ob3 where q2: "(if due2 then query_info_from_servers ?ob2 else (Inr (), ?ob2)) = (r3, ob3)"
      by (metis surj_pair)
    have s2: "step_of ob2 r3 ob3 \<and> (known a ob2 \<longrightarrow> known a ob3)"
      using q2 query_info_from_servers_step [of ?ob2 r3 ob3 a] by (auto split: if_splits simp: step_of_def ob_ok_def)
    show ?thesis
    proof (cases r3)
      case (Inl e)
      with assms Inr s1 s2 show ?thesis
        by (simp add: process_tasks_def t1 q1 t2 q2) (auto simp: step_of_def intro: later_trans)
    next
      case r3: (Inr u')
      obtain due3 t3 where t3: "Task_update_time now (ob_cleanup_task ob3) = (due3, t3)" by (metis surj_pair)
      let ?ob3 = "ob3\<lparr>ob_cleanup_task := t3\<rparr>"
      have r: "r = Inr ()" "ob' = (if due3 then cleanup_servers now ?ob3 else ?ob3)"
        using assms Inr r3 by (auto simp: process_tasks_def t1 q1 t2 q2 t3 Let_def)
      have "step_of ob3 r ob' \<and> (known a ob3 \<longrightarrow> known a ob')"
        using cleanup_servers_step [of ?ob3 "()" now a] unfolding r by (auto simp: step_of_def ob_ok_def)
      with s1 s2 Inr r3 show ?thesis by (meson step_of_trans)
    qed
  qed
qed

lemma query_pending_master_step:
  "query_pending_master flt addr ms w = (r, ms', w') \<Longrightarrow>
     map om_addr ms' = map om_addr ms \<and> later w w' \<and> (filter_fits flt \<longrightarrow> r \<noteq> Inl OPanic)"
proof (induction flt addr ms w arbitrary: r ms' w' rule: query_pending_master.induct)
  case (2 flt addr m ms w)
  obtain e m1 w1 where enc: "Master_encode_query_servers_packet flt BUFFER_SIZE m w = (e, m1, w1)"
    by (metis prod_cases3)
  have m1: "om_addr m1 = om_addr m" "later w w1"
    using enc by (auto simp: Master_encode_query_servers_packet_def fastrand_u32_def later_def)
  show ?case
  proof (cases "om_addr m = addr")
    case True
    show ?thesis
    proof (cases e)
      case (Inl x)
      with "2.prems" True enc m1 show ?thesis by (auto simp: Master_encode_fits Let_def)
    next
      case (Inr packet)
      obtain s w2 where snd: "Socket_send_to packet (om_addr m1) w1 = (s, w2)" by (metis surj_pair)
      with "2.prems" True enc Inr m1 Socket_send_to_later [OF snd] show ?thesis by (auto intro: later_trans)
    qed
  next
    case False
    obtain r3 ms3 w3 where rest: "query_pending_master flt addr ms w = (r3, ms3, w3)" by (metis prod_cases3)
    from "2.IH" [OF False rest] "2.prems" False rest show ?thesis by auto
  qed
qed simp

lemma process_one_step:
  assumes "process_one p ob = (r, ob')"
  shows "step_of ob r ob' \<and> (known a ob \<longrightarrow> known a ob') \<and> ob_pending ob' = ob_pending ob"
proof (cases p)
  case (PMaster addr)
  obtain s ms w where q: "query_pending_master (ob_filter ob) addr (ob_masters ob) (ob_sock ob) = (s, ms, w)"
    by (metis prod_cases3)
  show ?thesis
    using assms query_pending_master_step [OF q] PMaster
    by (auto simp: process_one_def q step_of_def ob_ok_def known_def)
next
  case (PServer addr)
  show ?thesis
  proof (cases "map_of (ob_connections ob) addr")
    case None
    with assms PServer show ?thesis by (auto simp: process_one_def)
  next
    case (Some con)
    obtain s con1 w where q: "Connection_query BUFFER_SIZE con (ob_sock ob) = (s, con1, w)" by (metis prod_cases3)
    have c: "later (ob_sock ob) w" "s \<noteq> Inl OPanic" "con_ok addr con \<longrightarrow> con_ok addr con1"
      using Connection_query_step [OF q, of addr] by (simp_all add: BUFFER_SIZE_def)
    have ob': "r = s" "ob' = ob\<lparr>ob_connections := connections_set addr con1 (ob_connections ob), ob_sock := w\<rparr>"
      using assms PServer Some by (simp_all add: process_one_def q)
    have keys: "fst ` set (connections_set addr con1 (ob_connections ob)) = fst ` set (ob_connections ob)"
      by (metis connections_set_fst list.set_map)
    have "con_ok addr con" if "ob_ok ob"
      using that map_of_SomeD [OF Some] by (auto simp: ob_ok_def)
    then have "ob_ok ob \<longrightarrow> ob_ok ob'"
      using c(3) connections_set_ok [of addr con1 "ob_connections ob"] by (auto simp: ob_ok_def ob')
    with c(1,2) keys show ?thesis by (simp add: step_of_def known_def ob')
  qed
qed

lemma process_pending_from_step:
  "process_pending_from ps ob = (r, ob') \<Longrightarrow> step_of ob r ob' \<and> (known a ob \<longrightarrow> known a ob')"
proof (induction ps ob rule: process_pending_from.induct)
  case (1 ob)
  then show ?case by (auto simp: step_of_def ob_ok_def known_def)
next
  case (2 p ps ob)
  obtain s ob1 where one: "process_one p (ob\<lparr>ob_pending := rev ps\<rparr>) = (s, ob1)" by (metis surj_pair)
  have s1: "step_of ob s ob1 \<and> (known a ob \<longrightarrow> known a ob1)"
    using process_one_step [OF one, of a] by (auto simp: step_of_def ob_ok_def known_def)
  show ?case
  proof (cases s)
    case (Inl e)
    with 2 one s1 show ?thesis by simp
  next
    case (Inr u)
    from 2(1) [OF one [symmetric] Inr] 2(2) one Inr s1 show ?thesis by (auto intro: step_of_trans)
  qed
qed

lemma process_pending_step:
  "process_pending ob = (r, ob') \<Longrightarrow> step_of ob r ob' \<and> (known a ob \<longrightarrow> known a ob')"
  unfolding process_pending_def by (rule process_pending_from_step)

lemma pop_delayed_step:
  assumes "pop_delayed ob = Some (ev, ob')"
  shows "step_of ob (Inr x) ob' \<and> (known a ob \<longrightarrow> known a ob' \<or> ev = EvServerRemove a) \<and>
     (\<exists>addr. ev = EvServerInfoTimeout addr \<or> ev = EvServerRemove addr)"
proof -
  from assms obtain es e where es: "ob_delayed_events ob = es @ [e]"
    by (metis pop_delayed_def option.discI rev_exhaust)
  then have "ev = Event_from e" "ob' = ob\<lparr>ob_delayed_events := es\<rparr>"
    using assms by (simp_all add: pop_delayed_def)
  with es show ?thesis
    by (cases e) (auto simp: step_of_def ob_ok_def known_def Event_from_def)
qed

lemma Connection_handle_packet_event:
  assumes "Connection_handle_packet mc data con w = (Inr (Some ev), con', w')"
  shows "(\<exists>l. ev = EvServerInfo l) \<or> (\<exists>a p. ev = EvServerPlayers a p) \<or> ev = EvServerInvalidProtocol (con_address con) \<or>
     (\<exists>a d. ev = EvServerInvalidPacket a d)"
  using assms
  by (auto simp: Connection_handle_packet_def Let_def split: sum.splits if_splits prod.splits xerror.splits)

lemma handle_server_packet_step:
  assumes "handle_server_packet mc from_addr data ob = (r, ob')"
  shows "step_of ob r ob' \<and> (ob_ok ob \<longrightarrow> known a ob \<longrightarrow> known a ob' \<or> r = Inr (Some (EvServerInvalidProtocol a))) \<and>
     ob_masters ob' = ob_masters ob"
proof (cases "map_of (ob_connections ob) from_addr")
  case None
  with assms show ?thesis by (auto simp: handle_server_packet_def)
next
  case (Some con)
  obtain s con1 w where h: "Connection_handle_packet mc data con (ob_sock ob) = (s, con1, w)" by (metis prod_cases3)
  let ?cs = "connections_set from_addr con1 (ob_connections ob)"
  have c: "later (ob_sock ob) w" "s \<noteq> Inl OPanic" "con_ok from_addr con \<longrightarrow> con_ok from_addr con1"
    using Connection_handle_packet_step [OF h, of from_addr] by simp_all
  have ob': "r = s" "ob' = ob\<lparr>ob_connections :=
      (if is_invalid_protocol s then connections_remove from_addr ?cs else ?cs), ob_sock := w\<rparr>"
    using assms Some by (auto simp: handle_server_packet_def h Let_def)
  have keys: "fst ` set ?cs = fst ` set (ob_connections ob)" by (metis connections_set_fst list.set_map)
  have con: "con_ok from_addr con" if "ob_ok ob"
    using that map_of_SomeD [OF Some] by (auto simp: ob_ok_def)
  have "distinct (map fst ?cs)" if "ob_ok ob" using that by (simp add: ob_ok_def)
  then have dist: "distinct (map fst (connections_remove from_addr ?cs))" if "ob_ok ob"
    using that by (simp add: connections_remove_def distinct_map_filter)
  have all: "\<forall>(b, con) \<in> set ?cs. con_ok b con" if "ob_ok ob"
    using that con c(3) connections_set_ok [of from_addr con1 "ob_connections ob"] by (simp add: ob_ok_def)
  have "ob_ok ob'" if "ob_ok ob"
    using that dist all by (auto simp: ob_ok_def ob' connections_remove_def)
  moreover have "known a ob' \<or> r = Inr (Some (EvServerInvalidProtocol a))" if "ob_ok ob" "known a ob"
  proof (cases "is_invalid_protocol s")
    case True
    then obtain b where s: "s = Inr (Some (EvServerInvalidProtocol b))"
      by (auto simp: is_invalid_protocol_def split: sum.splits option.splits event.splits)
    have "b = from_addr"
      using Connection_handle_packet_event [of mc data con "ob_sock ob" _ con1 w] h s con [OF that(1)]
      by (auto simp: con_ok_def)
    with that(2) keys s show ?thesis
      by (cases "a = from_addr") (force simp: known_def ob' connections_remove_def is_invalid_protocol_def)+
  next
    case False
    with that(2) keys show ?thesis by (simp add: known_def ob')
  qed
  ultimately show ?thesis using c(1,2) by (auto simp: step_of_def ob')
qed

text \<open>A server list is reported only with the key of the master's last query.\<close>

definition list_has_key :: "observer_error + event \<Rightarrow> observer \<Rightarrow> bool" where
  "list_has_key r ob \<longleftrightarrow> (\<forall>l. r = Inr (EvServerList l) \<longrightarrow>
     (\<exists>m \<in> set (ob_masters ob). om_addr m = sl_master l \<and> qsr_key (sl_response l) = Some (om_key m)))"

lemma handle_master_packet_event:
  "handle_master_packet mc from_addr data key = Some ev \<Longrightarrow>
     (\<exists>r. ev = EvServerList \<lparr>sl_master = from_addr, sl_response = r\<rparr> \<and> qsr_key r = Some key) \<or>
     (\<exists>i. ev = EvServerInfo i) \<or> (\<exists>d. ev = EvMasterInvalidPacket from_addr d)"
  by (auto simp: handle_master_packet_def split: sum.splits if_splits)

lemma Observer_handle_packet_step:
  assumes "Observer_handle_packet mc from_addr data ob = (r, ob')"
  shows "step_of ob r ob' \<and> (ob_ok ob \<longrightarrow> known a ob \<longrightarrow> known a ob' \<or> r = Inr (Some (EvServerInvalidProtocol a))) \<and>
     (\<forall>ev. r = Inr (Some ev) \<longrightarrow> list_has_key (Inr ev) ob')"
proof (cases "get_master from_addr ob")
  case None
  then have h: "handle_server_packet mc from_addr data ob = (r, ob')"
    using assms by (simp add: Observer_handle_packet_def)
  have "list_has_key (Inr ev) ob'" if "r = Inr (Some ev)" for ev
    using h that
    by (auto simp: handle_server_packet_def list_has_key_def Let_def
        dest!: Connection_handle_packet_event split: option.splits prod.splits)
  with handle_server_packet_step [OF h, of a] show ?thesis by blast
next
  case (Some m)
  then have m: "m \<in> set (ob_masters ob)" "om_addr m = from_addr"
    by (auto simp: get_master_def find_Some_iff)
  have ob': "ob' = ob" "r = Inr (handle_master_packet mc from_addr data (om_key m))"
    using assms Some by (simp_all add: Observer_handle_packet_def)
  show ?thesis
    using m by (auto simp: ob' list_has_key_def dest!: handle_master_packet_event)
qed

section \<open>The event loop\<close>

text \<open>
  What the loop of \<^verbatim>\<open>wait_event\<close> relies on: an invariant \<open>I\<close> at every turn and a condition \<open>Q\<close> on what it
  returns. The operations that end the loop establish \<open>Q\<close>, the others keep \<open>I\<close>.
\<close>

locale observer_loop =
  fixes mc :: memchr_ops
    and I :: "observer \<Rightarrow> bool"
    and Q :: "observer_error + event \<Rightarrow> observer \<Rightarrow> bool"
  assumes sock: "I ob \<Longrightarrow> later (ob_sock ob) w \<Longrightarrow> I (ob\<lparr>ob_sock := w\<rparr>)"
    and tasks: "I ob \<Longrightarrow> process_tasks now ob = (Inr u, ob') \<Longrightarrow> I ob'"
    and tasks_error: "I ob \<Longrightarrow> process_tasks now ob = (Inl e, ob') \<Longrightarrow> Q (Inl e) ob'"
    and pendings: "I ob \<Longrightarrow> process_pending ob = (Inr u, ob') \<Longrightarrow> I ob'"
    and pending_error: "I ob \<Longrightarrow> process_pending ob = (Inl e, ob') \<Longrightarrow> Q (Inl e) ob'"
    and packet: "I ob \<Longrightarrow> Observer_handle_packet mc from_addr data ob = (Inr None, ob') \<Longrightarrow> I ob'"
    and packet_event: "I ob \<Longrightarrow> Observer_handle_packet mc from_addr data ob = (Inr (Some ev), ob') \<Longrightarrow> Q (Inr ev) ob'"
    and packet_error: "I ob \<Longrightarrow> Observer_handle_packet mc from_addr data ob = (Inl e, ob') \<Longrightarrow> Q (Inl e) ob'"
    and delayed: "I ob \<Longrightarrow> pop_delayed ob = Some (ev, ob') \<Longrightarrow> Q (Inr ev) ob'"
    and timeout: "I ob \<Longrightarrow> Q (Inr EvTimeout) ob"
    and io_error: "I ob \<Longrightarrow> Q (Inl OIo) ob"
begin

definition received_ok :: "(observer_error + event option) \<times> observer \<Rightarrow> bool" where
  "received_ok h = (case fst h of
     Inl e \<Rightarrow> Q (Inl e) (snd h) | Inr None \<Rightarrow> I (snd h) | Inr (Some ev) \<Rightarrow> Q (Inr ev) (snd h))"

lemma receive_until_ok:
  assumes "receive_until mc deadline now ob = Some h" "I ob"
  shows "received_ok h"
proof -
  have "I ob \<longrightarrow> received_ok h"
  proof (rule receive_until.raw_induct [where P = "\<lambda>m d n ob h. m = mc \<longrightarrow> I ob \<longrightarrow> received_ok h", OF _ assms(1), simplified])
    fix rec m d n ob h
    assume ih: "\<And>m d n ob h. rec m d n ob = Some h \<Longrightarrow> m = mc \<longrightarrow> I ob \<longrightarrow> received_ok h"
      and run: "(if n < d then
          case Socket_recv_from (ob_sock ob) of (result, w) \<Rightarrow>
           (case result of
              RecvFrom data from_addr \<Rightarrow>
                (case Observer_handle_packet m from_addr data (ob\<lparr>ob_sock := w\<rparr>) of (r, ob') \<Rightarrow>
                 (case r of
                    Inl e \<Rightarrow> Some (Inl e, ob')
                  | Inr event \<Rightarrow>
                      (case event of
                         Some ev \<Rightarrow> Some (Inr (Some ev), ob')
                       | None \<Rightarrow>
                           (case Instant_now (ob_sock ob') of (now', w') \<Rightarrow>
                              rec m d now' (ob'\<lparr>ob_sock := w'\<rparr>)))))
            | RecvAddrInUse \<Rightarrow> Some (Inr None, ob\<lparr>ob_sock := w\<rparr>)
            | RecvWouldBlock \<Rightarrow> Some (Inr None, ob\<lparr>ob_sock := w\<rparr>)
            | RecvFailed \<Rightarrow> Some (Inl OIo, ob\<lparr>ob_sock := w\<rparr>))
        else Some (Inr None, ob)) = Some h"
    show "m = mc \<longrightarrow> I ob \<longrightarrow> received_ok h"
    proof (intro impI)
      assume m: "m = mc" and inv: "I ob"
      obtain result w where recv: "Socket_recv_from (ob_sock ob) = (result, w)" by (metis surj_pair)
      have w: "I (ob\<lparr>ob_sock := w\<rparr>)"
        using sock [OF inv] Socket_recv_from_later [OF recv] by blast
      show "received_ok h"
      proof (cases "n < d \<and> (\<exists>data from_addr. result = RecvFrom data from_addr)")
        case False
        then show ?thesis
          using run inv w io_error [OF w] recv by (cases result) (auto simp: received_ok_def split: if_splits)
      next
        case True
        then obtain data from_addr where result: "result = RecvFrom data from_addr" by blast
        obtain r ob' where h: "Observer_handle_packet mc from_addr data (ob\<lparr>ob_sock := w\<rparr>) = (r, ob')"
          by (metis surj_pair)
        obtain now' w' where t: "Instant_now (ob_sock ob') = (now', w')" by (metis surj_pair)
        consider (error) e where "r = Inl e" | (event) ev where "r = Inr (Some ev)" | (none) "r = Inr None"
          by (metis option.exhaust sum.exhaust)
        then show ?thesis
        proof cases
          case error
          with run True recv result h m show ?thesis
            by (auto simp: received_ok_def packet_error [OF w])
        next
          case event
          with run True recv result h m show ?thesis
            by (auto simp: received_ok_def packet_event [OF w])
        next
          case none
          have "I (ob'\<lparr>ob_sock := w'\<rparr>)"
            using sock [OF packet [OF w]] h none Instant_now_later [OF t] by blast
          moreover have "rec mc d now' (ob'\<lparr>ob_sock := w'\<rparr>) = Some h"
            using run True recv result h m none t by simp
          ultimately show ?thesis using ih by blast
        qed
      qed
    qed
  qed
  with assms(2) show ?thesis by simp
qed

lemma receive_event_ok:
  assumes "receive_event mc deadline ob = Some h" "I ob"
  shows "received_ok h"
proof -
  obtain now w where t: "Instant_now (ob_sock ob) = (now, w)" by (metis surj_pair)
  have "I (ob\<lparr>ob_sock := w\<rparr>)" using sock [OF assms(2)] Instant_now_later [OF t] by blast
  with assms(1) t show ?thesis by (auto simp: receive_event_def Let_def intro: receive_until_ok)
qed

lemma wait_turn_ok:
  assumes "I ob"
  shows "(\<forall>r ob'. wait_turn deadline ob = Inl (r, ob') \<longrightarrow> Q r ob') \<and>
    (\<forall>ob'. wait_turn deadline ob = Inr ob' \<longrightarrow> I ob')"
proof -
  obtain now w where t: "Instant_now (ob_sock ob) = (now, w)" by (metis surj_pair)
  have w: "I (ob\<lparr>ob_sock := w\<rparr>)" using sock [OF assms] Instant_now_later [OF t] by blast
  obtain r1 ob1 where r1: "process_tasks now (ob\<lparr>ob_sock := w\<rparr>) = (r1, ob1)" by (metis surj_pair)
  obtain r2 ob2 where r2: "process_pending ob1 = (r2, ob2)" by (metis surj_pair)
  show ?thesis
    using t w r1 r2 timeout [OF w] tasks [OF w] tasks_error [OF w] pendings [of ob1] pending_error [of ob1] delayed [of ob2]
    by (auto simp: wait_turn_def Let_def split: sum.splits option.splits if_splits)
qed

lemma wait_loop_ok:
  assumes "wait_loop mc deadline ob = Some (r, ob')" "I ob"
  shows "Q r ob'"
proof -
  have "I ob \<longrightarrow> Q r ob'"
  proof (rule wait_loop.raw_induct [where P = "\<lambda>m d ob h. m = mc \<longrightarrow> I ob \<longrightarrow> Q (fst h) (snd h)",
        OF _ assms(1), simplified])
    fix rec m d ob h
    assume ih: "\<And>m d ob h. rec m d ob = Some h \<Longrightarrow> m = mc \<longrightarrow> I ob \<longrightarrow> Q (fst h) (snd h)"
      and run: "(case wait_turn d ob of
          Inl result \<Rightarrow> Some result
        | Inr ob' \<Rightarrow> Option.bind (receive_event m d ob') (\<lambda>received.
            case fst received of
              Inl e \<Rightarrow> Some (Inl e, snd received)
            | Inr event \<Rightarrow>
                (case event of Some ev \<Rightarrow> Some (Inr ev, snd received) | None \<Rightarrow> rec m d (snd received)))) = Some h"
    show "m = mc \<longrightarrow> I ob \<longrightarrow> Q (fst h) (snd h)"
    proof (intro impI)
      assume m: "m = mc" and inv: "I ob"
      show "Q (fst h) (snd h)"
      proof (cases "wait_turn d ob")
        case (Inl result)
        with run wait_turn_ok [OF inv, of d] show ?thesis by (cases result) auto
      next
        case (Inr ob1)
        with wait_turn_ok [OF inv, of d] have inv1: "I ob1" by blast
        obtain received where received: "receive_event mc d ob1 = Some received"
          using run Inr m by (cases "receive_event mc d ob1") auto
        note ok = receive_event_ok [OF received inv1]
        consider (error) e where "fst received = Inl e" | (event) ev where "fst received = Inr (Some ev)"
          | (none) "fst received = Inr None" by (metis option.exhaust sum.exhaust)
        then show ?thesis
        proof cases
          case none
          then have "rec mc d (snd received) = Some h" using run Inr m received by simp
          from ih [OF this] ok none show ?thesis by (simp add: received_ok_def)
        qed (use run Inr m received ok in \<open>auto simp: received_ok_def\<close>)
      qed
    qed
  qed
  with assms(2) show ?thesis by simp
qed

lemma wait_event_ok:
  assumes "wait_event mc duration ob = Some (r, ob')" "I ob"
  shows "Q r ob'"
proof (cases "pop_delayed ob")
  case (Some p)
  with assms delayed [of ob] show ?thesis by (cases p) (auto simp: wait_event_def)
next
  case None
  obtain now w where t: "Instant_now (ob_sock ob) = (now, w)" by (metis surj_pair)
  have "I (ob\<lparr>ob_sock := w\<rparr>)" using sock [OF assms(2)] Instant_now_later [OF t] by blast
  with None assms t show ?thesis
    by (auto simp: wait_event_def split: option.splits intro: wait_loop_ok)
qed

end

section \<open>What the loop keeps\<close>

lemma ob_ok_sock [simp]: "ob_ok (ob\<lparr>ob_sock := w\<rparr>) = ob_ok ob"
  by (simp add: ob_ok_def)

lemma known_sock [simp]: "known a (ob\<lparr>ob_sock := w\<rparr>) = known a ob"
  by (simp add: known_def)

lemma step_of_ok: "step_of ob r ob' \<Longrightarrow> ob_ok ob \<Longrightarrow> ob_ok ob'"
  by (simp add: step_of_def)

lemma step_of_fits: "step_of ob r ob' \<Longrightarrow> filter_fits (ob_filter ob) \<Longrightarrow> filter_fits (ob_filter ob')"
  by (simp add: step_of_def)

lemma step_of_panic: "step_of ob (Inl e) ob' \<Longrightarrow> filter_fits (ob_filter ob) \<Longrightarrow> e \<noteq> OPanic"
  by (simp add: step_of_def)

lemmas observer_steps = process_tasks_step process_pending_step Observer_handle_packet_step pop_delayed_step

interpretation keeps_ok: observer_loop mc ob_ok "\<lambda>_. ob_ok" for mc
  by unfold_locales
     (auto dest!: process_tasks_step process_pending_step Observer_handle_packet_step
        pop_delayed_step [where x = "()"] intro: step_of_ok)

interpretation panic_free: observer_loop mc "\<lambda>ob. filter_fits (ob_filter ob)" "\<lambda>r _. r \<noteq> Inl OPanic" for mc
  by unfold_locales
     (auto dest: step_of_fits step_of_panic dest!: process_tasks_step process_pending_step Observer_handle_packet_step)

interpretation list_keys: observer_loop mc "\<lambda>_. True" list_has_key for mc
  by unfold_locales
     (auto simp: list_has_key_def dest: pop_delayed_step [where x = "()"]
        dest!: Observer_handle_packet_step)

text \<open>The servers of a set are known, or their removal is reported.\<close>

definition all_known :: "socket_addr set \<Rightarrow> observer \<Rightarrow> bool" where
  "all_known A ob \<longleftrightarrow> ob_ok ob \<and> (\<forall>a \<in> A. known a ob)"

definition accounted :: "socket_addr set \<Rightarrow> observer_error + event \<Rightarrow> observer \<Rightarrow> bool" where
  "accounted A r ob \<longleftrightarrow> (\<forall>a \<in> A. known a ob \<or> r = Inr (EvServerRemove a) \<or> r = Inr (EvServerInvalidProtocol a))"

lemma all_known_step:
  assumes "all_known A ob" "step_of ob r ob'" "\<And>a. a \<in> A \<Longrightarrow> known a ob \<Longrightarrow> known a ob'"
  shows "all_known A ob'" "accounted A r' ob'"
  using assms step_of_ok by (auto simp: all_known_def accounted_def)

interpretation accounts: observer_loop mc "all_known A" "accounted A" for mc A
proof unfold_locales
  fix ob w assume "all_known A ob"
  then show "all_known A (ob\<lparr>ob_sock := w\<rparr>)" by (simp add: all_known_def)
next
  fix ob ob' now and u :: unit
  assume "all_known A ob" "process_tasks now ob = (Inr u, ob')"
  then show "all_known A ob'" using process_tasks_step all_known_step(1) by blast
next
  fix ob ob' now e
  assume "all_known A ob" "process_tasks now ob = (Inl e, ob')"
  then show "accounted A (Inl e) ob'" using process_tasks_step all_known_step(2) by blast
next
  fix ob ob' and u :: unit
  assume "all_known A ob" "process_pending ob = (Inr u, ob')"
  then show "all_known A ob'" using process_pending_step all_known_step(1) by blast
next
  fix ob ob' e
  assume "all_known A ob" "process_pending ob = (Inl e, ob')"
  then show "accounted A (Inl e) ob'" using process_pending_step all_known_step(2) by blast
next
  fix ob ob' from_addr data
  assume "all_known A ob" "Observer_handle_packet mc from_addr data ob = (Inr None, ob')"
  then show "all_known A ob'" using Observer_handle_packet_step [of mc from_addr data ob "Inr None" ob']
    by (auto simp: all_known_def intro: step_of_ok)
next
  fix ob ob' from_addr data ev
  assume "all_known A ob" "Observer_handle_packet mc from_addr data ob = (Inr (Some ev), ob')"
  then show "accounted A (Inr ev) ob'"
    using Observer_handle_packet_step [of mc from_addr data ob "Inr (Some ev)" ob']
    by (auto simp: all_known_def accounted_def)
next
  fix ob ob' from_addr data e
  assume "all_known A ob" "Observer_handle_packet mc from_addr data ob = (Inl e, ob')"
  then show "accounted A (Inl e) ob'"
    using Observer_handle_packet_step [of mc from_addr data ob "Inl e" ob']
    by (auto simp: all_known_def accounted_def)
next
  fix ob ob' ev
  assume "all_known A ob" "pop_delayed ob = Some (ev, ob')"
  moreover have "known a ob' \<or> ev = EvServerRemove a" if "pop_delayed ob = Some (ev, ob')" "known a ob" for a
    using pop_delayed_step [OF that(1), of "()" a] that(2) by blast
  ultimately show "accounted A (Inr ev) ob'" by (auto simp: all_known_def accounted_def)
qed (auto simp: all_known_def accounted_def)

section \<open>Reachable observers\<close>

inductive observed :: "memchr_ops \<Rightarrow> observer \<Rightarrow> bool" for mc where
  obs_bind: "observed mc (Observer_bind w)"
| obs_filter: "observed mc ob \<Longrightarrow> observed mc (set_filter_raw flt ob)"
| obs_insert_master: "observed mc ob \<Longrightarrow> observed mc (insert_master m ob)"
| obs_remove_master: "observed mc ob \<Longrightarrow> observed mc (snd (remove_master addr ob))"
| obs_insert_server: "observed mc ob \<Longrightarrow> observed mc (insert_server s ob)"
| obs_remove_server: "observed mc ob \<Longrightarrow> observed mc (remove_server addr ob)"
| obs_wait: "observed mc ob \<Longrightarrow> wait_event mc duration ob = Some (r, ob') \<Longrightarrow> observed mc ob'"

lemma swap_remove_mset:
  assumes "i < length xs"
  shows "add_mset (xs ! i) (mset (swap_remove i xs)) = mset xs"
proof -
  have xs: "xs = butlast xs @ [last xs]" using assms by (cases xs rule: rev_cases) auto
  show ?thesis
  proof (cases "i + 1 = length xs")
    case True
    then have "xs ! i = last xs" by (metis add_diff_cancel_right' last_conv_nth length_0_conv add_is_0 one_neq_zero)
    moreover have "mset xs = add_mset (last xs) (mset (butlast xs))" by (subst xs) simp
    ultimately show ?thesis using True by (simp add: swap_remove_def)
  next
    case False
    with assms have i: "i < length (butlast xs)" by simp
    have "xs ! i = butlast xs ! i" using i by (simp add: nth_butlast)
    moreover have "mset xs = add_mset (last xs) (mset (butlast xs))" by (subst xs) simp
    ultimately show ?thesis
      using False mset_update [OF i, of "last xs"] i by (simp add: swap_remove_def)
  qed
qed

lemma distinct_swap_remove: "i < length xs \<Longrightarrow> distinct (map f xs) \<Longrightarrow> distinct (map f (swap_remove i xs))"
  using swap_remove_mset [of i xs] mset_eq_imp_distinct_iff [of "map f xs" "f (xs ! i) # map f (swap_remove i xs)"]
  by (metis distinct.simps(2) image_mset_add_mset list.simps(9) mset.simps(2) mset_map)

lemma remove_pending_ok [simp]:
  "ob_ok (remove_pending p ob) = ob_ok ob"
  "ob_masters (remove_pending p ob) = ob_masters ob"
  "ob_connections (remove_pending p ob) = ob_connections ob"
  by (auto simp: remove_pending_def ob_ok_def split: option.splits)

lemma insert_master_ok: "ob_ok ob \<Longrightarrow> ob_ok (insert_master m ob)"
  by (auto simp: insert_master_def get_master_def ob_ok_def find_None_iff)

lemma remove_master_ok:
  assumes "ob_ok ob"
  shows "ob_ok (snd (remove_master addr ob))"
proof (cases "position (\<lambda>m. om_addr m = addr) (ob_masters ob)")
  case (Some i)
  from position_SomeD [OF this] have "i < length (ob_masters ob)" by simp
  with Some assms show ?thesis by (simp add: remove_master_def Let_def distinct_swap_remove ob_ok_def)
next
  case None
  with assms show ?thesis by (simp add: remove_master_def Let_def del: position_None_iff)
qed

lemma insert_server_ok: "ob_ok ob \<Longrightarrow> ob_ok (insert_server s ob)"
  by (auto simp: insert_server_def Connection_new_def Instant_now_def ob_ok_def con_ok_def Let_def map_of_eq_None_iff
      split: option.splits)

lemma remove_server_ok: "ob_ok ob \<Longrightarrow> ob_ok (remove_server addr ob)"
  by (auto simp: remove_server_def ob_ok_def Let_def connections_remove_def distinct_map_filter)

lemma observed_ok: "observed mc ob \<Longrightarrow> ob_ok ob"
proof (induction rule: observed.induct)
  case (obs_bind w)
  then show ?case by (simp add: Observer_bind_def Instant_now_def ob_ok_def)
next
  case (obs_filter ob flt)
  then show ?case by (simp add: set_filter_raw_def ob_ok_def)
next
  case (obs_wait ob duration r ob')
  from keeps_ok.wait_event_ok [OF obs_wait.hyps(2) obs_wait.IH] show ?case .
qed (auto intro: insert_master_ok remove_master_ok insert_server_ok remove_server_ok)

section \<open>Waiting ends\<close>

text \<open>The operations between two readings of the clock only move it on.\<close>

lemma wait_turn_later:
  assumes "wait_turn deadline ob = Inr ob'"
  shows "later (ob_sock ob) (ob_sock ob') \<and> w_clk_pos (ob_sock ob) < w_clk_pos (ob_sock ob') \<and>
    (\<forall>d. deadline = Some d \<longrightarrow> w_clk (ob_sock ob) (w_clk_pos (ob_sock ob)) < d)"
proof -
  obtain now w where t: "Instant_now (ob_sock ob) = (now, w)" by (metis surj_pair)
  obtain r1 ob1 where r1: "process_tasks now (ob\<lparr>ob_sock := w\<rparr>) = (r1, ob1)" by (metis surj_pair)
  obtain r2 ob2 where r2: "process_pending ob1 = (r2, ob2)" by (metis surj_pair)
  have "ob' = ob2" "\<forall>d. deadline = Some d \<longrightarrow> now < d"
    using assms t r1 r2 by (auto simp: wait_turn_def Let_def split: sum.splits option.splits if_splits)
  then show ?thesis
    using Instant_now_later [OF t] conjunct1 [OF process_tasks_step [OF r1]] conjunct1 [OF process_pending_step [OF r2]]
    by (simp add: step_of_def later_def)
qed

definition passes :: "nat \<Rightarrow> nat \<Rightarrow> world \<Rightarrow> bool" where
  "passes deadline n w \<longleftrightarrow> (\<forall>i \<ge> n. deadline \<le> w_clk w i)"

lemma passes_later: "later w w' \<Longrightarrow> passes d n w' = passes d n w"
  by (simp add: passes_def later_def)

lemma receive_until_returns:
  "passes d n (ob_sock ob) \<Longrightarrow> deadline \<le> d \<Longrightarrow>
     \<exists>r ob'. receive_until mc deadline now ob = Some (r, ob') \<and> later (ob_sock ob) (ob_sock ob')"
proof (induction "n - w_clk_pos (ob_sock ob)" arbitrary: now ob rule: less_induct)
  case less
  obtain result w where recv: "Socket_recv_from (ob_sock ob) = (result, w)" by (metis surj_pair)
  note w = Socket_recv_from_later [OF recv]
  show ?case
  proof (cases "now < deadline \<and> (\<exists>data from_addr. result = RecvFrom data from_addr)")
    case False
    then show ?thesis
      using w recv by (subst receive_until.simps) (cases result; auto)
  next
    case True
    then obtain data from_addr where result: "result = RecvFrom data from_addr" by blast
    obtain r ob' where h: "Observer_handle_packet mc from_addr data (ob\<lparr>ob_sock := w\<rparr>) = (r, ob')"
      by (metis surj_pair)
    obtain now' w' where t: "Instant_now (ob_sock ob') = (now', w')" by (metis surj_pair)
    have ob': "later (ob_sock ob) (ob_sock ob')"
      using Observer_handle_packet_step [OF h] w by (auto simp: step_of_def intro: later_trans)
    note n = Instant_now_later [OF t]
    have run: "receive_until mc deadline now ob =
        (case r of Inl e \<Rightarrow> Some (Inl e, ob') | Inr (Some ev) \<Rightarrow> Some (Inr (Some ev), ob')
         | Inr None \<Rightarrow> receive_until mc deadline now' (ob'\<lparr>ob_sock := w'\<rparr>))"
      using True result by (subst receive_until.simps) (simp add: recv h t split: sum.split option.split)
    have sock: "later (ob_sock ob) w'" using ob' n later_trans by blast
    have "\<exists>r ob''. receive_until mc deadline now' (ob'\<lparr>ob_sock := w'\<rparr>) = Some (r, ob'') \<and> later w' (ob_sock ob'')"
    proof (cases "w_clk_pos (ob_sock ob) < n")
      case True
      with ob' n have "n - w_clk_pos (ob_sock (ob'\<lparr>ob_sock := w'\<rparr>)) < n - w_clk_pos (ob_sock ob)"
        by (auto simp: later_def)
      from less.hyps [OF this, of now'] less.prems passes_later [OF sock] show ?thesis by simp
    next
      case False
      then have "d \<le> now'" using less.prems(1) n ob' by (auto simp: passes_def later_def)
      with less.prems(2) show ?thesis by (subst receive_until.simps) simp
    qed
    with run ob' sock show ?thesis by (cases r) (auto split: option.split intro: later_trans)
  qed
qed

lemma wait_loop_returns:
  "passes d n (ob_sock ob) \<Longrightarrow> \<exists>h. wait_loop mc (Some d) ob = Some h"
proof (induction "n - w_clk_pos (ob_sock ob)" arbitrary: ob rule: less_induct)
  case less
  show ?case
  proof (cases "wait_turn (Some d) ob")
    case (Inl h)
    then show ?thesis by (subst wait_loop.simps) simp
  next
    case (Inr ob1)
    note turn = wait_turn_later [OF Inr]
    have pos: "w_clk_pos (ob_sock ob) < n"
      using turn less.prems by (auto simp: passes_def) (meson leI le_less_trans nat_less_le)
    obtain now w where t: "Instant_now (ob_sock ob1) = (now, w)" by (metis surj_pair)
    note n = Instant_now_later [OF t]
    have "later (ob_sock ob) w" using turn n later_trans by blast
    note p = passes_later [OF this, of d n] less.prems
    let ?deadline = "min (min (tk_time (ob_query_servers_task ob1)) (tk_time (ob_query_info_task ob1))) d"
    obtain r ob2 where rcv: "receive_until mc ?deadline now (ob1\<lparr>ob_sock := w\<rparr>) = Some (r, ob2)"
        and l: "later w (ob_sock ob2)"
      using receive_until_returns [of d n "ob1\<lparr>ob_sock := w\<rparr>" ?deadline mc now] p by auto
    have run: "receive_event mc (Some d) ob1 = Some (r, ob2)"
      using rcv t by (simp add: receive_event_def Let_def)
    have "later (ob_sock ob) (ob_sock ob2)" using turn n l later_trans by blast
    moreover have "n - w_clk_pos (ob_sock ob2) < n - w_clk_pos (ob_sock ob)"
      using turn n l pos by (auto simp: later_def)
    ultimately obtain h where "wait_loop mc (Some d) ob2 = Some h"
      using less.hyps [of ob2] less.prems passes_later by blast
    then show ?thesis
      using Inr run by (subst wait_loop.simps) (auto split: sum.split option.split)
  qed
qed

section \<open>Replies to an information query\<close>

lemma Cursor_expect_fails: "\<not> starts_with h s \<Longrightarrow> \<exists>e. Cursor_expect h (Cursor_new s) = Inl e"
  by (auto simp: Cursor_expect_def Cursor_as_slice_def Cursor_new_def)

lemma wrong_version_header:
  "GetServerInfoResponse_decode mc data = Inl InvalidProtocolVersion \<Longrightarrow> starts_with GetServerInfoResponse_HEADER data"
  using Cursor_expect_fails [of GetServerInfoResponse_HEADER data]
  by (cases "starts_with GetServerInfoResponse_HEADER data") (auto simp: GetServerInfoResponse_decode_def qm_def)

lemma info_reply_header:
  assumes "starts_with GetServerInfoResponse_HEADER data"
  shows "\<exists>e. GetChallengeResponse_decode data = Inl e" "\<exists>e. GetPlayersResponse_decode data = Inl e"
    "\<not> starts_with GetServerInfo2Response_HEADER data" "\<not> starts_with GetServerInfo2ResponseOld_HEADER data"
proof -
  have "\<not> starts_with GetChallengeResponse_HEADER data" "\<not> starts_with GetPlayersResponse_HEADER data"
    "\<not> starts_with GetServerInfo2Response_HEADER data" "\<not> starts_with GetServerInfo2ResponseOld_HEADER data"
    using assms by (auto simp: starts_with_iff server_headers)
  then show "\<exists>e. GetChallengeResponse_decode data = Inl e" "\<exists>e. GetPlayersResponse_decode data = Inl e"
    "\<not> starts_with GetServerInfo2Response_HEADER data" "\<not> starts_with GetServerInfo2ResponseOld_HEADER data"
    using Cursor_expect_fails [of GetChallengeResponse_HEADER data] Cursor_expect_fails [of GetPlayersResponse_HEADER data]
    by (auto simp: GetChallengeResponse_decode_def GetPlayersResponse_decode_def qm_def)
qed

lemma Connection_wrong_version:
  assumes "GetServerInfoResponse_decode mc data = Inl InvalidProtocolVersion"
  shows "Connection_handle_packet mc data con w =
     (if con_state con = ProtocolDetection \<and> con_protocol con = PROTOCOL_VERSION then
        (case Connection_query 512 (Connection_set_legacy_protocol con) w of
           (Inl e, con, w) \<Rightarrow> (Inl e, con, w) | (Inr _, con, w) \<Rightarrow> (Inr None, con, w))
      else (Inr (Some (EvServerInvalidProtocol (con_address con))), con, w))"
  using info_reply_header [OF wrong_version_header [OF assms]] assms
  by (auto simp: Connection_handle_packet_def)

section \<open>The query on the wire\<close>

text \<open>What the master server reads when the observer sends a filter without a raw part.\<close>

definition filter_meant :: "observer_filter \<Rightarrow> u32 \<Rightarrow> filter_q" where
  "filter_meant f key =
     (let g = Filter_default\<lparr>f_clver := of_client_version f, f_client_buildnum := of_client_build_number f,
                 f_gamedir := of_gamedir f, f_key := Some key\<rparr>
      in case of_nat f of None \<Rightarrow> g | Some b \<Rightarrow> Filter_insert_flag FF_NAT b g)"

definition query_entries :: "observer_filter \<Rightarrow> u32 \<Rightarrow> (bytes \<times> bytes) list" where
  "query_entries f key = Filter_entries f @ [(str ''key'', show_hex (unat key))]"

lemma FilterKey_display_kvs:
  "of_raw f = None \<Longrightarrow> FilterKey_display (Filter_to_raw_string f, key) = kv_wire (query_entries f key)"
  by (simp add: FilterKey_display_def Filter_to_raw_string_kvs query_entries_def kv_wire_append kv_wire_simps
      str_backslash)

lemma query_entries_clean:
  assumes "pred_option map_clean (of_gamedir f)"
  shows "kvs_map_clean (query_entries f key)"
  using assms
  by (simp add: query_entries_def Filter_entries_def)
     (auto simp: kvs_map_clean_def opt_kv_def str_safe info_clean_map_clean split: option.splits)

lemma query_entries_fold:
  "fold_entries Filter_step (query_entries f key) Filter_default = Inr (filter_meant f key)"
  by (cases "of_client_version f"; cases "of_client_build_number f"; cases "of_nat f"; cases "of_gamedir f")
     (simp_all add: query_entries_def Filter_entries_def opt_kv_def Filter_step_number Filter_step_string
        Filter_step_flag filter_meant_def Filter_insert_flag_def Filter_default_def Let_def)

lemma query_packet_decode:
  assumes "memchr_ok mc" "of_raw f = None" "pred_option map_clean (of_gamedir f)"
  shows "QueryServers_decode mc (Filter_from_slice mc) (query_packet (Filter_to_raw_string f) key) =
     Inr \<lparr>qs_region = RestOfTheWorld, qs_last = FIRST_ADDRESS, qs_filter = filter_meant f key\<rparr>"
proof -
  note clean = kvs_map_cleanD [OF query_entries_clean [OF assms(3)], of key]
  have first: "0 \<notin> set FIRST_ADDRESS" by (simp add: FIRST_ADDRESS_def str_def)
  show ?thesis
    using first clean Cursor_get_cstr_ffi_hit [OF assms(1), where t = "[]"]
      Filter_from_slice_kvs [OF assms(1) clean] query_entries_fold [of f key]
    by (simp add: query_packet_eq FilterKey_display_kvs [OF assms(2)] QueryServers_decode_def
        wire_simps assms(1) CStr_to_bytes_def)
qed

section \<open>The list on the wire\<close>

lemma Observer_handle_list:
  assumes "get_master a ob = Some m" "QueryServersResponse_decode s = Inr r" "qsr_key r = Some (om_key m)"
  shows "Observer_handle_packet mc a s ob =
     (Inr (Some (EvServerList \<lparr>sl_master = a, sl_response = r\<rparr>)), ob)"
  using assms by (simp add: Observer_handle_packet_def handle_master_packet_def)

end
