(* ===== verification/Observer_Spec.thy ===== *)
theory Observer_Spec
  imports Observer_Facts
begin

text \<open>
  The properties of the observer library, each under its claim with a witness on a concrete run, and the
  two places where it meets the master server: the master understands the query the observer writes, and
  the observer reads exactly the addresses the master wrote.
\<close>

section \<open>Examples the witnesses evaluate on\<close>

definition demo_master_addr :: socket_addr where
  "demo_master_addr = SockV4 \<lparr>v4_ip = 0x01020304, v4_port = 27010\<rparr>"

definition demo_server_addr :: socket_addr where
  "demo_server_addr = SockV4 \<lparr>v4_ip = 0x05060708, v4_port = 27015\<rparr>"

text \<open>A world whose clock goes by tenths of a second and in which the datagrams \<open>ds\<close> arrive and then nothing.\<close>

definition demo_world :: "(bytes \<times> socket_addr) list \<Rightarrow> world" where
  "demo_world ds =
     \<lparr>w_clk = (\<lambda>i. i * 10 ^ 8), w_clk_pos = 0, w_rng = (\<lambda>i. 0xabc), w_rng_pos = 0, w_accepts = (\<lambda>_. True),
      w_send_pos = 0,
      w_recv = (\<lambda>i. if i < length ds then RecvFrom (fst (ds ! i)) (snd (ds ! i)) else RecvWouldBlock),
      w_recv_pos = 0, w_trace = False, w_sent = []\<rparr>"

definition demo_observer :: "(bytes \<times> socket_addr) list \<Rightarrow> observer" where
  "demo_observer ds =
     insert_server (Server_new demo_server_addr)
       (insert_master (Master_new demo_master_addr) (Observer_bind (demo_world ds)))"

lemma demo_observed: "observed mc (demo_observer ds)"
  unfolding demo_observer_def by (intro observed.intros)

lemma demo_observer_fields:
  "ob_filter (demo_observer ds) = []" "ob_delayed_events (demo_observer ds) = []"
  "ob_sock (demo_observer ds) = (demo_world ds)\<lparr>w_clk_pos := 2\<rparr>"
  "map_of (ob_connections (demo_observer ds)) demo_server_addr =
     Some (fst (Connection_new demo_server_addr False ((demo_world ds)\<lparr>w_clk_pos := 1\<rparr>)))"
  by (simp_all add: demo_observer_def insert_server_def insert_master_def Observer_bind_def Server_new_def
      Master_new_def get_master_def Instant_now_def Connection_new_def demo_world_def Let_def)

section \<open>The event loop\<close>

text \<open>C16. Waiting ends: however many datagrams arrive, whatever they hold and however the timers fall, \<^verbatim>\<open>wait_event\<close>
  with a timeout returns when the clock eventually stays past the deadline.\<close>

theorem wait_event_returns:
  assumes "\<And>i. n \<le> i \<Longrightarrow> w_clk (ob_sock ob) (w_clk_pos (ob_sock ob)) + t \<le> w_clk (ob_sock ob) i"
  shows "\<exists>h. wait_event mc (Some t) ob = Some h"
proof (cases "pop_delayed ob")
  case None
  obtain now w where now: "Instant_now (ob_sock ob) = (now, w)" by (metis surj_pair)
  have "passes (now + t) n w"
    using assms Instant_now_later [OF now] by (simp add: passes_def later_def)
  with wait_loop_returns [of "now + t" n "ob\<lparr>ob_sock := w\<rparr>" mc] None now show ?thesis
    by (simp add: wait_event_def)
qed (auto simp: wait_event_def)

lemma wait_event_returns_witness:
  "\<exists>h. wait_event naive_memchr (Some (3 * 10 ^ 9)) (demo_observer [([1, 2], demo_server_addr), ([], demo_master_addr)]) = Some h"
  by (rule wait_event_returns [where n = 50]) (simp add: demo_observer_fields demo_world_def)



text \<open>C36. The invariant of the observer, in every state its interface reaches: masters and servers are registered
  under distinct addresses, and each connection keeps its own address, speaks one of the two protocol
  versions and holds no information before its version is known.\<close>

theorem observer_invariant:
  assumes "observed mc ob"
  shows "distinct (map om_addr (ob_masters ob)) \<and> distinct (map fst (ob_connections ob)) \<and>
     (\<forall>(a, con) \<in> set (ob_connections ob). con_address con = a \<and> con_protocol con \<in> {48, 49} \<and>
        (con_state con = ProtocolDetection \<longrightarrow> con_data con = []))"
  using observed_ok [OF assms] by (auto simp: ob_ok_def con_ok_def PROTOCOL_VERSION_def)

lemma observer_invariant_witness:
  "distinct (map fst (ob_connections (demo_observer [])))"
  using observer_invariant [OF demo_observed] by blast

text \<open>C22. No server disappears silently: a server that was registered before a wait is registered after it, or its
  removal is the event that is returned, or a removal event for it waits to be returned.\<close>

theorem removals_are_reported:
  assumes "observed mc ob" "a \<in> fst ` set (ob_connections ob)" "wait_event mc t ob = Some (r, ob')"
  shows "a \<in> fst ` set (ob_connections ob') \<or> DServerRemove a \<in> set (ob_delayed_events ob') \<or>
     r = Inr (EvServerRemove a) \<or> r = Inr (EvServerInvalidProtocol a)"
  using accounts.wait_event_ok [OF assms(3), of "{a}"] observed_ok [OF assms(1)] assms(2)
  by (auto simp: all_known_def accounted_def known_def)

lemma removals_are_reported_witness:
  "\<exists>r ob'. wait_event naive_memchr (Some (3 * 10 ^ 9)) (demo_observer []) = Some (r, ob') \<and>
     (demo_server_addr \<in> fst ` set (ob_connections ob') \<or> DServerRemove demo_server_addr \<in> set (ob_delayed_events ob') \<or>
      r = Inr (EvServerRemove demo_server_addr) \<or> r = Inr (EvServerInvalidProtocol demo_server_addr))"
proof -
  obtain r ob' where run: "wait_event naive_memchr (Some (3 * 10 ^ 9)) (demo_observer []) = Some (r, ob')"
    using wait_event_returns [of 50 "demo_observer []" "3 * 10 ^ 9" naive_memchr]
    by (auto simp: demo_observer_fields demo_world_def)
  have "demo_server_addr \<in> fst ` set (ob_connections (demo_observer []))"
    using map_of_SomeD [OF demo_observer_fields(4)] by force
  from removals_are_reported [OF demo_observed this run] run show ?thesis by blast
qed

text \<open>A list of servers is reported only from a registered master and only with the key of the last query that
  was made for this master: a list that was not asked for, or answers an older query, is dropped.\<close>

theorem lists_answer_queries:
  assumes "wait_event mc t ob = Some (Inr (EvServerList l), ob')"
  shows "\<exists>m \<in> set (ob_masters ob'). om_addr m = sl_master l \<and> qsr_key (sl_response l) = Some (om_key m)"
  using list_keys.wait_event_ok [OF assms] by (simp add: list_has_key_def)

definition demo_list :: bytes where
  "demo_list = QueryServersResponse_HEADER @ 0x7f # to_le 4 (0xabc :: u32) @ [8]"

definition demo_asking :: observer where
  "demo_asking = insert_master (Master_new demo_master_addr) (Observer_bind (demo_world [(demo_list, demo_master_addr)]))"

lemma demo_list_decode: "\<exists>r. QueryServersResponse_decode demo_list = Inr r \<and> qsr_key r = Some 0xabc"
proof -
  obtain a b c d where k: "to_le 4 (0xabc :: u32) = [a, b, c, d]"
    using list4 [of "to_le 4 (0xabc :: u32)"] by auto
  have "from_le (to_le 4 (0xabc :: u32)) = (0xabc :: u32)" by simp
  with k show ?thesis
    by (simp add: QueryServersResponse_decode_def demo_list_def wire_simps Let_def)
qed

lemma demo_asking_turn:
  "\<exists>ob. wait_turn None demo_asking = Inr ob \<and> ob_masters ob = [\<lparr>om_addr = demo_master_addr, om_key = 0xabc\<rparr>] \<and>
     w_recv (ob_sock ob) (w_recv_pos (ob_sock ob)) = RecvFrom demo_list demo_master_addr \<and>
     w_clk (ob_sock ob) (w_clk_pos (ob_sock ob)) = 3 * 10 ^ 8 \<and>
     tk_time (ob_query_servers_task ob) = 8 * 10 ^ 9 \<and> tk_time (ob_query_info_task ob) = 2 * 10 ^ 9"
proof -
  have "filter_fits []" by (simp add: filter_fits_def BUFFER_SIZE_def)
  then show ?thesis
    by (simp add: wait_turn_def demo_asking_def insert_master_def Observer_bind_def get_master_def
      Master_new_def Instant_now_def demo_world_def process_tasks_def Task_update_time_def Task_new_def
      query_servers_from_masters_def query_info_from_servers_def cleanup_servers_def process_pending_def
      process_one_def Master_encode_fits pop_delayed_def Socket_send_to_def
      MASTER_INTERVAL_def SERVER_INTERVAL_def SERVER_CLEAN_INTERVAL_def Let_def)
qed

lemma demo_asking_event:
  "\<exists>r ob'. wait_event naive_memchr None demo_asking = Some (Inr (EvServerList r), ob')"
proof -
  obtain ob where turn: "wait_turn None demo_asking = Inr ob"
    and ob: "ob_masters ob = [\<lparr>om_addr = demo_master_addr, om_key = 0xabc\<rparr>]"
      "w_recv (ob_sock ob) (w_recv_pos (ob_sock ob)) = RecvFrom demo_list demo_master_addr"
      "w_clk (ob_sock ob) (w_clk_pos (ob_sock ob)) = 3 * 10 ^ 8"
      "tk_time (ob_query_servers_task ob) = 8 * 10 ^ 9" "tk_time (ob_query_info_task ob) = 2 * 10 ^ 9"
    using demo_asking_turn by blast
  obtain l where l: "QueryServersResponse_decode demo_list = Inr l" "qsr_key l = Some 0xabc"
    using demo_list_decode by blast
  have "\<exists>ob'. receive_event naive_memchr None ob =
      Some (Inr (Some (EvServerList \<lparr>sl_master = demo_master_addr, sl_response = l\<rparr>)), ob')"
    by (simp add: receive_event_def Instant_now_def ob Let_def)
       (subst receive_until.simps, simp add: Socket_recv_from_def ob Observer_handle_packet_def get_master_def
          handle_master_packet_def l)
  moreover have "pop_delayed demo_asking = None"
    by (simp add: demo_asking_def insert_master_def Observer_bind_def Instant_now_def pop_delayed_def)
  ultimately show ?thesis
    using turn by (auto simp: wait_event_def) (subst wait_loop.simps, simp)
qed

section \<open>The dialogue with a server\<close>





section \<open>The dialogue with a master server\<close>






end
