(* ===== verification/Cli_Options.thy ===== *)
theory Cli_Options
  imports Net_Addr
begin

text \<open>
  What the command lines of the three programs share: the interface of the option parser \<^verbatim>\<open>getopts\<close>, which
  is a parameter of each, a result for functions that can leave the process, and the operations on
  strings they use.
\<close>

text \<open>An option of \<^verbatim>\<open>getopts\<close>: short and long name, and whether it takes a value. What a parser found.\<close>

type_synonym getopt = "bytes \<times> bytes \<times> bool"

record opt_matches =
  opt_present :: "bytes \<Rightarrow> bool"
  opt_str :: "bytes \<Rightarrow> bytes option"
  opt_free :: "bytes list"

type_synonym getopts = "getopt list \<Rightarrow> bytes list \<Rightarrow> unit + opt_matches"

text \<open>How a call ends that can leave the process: \<open>Proc_exit\<close> carries the status.\<close>

datatype 'a proc = Proc_exit nat | Proc_panic | Proc_ok 'a

text \<open>\<^verbatim>\<open>Matches::opt_get\<close>: absent, unreadable or a value.\<close>

definition opt_get :: "opt_matches \<Rightarrow> bytes \<Rightarrow> (bytes \<Rightarrow> 'a option) \<Rightarrow> unit + 'a option" where
  "opt_get m name from_str =
     (case opt_str m name of
        None \<Rightarrow> Inr None
      | Some s \<Rightarrow> (case from_str s of Some v \<Rightarrow> Inr (Some v) | None \<Rightarrow> Inl ()))"

text \<open>\<^verbatim>\<open>usize\<close> on a machine of 64 bits.\<close>

definition parse_usize :: "bytes \<Rightarrow> nat option" where
  "parse_usize s = parse_uint 10 (2 ^ 64 - 1) s"

text \<open>\<^verbatim>\<open>str::contains\<close> of a string.\<close>

fun contains_str :: "bytes \<Rightarrow> bytes \<Rightarrow> bool" where
  "contains_str pat [] \<longleftrightarrow> pat = []"
| "contains_str pat (b # s) \<longleftrightarrow> starts_with pat (b # s) \<or> contains_str pat s"

text \<open>A host without a port gets the default one.\<close>

definition with_port :: "bytes \<Rightarrow> bytes" where
  "with_port s = (if 58 \<notin> set s then s @ str '':27010'' else s)"

text \<open>\<^verbatim>\<open>String::pop\<close> takes the last character.\<close>

definition pop_char :: "bytes \<Rightarrow> bytes" where
  "pop_char s = (if s = [] then [] else take (last (0 # char_indices s)) s)"

end
