(* ===== verification/Master_Program.thy ===== *)
theory Master_Program
  imports Master_Runs Cli_Options
begin

text \<open>
  The program around the master server (\<^verbatim>\<open>main.rs\<close>, \<^verbatim>\<open>cli.rs\<close>, \<^verbatim>\<open>logger.rs\<close>, the enumeration \<^verbatim>\<open>Master\<close>
  of \<^verbatim>\<open>master_server.rs\<close>): its options, the configuration with the options on top, the choice of the
  address family, and the outer loop with its signals as a machine that takes one step per call that can
  wait. The option parser \<^verbatim>\<open>getopts\<close>, the reader of the configuration file, the name service and the
  sockets are parameters.
\<close>

unbundle bit_operations_syntax

section \<open>Command line\<close>

datatype cli_error = EInvalidIp bytes | EInvalidPort bytes | EInvalidStatsInterval bytes | EOptions

record cli =
  cli_log_level :: "level_filter option"
  cli_listen_ip :: "ip_addr option"
  cli_listen_port :: "u16 option"
  cli_config_path :: "bytes option"
  cli_stats_format :: "bytes option"
  cli_stats_interval :: "u32 option"

definition master_options :: "getopt list" where
  "master_options =
     [(str ''h'', str ''help'', False), (str ''v'', str ''version'', False), (str ''l'', str ''log'', True),
      (str ''i'', str ''ip'', True), (str ''p'', str ''port'', True), (str ''c'', str ''config'', True),
      ([], str ''print-default-config'', False), (str ''s'', str ''stats-format'', True),
      (str ''I'', str ''stats-interval'', True)]"

text \<open>\<open>s.parse().map_err(..)\<close> of an option that may be absent.\<close>

definition parse_opt :: "opt_matches \<Rightarrow> bytes \<Rightarrow> (bytes \<Rightarrow> 'a option) \<Rightarrow> (bytes \<Rightarrow> cli_error) \<Rightarrow> cli_error + 'a option" where
  "parse_opt m name from_str err =
     (case opt_str m name of
        None \<Rightarrow> Inr None
      | Some s \<Rightarrow> (case from_str s of Some v \<Rightarrow> Inr (Some v) | None \<Rightarrow> Inl (err s)))"

definition cli_parse :: "getopts \<Rightarrow> bytes list \<Rightarrow> (cli_error + cli) proc" where
  "cli_parse getopts args =
     (if args = [] then Proc_panic
      else case getopts master_options (tl args) of
        Inl _ \<Rightarrow> Proc_ok (Inl EOptions)
      | Inr m \<Rightarrow>
          if opt_present m (str ''help'') then Proc_exit 0
          else if opt_present m (str ''version'') then Proc_exit 0
          else if opt_present m (str ''print-default-config'') then Proc_exit 0
          else case (case opt_str m (str ''log'') of
                       None \<Rightarrow> Some None
                     | Some value \<Rightarrow> map_option Some (parse_log_level value)) of
                 None \<Rightarrow> Proc_exit 1
               | Some log_level \<Rightarrow> Proc_ok
                   (rbind (parse_opt m (str ''ip'') ip_addr_from_str EInvalidIp) (\<lambda>ip.
                    rbind (parse_opt m (str ''port'') (parse_word 10) EInvalidPort) (\<lambda>port.
                    rbind (parse_opt m (str ''stats-interval'') (parse_word 10) EInvalidStatsInterval) (\<lambda>interval.
                    Inr \<lparr>cli_log_level = log_level, cli_listen_ip = ip, cli_listen_port = port,
                         cli_config_path = opt_str m (str ''config''),
                         cli_stats_format = opt_str m (str ''stats-format''), cli_stats_interval = interval\<rparr>)))))"

section \<open>Logger and configuration\<close>

datatype config_error = CToml | CIo

record logger =
  lg_max_level :: level_filter
  lg_print_time :: bool

definition Logger_update_config :: "log_config \<Rightarrow> logger \<Rightarrow> logger" where
  "Logger_update_config cfg l = l\<lparr>lg_max_level := lc_level cfg, lg_print_time := lc_time cfg\<rparr>"

text \<open>
  A level and a version in the file are strings: \<open>str_of\<close> is the string deserializer of \<^verbatim>\<open>serde\<close>, and \<open>custom\<close> makes
  its error of a message.
\<close>

definition deserialize_log_level :: "('d \<Rightarrow> 'e + bytes) \<Rightarrow> (bytes \<Rightarrow> 'e) \<Rightarrow> 'd \<Rightarrow> 'e + level_filter" where
  "deserialize_log_level str_of custom de =
     rbind (str_of de) (\<lambda>s.
       case parse_log_level s of
         Some level \<Rightarrow> Inr level
       | None \<Rightarrow> Inl (custom (str ''Invalid log level: \"'' @ s @ str ''\"'')))"

definition deserialize_version :: "('d \<Rightarrow> 'e + bytes) \<Rightarrow> (bytes \<Rightarrow> 'e) \<Rightarrow> 'd \<Rightarrow> 'e + version" where
  "deserialize_version str_of custom de =
     rbind (str_of de) (\<lambda>s.
       case Version_from_str s of
         Inr v \<Rightarrow> Inr v
       | Inl _ \<Rightarrow> Inl (custom (str ''Invalid version: \"'' @ s @ str ''\"'')))"

lemma deserialize_version_display: "str_of de = Inr (Version_display v) \<Longrightarrow> deserialize_version str_of custom de = Inr v"
  by (simp add: deserialize_version_def Version_from_display)

definition level_name :: "level_filter \<Rightarrow> bytes" where
  "level_name l = (case l of LOff \<Rightarrow> str ''off'' | LError \<Rightarrow> str ''error'' | LWarn \<Rightarrow> str ''warn''
     | LInfo \<Rightarrow> str ''info'' | LDebug \<Rightarrow> str ''debug'' | LTrace \<Rightarrow> str ''trace'')"

lemma parse_level_name: "parse_log_level (level_name l) = Some l"
  by (cases l) (simp_all add: level_name_def parse_log_level_def starts_with_def str_def)

lemma deserialize_level_name: "str_of de = Inr (level_name l) \<Longrightarrow> deserialize_log_level str_of custom de = Inr l"
  by (simp add: deserialize_log_level_def parse_level_name)

lemma deserialize_log_level_error:
  "deserialize_log_level str_of custom de = Inl e \<longleftrightarrow>
     str_of de = Inl e \<or>
     (\<exists>s. str_of de = Inr s \<and> parse_log_level s = None \<and> e = custom (str ''Invalid log level: \"'' @ s @ str ''\"''))"
  by (cases "str_of de") (auto simp: deserialize_log_level_def split: option.splits)

text \<open>
  \<open>read\<close> is \<^verbatim>\<open>fs::read\<close> and \<open>from_slice\<close> the TOML deserializer. The program takes the composition as \<open>load\<close>.
\<close>

definition config_load :: "(bytes \<Rightarrow> unit + bytes) \<Rightarrow> (bytes \<Rightarrow> unit + config) \<Rightarrow> bytes \<Rightarrow> config_error + config" where
  "config_load read from_slice path =
     (case read path of
        Inl _ \<Rightarrow> Inl CIo
      | Inr data \<Rightarrow> (case from_slice data of Inl _ \<Rightarrow> Inl CToml | Inr cfg \<Rightarrow> Inr cfg))"

lemma config_load_ok: "config_load read from_slice path = Inr cfg \<longleftrightarrow> (\<exists>data. read path = Inr data \<and> from_slice data = Inr cfg)"
  by (auto simp: config_load_def split: sum.splits)

definition cli_override :: "cli \<Rightarrow> config \<Rightarrow> config" where
  "cli_override cli cfg =
     (let cfg = (case cli_log_level cli of Some level \<Rightarrow> cfg\<lparr>cfg_log := (cfg_log cfg)\<lparr>lc_level := level\<rparr>\<rparr> | None \<Rightarrow> cfg);
          cfg = (case cli_listen_ip cli of
                   Some ip \<Rightarrow> cfg\<lparr>cfg_master := (cfg_master cfg)\<lparr>mc_server := (mc_server (cfg_master cfg))\<lparr>sc_ip := ip\<rparr>\<rparr>\<rparr>
                 | None \<Rightarrow> cfg);
          cfg = (case cli_listen_port cli of
                   Some port \<Rightarrow> cfg\<lparr>cfg_master := (cfg_master cfg)\<lparr>mc_server := (mc_server (cfg_master cfg))\<lparr>sc_port := port\<rparr>\<rparr>\<rparr>
                 | None \<Rightarrow> cfg);
          cfg = (case cli_stats_format cli of Some f \<Rightarrow> cfg\<lparr>cfg_stat := (cfg_stat cfg)\<lparr>st_format := f\<rparr>\<rparr> | None \<Rightarrow> cfg)
      in case cli_stats_interval cli of Some i \<Rightarrow> cfg\<lparr>cfg_stat := (cfg_stat cfg)\<lparr>st_interval := i\<rparr>\<rparr> | None \<Rightarrow> cfg)"

definition load_config :: "(bytes \<Rightarrow> config_error + config) \<Rightarrow> cli \<Rightarrow> logger \<Rightarrow> (config_error + config) \<times> logger" where
  "load_config load cli logger =
     (case (case cli_config_path cli of Some p \<Rightarrow> load p | None \<Rightarrow> Inr Config_default) of
        Inl e \<Rightarrow> (Inl e, logger)
      | Inr cfg \<Rightarrow>
          (let cfg = cli_override cli cfg in (Inr cfg, Logger_update_config (cfg_log cfg) logger)))"

section \<open>The server of either family\<close>

datatype any_master = MV4 "(socket_v4, ipv4) master" | MV6 "(socket_v6, ipv6) master"

text \<open>
  What the system gives during one start or reload: the name service, the result of binding the address of the
  configuration, and the local address of the socket.
\<close>

record net_env =
  ne_resolve :: "bytes \<Rightarrow> socket_addr list option"
  ne_bind :: "master_error option"
  ne_local :: "socket_addr option"

definition config_addr :: "config \<Rightarrow> socket_addr" where
  "config_addr cfg = SocketAddr_new (sc_ip (mc_server (cfg_master cfg))) (sc_port (mc_server (cfg_master cfg)))"

definition AnyMaster_new :: "net_env \<Rightarrow> config \<Rightarrow> master_error + any_master" where
  "AnyMaster_new ne cfg =
     (case config_addr cfg of
        SockV4 addr \<Rightarrow> map_ok MV4 (MasterServer_new AddrExt_V4 (ne_resolve ne) (ne_bind ne) cfg addr)
      | SockV6 addr \<Rightarrow> map_ok MV6 (MasterServer_new AddrExt_V6 (ne_resolve ne) (ne_bind ne) cfg addr))"

definition AnyMaster_update_config :: "net_env \<Rightarrow> config \<Rightarrow> any_master \<Rightarrow> (unit, any_master) handler" where
  "AnyMaster_update_config ne cfg st =
     (let (r, st) =
        (case st of
           MV4 inner \<Rightarrow> map_prod id MV4 (MasterServer_update_config (ne_resolve ne) (ne_bind ne) (ne_local ne) cfg inner)
         | MV6 inner \<Rightarrow> map_prod id MV6 (MasterServer_update_config (ne_resolve ne) (ne_bind ne) (ne_local ne) cfg inner))
      in case r of
           Inl e \<Rightarrow> (Inl e, st)
         | Inr None \<Rightarrow> (Inr (), st)
         | Inr (Some cfg) \<Rightarrow> (case AnyMaster_new ne cfg of Inl e \<Rightarrow> (Inl e, st) | Inr st' \<Rightarrow> (Inr (), st')))"

definition AnyMaster_run :: "turn list \<Rightarrow> any_master \<Rightarrow> (unit, any_master) handler option" where
  "AnyMaster_run ts st =
     (case st of
        MV4 inner \<Rightarrow> map_option (map_prod id MV4) (run_turns AddrExt_V4 ts inner)
      | MV6 inner \<Rightarrow> map_option (map_prod id MV6) (run_turns AddrExt_V6 ts inner))"

section \<open>The program\<close>

text \<open>
  Where the program is: at the head of its loop, inside \<^verbatim>\<open>master.run()\<close>, behind it, or at its end. \<open>Stuck\<close> would
  be a handler that does not return.
\<close>

datatype place = AtHead | InRun | BehindRun | Stopped | Failed master_error | Stuck

record program =
  pr_cli :: cli
  pr_logger :: logger
  pr_master :: any_master
  pr_signals :: u32
  pr_place :: place

text \<open>The events of its world: a signal handler ran, \<^verbatim>\<open>recv_from\<close> returned, or the program went on by itself as far as
  it does without waiting (with what a reload reads and the sockets give).\<close>

datatype event =
    Signal u32
  | Recv recv_result env
  | Continue "bytes \<Rightarrow> config_error + config" net_env

text \<open>The run returns when it sees a signal or is interrupted.\<close>

definition turn_ends :: "turn \<Rightarrow> bool" where
  "turn_ends t \<longleftrightarrow> \<not> SignalFlags_is_empty (tn_signals t) \<or> tn_recv t = RInterrupted"

definition program_turn :: "recv_result \<Rightarrow> env \<Rightarrow> program \<Rightarrow> program" where
  "program_turn recv env p =
     (let t = \<lparr>tn_signals = pr_signals p, tn_recv = recv, tn_env = env\<rparr> in
      case AnyMaster_run [t] (pr_master p) of
        None \<Rightarrow> p\<lparr>pr_place := Stuck\<rparr>
      | Some (Inl e, m) \<Rightarrow> p\<lparr>pr_master := m, pr_place := Failed e\<rparr>
      | Some (Inr _, m) \<Rightarrow> p\<lparr>pr_master := m, pr_place := (if turn_ends t then BehindRun else InRun)\<rparr>)"

definition program_reload :: "(bytes \<Rightarrow> config_error + config) \<Rightarrow> net_env \<Rightarrow> program \<Rightarrow> program" where
  "program_reload load ne p =
     (let (reload, signals) = SignalFlags_remove_reload (pr_signals p);
          p = p\<lparr>pr_signals := signals, pr_place := AtHead\<rparr>
      in if reload \<and> cli_config_path (pr_cli p) \<noteq> None
         then (case load_config load (pr_cli p) (pr_logger p) of
                 (Inl e, logger) \<Rightarrow> p\<lparr>pr_logger := logger\<rparr>
               | (Inr cfg, logger) \<Rightarrow>
                   p\<lparr>pr_logger := logger, pr_master := snd (AnyMaster_update_config ne cfg (pr_master p))\<rparr>)
         else p)"

definition program_step :: "event \<Rightarrow> program \<Rightarrow> program" where
  "program_step ev p =
     (case ev of
        Signal flags \<Rightarrow> p\<lparr>pr_signals := SignalFlags_raise flags (pr_signals p)\<rparr>
      | Recv recv env \<Rightarrow> (if pr_place p = InRun then program_turn recv env p else p)
      | Continue load ne \<Rightarrow>
          (case pr_place p of
             AtHead \<Rightarrow> p\<lparr>pr_place := (if SignalFlags_is_exit (pr_signals p) then Stopped else InRun)\<rparr>
           | InRun \<Rightarrow> (if SignalFlags_is_empty (pr_signals p) then p else p\<lparr>pr_place := BehindRun\<rparr>)
           | BehindRun \<Rightarrow> program_reload load ne p
           | _ \<Rightarrow> p))"

text \<open>The start: every failure before the loop ends the process with status 1.\<close>

definition logger_init :: logger where
  "logger_init = \<lparr>lg_max_level = LOff, lg_print_time = True\<rparr>"

definition program_start ::
  "getopts \<Rightarrow> (bytes \<Rightarrow> config_error + config) \<Rightarrow> net_env \<Rightarrow> bool \<Rightarrow> bytes list \<Rightarrow> program proc" where
  "program_start getopts load ne signals_ok args =
     (case cli_parse getopts args of
        Proc_exit n \<Rightarrow> Proc_exit n
      | Proc_panic \<Rightarrow> Proc_panic
      | Proc_ok (Inl e) \<Rightarrow> Proc_exit 1
      | Proc_ok (Inr cli) \<Rightarrow>
          (case load_config load cli logger_init of
             (Inl e, _) \<Rightarrow> Proc_exit 1
           | (Inr cfg, logger) \<Rightarrow>
               (case AnyMaster_new ne cfg of
                  Inl e \<Rightarrow> Proc_exit 1
                | Inr m \<Rightarrow>
                    if \<not> signals_ok then Proc_exit 1
                    else Proc_ok \<lparr>pr_cli = cli, pr_logger = logger, pr_master = m, pr_signals = 0,
                                 pr_place = AtHead\<rparr>)))"

inductive program_reachable :: "program \<Rightarrow> bool" where
  start: "program_start getopts load ne signals_ok args = Proc_ok p \<Longrightarrow> program_reachable p"
| step: "program_reachable p \<Longrightarrow> program_reachable (program_step ev p)"

section \<open>What a reload does\<close>

lemma update_config_cases:
  obtains (unknown) "ne_local ne = None" "AnyMaster_update_config ne cfg m = (Inl EIo, m)"
  | (same) "ne_local ne = Some (config_addr cfg)" "fst (AnyMaster_update_config ne cfg m) = Inr ()"
  | (moved) local where "ne_local ne = Some local" "local \<noteq> config_addr cfg"
      "is_ipv4 local = is_ipv4 (config_addr cfg)" "ne_bind ne = None" "fst (AnyMaster_update_config ne cfg m) = Inr ()"
  | (restarted) local m' where "ne_local ne = Some local" "is_ipv4 local \<noteq> is_ipv4 (config_addr cfg)"
      "ne_bind ne = None" "AnyMaster_new ne cfg = Inr m'" "AnyMaster_update_config ne cfg m = (Inr (), m')"
  | (failed) local e where "ne_local ne = Some local" "local \<noteq> config_addr cfg"
      "ne_bind ne = Some e" "AnyMaster_update_config ne cfg m = (Inl e, m)"
proof (cases "ne_local ne")
  case None
  then show ?thesis
    using unknown by (cases m) (simp_all add: AnyMaster_update_config_def MasterServer_update_config_def)
next
  case (Some local)
  note upd = AnyMaster_update_config_def MasterServer_update_config_def Let_def config_addr_def [symmetric] Some
  consider (eq) "local = config_addr cfg" | (fam) "is_ipv4 local \<noteq> is_ipv4 (config_addr cfg)"
    | (ne) "local \<noteq> config_addr cfg" "is_ipv4 local = is_ipv4 (config_addr cfg)" by blast
  then show ?thesis
  proof cases
    case eq
    have "fst (AnyMaster_update_config ne cfg m) = Inr ()" by (cases m) (simp_all add: upd eq)
    with same eq Some show ?thesis by simp
  next
    case fam
    have new: "AnyMaster_update_config ne cfg m =
        (case AnyMaster_new ne cfg of Inl e \<Rightarrow> (Inl e, m) | Inr st' \<Rightarrow> (Inr (), st'))"
      using fam by (cases m) (auto simp: upd split: sum.split)
    show ?thesis
    proof (cases "ne_bind ne")
      case None
      then obtain m' where "AnyMaster_new ne cfg = Inr m'"
        by (cases "config_addr cfg") (simp_all add: AnyMaster_new_def MasterServer_new_def Let_def)
      with restarted fam None \<open>ne_local ne = Some local\<close> new show ?thesis by simp
    next
      case (Some e)
      then have "AnyMaster_new ne cfg = Inl e"
        by (cases "config_addr cfg") (simp_all add: AnyMaster_new_def MasterServer_new_def)
      moreover have "local \<noteq> config_addr cfg" using fam by auto
      ultimately show ?thesis using failed [of local e] new \<open>ne_local ne = Some local\<close> Some by simp
    qed
  next
    case ne
    show ?thesis
    proof (cases "ne_bind ne")
      case None
      have "fst (AnyMaster_update_config ne cfg m) = Inr ()" by (cases m) (simp_all add: upd ne None)
      with moved ne Some None show ?thesis by simp
    next
      case bind: (Some e)
      have "AnyMaster_update_config ne cfg m = (Inl e, m)" by (cases m) (simp_all add: upd ne bind)
      with failed [of local e] ne Some bind show ?thesis by simp
    qed
  qed
qed

text \<open>What the server keeps: everything it knows, or everything but what it knows about addresses.\<close>

definition keeps_data :: "('addr, 'ip) master \<Rightarrow> ('addr, 'ip) master \<Rightarrow> bool" where
  "keeps_data st st' \<longleftrightarrow>
     tm_map (ms_servers st') = tm_map (ms_servers st) \<and> tm_map (ms_challenges st') = tm_map (ms_challenges st) \<and>
     tm_map (ms_admin_challenges st') = tm_map (ms_admin_challenges st) \<and>
     ms_client_rate_limit st' = ms_client_rate_limit st \<and> ms_blocklist st' = ms_blocklist st"

definition clears_data :: "('addr, 'ip) master \<Rightarrow> ('addr, 'ip) master \<Rightarrow> bool" where
  "clears_data st st' \<longleftrightarrow>
     tm_map (ms_servers st') = [] \<and> tm_map (ms_challenges st') = [] \<and> tm_map (ms_admin_challenges st') = [] \<and>
     tm_map (ms_client_rate_limit st') = [] \<and> ms_blocklist st' = ms_blocklist st"

definition any_keeps :: "any_master \<Rightarrow> any_master \<Rightarrow> bool" where
  "any_keeps m m' \<longleftrightarrow>
     (case (m, m') of (MV4 st, MV4 st') \<Rightarrow> keeps_data st st' | (MV6 st, MV6 st') \<Rightarrow> keeps_data st st' | _ \<Rightarrow> False)"

definition any_clears :: "any_master \<Rightarrow> any_master \<Rightarrow> bool" where
  "any_clears m m' \<longleftrightarrow>
     (case (m, m') of (MV4 st, MV4 st') \<Rightarrow> clears_data st st' | (MV6 st, MV6 st') \<Rightarrow> clears_data st st' | _ \<Rightarrow> False)"

lemmas reload_simps = AnyMaster_update_config_def MasterServer_update_config_def Let_def config_addr_def [symmetric]
  any_keeps_def any_clears_def keeps_data_def clears_data_def TimedHashMap_set_timeout_def MasterServer_clear_def
  TimedHashMap_clear_def

lemma reload_same:
  "ne_local ne = Some (config_addr cfg) \<Longrightarrow> any_keeps m (snd (AnyMaster_update_config ne cfg m))"
  by (cases m) (simp_all add: reload_simps)

lemma reload_moved:
  "ne_local ne = Some local \<Longrightarrow> local \<noteq> config_addr cfg \<Longrightarrow> is_ipv4 local = is_ipv4 (config_addr cfg) \<Longrightarrow>
     ne_bind ne = None \<Longrightarrow> any_clears m (snd (AnyMaster_update_config ne cfg m))"
  by (cases m) (simp_all add: reload_simps)

section \<open>The invariant of the program\<close>

definition any_cfg :: "any_master \<Rightarrow> master_config" where
  "any_cfg m = (case m of MV4 st \<Rightarrow> ms_cfg st | MV6 st \<Rightarrow> ms_cfg st)"

definition any_reachable :: "any_master \<Rightarrow> bool" where
  "any_reachable m = (case m of MV4 st \<Rightarrow> reachable AddrExt_V4 st | MV6 st \<Rightarrow> reachable AddrExt_V6 st)"

text \<open>The options of the command line are those of the server configuration.\<close>

definition cli_holds :: "cli \<Rightarrow> master_config \<Rightarrow> bool" where
  "cli_holds cli cfg \<longleftrightarrow>
     (\<forall>ip. cli_listen_ip cli = Some ip \<longrightarrow> sc_ip (mc_server cfg) = ip) \<and>
     (\<forall>port. cli_listen_port cli = Some port \<longrightarrow> sc_port (mc_server cfg) = port)"

lemma cli_override_holds: "cli_holds cli (cfg_master (cli_override cli cfg))"
  by (simp add: cli_holds_def cli_override_def Let_def split: option.split)

lemma cli_override_log: "cli_log_level cli = Some l \<Longrightarrow> lc_level (cfg_log (cli_override cli cfg)) = l"
  by (simp add: cli_override_def Let_def split: option.split)

lemma load_config_holds:
  assumes "load_config load cli logger = (r, logger')"
  shows "(\<forall>cfg. r = Inr cfg \<longrightarrow> cli_holds cli (cfg_master cfg)) \<and>
     (logger' = logger \<or> (\<forall>l. cli_log_level cli = Some l \<longrightarrow> lg_max_level logger' = l)) \<and>
     (is_ok r \<longrightarrow> (\<forall>l. cli_log_level cli = Some l \<longrightarrow> lg_max_level logger' = l))"
  using assms
  by (auto simp: load_config_def Let_def cli_override_holds cli_override_log Logger_update_config_def
      split: sum.splits option.splits)

lemma AnyMaster_new_holds:
  assumes "AnyMaster_new ne cfg = Inr m"
  shows "any_cfg m = cfg_master cfg \<and> any_reachable m"
  using assms
  by (auto simp: AnyMaster_new_def any_cfg_def any_reachable_def MasterServer_new_def Let_def map_ok_eq_Inr_iff
      intro: reach_new split: socket_addr.splits option.splits)

lemma MasterServer_update_config_holds:
  assumes "reachable ax st" "MasterServer_update_config res bind (Some local) cfg st = (r, st')"
  shows "reachable ax st' \<and> (r = Inr None \<longrightarrow> ms_cfg st' = cfg_master cfg) \<and>
     (is_ipv4 local = is_ipv4 (config_addr cfg) \<longrightarrow> (\<forall>c. r \<noteq> Inr (Some c)))"
  using reach_step [OF assms(1) step_config [OF assms(2)]] assms(2)
  by (auto simp: MasterServer_update_config_def Let_def hbind_def config_addr_def
      split: if_splits option.splits)

lemma AnyMaster_update_config_holds:
  assumes "any_reachable m"
  shows "any_reachable (snd (AnyMaster_update_config ne cfg m)) \<and>
     any_cfg (snd (AnyMaster_update_config ne cfg m)) \<in> {any_cfg m, cfg_master cfg}"
proof -
  have stay: "any_reachable m' \<and> any_cfg m' \<in> {any_cfg m, cfg_master cfg}"
    if "AnyMaster_update_config ne cfg m = (r, m')" "m' = m \<or> AnyMaster_new ne cfg = Inr m'" for r m'
    using that assms AnyMaster_new_holds by auto
  have inner: "any_reachable (snd (AnyMaster_update_config ne cfg m)) \<and>
      any_cfg (snd (AnyMaster_update_config ne cfg m)) = cfg_master cfg"
    if "fst (AnyMaster_update_config ne cfg m) = Inr ()" "ne_local ne = Some local"
      "is_ipv4 local = is_ipv4 (config_addr cfg)" for local
  proof (cases m)
    case (MV4 st)
    obtain r st' where u: "MasterServer_update_config (ne_resolve ne) (ne_bind ne) (Some local) cfg st = (r, st')"
      by fastforce
    have "reachable AddrExt_V4 st" using assms MV4 by (simp add: any_reachable_def)
    from MasterServer_update_config_holds [OF this u] that MV4 u show ?thesis
      by (auto simp: AnyMaster_update_config_def any_reachable_def any_cfg_def split: sum.splits option.splits)
  next
    case (MV6 st)
    obtain r st' where u: "MasterServer_update_config (ne_resolve ne) (ne_bind ne) (Some local) cfg st = (r, st')"
      by fastforce
    have "reachable AddrExt_V6 st" using assms MV6 by (simp add: any_reachable_def)
    from MasterServer_update_config_holds [OF this u] that MV6 u show ?thesis
      by (auto simp: AnyMaster_update_config_def any_reachable_def any_cfg_def split: sum.splits option.splits)
  qed
  show ?thesis
  proof (cases rule: update_config_cases [of ne cfg m])
    case unknown
    then show ?thesis using stay by auto
  next
    case same
    then show ?thesis using inner by simp
  next
    case (moved local)
    then show ?thesis using inner by simp
  next
    case (restarted local m')
    then show ?thesis using stay by auto
  next
    case (failed local e)
    then show ?thesis using stay by auto
  qed
qed

lemma AnyMaster_run_total: "AnyMaster_run ts m \<noteq> None"
  using net4.run_turns_total net6.run_turns_total
  by (auto simp: AnyMaster_run_def returns_def split: any_master.split)

lemma receive_cfg:
  assumes "receive ax env src from_addr st = Some st'"
  shows "ms_cfg st' = ms_cfg st"
proof -
  have "ms_cfg (snd h) = ms_cfg st" if h: "handle_packet ax env a src st = Some h" for h a
    using h
  proof (cases rule: handle_packet_core)
    case core
    then show ?thesis by (simp add: same_core_def)
  next
    case (add msg)
    then show ?thesis by (simp add: handler_cfg)
  next
    case (admin msg)
    then show ?thesis by (simp add: handle_admin_command_cfg)
  qed
  then show ?thesis
    using assms by (fastforce simp: receive_def split: option.splits if_splits prod.splits sum.splits)
qed

lemma run_turn_cfg: "run_turns ax [t] st = Some h \<Longrightarrow> ms_cfg (snd h) = ms_cfg st"
  by (cases "tn_recv t") (auto split: if_splits option.splits dest: receive_cfg)

lemma AnyMaster_run_holds:
  assumes "any_reachable m" "AnyMaster_run [t] m = Some (r, m')"
  shows "any_reachable m' \<and> any_cfg m' = any_cfg m"
  using assms
  by (auto simp: AnyMaster_run_def any_reachable_def any_cfg_def split: any_master.splits
      simp del: run_turns.simps dest: run_turns_reachable run_turn_cfg)

definition program_inv :: "program \<Rightarrow> bool" where
  "program_inv p \<longleftrightarrow>
     any_reachable (pr_master p) \<and> cli_holds (pr_cli p) (any_cfg (pr_master p)) \<and>
     (\<forall>l. cli_log_level (pr_cli p) = Some l \<longrightarrow> lg_max_level (pr_logger p) = l) \<and> pr_place p \<noteq> Stuck"

lemma program_start_inv:
  assumes "program_start getopts load ne signals_ok args = Proc_ok p"
  shows "program_inv p"
proof -
  obtain cli where c: "cli_parse getopts args = Proc_ok (Inr cli)"
    using assms by (simp add: program_start_def split: proc.splits sum.splits)
  obtain r logger where l: "load_config load cli logger_init = (r, logger)" by fastforce
  obtain cfg where r: "r = Inr cfg" using assms by (cases r) (simp_all add: program_start_def c l)
  obtain m where m: "AnyMaster_new ne cfg = Inr m"
    using assms by (cases "AnyMaster_new ne cfg") (simp_all add: program_start_def c l r)
  have "p = \<lparr>pr_cli = cli, pr_logger = logger, pr_master = m, pr_signals = 0, pr_place = AtHead\<rparr>"
    using assms by (simp add: program_start_def c l r m split: if_splits)
  with load_config_holds [OF l] AnyMaster_new_holds [OF m] r show ?thesis
    by (simp add: program_inv_def)
qed

lemma program_turn_inv: "program_inv p \<Longrightarrow> program_inv (program_turn recv env p)"
proof -
  assume inv: "program_inv p"
  let ?t = "\<lparr>tn_signals = pr_signals p, tn_recv = recv, tn_env = env\<rparr>"
  obtain r m where run: "AnyMaster_run [?t] (pr_master p) = Some (r, m)"
    using AnyMaster_run_total [of "[?t]" "pr_master p"] by auto
  have "any_reachable (pr_master p)" using inv by (simp add: program_inv_def)
  from AnyMaster_run_holds [OF this run] inv show ?thesis
    by (cases r) (simp_all add: program_inv_def program_turn_def Let_def run)
qed

lemma program_reload_inv:
  assumes "program_inv p"
  shows "program_inv (program_reload load ne p)"
proof -
  have keep: "program_inv (p\<lparr>pr_signals := w, pr_place := AtHead\<rparr>)" for w
    using assms by (simp add: program_inv_def)
  obtain r logger where l: "load_config load (pr_cli p) (pr_logger p) = (r, logger)" by fastforce
  note holds = load_config_holds [OF l]
  have level: "\<forall>l. cli_log_level (pr_cli p) = Some l \<longrightarrow> lg_max_level logger = l"
    using holds assms by (auto simp: program_inv_def)
  show ?thesis
  proof (cases r)
    case (Inl e)
    with keep level assms show ?thesis
      by (auto simp: program_reload_def l program_inv_def Let_def split: prod.split)
  next
    case (Inr cfg)
    have "any_reachable (pr_master p)" using assms by (simp add: program_inv_def)
    from AnyMaster_update_config_holds [OF this, of ne cfg] holds Inr keep level assms show ?thesis
      by (auto simp: program_reload_def l program_inv_def Let_def split: prod.split)
  qed
qed

lemma program_step_inv: "program_inv p \<Longrightarrow> program_inv (program_step ev p)"
  using program_turn_inv program_reload_inv
  by (auto simp: program_step_def split: event.split place.split) (auto simp: program_inv_def)

lemma program_reachable_inv: "program_reachable p \<Longrightarrow> program_inv p"
  by (induction rule: program_reachable.induct) (auto intro: program_start_inv program_step_inv)

lemma program_step_cli [simp]: "pr_cli (program_step ev p) = pr_cli p"
  by (auto simp: program_step_def program_turn_def program_reload_def Let_def
      split: event.split place.split option.split sum.split prod.split)

section \<open>Stopping\<close>

definition program_steps :: "event list \<Rightarrow> program \<Rightarrow> program" where
  "program_steps evs p = fold program_step evs p"

lemma program_steps_reachable: "program_reachable p \<Longrightarrow> program_reachable (program_steps evs p)"
  by (induction evs arbitrary: p) (simp_all add: program_steps_def program_reachable.step)

lemma program_steps_cli [simp]: "pr_cli (program_steps evs p) = pr_cli p"
  by (induction evs arbitrary: p) (simp_all add: program_steps_def)

fun is_continue :: "event \<Rightarrow> bool" where
  "is_continue (Continue _ _) = True"
| "is_continue _ = False"

text \<open>How many steps an exit needs.\<close>

fun exit_rank :: "place \<Rightarrow> nat" where
  "exit_rank InRun = 3"
| "exit_rank BehindRun = 2"
| "exit_rank AtHead = 1"
| "exit_rank _ = 0"

lemma raise_keeps_exit: "SignalFlags_is_exit w \<Longrightarrow> SignalFlags_is_exit (SignalFlags_raise flags w)"
proof -
  assume "SignalFlags_is_exit w"
  moreover have "(w OR flags) AND SIG_EXIT = (w AND SIG_EXIT) OR (flags AND SIG_EXIT)" by (rule bit.conj_disj_distrib2)
  ultimately show ?thesis
    by (simp add: SignalFlags_is_exit_def SignalFlags_raise_def flags_intersects_def flags_insert_def or_eq_0_iff)
qed

lemma exit_not_empty: "SignalFlags_is_exit w \<Longrightarrow> \<not> SignalFlags_is_empty w"
  by (auto simp: SignalFlags_is_exit_def SignalFlags_is_empty_def flags_intersects_def)

lemma AnyMaster_run_signalled: "\<not> SignalFlags_is_empty (tn_signals t) \<Longrightarrow> AnyMaster_run [t] m = Some (Inr (), m)"
  by (cases m) (simp_all add: AnyMaster_run_def)

lemma recv_signalled:
  "\<not> SignalFlags_is_empty (pr_signals p) \<Longrightarrow>
     program_step (Recv recv env) p = (if pr_place p = InRun then p\<lparr>pr_place := BehindRun\<rparr> else p)"
  by (simp add: program_step_def program_turn_def Let_def AnyMaster_run_signalled turn_ends_def)

lemma reload_place: "pr_place (program_reload load ne p) = AtHead"
  by (simp add: program_reload_def Let_def split: prod.split sum.split)

lemma reload_signals: "pr_signals (program_reload load ne p) = snd (SignalFlags_remove_reload (pr_signals p))"
  by (simp add: program_reload_def Let_def split: prod.split sum.split)

lemma exit_step:
  assumes "SignalFlags_is_exit (pr_signals p)"
  shows "SignalFlags_is_exit (pr_signals (program_step ev p))"
    and "pr_place p \<in> {AtHead, InRun, BehindRun, Stopped} \<Longrightarrow>
      pr_place (program_step ev p) \<in> {AtHead, InRun, BehindRun, Stopped} \<and>
      exit_rank (pr_place (program_step ev p)) \<le> exit_rank (pr_place p) - (if is_continue ev then 1 else 0)"
proof -
  note w = exit_not_empty [OF assms]
  show "SignalFlags_is_exit (pr_signals (program_step ev p))"
  proof (cases ev)
    case (Signal f)
    then show ?thesis using assms raise_keeps_exit by (simp add: program_step_def)
  next
    case (Recv r e)
    then show ?thesis using assms by (simp add: recv_signalled [OF w])
  next
    case (Continue l ne)
    then show ?thesis
      using assms remove_reload_keeps_exit by (auto simp: program_step_def reload_signals split: place.split)
  qed
  show "pr_place (program_step ev p) \<in> {AtHead, InRun, BehindRun, Stopped} \<and>
      exit_rank (pr_place (program_step ev p)) \<le> exit_rank (pr_place p) - (if is_continue ev then 1 else 0)"
    if "pr_place p \<in> {AtHead, InRun, BehindRun, Stopped}"
  proof (cases ev)
    case (Signal f)
    then show ?thesis using that by (simp add: program_step_def)
  next
    case (Recv r e)
    then show ?thesis using that by (auto simp: recv_signalled [OF w])
  next
    case (Continue l ne)
    then show ?thesis using that w assms by (auto simp: program_step_def reload_place)
  qed
qed

lemma exit_stops:
  assumes "SignalFlags_is_exit (pr_signals p)" "pr_place p \<in> {AtHead, InRun, BehindRun, Stopped}"
    and "exit_rank (pr_place p) \<le> length (filter is_continue evs)"
  shows "pr_place (program_steps evs p) = Stopped"
  using assms
proof (induction evs arbitrary: p)
  case Nil
  then show ?case by (auto simp: program_steps_def)
next
  case (Cons ev evs)
  from exit_step [OF Cons.prems(1), of ev] Cons.prems
  have "exit_rank (pr_place (program_step ev p)) \<le> length (filter is_continue evs)"
    by (auto split: if_splits)
  from Cons.IH [OF exit_step(1) [OF Cons.prems(1)] _ this] exit_step(2) [OF Cons.prems(1,2)] show ?case
    by (simp add: program_steps_def)
qed

end
