(* ===== verification/Master_Stats.thy ===== *)
theory Master_Stats
  imports Master_Config
begin

text \<open>
  The statistics (\<^verbatim>\<open>stats/imp.rs\<close>): the printer of the counters with its format string, and the thread that
  prints and resets them, one step per turn of its loop. The counters are those of \<open>Master_Config\<close>; every
  access to one of them is one atomic step. The division by the elapsed time and its one decimal are a
  parameter, \<open>rate\<close>.
\<close>

section \<open>Printing\<close>

record stat_values =
  sv_servers :: nat
  sv_server_add :: u32
  sv_server_del :: u32
  sv_query_servers :: u32
  sv_errors :: u32

text \<open>The swaps at the start of \<^verbatim>\<open>print\<close>, each an atomic operation.\<close>

definition swap_server_add :: "stats \<Rightarrow> u32 \<times> stats" where
  "swap_server_add s = (stat_server_add s, s\<lparr>stat_server_add := 0\<rparr>)"

definition swap_server_del :: "stats \<Rightarrow> u32 \<times> stats" where
  "swap_server_del s = (stat_server_del s, s\<lparr>stat_server_del := 0\<rparr>)"

definition swap_query_servers :: "stats \<Rightarrow> u32 \<times> stats" where
  "swap_query_servers s = (stat_query_servers s, s\<lparr>stat_query_servers := 0\<rparr>)"

definition swap_errors :: "stats \<Rightarrow> u32 \<times> stats" where
  "swap_errors s = (stat_errors s, s\<lparr>stat_errors := 0\<rparr>)"

definition Counters_swap :: "stats \<Rightarrow> stat_values \<times> stats" where
  "Counters_swap s =
     (let servers = stat_servers s;
          (server_add, s) = swap_server_add s;
          (server_del, s) = swap_server_del s;
          (query_servers, s) = swap_query_servers s;
          (errors, s) = swap_errors s
      in (\<lparr>sv_servers = servers, sv_server_add = server_add, sv_server_del = server_del,
           sv_query_servers = query_servers, sv_errors = errors\<rparr>, s))"

text \<open>What stands for \<^verbatim>\<open>%\<close> and the character behind it.\<close>

definition print_item :: "(u32 \<Rightarrow> bytes) \<Rightarrow> stat_values \<Rightarrow> bytes \<Rightarrow> bytes" where
  "print_item rate v c =
     (if c = str ''s'' then show_dec (sv_servers v)
      else if c = str ''A'' then show_dec (unat (sv_server_add v))
      else if c = str ''D'' then show_dec (unat (sv_server_del v))
      else if c = str ''Q'' then show_dec (unat (sv_query_servers v))
      else if c = str ''E'' then show_dec (unat (sv_errors v))
      else if c = str ''a'' then rate (sv_server_add v)
      else if c = str ''d'' then rate (sv_server_del v)
      else if c = str ''q'' then rate (sv_query_servers v)
      else if c = str ''e'' then rate (sv_errors v)
      else 37 # c)"

lemma split_char_le: "(c, rest) = split_char s \<Longrightarrow> length rest \<le> length s"
  using split_char_append [of s] by (metis snd_conv length_append le_add2)

function print_format :: "(u32 \<Rightarrow> bytes) \<Rightarrow> stat_values \<Rightarrow> bytes \<Rightarrow> bytes" where
  "print_format rate v format =
     (case position (\<lambda>c. c = 37) format of
        None \<Rightarrow> format
      | Some i \<Rightarrow>
          (let head = take i format;
               (c, rest) = split_char (drop (i + 1) format)
           in head @ print_item rate v c @ (if rest = [] then [] else print_format rate v rest)))"
  by pat_completeness auto
termination
  by (relation "measure (\<lambda>(_, _, format). length format)") (auto dest!: position_SomeD split_char_le)

declare print_format.simps [simp del]

definition Counters_print :: "(u32 \<Rightarrow> bytes) \<Rightarrow> bytes \<Rightarrow> stats \<Rightarrow> bytes \<times> stats" where
  "Counters_print rate format s = (let (v, s) = Counters_swap s in (print_format rate v format, s))"

section \<open>The thread\<close>

text \<open>What \<^verbatim>\<open>recv\<close> or \<^verbatim>\<open>recv_timeout\<close> gives: a configuration, the time is up, or the sender is gone.\<close>

datatype stat_recv = NewConfig stat_config | TimeUp | Disconnected

text \<open>
  One turn: the configuration it goes on with and the counters, and the line it printed. \<open>None\<close>: the thread
  panicked, because \<^verbatim>\<open>recv\<close> without an interval failed. \<^verbatim>\<open>recv\<close> itself does not time out.
\<close>

definition stat_thread_turn ::
  "(u32 \<Rightarrow> bytes) \<Rightarrow> stat_recv \<Rightarrow> stat_config \<times> stats \<Rightarrow> ((stat_config \<times> stats) \<times> bytes option) option" where
  "stat_thread_turn rate r cs =
     (let (config, s) = cs in
      if st_interval config = 0 then
        (case r of
           NewConfig config \<Rightarrow> Some ((config, Stats_clear s), None)
         | TimeUp \<Rightarrow> Some ((config, s), None)
         | Disconnected \<Rightarrow> None)
      else
        (case r of
           NewConfig config \<Rightarrow> Some ((config, s), None)
         | _ \<Rightarrow> (let (buf, s) = Counters_print rate (st_format config) s in Some ((config, s), Some buf))))"

section \<open>What is printed\<close>

lemma print_format_plain: "37 \<notin> set format \<Longrightarrow> print_format rate v format = format"
proof -
  assume "37 \<notin> set format"
  then have "position (\<lambda>c. c = 37) format = None" by (auto simp: position_None_iff)
  then show ?thesis by (subst print_format.simps) (simp only: option.case)
qed

lemma print_format_item:
  assumes "37 \<notin> set head" "c < 128" "\<forall>b \<in> set rest. \<not> is_cont b"
  shows "print_format rate v (head @ 37 # c # rest) = head @ print_item rate v [c] @ print_format rate v rest"
proof -
  have "position (\<lambda>c. c = 37) (head @ 37 # c # rest) = Some (length head)"
    using assms(1) by (intro position_append_hit) auto
  moreover have "split_char (c # rest) = ([c], rest)" using assms(2,3) by (rule split_char_ascii)
  moreover have "print_format rate v [] = []" by (rule print_format_plain) simp
  ultimately show ?thesis by (subst print_format.simps) simp
qed

text \<open>A template of literal pieces and items prints piece by piece.\<close>

definition template :: "(bytes \<times> byte) list \<Rightarrow> bytes \<Rightarrow> bytes" where
  "template items rest = concat (map (\<lambda>(lit, c). lit @ [37, c]) items) @ rest"

lemma print_template:
  assumes "\<forall>(lit, c) \<in> set items. 37 \<notin> set lit \<and> is_ascii lit \<and> c < 128" "37 \<notin> set rest" "is_ascii rest"
  shows "print_format rate v (template items rest) =
     concat (map (\<lambda>(lit, c). lit @ print_item rate v [c]) items) @ rest"
  using assms
proof (induction items)
  case Nil
  then show ?case by (simp add: template_def print_format_plain)
next
  case (Cons i items)
  obtain lit c where i: "i = (lit, c)" by fastforce
  have ascii: "is_ascii (template items rest)"
    using Cons.prems by (induction items) (auto simp: template_def split_beta)
  then have "\<forall>b \<in> set (template items rest). \<not> is_cont b"
    by (auto simp: is_ascii_def is_cont_def not_le)
  moreover have "template (i # items) rest = lit @ 37 # c # template items rest" by (simp add: template_def i)
  ultimately show ?case using print_format_item [of lit c "template items rest" rate v] Cons i by auto
qed

section \<open>Accounting\<close>

text \<open>The accesses to the counters by the server and the printing thread, in any order.\<close>

datatype stat_op = OnServerAdd | OnServerDel | OnQueryServers | OnError | SwapAdd | SwapDel | SwapQuery | SwapErrors

text \<open>The totals that were swapped out so far.\<close>

definition stat_step :: "stat_op \<Rightarrow> stats \<times> stat_values \<Rightarrow> stats \<times> stat_values" where
  "stat_step oper sv =
     (let (s, v) = sv in
      case oper of
        OnServerAdd \<Rightarrow> (Stats_on_server_add s, v)
      | OnServerDel \<Rightarrow> (Stats_on_server_del s, v)
      | OnQueryServers \<Rightarrow> (Stats_on_query_servers s, v)
      | OnError \<Rightarrow> (Stats_on_error s, v)
      | SwapAdd \<Rightarrow> (let (n, s) = swap_server_add s in (s, v\<lparr>sv_server_add := sv_server_add v + n\<rparr>))
      | SwapDel \<Rightarrow> (let (n, s) = swap_server_del s in (s, v\<lparr>sv_server_del := sv_server_del v + n\<rparr>))
      | SwapQuery \<Rightarrow> (let (n, s) = swap_query_servers s in (s, v\<lparr>sv_query_servers := sv_query_servers v + n\<rparr>))
      | SwapErrors \<Rightarrow> (let (n, s) = swap_errors s in (s, v\<lparr>sv_errors := sv_errors v + n\<rparr>)))"

definition stat_run :: "stat_op list \<Rightarrow> stats \<times> stat_values \<Rightarrow> stats \<times> stat_values" where
  "stat_run ops sv = fold stat_step ops sv"

lemma stat_run_simps [simp]:
  "stat_run [] sv = sv" "stat_run (x # ops) sv = stat_run ops (stat_step x sv)"
  by (simp_all add: stat_run_def)

lemma stat_run_accounts:
  assumes "stat_run ops (s, v) = (s', v')" "stat_enabled s"
  shows "stat_enabled s' \<and>
     sv_server_add v' + stat_server_add s' =
       sv_server_add v + stat_server_add s + of_nat (count_list ops OnServerAdd) \<and>
     sv_server_del v' + stat_server_del s' =
       sv_server_del v + stat_server_del s + of_nat (count_list ops OnServerDel) \<and>
     sv_query_servers v' + stat_query_servers s' =
       sv_query_servers v + stat_query_servers s + of_nat (count_list ops OnQueryServers) \<and>
     sv_errors v' + stat_errors s' = sv_errors v + stat_errors s + of_nat (count_list ops OnError)"
  using assms
proof (induction ops arbitrary: s v)
  case (Cons x ops)
  obtain s1 v1 where x: "stat_step x (s, v) = (s1, v1)" by fastforce
  with Cons.prems have run: "stat_run ops (s1, v1) = (s', v')" by simp
  have "stat_enabled s1" using x Cons.prems(2)
    by (auto simp: stat_step_def swap_server_add_def swap_server_del_def swap_query_servers_def swap_errors_def
        Stats_on_server_add_def Stats_on_server_del_def Stats_on_query_servers_def Stats_on_error_def
        split: stat_op.splits)
  from Cons.IH [OF run this] x Cons.prems(2) show ?case
    by (cases x) (auto simp: stat_step_def swap_server_add_def swap_server_del_def swap_query_servers_def swap_errors_def
        Stats_on_server_add_def Stats_on_server_del_def Stats_on_query_servers_def Stats_on_error_def algebra_simps)
qed simp

text \<open>A thread whose sender is gone prints without waiting, turn after turn, and never ends.\<close>

fun stat_thread_alone :: "(u32 \<Rightarrow> bytes) \<Rightarrow> nat \<Rightarrow> stat_config \<times> stats \<Rightarrow> bytes option list option" where
  "stat_thread_alone rate 0 cs = Some []"
| "stat_thread_alone rate (Suc n) cs =
     (case stat_thread_turn rate Disconnected cs of
        None \<Rightarrow> None
      | Some (cs, out) \<Rightarrow> map_option ((#) out) (stat_thread_alone rate n cs))"

lemma stat_thread_spins:
  assumes "st_interval config \<noteq> 0"
  shows "\<exists>lines. stat_thread_alone rate n (config, s) = Some (map Some lines) \<and> length lines = n"
proof (induction n arbitrary: s)
  case (Suc n)
  obtain buf s' where p: "Counters_print rate (st_format config) s = (buf, s')" by fastforce
  obtain lines where l: "stat_thread_alone rate n (config, s') = Some (map Some lines)" "length lines = n"
    using Suc by blast
  show ?case
    by (rule exI [of _ "buf # lines"]) (simp add: stat_thread_turn_def assms p l)
qed simp

end
