(* ===== verification/Color_Codes.thy ===== *)
theory Color_Codes
  imports Text_Std
begin

text \<open>
  Colour codes in strings (\<^verbatim>\<open>color.rs\<close> of the protocol crate) and the coloured text of the query tool
  (\<^verbatim>\<open>color.rs\<close> of that crate). A string is the list of its UTF-8 bytes; a character starts at every byte
  that does not continue one.
\<close>

section \<open>Codes\<close>

datatype color = Black | Red | Green | Yellow | Blue | Cyan | Magenta | White

definition Color_try_from :: "bytes \<Rightarrow> color option" where
  "Color_try_from value =
     (if value = str ''^0'' then Some Black
      else if value = str ''^1'' then Some Red
      else if value = str ''^2'' then Some Green
      else if value = str ''^3'' then Some Yellow
      else if value = str ''^4'' then Some Blue
      else if value = str ''^5'' then Some Cyan
      else if value = str ''^6'' then Some Magenta
      else if value = str ''^7'' then Some White
      else None)"

definition is_color_code :: "bytes \<Rightarrow> bool" where
  "is_color_code s = (case s of b # c # _ \<Rightarrow> b = 94 \<and> 48 \<le> c \<and> c \<le> 57 | _ \<Rightarrow> False)"

lemma is_color_code_simps [simp]:
  "\<not> is_color_code []" "\<not> is_color_code [b]"
  "is_color_code (b # c # s) \<longleftrightarrow> b = 94 \<and> 48 \<le> c \<and> c \<le> 57"
  by (simp_all add: is_color_code_def)

lemma is_color_code_length: "is_color_code s \<Longrightarrow> 2 \<le> length s"
  by (auto simp: is_color_code_def split: list.splits)

text \<open>The loop of \<^verbatim>\<open>trim_start_color\<close>: the offset behind all codes at the start.\<close>

function skip_codes :: "bytes \<Rightarrow> nat \<Rightarrow> nat" where
  "skip_codes s n = (if is_color_code (drop n s) then skip_codes s (n + 2) else n)"
  by pat_completeness auto
termination
proof (relation "measure (\<lambda>(s, n). length s - n)")
  fix s :: bytes and n
  assume "is_color_code (drop n s)"
  from is_color_code_length [OF this] show "((s, n + 2), (s, n)) \<in> measure (\<lambda>(s, n). length s - n)" by simp
qed simp

declare skip_codes.simps [simp del]

definition trim_start_color :: "bytes \<Rightarrow> bytes \<times> bytes" where
  "trim_start_color s =
     (let n = skip_codes s 0 in
      if 0 < n then (take 2 (drop (n - 2) s), drop n s) else ([], s))"

definition ColorIter_next :: "bytes \<Rightarrow> ((bytes \<times> bytes) \<times> bytes) option" where
  "ColorIter_next inner =
     (if inner = [] then None
      else
        (let (color, tail) = trim_start_color inner;
             offset = (case find (\<lambda>i. is_color_code (drop i tail)) (char_indices tail) of
                         Some i \<Rightarrow> i | None \<Rightarrow> length tail)
         in Some ((color, take offset tail), drop offset tail)))"

section \<open>The iterator\<close>

lemma skip_codes_le: "n \<le> length s \<Longrightarrow> n \<le> skip_codes s n \<and> skip_codes s n \<le> length s"
proof (induction s n rule: skip_codes.induct)
  case (1 s n)
  show ?case
  proof (cases "is_color_code (drop n s)")
    case True
    then have "n + 2 \<le> length s" using is_color_code_length [OF True] 1(2) by simp
    with True 1(1) show ?thesis by (subst (1 2) skip_codes.simps) simp
  qed (simp add: skip_codes.simps [of s n] 1)
qed

lemma skip_codes_end: "\<not> is_color_code (drop (skip_codes s n) s)"
  by (induction s n rule: skip_codes.induct) (subst skip_codes.simps, simp)

lemma skip_codes_last: "skip_codes s n \<noteq> n \<Longrightarrow> is_color_code (drop (skip_codes s n - 2) s)"
proof (induction s n rule: skip_codes.induct)
  case (1 s n)
  then have c: "is_color_code (drop n s)" by (cases "is_color_code (drop n s)") (simp_all add: skip_codes.simps [of s n])
  then have step: "skip_codes s n = skip_codes s (n + 2)" by (simp add: skip_codes.simps [of s n])
  with 1(1) [OF c] c show ?case by (cases "skip_codes s (n + 2) = n + 2") simp_all
qed

lemma trim_start_color_tail:
  "snd (trim_start_color s) = drop (skip_codes s 0) s" "\<not> is_color_code (snd (trim_start_color s))"
proof -
  show "snd (trim_start_color s) = drop (skip_codes s 0) s" by (simp add: trim_start_color_def Let_def)
  then show "\<not> is_color_code (snd (trim_start_color s))" using skip_codes_end [of s 0] by simp
qed

lemma trim_start_color_code:
  "fst (trim_start_color s) = [] \<or> is_color_code (fst (trim_start_color s)) \<and> length (fst (trim_start_color s)) = 2"
proof (cases "skip_codes s 0 = 0")
  case True
  then show ?thesis by (simp add: trim_start_color_def)
next
  case False
  let ?d = "drop (skip_codes s 0 - 2) s"
  have c: "is_color_code ?d" using skip_codes_last [OF False] .
  then obtain b d t where "?d = b # d # t" by (auto simp: is_color_code_def split: list.splits)
  with c have "is_color_code (take 2 ?d)" "length (take 2 ?d) = 2" by (simp_all del: length_take)
  with False show ?thesis by (simp add: trim_start_color_def Let_def)
qed

lemma ColorIter_next_shorter:
  assumes "ColorIter_next inner = Some (x, rest)"
  shows "length rest < length inner"
proof -
  let ?t = "snd (trim_start_color inner)"
  let ?o = "case find (\<lambda>i. is_color_code (drop i ?t)) (char_indices ?t) of Some i \<Rightarrow> i | None \<Rightarrow> length ?t"
  have ne: "inner \<noteq> []" and rest: "rest = drop ?o ?t"
    using assms by (auto simp: ColorIter_next_def Let_def split_beta split: if_splits)
  have le: "length ?t \<le> length inner" by (simp add: trim_start_color_tail)
  show ?thesis
  proof (cases "?t = []")
    case True
    with rest ne show ?thesis by simp
  next
    case False
    have "0 < ?o"
    proof (cases "find (\<lambda>i. is_color_code (drop i ?t)) (char_indices ?t)")
      case None
      with False show ?thesis by simp
    next
      case (Some i)
      then have "is_color_code (drop i ?t)" by (auto simp: find_Some_iff)
      with trim_start_color_tail(2) [of inner] have "i \<noteq> 0" by (intro notI) simp
      with Some show ?thesis by simp
    qed
    with rest le False show ?thesis by (cases "length ?t") auto
  qed
qed

text \<open>Running the iterator to its end.\<close>

function ColorIter_collect :: "bytes \<Rightarrow> (bytes \<times> bytes) list" where
  "ColorIter_collect inner =
     (case ColorIter_next inner of None \<Rightarrow> [] | Some (x, rest) \<Rightarrow> x # ColorIter_collect rest)"
  by pat_completeness auto
termination
  by (relation "measure length") (auto dest: ColorIter_next_shorter)

declare ColorIter_collect.simps [simp del]

definition trim_color :: "bytes \<Rightarrow> bytes" where
  "trim_color s =
     (let (_, s) = trim_start_color s in
      if 94 \<notin> set s then s else concat (map snd (ColorIter_collect s)))"

section \<open>What is left of a string\<close>

text \<open>The reference: one pass that drops every code.\<close>

fun strip_codes :: "bytes \<Rightarrow> bytes" where
  "strip_codes (b # c # s) =
     (if is_color_code (b # c # s) then strip_codes s else b # strip_codes (c # s))"
| "strip_codes s = s"

lemma strip_no_code: "94 \<notin> set s \<Longrightarrow> strip_codes s = s"
  by (induction s rule: strip_codes.induct) auto

lemma strip_code: "is_color_code s \<Longrightarrow> strip_codes s = strip_codes (drop 2 s)"
  by (cases s rule: strip_codes.cases) (simp_all del: is_color_code_simps add: numeral_2_eq_2 is_color_code_simps(1,2))

lemma strip_skip: "strip_codes (drop n s) = strip_codes (drop (skip_codes s n) s)"
proof (induction s n rule: skip_codes.induct)
  case (1 s n)
  then show ?case
    by (subst skip_codes.simps) (simp add: strip_code)
qed

lemma strip_start: "strip_codes s = strip_codes (snd (trim_start_color s))"
  using strip_skip [of 0 s] by (simp add: trim_start_color_tail)

lemma strip_cons: "\<not> is_color_code (b # s) \<Longrightarrow> strip_codes (b # s) = b # strip_codes s"
  by (cases s) auto

lemma strip_prefix:
  "(\<And>j. j < i \<Longrightarrow> \<not> is_color_code (drop j s)) \<Longrightarrow> i \<le> length s \<Longrightarrow>
     strip_codes s = take i s @ strip_codes (drop i s)"
proof (induction i arbitrary: s)
  case (Suc i)
  then obtain b t where s: "s = b # t" by (cases s) auto
  have "\<not> is_color_code (drop j t)" if "j < i" for j using Suc.prems(1) [of "Suc j"] that s by simp
  with Suc s have "strip_codes t = take i t @ strip_codes (drop i t)" by simp
  with Suc.prems(1) [of 0] show ?case by (simp add: s strip_cons)
qed simp

lemma color_code_boundary: "is_color_code (drop i s) \<Longrightarrow> i < length s \<and> \<not> is_cont (s ! i)"
proof -
  assume c: "is_color_code (drop i s)"
  from is_color_code_length [OF c] have len: "i + 2 \<le> length s" by simp
  then have "drop i s = s ! i # drop (Suc i) s" by (simp add: Cons_nth_drop_Suc)
  with c have "s ! i = 94" by (cases "drop (Suc i) s") auto
  with len show ?thesis by (simp add: is_cont_def)
qed

lemma color_code_index: "is_color_code (drop i s) \<Longrightarrow> i \<in> set (char_indices s)"
  using color_code_boundary [of i s] by (simp add: char_indices_def)

lemma first_code:
  assumes "find (\<lambda>i. is_color_code (drop i s)) (char_indices s) = r" and "i = (case r of Some i \<Rightarrow> i | None \<Rightarrow> length s)"
  shows "i \<le> length s \<and> (\<forall>j < i. \<not> is_color_code (drop j s))"
proof (cases r)
  case None
  then have "\<forall>j \<in> set (char_indices s). \<not> is_color_code (drop j s)" using assms by (auto simp: find_None_iff)
  then have "\<not> is_color_code (drop j s)" for j using color_code_index by blast
  with None assms show ?thesis by simp
next
  case (Some k)
  then obtain n where n: "n < length (char_indices s)" "char_indices s ! n = k"
    and pre: "\<forall>m < n. \<not> is_color_code (drop (char_indices s ! m) s)"
    using assms by (auto simp: find_Some_iff)
  have sorted: "sorted (char_indices s)" unfolding char_indices_def by (rule sorted_wrt_filter) simp
  have "\<not> is_color_code (drop j s)" if j: "j < k" for j
  proof
    assume c: "is_color_code (drop j s)"
    then have "j \<in> set (char_indices s)" by (rule color_code_index)
    then obtain m where m: "m < length (char_indices s)" "char_indices s ! m = j" by (metis in_set_conv_nth)
    with j n sorted have "m < n" by (metis leI leD sorted_nth_mono)
    with pre m c show False by auto
  qed
  moreover have "k < length s" using n nth_mem [OF n(1)] by (auto simp: char_indices_def)
  ultimately show ?thesis using Some assms by simp
qed

lemma ColorIter_texts: "concat (map snd (ColorIter_collect s)) = strip_codes s"
proof (induction s rule: ColorIter_collect.induct)
  case (1 s)
  show ?case
  proof (cases "s = []")
    case True
    then show ?thesis by (simp add: ColorIter_collect.simps ColorIter_next_def)
  next
    case False
    obtain col t where t: "trim_start_color s = (col, t)" by fastforce
    define i where "i = (case find (\<lambda>i. is_color_code (drop i t)) (char_indices t) of Some i \<Rightarrow> i | None \<Rightarrow> length t)"
    have n: "ColorIter_next s = Some ((col, take i t), drop i t)"
      using False by (simp add: ColorIter_next_def t i_def Let_def)
    have "strip_codes t = take i t @ strip_codes (drop i t)"
      using first_code [OF refl i_def] by (intro strip_prefix) auto
    with 1 [OF n refl] show ?thesis
      using strip_start [of s] by (simp add: ColorIter_collect.simps [of s] n t)
  qed
qed

lemma trim_color_strip: "trim_color s = strip_codes s"
  using strip_start [of s]
  by (simp add: trim_color_def split_beta ColorIter_texts strip_no_code)

text \<open>Stripping joins what a code has separated: the result can hold a code again.\<close>

lemma trim_color_again: "trim_color (str ''^^11'') = str ''^1''"
  by (simp add: trim_color_strip str_def)

lemma ColorIter_colors: "(c, t) \<in> set (ColorIter_collect s) \<Longrightarrow> c = [] \<or> is_color_code c \<and> length c = 2"
proof (induction s rule: ColorIter_collect.induct)
  case (1 s)
  show ?case
  proof (cases "ColorIter_next s")
    case None
    with 1(2) show ?thesis by (simp add: ColorIter_collect.simps [of s])
  next
    case (Some r)
    obtain col u rest where r: "r = ((col, u), rest)" by (metis surj_pair)
    have "col = fst (trim_start_color s)"
      using Some r by (auto simp: ColorIter_next_def Let_def split_beta split: if_splits)
    then have "col = [] \<or> is_color_code col \<and> length col = 2" using trim_start_color_code by simp
    with 1 Some r show ?thesis by (auto simp: ColorIter_collect.simps [of s])
  qed
qed

section \<open>Coloured output\<close>

text \<open>
  A formatter with its fill character and width, alignment and precision being the defaults. A string is
  padded on the right; \<open>style\<close> is what the terminal library prints for a text in a colour (\<open>None\<close>: the
  reset style).
\<close>

record formatter =
  fmt_fill :: bytes
  fmt_width :: "nat option"

definition fmt_plain :: formatter where
  "fmt_plain = \<lparr>fmt_fill = [32], fmt_width = None\<rparr>"

definition chars_count :: "bytes \<Rightarrow> nat" where
  "chars_count s = length (char_indices s)"

definition fmt_padding :: "formatter \<Rightarrow> nat \<Rightarrow> bytes" where
  "fmt_padding fmt width =
     (case fmt_width fmt of None \<Rightarrow> [] | Some w \<Rightarrow> concat (replicate (w - width) (fmt_fill fmt)))"

definition str_fmt :: "formatter \<Rightarrow> bytes \<Rightarrow> bytes" where
  "str_fmt fmt s = s @ fmt_padding fmt (chars_count s)"

record colored =
  cl_text :: bytes
  cl_enable :: bool

definition Colored_fmt :: "(formatter \<Rightarrow> color option \<Rightarrow> bytes \<Rightarrow> bytes) \<Rightarrow> formatter \<Rightarrow> colored \<Rightarrow> bytes" where
  "Colored_fmt style fmt c =
     (let parts = ColorIter_collect (cl_text c);
          width = sum_list (map (\<lambda>(_, text). chars_count text) parts)
      in concat (map (\<lambda>(color, text). if cl_enable c then style fmt (Color_try_from color) text
                                          else str_fmt fmt text) parts) @
         fmt_padding fmt width)"

text \<open>Without colours the text is printed without its codes.\<close>

lemma Colored_plain: "Colored_fmt style fmt_plain \<lparr>cl_text = s, cl_enable = False\<rparr> = trim_color s"
  by (simp add: Colored_fmt_def fmt_plain_def str_fmt_def fmt_padding_def trim_color_strip
      ColorIter_texts [symmetric] split_beta comp_def cong: map_cong)

end
