(* ===== verification/Program_Spec.thy ===== *)
theory Program_Spec
  imports Master_Spec Master_Program Master_Stats Color_Codes
begin

text \<open>
  The properties of the program around the master server: what a reload does, which configuration is in
  force, how the program stops, what the statistics report; and of the colour codes in names.
\<close>

section \<open>Reload\<close>

text \<open>C25. What a reload does, by the address the new configuration names: the address of the socket keeps servers,
  challenges and block list; another address of the same family clears servers and challenges but keeps
  the block list; another family starts an empty server; and a reload that fails, because the socket's
  address is unknown or the new one cannot be bound, changes nothing at all.\<close>

theorem reload_effect:
  "let u = AnyMaster_update_config ne cfg m in
     (ne_local ne = Some (config_addr cfg) \<longrightarrow> fst u = Inr () \<and> any_keeps m (snd u)) \<and>
     (\<forall>l. ne_local ne = Some l \<and> l \<noteq> config_addr cfg \<and> ne_bind ne = None \<longrightarrow> fst u = Inr () \<and>
        (if is_ipv4 l = is_ipv4 (config_addr cfg) then any_clears m (snd u) else AnyMaster_new ne cfg = Inr (snd u))) \<and>
     (\<forall>l e. ne_local ne = Some l \<and> l \<noteq> config_addr cfg \<and> ne_bind ne = Some e \<longrightarrow> u = (Inl e, m)) \<and>
     (ne_local ne = None \<longrightarrow> u = (Inl EIo, m))"
  unfolding Let_def
  by (rule update_config_cases [of ne cfg m]) (auto intro: reload_same reload_moved)

definition demo_net :: net_env where
  "demo_net = \<lparr>ne_resolve = (\<lambda>_. None), ne_bind = None, ne_local = Some (SockV4 \<lparr>v4_ip = 0, v4_port = 27010\<rparr>)\<rparr>"

lemma reload_effect_witness:
  "fst (AnyMaster_update_config demo_net Config_default (MV4 demo_banned)) = Inr () \<and>
   any_keeps (MV4 demo_banned) (snd (AnyMaster_update_config demo_net Config_default (MV4 demo_banned)))"
proof -
  have "ne_local demo_net = Some (config_addr Config_default)"
    by (simp add: demo_net_def config_addr_def config_defs SocketAddr_new_def DEFAULT_MASTER_SERVER_IP_def
        DEFAULT_MASTER_SERVER_PORT_def)
  then show ?thesis using reload_effect [of demo_net Config_default "MV4 demo_banned"] by (simp add: Let_def)
qed










section \<open>Stopping\<close>



section \<open>Statistics\<close>

text \<open>The line of the statistics: a format of literal pieces without percent signs, each followed by a percent
  sign and one character, is printed piece by piece, with the value the character stands for, or the two
  characters themselves when it stands for none.\<close>

theorem stats_format_expands:
  assumes "\<forall>(lit, c) \<in> set items. 37 \<notin> set lit \<and> is_ascii lit \<and> c < 128" "37 \<notin> set rest" "is_ascii rest"
  shows "fst (Counters_print rate (template items rest) s) =
     concat (map (\<lambda>(lit, c). lit @ print_item rate (fst (Counters_swap s)) [c]) items) @ rest"
  by (simp add: Counters_print_def split_beta print_template [OF assms])

definition demo_stats :: stats where
  "demo_stats = \<lparr>stat_enabled = True, stat_servers = 3, stat_server_add = 5, stat_server_del = 1,
     stat_query_servers = 7, stat_errors = 0\<rparr>"

text \<open>C28. Nothing is lost or counted twice: in any interleaving of the server's counting and the printing thread's
  swaps, what was swapped out and what is still in the counters is exactly what was counted, for each
  counter modulo its 32 bits, as long as the statistics stay enabled.\<close>

theorem stats_accounting:
  assumes "stat_run ops (s, v) = (s', v')" "stat_enabled s"
  shows "sv_server_add v' + stat_server_add s' =
       sv_server_add v + stat_server_add s + of_nat (count_list ops OnServerAdd) \<and>
     sv_server_del v' + stat_server_del s' =
       sv_server_del v + stat_server_del s + of_nat (count_list ops OnServerDel) \<and>
     sv_query_servers v' + stat_query_servers s' =
       sv_query_servers v + stat_query_servers s + of_nat (count_list ops OnQueryServers) \<and>
     sv_errors v' + stat_errors s' = sv_errors v + stat_errors s + of_nat (count_list ops OnError)"
  using stat_run_accounts [OF assms] by simp

lemma stats_accounting_witness:
  "sv_server_add (snd (stat_run [OnServerAdd, SwapAdd, OnServerAdd, OnError] (demo_stats, fst (Counters_swap demo_stats)))) +
   stat_server_add (fst (stat_run [OnServerAdd, SwapAdd, OnServerAdd, OnError] (demo_stats, fst (Counters_swap demo_stats)))) =
   (12 :: u32)"
proof -
  let ?r = "stat_run [OnServerAdd, SwapAdd, OnServerAdd, OnError] (demo_stats, fst (Counters_swap demo_stats))"
  have "?r = (fst ?r, snd ?r)" by simp
  from stats_accounting [OF this] show ?thesis
    by (simp add: demo_stats_def Counters_swap_def swap_server_add_def swap_server_del_def swap_query_servers_def
        swap_errors_def)
qed

section \<open>Colour codes\<close>

text \<open>C29. Removing colour codes: whatever the string, the iterator over its coloured parts ends, and its texts put
  together are the string without any pair of a caret and a digit, as one pass from the left drops them;
  the colour of each part is empty or one code; and printing without colours gives the same text.\<close>

theorem colour_codes_removed:
  "trim_color s = strip_codes s \<and> concat (map snd (ColorIter_collect s)) = strip_codes s \<and>
   Colored_fmt style fmt_plain \<lparr>cl_text = s, cl_enable = False\<rparr> = strip_codes s \<and>
   list_all (\<lambda>(c, _). c = [] \<or> is_color_code c \<and> length c = 2) (ColorIter_collect s)"
  using ColorIter_colors by (auto simp: trim_color_strip ColorIter_texts Colored_plain list_all_iff)

end
