(* ===== verification/Admin_Tool.thy ===== *)
theory Admin_Tool
  imports Admin_Packets Master_Packets Cli_Options
begin

text \<open>
  The administrator tool (\<^verbatim>\<open>xash3d-admin\<close>): its options, the prompt for the password and the exchange with the
  master server. The socket, the terminal and the BLAKE2b hash are inputs; the datagrams it sends are its
  output.
\<close>

section \<open>Command line\<close>

record admin_cli =
  acl_address :: bytes
  acl_command :: bytes
  acl_hash_len :: nat
  acl_hash_key :: bytes
  acl_hash_personal :: bytes

definition AdminCli_default :: admin_cli where
  "AdminCli_default =
     \<lparr>acl_address = str ''mentality.rip'' @ str '':'' @ show_dec 27010, acl_command = [], acl_hash_len = HASH_LEN,
      acl_hash_key = HASH_KEY, acl_hash_personal = HASH_PERSONAL\<rparr>"

definition admin_options :: "getopt list" where
  "admin_options =
     [(str ''h'', str ''help'', False), (str ''v'', str ''version'', False), (str ''a'', str ''host'', True),
      (str ''l'', str ''hash-length'', True), (str ''k'', str ''hash-key'', True),
      (str ''p'', str ''hash-personal'', True)]"

definition admin_cli_parse :: "getopts \<Rightarrow> bytes list \<Rightarrow> admin_cli proc" where
  "admin_cli_parse getopts args =
     (if args = [] then Proc_panic
      else case getopts admin_options (tl args) of
        Inl _ \<Rightarrow> Proc_exit 1
      | Inr m \<Rightarrow>
          if opt_present m (str ''help'') then Proc_exit 0
          else if opt_present m (str ''version'') then Proc_exit 0
          else
            (let cli = AdminCli_default;
                 cli = (case opt_str m (str ''host'') of
                          Some s \<Rightarrow> cli\<lparr>acl_address := with_port s\<rparr> | None \<Rightarrow> cli)
             in case opt_get m (str ''hash-length'') parse_usize of
                  Inl _ \<Rightarrow> Proc_exit 1
                | Inr len \<Rightarrow>
                    (let cli = (case len of Some n \<Rightarrow> cli\<lparr>acl_hash_len := n\<rparr> | None \<Rightarrow> cli);
                         cli = (case opt_str m (str ''hash-key'') of
                                  Some s \<Rightarrow> cli\<lparr>acl_hash_key := s\<rparr> | None \<Rightarrow> cli);
                         cli = (case opt_str m (str ''hash-personal'') of
                                  Some s \<Rightarrow> cli\<lparr>acl_hash_personal := s\<rparr> | None \<Rightarrow> cli)
                     in Proc_ok (cli\<lparr>acl_command := intersperse_bytes [32] (opt_free m)\<rparr>))))"

section \<open>The password\<close>

text \<open>The terminal's events, with a character as its UTF-8 bytes.\<close>

datatype key_code = KEsc | KEnter | KChar bytes | KBackspace | KOther

datatype term_event =
    TKey (key_press: bool) (key_ctrl: bool) (key_code: key_code)
  | TPaste bytes
  | TOther

text \<open>
  The loop over the events read: the text typed when a key ended it, \<open>Inl\<close> for an error of the terminal, or
  \<open>None\<close> while it still waits. In the order of the source, a control character ends or clears before any
  character is taken.
\<close>

fun read_keys :: "(unit + term_event) list \<Rightarrow> bytes \<Rightarrow> (unit + bytes) option" where
  "read_keys [] buf = None"
| "read_keys (Inl _ # evs) buf = Some (Inl ())"
| "read_keys (Inr ev # evs) buf =
     (case ev of
        TKey press is_ctrl code \<Rightarrow>
          if \<not> press then read_keys evs buf
          else (case code of
             KEsc \<Rightarrow> Some (Inr buf)
           | KEnter \<Rightarrow> Some (Inr buf)
           | KChar c \<Rightarrow>
               if is_ctrl \<and> (c = str ''c'' \<or> c = str ''d'') then Some (Inr buf)
               else if is_ctrl \<and> c = str ''w'' then read_keys evs []
               else read_keys evs (buf @ c)
           | KBackspace \<Rightarrow> read_keys evs (pop_char buf)
           | KOther \<Rightarrow> read_keys evs buf)
      | TPaste s \<Rightarrow> read_keys evs (buf @ s)
      | TOther \<Rightarrow> read_keys evs buf)"

record terminal =
  tm_env_password :: "bytes option"
  tm_raw_mode_ok :: bool
  tm_events :: "(unit + term_event) list"
  tm_cooked_ok :: bool

datatype admin_error = AUnexpectedPacket | AProtocol xerror | AIo

text \<open>\<open>None\<close>: the prompt still waits for a key.\<close>

definition read_password :: "terminal \<Rightarrow> (admin_error + bytes option) option" where
  "read_password t =
     (case tm_env_password t of
        Some password \<Rightarrow> Some (Inr (Some password))
      | None \<Rightarrow>
          if \<not> tm_raw_mode_ok t then Some (Inl AIo)
          else (case read_keys (tm_events t) [] of
                  None \<Rightarrow> None
                | Some (Inl _) \<Rightarrow> Some (Inl AIo)
                | Some (Inr buf) \<Rightarrow>
                    if \<not> tm_cooked_ok t then Some (Inl AIo)
                    else Some (Inr (if buf = [] then None else Some buf))))"

section \<open>The exchange\<close>

text \<open>What the socket does: it can be bound and connected, which sends succeed, and the reply.\<close>

record admin_sock =
  as_connects :: bool
  as_accepts :: "nat \<Rightarrow> bool"
  as_reply :: "unit + bytes"

text \<open>
  The hash function of the \<^verbatim>\<open>blake2b_simd\<close> crate is a parameter; \<open>None\<close> is its panic for a length, a key or a
  personalisation it does not support.
\<close>

type_synonym hasher = "nat \<Rightarrow> bytes \<Rightarrow> bytes \<Rightarrow> bytes \<Rightarrow> bytes option"

text \<open>The hash of the password and the challenge with the options of the command line.\<close>

definition tool_hash :: "hasher \<Rightarrow> admin_cli \<Rightarrow> bytes \<Rightarrow> u32 \<Rightarrow> bytes option" where
  "tool_hash blake2b cli password hash_challenge =
     blake2b (acl_hash_len cli) (acl_hash_key cli) (acl_hash_personal cli) (password @ to_le 4 hash_challenge)"

definition admin_send :: "admin_sock \<Rightarrow> bytes \<Rightarrow> bytes list \<Rightarrow> (admin_error + unit) \<times> bytes list" where
  "admin_send s packet sent =
     (if as_accepts s (length sent) then (Inr (), sent @ [packet]) else (Inl AIo, sent))"

text \<open>\<open>send_command\<close>: the result, or \<open>None\<close> while the prompt waits, and the datagrams sent.\<close>

definition send_command ::
  "hasher \<Rightarrow> admin_sock \<Rightarrow> terminal \<Rightarrow> admin_cli \<Rightarrow> (admin_error + unit) proc option \<times> bytes list" where
  "send_command blake2b s t cli =
     (if \<not> as_connects s then (Some (Proc_ok (Inl AIo)), [])
      else case AdminChallenge_encode () (replicate 512 0) of
        Inl e \<Rightarrow> (Some (Proc_ok (Inl (AProtocol e))), [])
      | Inr packet \<Rightarrow>
     (case admin_send s packet [] of
        (Inl e, sent) \<Rightarrow> (Some (Proc_ok (Inl e)), sent)
      | (Inr _, sent) \<Rightarrow>
     (case as_reply s of
        Inl _ \<Rightarrow> (Some (Proc_ok (Inl AIo)), sent)
      | Inr reply \<Rightarrow>
     (case MasterPacket_decode (take 512 reply) of
        Inl e \<Rightarrow> (Some (Proc_ok (Inl (AProtocol e))), sent)
      | Inr (Some (MAdminChallengeResponse p)) \<Rightarrow>
          (case read_password t of
             None \<Rightarrow> (None, sent)
           | Some (Inl e) \<Rightarrow> (Some (Proc_ok (Inl e)), sent)
           | Some (Inr None) \<Rightarrow> (Some (Proc_ok (Inr ())), sent)
           | Some (Inr (Some password)) \<Rightarrow>
               (case tool_hash blake2b cli password (acr_hash_challenge p) of
                  None \<Rightarrow> (Some Proc_panic, sent)
                | Some hash \<Rightarrow>
                    (let cmd = \<lparr>ac_master_challenge = acr_master_challenge p, ac_hash = hash,
                                ac_command = acl_command cli\<rparr>
                     in case AdminCommand_encode cmd (replicate 512 0) of
                          Inl e \<Rightarrow> (Some (Proc_ok (Inl (AProtocol e))), sent)
                        | Inr packet \<Rightarrow>
                            (let (r, sent) = admin_send s packet sent in (Some (Proc_ok r), sent)))))
      | Inr _ \<Rightarrow> (Some (Proc_ok (Inl AUnexpectedPacket)), sent)))))"

text \<open>The status of the process; \<open>None\<close> while the prompt waits.\<close>

definition admin_main :: "hasher \<Rightarrow> admin_sock \<Rightarrow> terminal \<Rightarrow> getopts \<Rightarrow> bytes list \<Rightarrow> nat proc option" where
  "admin_main blake2b s t getopts args =
     (case admin_cli_parse getopts args of
        Proc_exit n \<Rightarrow> Some (Proc_exit n)
      | Proc_panic \<Rightarrow> Some Proc_panic
      | Proc_ok cli \<Rightarrow>
          map_option
            (\<lambda>r. case r of Proc_exit n \<Rightarrow> Proc_exit n | Proc_panic \<Rightarrow> Proc_panic
               | Proc_ok (Inl _) \<Rightarrow> Proc_exit 1 | Proc_ok (Inr _) \<Rightarrow> Proc_ok 0)
            (fst (send_command blake2b s t cli)))"

section \<open>What the tool sends\<close>

lemma admin_challenge_fits: "AdminChallenge_encode () (replicate 512 0) = Inr AdminChallenge_HEADER"
  using admin_challenge_codec.encode_spec [of "()" "replicate 512 0"] by (simp add: AdminChallenge_HEADER_def)

text \<open>The command the tool makes of a reply.\<close>

definition tool_command :: "admin_cli \<Rightarrow> bytes \<Rightarrow> admin_challenge_response \<Rightarrow> admin_command" where
  "tool_command cli hash p =
     \<lparr>ac_master_challenge = acr_master_challenge p, ac_hash = hash, ac_command = acl_command cli\<rparr>"

lemma send_command_sends:
  assumes "as_connects s" "\<And>i. as_accepts s i" "as_reply s = Inr (AdminChallengeResponse_wire p)"
    and "read_password t = Some (Inr (Some password))"
    and "tool_hash blake2b cli password (acr_hash_challenge p) = Some hash"
    and "length (AdminCommand_wire (tool_command cli hash p)) \<le> 512"
  shows "send_command blake2b s t cli =
     (Some (Proc_ok (Inr ())), [AdminChallenge_HEADER, AdminCommand_wire (tool_command cli hash p)])"
proof -
  have "length (AdminChallengeResponse_wire p) \<le> 512"
    by (simp add: AdminChallengeResponse_wire_def AdminChallengeResponse_HEADER_def)
  then have "MasterPacket_decode (take 512 (AdminChallengeResponse_wire p)) = Inr (Some (MAdminChallengeResponse p))"
    using MasterPacket_decode_wire [of "MAdminChallengeResponse p"] by simp
  then show ?thesis
    using assms by (simp add: send_command_def admin_challenge_fits admin_send_def AdminCommand_encode_wire
        tool_command_def Let_def)
qed

text \<open>Escape and Control-C end the prompt like Enter does: what was typed before is sent.\<close>

lemma escape_sends_password:
  assumes "\<not> (is_ctrl \<and> (c = str ''c'' \<or> c = str ''d'' \<or> c = str ''w''))"
  shows "read_keys [Inr (TKey True is_ctrl (KChar c)), Inr (TKey True ctrl' KEsc)] [] = Some (Inr c) \<and>
     read_keys [Inr (TKey True is_ctrl (KChar c)), Inr (TKey True True (KChar (str ''c'')))] [] = Some (Inr c)"
  using assms by auto

end
