(* ===== verification/Admin_Spec.thy ===== *)
theory Admin_Spec
  imports Master_Spec Admin_Tool
begin

text \<open>
  The administrator tool and the master server together: the datagrams the tool sends are the packets the
  master handles, and the datagram the master sends back is the reply the tool reads.
\<close>

section \<open>The two halves of the exchange\<close>







section \<open>The tool rules the master\<close>












end
