(* ===== verification/Query_Cli.thy ===== *)
theory Query_Cli
  imports Cli_Options Master_Config Server_Types
begin

text \<open>
  The command line of the query tool (\<^verbatim>\<open>cli.rs\<close> of \<^verbatim>\<open>xash3d-query\<close>): its options, and the text of the filter
  it makes of them for the master servers. A \<^verbatim>\<open>Duration\<close> is its nanoseconds.
\<close>

section \<open>The filter\<close>

record query_filter =
  qf_clver :: "version option"
  qf_buildnum :: "u32 option"
  qf_protocol :: "u8 option"
  qf_gamedir :: "bytes option"
  qf_map :: "bytes option"

definition DEFAULT_CLIENT_BUILDNUM :: u32 where "DEFAULT_CLIENT_BUILDNUM = 4000"

definition QueryFilter_default :: query_filter where
  "QueryFilter_default =
     \<lparr>qf_clver = Some CLIENT_VERSION, qf_buildnum = Some DEFAULT_CLIENT_BUILDNUM, qf_protocol = None,
      qf_gamedir = None, qf_map = None\<rparr>"

text \<open>One option for a field: \<open>Inl ()\<close> leaves the process with status 1.\<close>

definition filter_opt ::
  "opt_matches \<Rightarrow> string \<Rightarrow> (bytes \<Rightarrow> 'a option) \<Rightarrow> ('a \<Rightarrow> bool) \<Rightarrow> 'a option \<Rightarrow> unit + 'a option" where
  "filter_opt m name from_str f dst =
     (case opt_str m (str name) of
        None \<Rightarrow> Inr dst
      | Some s \<Rightarrow>
          if s = str ''none'' then Inr None
          else (case from_str s of
                  Some v \<Rightarrow> Inr (if f v then Some v else dst)
                | None \<Rightarrow> Inl ()))"

text \<open>A key between backslashes, and an entry of a filter.\<close>

definition filter_key :: "string \<Rightarrow> bytes" where
  "filter_key key = [92] @ str key @ [92]"

definition write_entry :: "string \<Rightarrow> ('a \<Rightarrow> bytes) \<Rightarrow> 'a option \<Rightarrow> bytes" where
  "write_entry key display v = (case v of None \<Rightarrow> [] | Some x \<Rightarrow> filter_key key @ display x)"

definition QueryFilter_display :: "query_filter \<Rightarrow> bytes" where
  "QueryFilter_display f =
     write_entry ''clver'' Version_display (qf_clver f) @
     write_entry ''buildnum'' (\<lambda>n. show_dec (unat n)) (qf_buildnum f) @
     write_entry ''protocol'' (\<lambda>n. show_dec (unat n)) (qf_protocol f) @
     write_entry ''gamedir'' id (qf_gamedir f) @
     write_entry ''map'' id (qf_map f)"

text \<open>The text of \<^verbatim>\<open>--filter\<close>, which replaces the defaults of the keys it has, then the fields.\<close>

definition QueryFilter_opt_get :: "query_filter \<Rightarrow> opt_matches \<Rightarrow> unit + bytes" where
  "QueryFilter_opt_get f m =
     (let (f, out) =
        (case opt_str m (str ''filter'') of
           None \<Rightarrow> (f, [])
         | Some s \<Rightarrow>
             (let f = (if contains_str (filter_key ''clver'') s then f\<lparr>qf_clver := None\<rparr> else f);
                  f = (if contains_str (filter_key ''buildnum'') s then f\<lparr>qf_buildnum := None\<rparr> else f)
              in (f, s)))
      in rbind (filter_opt m ''filter-clver''
                  (\<lambda>s. case Version_from_str s of Inr v \<Rightarrow> Some v | Inl _ \<Rightarrow> None) (\<lambda>_. True) (qf_clver f)) (\<lambda>v.
         let f = f\<lparr>qf_clver := v\<rparr> in
         rbind (filter_opt m ''filter-buildnum'' (parse_word 10) (\<lambda>_. True) (qf_buildnum f)) (\<lambda>v.
         let f = f\<lparr>qf_buildnum := v\<rparr> in
         rbind (filter_opt m ''filter-gamedir'' Some (\<lambda>s. s \<noteq> str ''all'') (qf_gamedir f)) (\<lambda>v.
         let f = f\<lparr>qf_gamedir := v\<rparr> in
         rbind (filter_opt m ''filter-map'' Some (\<lambda>s. s \<noteq> str ''map'') (qf_map f)) (\<lambda>v.
         let f = f\<lparr>qf_map := v\<rparr> in
         Inr (out @ QueryFilter_display f))))))"

section \<open>Command line\<close>

record query_cli =
  qc_masters :: "bytes list"
  qc_args :: "bytes list"
  qc_master_timeout :: nat
  qc_server_timeout :: nat
  qc_protocol :: "u8 list"
  qc_all_servers :: bool
  qc_players :: bool
  qc_compact :: bool
  qc_json :: bool
  qc_debug :: bool
  qc_log :: level_filter
  qc_force_color :: bool
  qc_filter :: bytes

definition DEFAULT_MASTERS :: "bytes list" where
  "DEFAULT_MASTERS =
     [str ''mentality.rip:27010'', str ''ms2.mentality.rip:27010'', str ''ms3.mentality.rip:27010'',
      str ''mentality.rip:27011'']"

definition from_secs :: "nat \<Rightarrow> nat" where
  "from_secs n = n * 10 ^ 9"

definition QueryCli_default :: query_cli where
  "QueryCli_default =
     \<lparr>qc_masters = DEFAULT_MASTERS, qc_args = [], qc_master_timeout = from_secs 2, qc_server_timeout = from_secs 2,
      qc_protocol = [PROTOCOL_VERSION, PROTOCOL_VERSION - 1], qc_all_servers = False, qc_players = True,
      qc_compact = False, qc_json = False, qc_debug = False, qc_log = LOff, qc_force_color = False, qc_filter = []\<rparr>"

text \<open>\<open>tty\<close>: the standard output is a terminal (with the colour feature, the default).\<close>

definition colored_output :: "bool \<Rightarrow> query_cli \<Rightarrow> bool" where
  "colored_output tty cli = (if qc_force_color cli then True else tty)"

definition query_options :: "getopt list" where
  "query_options =
     [(str ''h'', str ''help'', False), (str ''v'', str ''version'', False), (str ''M'', str ''master'', True),
      (str ''T'', str ''master-timeout'', True), (str ''t'', str ''server-timeout'', True),
      (str ''p'', str ''protocol'', True), (str ''A'', str ''all-servers'', False),
      (str ''c'', str ''compact-output'', False), (str ''P'', str ''no-players'', False), (str ''j'', str ''json'', False),
      (str ''d'', str ''debug'', False), (str ''l'', str ''log'', True), (str ''F'', str ''force-color'', False),
      (str ''k'', str ''key'', False), (str ''f'', str ''filter'', True), (str ''V'', str ''filter-clver'', True),
      (str ''b'', str ''filter-buildnum'', True), (str ''g'', str ''filter-gamedir'', True),
      (str ''m'', str ''filter-map'', True)]"

definition query_log_level :: "bytes \<Rightarrow> level_filter option" where
  "query_log_level s =
     (if s = str ''o'' \<or> s = str ''off'' then Some LOff
      else if s = str ''t'' \<or> s = str ''trace'' then Some LTrace
      else if s = str ''d'' \<or> s = str ''debug'' then Some LDebug
      else if s = str ''i'' \<or> s = str ''info'' then Some LInfo
      else if s = str ''w'' \<or> s = str ''warn'' then Some LWarn
      else if s = str ''e'' \<or> s = str ''error'' then Some LError
      else None)"

text \<open>The versions of \<^verbatim>\<open>--protocol\<close>: every one is read before the first bad one ends the process.\<close>

definition parse_protocols :: "bytes \<Rightarrow> u8 list option" where
  "parse_protocols s =
     (let vs = map (parse_word 10) (split_on 44 s) in
      if None \<in> set vs then None else Some (map the vs))"

text \<open>The timeouts, read as \<^verbatim>\<open>u64\<close>.\<close>

definition timeout_opt :: "opt_matches \<Rightarrow> string \<Rightarrow> nat \<Rightarrow> unit + nat" where
  "timeout_opt m name dflt =
     map_ok (\<lambda>t. case t of Some n \<Rightarrow> from_secs n | None \<Rightarrow> dflt) (opt_get m (str name) parse_usize)"

definition query_cli_parse :: "getopts \<Rightarrow> bytes list \<Rightarrow> query_cli proc" where
  "query_cli_parse getopts args =
     (if args = [] then Proc_panic
      else case getopts query_options (tl args) of
        Inl _ \<Rightarrow> Proc_exit 1
      | Inr m \<Rightarrow>
          if opt_present m (str ''help'') then Proc_exit 0
          else if opt_present m (str ''version'') then Proc_exit 0
          else
            (let cli = QueryCli_default;
                 cli = (case opt_str m (str ''master'') of
                          Some s \<Rightarrow> cli\<lparr>qc_masters := map with_port (split_on 44 s)\<rparr> | None \<Rightarrow> cli);
                 result =
                   rbind (timeout_opt m ''master-timeout'' (qc_master_timeout cli)) (\<lambda>t.
                   let cli = cli\<lparr>qc_master_timeout := t\<rparr> in
                   rbind (timeout_opt m ''server-timeout'' (qc_server_timeout cli)) (\<lambda>t.
                   let cli = cli\<lparr>qc_server_timeout := t\<rparr> in
                   rbind (ok_or () (case opt_str m (str ''protocol'') of
                                      None \<Rightarrow> Some (qc_protocol cli) | Some s \<Rightarrow> parse_protocols s)) (\<lambda>ps.
                   let cli = cli\<lparr>qc_protocol := ps\<rparr> in
                   rbind (ok_or () (case opt_str m (str ''log'') of
                                      None \<Rightarrow> Some (qc_log cli) | Some s \<Rightarrow> query_log_level s)) (\<lambda>level.
                   let cli = cli\<lparr>qc_log := level\<rparr> in
                   rbind (QueryFilter_opt_get QueryFilter_default m) (\<lambda>flt.
                   Inr (cli
                     \<lparr>qc_filter := flt, qc_all_servers := opt_present m (str ''all-servers''),
                      qc_compact := opt_present m (str ''compact-output''),
                      qc_players := \<not> opt_present m (str ''no-players''), qc_json := opt_present m (str ''json''),
                      qc_debug := opt_present m (str ''debug''),
                      qc_force_color := opt_present m (str ''force-color''), qc_args := opt_free m\<rparr>))))))
             in case result of Inl _ \<Rightarrow> Proc_exit 1 | Inr cli \<Rightarrow> Proc_ok cli))"

end
