(* ===== verification/Query_Types.thy ===== *)
theory Query_Types
  imports Observer_Types Color_Codes Query_Cli "HOL-Library.Product_Lexorder"
begin

text \<open>
  What the query tool reports (\<^verbatim>\<open>server_info.rs\<close>, \<^verbatim>\<open>server_result.rs\<close> of \<^verbatim>\<open>xash3d-query\<close>): the information and
  the players of a server, the result of a query and how it changes, the value that is serialised, and the
  order of addresses the tool sorts by.
\<close>

section \<open>The order of addresses\<close>

text \<open>\<^verbatim>\<open>Ord\<close> of \<^verbatim>\<open>SocketAddr\<close>: version 4 first, then address, port, flow information and scope.\<close>

definition addr_key :: "socket_addr \<Rightarrow> nat \<times> nat \<times> nat \<times> nat \<times> nat" where
  "addr_key a =
     (case a of
        SockV4 x \<Rightarrow> (0, unat (v4_ip x), unat (v4_port x), 0, 0)
      | SockV6 x \<Rightarrow> (1, unat (v6_ip x), unat (v6_port x), unat (v6_flowinfo x), unat (v6_scope_id x)))"

lemma addr_key_inj: "addr_key a = addr_key b \<Longrightarrow> a = b"
  by (cases a; cases b) (auto simp: addr_key_def word_unat_eq_iff intro!: socket_v4.equality socket_v6.equality)

instantiation socket_addr :: linorder
begin

definition less_eq_socket_addr :: "socket_addr \<Rightarrow> socket_addr \<Rightarrow> bool" where
  "a \<le> b \<longleftrightarrow> addr_key a \<le> addr_key b"

definition less_socket_addr :: "socket_addr \<Rightarrow> socket_addr \<Rightarrow> bool" where
  "a < b \<longleftrightarrow> addr_key a < addr_key b"

instance
  by standard (auto simp: less_eq_socket_addr_def less_socket_addr_def intro: addr_key_inj)

end

section \<open>Text\<close>

text \<open>\<^verbatim>\<open>String::from_utf8_lossy\<close>: each maximal invalid piece becomes U+FFFD.\<close>

definition REPLACEMENT :: bytes where
  "REPLACEMENT = [0xEF, 0xBF, 0xBD]"

lemma utf8_first_err_pos: "utf8_first s = UErr (Some n) \<Longrightarrow> 0 < n"
  by (auto simp: utf8_first_def utf8_tail_def split: list.splits if_splits option.splits)

function utf8_lossy :: "bytes \<Rightarrow> bytes" where
  "utf8_lossy s =
     (if s = [] then []
      else case utf8_first s of
             UChar n \<Rightarrow> take n s @ utf8_lossy (drop n s)
           | UErr (Some n) \<Rightarrow> REPLACEMENT @ utf8_lossy (drop n s)
           | UErr None \<Rightarrow> REPLACEMENT)"
  by pat_completeness auto
termination
  by (relation "measure length") (auto dest: utf8_first_pos utf8_first_err_pos)

declare utf8_lossy.simps [simp del]

text \<open>The characters of \<^verbatim>\<open>char::is_whitespace\<close> in UTF-8, and \<^verbatim>\<open>str::trim\<close>.\<close>

definition white_spaces :: "bytes list" where
  "white_spaces =
     [[9], [10], [11], [12], [13], [32], [0xC2, 0x85], [0xC2, 0xA0], [0xE1, 0x9A, 0x80]] @
     map (\<lambda>b. [0xE2, 0x80, b]) [0x80, 0x81, 0x82, 0x83, 0x84, 0x85, 0x86, 0x87, 0x88, 0x89, 0x8A, 0xA8, 0xA9, 0xAF] @
     [[0xE2, 0x81, 0x9F], [0xE3, 0x80, 0x80]]"

lemma find_white_space: "find P white_spaces = Some w \<Longrightarrow> P w \<and> 0 < length w"
proof -
  assume f: "find P white_spaces = Some w"
  then have "w \<in> set white_spaces" by (auto simp: find_Some_iff)
  then have "0 < length w" by (auto simp: white_spaces_def)
  with f show ?thesis by (auto simp: find_Some_iff)
qed

function trim_start :: "bytes \<Rightarrow> bytes" where
  "trim_start s =
     (case find (\<lambda>w. starts_with w s) white_spaces of
        Some w \<Rightarrow> trim_start (drop (length w) s) | None \<Rightarrow> s)"
  by pat_completeness auto
termination
  by (relation "measure length", simp)
     (auto simp: starts_with_def dest!: find_white_space intro!: diff_less intro: ccontr)

function trim_end :: "bytes \<Rightarrow> bytes" where
  "trim_end s =
     (case find (\<lambda>w. ends_with w s) white_spaces of
        Some w \<Rightarrow> trim_end (take (length s - length w) s) | None \<Rightarrow> s)"
  by pat_completeness auto
termination
  by (relation "measure length", simp)
     (auto simp: ends_with_def dest!: find_white_space intro!: diff_less intro: ccontr)

declare trim_start.simps [simp del] trim_end.simps [simp del]

definition trim :: "bytes \<Rightarrow> bytes" where
  "trim s = trim_end (trim_start s)"

text \<open>\<open>{:>n}\<close> and \<open>{:n}\<close>.\<close>

definition pad_left :: "nat \<Rightarrow> bytes \<Rightarrow> bytes" where
  "pad_left n s = replicate (n - chars_count s) 32 @ s"

definition pad_right :: "nat \<Rightarrow> bytes \<Rightarrow> bytes" where
  "pad_right n s = s @ replicate (n - chars_count s) 32"

section \<open>What is serialised\<close>

text \<open>The values the derived serialisers give to \<^verbatim>\<open>serde\<close>; a 32-bit float is its bits.\<close>

datatype ser =
    SBool bool
  | SInt int
  | SF32 u32
  | SStr bytes
  | SSeq "ser list"
  | SMap "(bytes \<times> ser) list"

section \<open>Players\<close>

record q_player =
  qp_id :: u8
  qp_name :: bytes
  qp_frags :: u32
  qp_time :: u32

definition PlayerInfo_from :: "player_info \<Rightarrow> q_player" where
  "PlayerInfo_from info =
     \<lparr>qp_id = pi_id info, qp_name = utf8_lossy (pi_name info), qp_frags = pi_frags info, qp_time = pi_time info\<rparr>"

definition PlayerInfo_serialize :: "q_player \<Rightarrow> ser" where
  "PlayerInfo_serialize p =
     SMap [(str ''id'', SInt (uint (qp_id p))), (str ''name'', SStr (qp_name p)), (str ''frags'', SInt (sint (qp_frags p))),
           (str ''time'', SF32 (qp_time p))]"

record q_players =
  qps_bots :: u8
  qps_players :: "q_player list"

definition Players_bots_count :: "q_players \<Rightarrow> u8" where
  "Players_bots_count p = qps_bots p"

text \<open>The loop over the players that could be read.\<close>

fun players_split :: "(unit + player_info) list \<Rightarrow> u8 \<Rightarrow> q_player list \<Rightarrow> q_players" where
  "players_split [] bots players = \<lparr>qps_bots = bots, qps_players = players\<rparr>"
| "players_split (Inl _ # is) bots players = players_split is bots players"
| "players_split (Inr i # is) bots players =
     (if \<not> PlayerInfo_is_bot i then players_split is bots (players @ [PlayerInfo_from i])
      else players_split is (bots + 1) players)"

definition Players_from :: "memchr_ops \<Rightarrow> get_players_response \<Rightarrow> q_players" where
  "Players_from mc r = players_split (ServerPlayers_iter mc r) 0 []"

text \<open>The fields of the struct when it is flattened into another.\<close>

definition Players_fields :: "q_players \<Rightarrow> (bytes \<times> ser) list" where
  "Players_fields p = [(str ''players'', SSeq (map PlayerInfo_serialize (qps_players p)))]"

section \<open>Server information\<close>

record q_info =
  qi_gamedir :: bytes
  qi_map :: bytes
  qi_host :: bytes
  qi_protocol :: u8
  qi_numcl :: u8
  qi_maxcl :: u8
  qi_bots :: u8
  qi_dm :: bool
  qi_team :: bool
  qi_coop :: bool
  qi_password :: bool
  qi_dedicated :: bool

definition QServerInfo_from :: "server_info_event \<Rightarrow> q_info" where
  "QServerInfo_from e =
     (let r = sie_response e in
      \<lparr>qi_gamedir = utf8_lossy (gsi_gamedir r), qi_map = utf8_lossy (gsi_map r), qi_host = utf8_lossy (gsi_host r),
       qi_protocol = gsi_protocol r, qi_numcl = gsi_numcl r, qi_maxcl = gsi_maxcl r, qi_bots = 0, qi_dm = gsi_dm r,
       qi_team = gsi_team r, qi_coop = gsi_coop r, qi_password = gsi_password r, qi_dedicated = gsi_dedicated r\<rparr>)"

definition is_zero_u8 :: "u8 \<Rightarrow> bool" where
  "is_zero_u8 v \<longleftrightarrow> v = 0"

text \<open>The name is serialised without its colour codes, no bots are left out.\<close>

definition serialize_colored :: "bytes \<Rightarrow> ser" where
  "serialize_colored s = SStr (trim_color s)"

definition QServerInfo_fields :: "q_info \<Rightarrow> (bytes \<times> ser) list" where
  "QServerInfo_fields i =
     [(str ''gamedir'', SStr (qi_gamedir i)), (str ''map'', SStr (qi_map i)), (str ''host'', serialize_colored (qi_host i)),
      (str ''protocol'', SInt (uint (qi_protocol i))), (str ''numcl'', SInt (uint (qi_numcl i))),
      (str ''maxcl'', SInt (uint (qi_maxcl i)))] @
     (if is_zero_u8 (qi_bots i) then [] else [(str ''bots'', SInt (uint (qi_bots i)))]) @
     [(str ''dm'', SBool (qi_dm i)), (str ''team'', SBool (qi_team i)), (str ''coop'', SBool (qi_coop i)),
      (str ''password'', SBool (qi_password i)), (str ''dedicated'', SBool (qi_dedicated i))]"

text \<open>The one-line text of the monitor; \<open>style\<close> is what the terminal library prints.\<close>

definition flag_char :: "byte \<Rightarrow> bool \<Rightarrow> bytes" where
  "flag_char c cond = (if cond then [c] else [45])"

definition ServerInfoPrinter_display ::
  "(formatter \<Rightarrow> color option \<Rightarrow> bytes \<Rightarrow> bytes) \<Rightarrow> bool \<Rightarrow> q_info \<Rightarrow> bytes" where
  "ServerInfoPrinter_display style colored i =
     flag_char 100 (qi_dm i) @ flag_char 116 (qi_team i) @ flag_char 99 (qi_coop i) @ flag_char 112 (qi_password i) @
     flag_char 68 (qi_dedicated i) @ [32] @ pad_left 2 (show_dec (unat (qi_numcl i))) @ [47] @
     pad_right 2 (show_dec (unat (qi_maxcl i))) @ [32] @ pad_right 8 (trim (qi_gamedir i)) @ [32] @
     pad_right 18 (trim (qi_map i)) @ [32, 34] @
     Colored_fmt style fmt_plain \<lparr>cl_text = trim (qi_host i), cl_enable = colored\<rparr> @ [34]"

section \<open>Results\<close>

datatype result_kind =
    ROk q_info
  | ROkWithPlayers q_info q_players
  | RPing
  | RInvalidPacket bytes
  | RTimeout
  | RInvalidProtocol
  | RRemove

definition new_ok_with_players :: "q_info \<Rightarrow> q_players \<Rightarrow> result_kind" where
  "new_ok_with_players info players = ROkWithPlayers (info\<lparr>qi_bots := Players_bots_count players\<rparr>) players"

definition kind_is_timeout :: "result_kind \<Rightarrow> bool" where
  "kind_is_timeout k \<longleftrightarrow> (case k of RTimeout \<Rightarrow> True | _ \<Rightarrow> False)"

text \<open>\<open>sr_time\<close> is the system time in nanoseconds since the epoch, which it may precede.\<close>

record server_result =
  sr_time :: int
  sr_address :: socket_addr
  sr_ping :: "nat option"
  sr_kind :: result_kind
  sr_players :: "q_players option"

definition ServerResult_new :: "int \<Rightarrow> socket_addr \<Rightarrow> nat option \<Rightarrow> result_kind \<Rightarrow> server_result" where
  "ServerResult_new now address ping kind =
     \<lparr>sr_time = now, sr_address = address, sr_ping = ping, sr_kind = kind, sr_players = None\<rparr>"

definition ServerResult_new_ping :: "int \<Rightarrow> socket_addr \<Rightarrow> nat \<Rightarrow> server_result" where
  "ServerResult_new_ping now address ping = ServerResult_new now address (Some ping) RPing"

definition ServerResult_new_timeout :: "int \<Rightarrow> socket_addr \<Rightarrow> server_result" where
  "ServerResult_new_timeout now address = ServerResult_new now address None RTimeout"

definition ServerResult_new_invalid_protocol :: "int \<Rightarrow> socket_addr \<Rightarrow> server_result" where
  "ServerResult_new_invalid_protocol now address = ServerResult_new now address None RInvalidProtocol"

definition ServerResult_new_invalid_packet :: "int \<Rightarrow> socket_addr \<Rightarrow> bytes \<Rightarrow> server_result" where
  "ServerResult_new_invalid_packet now address response =
     ServerResult_new now address None (RInvalidPacket response)"

definition ServerResult_is_ok :: "server_result \<Rightarrow> bool" where
  "ServerResult_is_ok r \<longleftrightarrow> (case sr_kind r of ROk _ \<Rightarrow> True | _ \<Rightarrow> False)"

definition ServerResult_has_players :: "server_result \<Rightarrow> bool" where
  "ServerResult_has_players r \<longleftrightarrow> sr_players r \<noteq> None"

definition ServerResult_set_players :: "q_players \<Rightarrow> server_result \<Rightarrow> server_result" where
  "ServerResult_set_players players r =
     (case sr_kind r of
        ROk info \<Rightarrow> r\<lparr>sr_kind := new_ok_with_players info players\<rparr>
      | _ \<Rightarrow> r\<lparr>sr_players := Some players\<rparr>)"

definition ServerResult_set_ok :: "nat \<Rightarrow> q_info \<Rightarrow> server_result \<Rightarrow> server_result" where
  "ServerResult_set_ok ping info r =
     (let r = (case sr_kind r of
                 ROkWithPlayers _ players \<Rightarrow> r\<lparr>sr_kind := new_ok_with_players info players\<rparr>
               | _ \<Rightarrow> (case sr_players r of
                         Some players \<Rightarrow> r\<lparr>sr_players := None, sr_kind := new_ok_with_players info players\<rparr>
                       | None \<Rightarrow> r\<lparr>sr_kind := ROk info\<rparr>))
      in r\<lparr>sr_ping := Some ping\<rparr>)"

text \<open>\<open>millis\<close> is \<^verbatim>\<open>as_micros() as f32 / 1000.0\<close>.\<close>

definition ping_millis :: "(nat \<Rightarrow> u32) \<Rightarrow> server_result \<Rightarrow> u32 option" where
  "ping_millis millis r = map_option (\<lambda>ping. millis (ping div 1000)) (sr_ping r)"

definition unix_time :: "int \<Rightarrow> nat" where
  "unix_time t = (if t < 0 then 0 else nat (t div 10 ^ 9))"

text \<open>The variant's name in lower case is its tag, its fields follow.\<close>

definition result_kind_fields :: "result_kind \<Rightarrow> (bytes \<times> ser) list" where
  "result_kind_fields k =
     (let tag = (\<lambda>name. (str ''status'', SStr (str name))) in
      case k of
        ROk info \<Rightarrow> tag ''ok'' # QServerInfo_fields info
      | ROkWithPlayers info players \<Rightarrow> tag ''okwithplayers'' # QServerInfo_fields info @ Players_fields players
      | RPing \<Rightarrow> [tag ''ping'']
      | RInvalidPacket data \<Rightarrow> [tag ''invalidpacket'', (str ''data'', SSeq (map (\<lambda>b. SInt (uint b)) data))]
      | RTimeout \<Rightarrow> [tag ''timeout'']
      | RInvalidProtocol \<Rightarrow> [tag ''invalidprotocol'']
      | RRemove \<Rightarrow> [tag ''remove''])"

definition ServerResult_serialize :: "(nat \<Rightarrow> u32) \<Rightarrow> server_result \<Rightarrow> ser" where
  "ServerResult_serialize millis r =
     SMap ([(str ''time'', SInt (int (unix_time (sr_time r)))),
            (str ''address'', SStr (socket_addr_display (sr_address r)))] @
           (case ping_millis millis r of None \<Rightarrow> [] | Some ping \<Rightarrow> [(str ''ping'', SF32 ping)]) @
           result_kind_fields (sr_kind r))"

end
