(* ===== verification/Query_Print.thy ===== *)
theory Query_Print
  imports Query_Types
begin

text \<open>
  What the query tool prints: the report of the queried servers (\<^verbatim>\<open>Printer\<close> of \<^verbatim>\<open>query_servers_info.rs\<close>) and
  of the listed addresses (\<^verbatim>\<open>list_servers.rs\<close>), as the bytes written to the standard output. The terminal
  library, \<^verbatim>\<open>serde_json\<close>, the derived \<^verbatim>\<open>Debug\<close> and the formatting of fractions are parameters.
\<close>

record info_result =
  ir_protocol :: "u8 list"
  ir_master_timeout :: nat
  ir_server_timeout :: nat
  ir_masters :: "bytes list"
  ir_filter :: bytes
  ir_servers :: "server_result list"

record list_result =
  lr_master_timeout :: nat
  lr_masters :: "bytes list"
  lr_filter :: bytes
  lr_servers :: "socket_addr list"

text \<open>
  \<open>te_json\<close> writes a value, pretty unless compact; \<open>te_millis\<close> gives microseconds in milliseconds as a 32-bit
  float, \<open>te_rounded\<close> its text without decimals and \<open>te_duration\<close> a duration as the monitor prints it. The
  tool asks \<open>te_resolve\<close> for the addresses of a host and \<open>te_clock\<close> for the system time.
\<close>

record tool_env =
  te_memchr :: memchr_ops
  te_tty :: bool
  te_style :: "formatter \<Rightarrow> color option \<Rightarrow> bytes \<Rightarrow> bytes"
  te_bold_green :: "bytes \<Rightarrow> bytes"
  te_json :: "bool \<Rightarrow> ser \<Rightarrow> bytes"
  te_debug_info :: "info_result \<Rightarrow> bytes"
  te_debug_list :: "list_result \<Rightarrow> bytes"
  te_millis :: "nat \<Rightarrow> u32"
  te_rounded :: "u32 \<Rightarrow> bytes"
  te_duration :: "nat \<Rightarrow> bytes"
  te_resolve :: "bytes \<Rightarrow> socket_addr list option"
  te_binds :: bool
  te_local :: "socket_addr option"
  te_clock :: "nat \<Rightarrow> int"

definition print_json :: "tool_env \<Rightarrow> query_cli \<Rightarrow> ser \<Rightarrow> bytes" where
  "print_json te cli v = te_json te (qc_compact cli) v @ [10]"

definition as_secs_ns :: "nat \<Rightarrow> nat" where
  "as_secs_ns t = t div 10 ^ 9"

section \<open>The report\<close>

definition InfoResult_serialize :: "(nat \<Rightarrow> u32) \<Rightarrow> info_result \<Rightarrow> ser" where
  "InfoResult_serialize millis r =
     SMap [(str ''protocol'', SSeq (map (\<lambda>b. SInt (uint b)) (ir_protocol r))),
           (str ''master_timeout'', SInt (int (ir_master_timeout r))),
           (str ''server_timeout'', SInt (int (ir_server_timeout r))),
           (str ''masters'', SSeq (map SStr (ir_masters r))), (str ''filter'', SStr (ir_filter r)),
           (str ''servers'', SSeq (map (ServerResult_serialize millis) (ir_servers r)))]"

definition LABEL_WIDTH :: nat where "LABEL_WIDTH = 10"

definition Label_fmt :: "tool_env \<Rightarrow> bool \<Rightarrow> string \<Rightarrow> bytes" where
  "Label_fmt te colored text =
     (if colored then
        (if length text \<le> LABEL_WIDTH then replicate (LABEL_WIDTH - length text) 32 else []) @ te_bold_green te (str text)
      else pad_left LABEL_WIDTH (str text))"

record printer =
  pr_all_servers :: bool
  pr_colored_output :: bool
  pr_servers :: "server_result list"

definition Printer_new :: "tool_env \<Rightarrow> query_cli \<Rightarrow> bool \<Rightarrow> server_result list \<Rightarrow> printer" where
  "Printer_new te cli custom servers =
     \<lparr>pr_all_servers = custom \<or> qc_all_servers cli, pr_colored_output = colored_output (te_tty te) cli,
      pr_servers = servers\<rparr>"

definition label_server :: "tool_env \<Rightarrow> printer \<Rightarrow> socket_addr \<Rightarrow> bytes" where
  "label_server te p address =
     Label_fmt te (pr_colored_output p) ''server'' @ str '': '' @ socket_addr_display address"

definition Printer_print_json :: "tool_env \<Rightarrow> query_cli \<Rightarrow> printer \<Rightarrow> bytes" where
  "Printer_print_json te cli p =
     (let result = \<lparr>ir_protocol = qc_protocol cli, ir_master_timeout = as_secs_ns (qc_master_timeout cli),
                    ir_server_timeout = as_secs_ns (qc_server_timeout cli), ir_masters = qc_masters cli,
                    ir_filter = qc_filter cli, ir_servers = pr_servers p\<rparr>
      in if qc_json cli then print_json te cli (InfoResult_serialize (te_millis te) result)
         else te_debug_info te result @ [10])"

definition print_server_info :: "tool_env \<Rightarrow> query_cli \<Rightarrow> printer \<Rightarrow> server_result \<Rightarrow> q_info \<Rightarrow> bytes" where
  "print_server_info te cli p server info =
     (let label = Label_fmt te (pr_colored_output p) in
      label_server te p (sr_address server) @
      (case ping_millis (te_millis te) server of
         None \<Rightarrow> [] | Some ping \<Rightarrow> str '' [ping '' @ te_rounded te ping @ str ''ms]'') @
      (if qi_protocol info \<noteq> PROTOCOL_VERSION
       then str '' [protocol '' @ show_dec (unat (qi_protocol info)) @ [93] else []) @
      (if qi_password info then str '' [password]'' else []) @ [10] @
      label ''name'' @ str '': '' @
      Colored_fmt (te_style te) fmt_plain \<lparr>cl_text = trim (qi_host info), cl_enable = colored_output (te_tty te) cli\<rparr> @ [10] @
      label ''game'' @ str '': '' @ trim (qi_gamedir info) @ [10] @
      label ''map'' @ str '': '' @ trim (qi_map info) @ [10] @
      label ''mode'' @ [58] @
      (if qi_coop info \<or> qi_team info \<or> qi_dm info then
         (if qi_coop info then str '' coop'' else []) @ (if qi_team info then str '' team'' else []) @
         (if qi_dm info then str '' deathmatch'' else [])
       else str '' unknown'') @ [10] @
      label ''players'' @ str '': '' @ show_dec (unat (qi_numcl info)) @ [47] @ show_dec (unat (qi_maxcl info)) @
      (if 0 < qi_bots info then
         str '' ('' @ show_dec (unat (qi_bots info)) @ str '' bot'' @ (if 1 < qi_bots info then str ''s'' else []) @ [41]
       else []) @ [10])"

text \<open>\<^verbatim>\<open>Display\<close> of an \<^verbatim>\<open>i32\<close>.\<close>

definition show_i32 :: "u32 \<Rightarrow> bytes" where
  "show_i32 w = (if sint w < 0 then 45 # show_dec (nat (- sint w)) else show_dec (nat (sint w)))"

text \<open>A stable sort by the frags, printed from its end.\<close>

definition print_server_players :: "tool_env \<Rightarrow> query_cli \<Rightarrow> q_players \<Rightarrow> bytes" where
  "print_server_players te cli players =
     concat (map (\<lambda>(i, player).
         pad_left LABEL_WIDTH (show_dec i) @ str '': '' @ show_i32 (qp_frags player) @ [32] @
         Colored_fmt (te_style te) fmt_plain \<lparr>cl_text = qp_name player, cl_enable = colored_output (te_tty te) cli\<rparr> @
         [10])
       (enumerate 0 (rev (sort_key (\<lambda>i. sint (qp_frags i)) (qps_players players)))))"

definition print_status :: "tool_env \<Rightarrow> printer \<Rightarrow> server_result \<Rightarrow> string \<Rightarrow> bytes" where
  "print_status te p server status = label_server te p (sr_address server) @ str status @ [10]"

text \<open>The text of one server, or nothing when it is not shown.\<close>

definition print_server :: "tool_env \<Rightarrow> query_cli \<Rightarrow> printer \<Rightarrow> server_result \<Rightarrow> bytes option" where
  "print_server te cli p server =
     (case sr_kind server of
        ROk info \<Rightarrow> Some (print_server_info te cli p server info)
      | ROkWithPlayers info players \<Rightarrow>
          Some (print_server_info te cli p server info @ print_server_players te cli players)
      | RTimeout \<Rightarrow> if pr_all_servers p then Some (print_status te p server '' [timeout]'') else None
      | RInvalidProtocol \<Rightarrow> if pr_all_servers p then Some (print_status te p server '' [protocol error]'') else None
      | RInvalidPacket _ \<Rightarrow> if pr_all_servers p then Some (print_status te p server '' [invalid]'') else None
      | _ \<Rightarrow> None)"

text \<open>The loop with its separator; \<open>first\<close> as in the closure.\<close>

fun print_servers :: "tool_env \<Rightarrow> query_cli \<Rightarrow> printer \<Rightarrow> bool \<Rightarrow> server_result list \<Rightarrow> bytes" where
  "print_servers te cli p first [] = []"
| "print_servers te cli p first (server # servers) =
     (case print_server te cli p server of
        Some text \<Rightarrow> (if first then [] else [10]) @ text @ print_servers te cli p False servers
      | None \<Rightarrow> print_servers te cli p first servers)"

definition Printer_print :: "tool_env \<Rightarrow> query_cli \<Rightarrow> printer \<Rightarrow> bytes" where
  "Printer_print te cli p =
     (if qc_json cli \<or> qc_debug cli then Printer_print_json te cli p
      else print_servers te cli p True (pr_servers p))"

section \<open>The list\<close>

definition ListResult_serialize :: "list_result \<Rightarrow> ser" where
  "ListResult_serialize r =
     SMap [(str ''master_timeout'', SInt (int (lr_master_timeout r))), (str ''masters'', SSeq (map SStr (lr_masters r))),
           (str ''filter'', SStr (lr_filter r)),
           (str ''servers'', SSeq (map (\<lambda>a. SStr (socket_addr_display a)) (lr_servers r)))]"

definition print_server_list :: "tool_env \<Rightarrow> query_cli \<Rightarrow> socket_addr set \<Rightarrow> bytes" where
  "print_server_list te cli servers =
     (let servers = sorted_list_of_set servers in
      if qc_json cli \<or> qc_debug cli then
        (let result = \<lparr>lr_master_timeout = as_secs_ns (qc_master_timeout cli), lr_masters = qc_masters cli,
                       lr_filter = qc_filter cli, lr_servers = servers\<rparr>
         in if qc_json cli then print_json te cli (ListResult_serialize result)
            else te_debug_list te result @ [10])
      else concat (map (\<lambda>a. socket_addr_display a @ [10]) servers))"

end
