(* ===== verification/Query_Tool.thy ===== *)
theory Query_Tool
  imports Query_Print Observer "HOL-Library.AList"
begin

text \<open>
  The commands of the query tool (\<^verbatim>\<open>utils.rs\<close>, \<^verbatim>\<open>query_servers_info.rs\<close>, \<^verbatim>\<open>list_servers.rs\<close>,
  \<^verbatim>\<open>monitor_servers.rs\<close>, \<^verbatim>\<open>main.rs\<close>): each sets up an observer and waits for its events. The world is that of
  the observer's socket. A loop is a partial function, \<open>None\<close> standing for a run that does not end; how a run
  ends is a \<open>proc\<close> of the error or the printed text.
\<close>

section \<open>Set-up\<close>

datatype query_error = QUndefinedCommand | QIo

text \<open>What \<open>?\<close> does with the result of an operation of the observer.\<close>

definition observer_failed :: "observer_error \<Rightarrow> (query_error + 'a) proc" where
  "observer_failed e = (case e of OIo \<Rightarrow> Proc_ok (Inl QIo) | OPanic \<Rightarrow> Proc_panic)"

text \<open>What is done with the value of a run that succeeds.\<close>

fun proc_then :: "('a \<Rightarrow> 'b) \<Rightarrow> ('e + 'a) proc \<Rightarrow> ('e + 'b) proc" where
  "proc_then f (Proc_exit n) = Proc_exit n"
| "proc_then f Proc_panic = Proc_panic"
| "proc_then f (Proc_ok r) = Proc_ok (map_ok f r)"

definition create_observer :: "tool_env \<Rightarrow> query_cli \<Rightarrow> world \<Rightarrow> query_error + observer" where
  "create_observer te cli w =
     (if te_binds te then Inr (set_filter_raw (qc_filter cli) (Observer_bind w)) else Inl QIo)"

text \<open>The loop over the masters: the first address of the socket's family is taken.\<close>

fun insert_masters :: "tool_env \<Rightarrow> socket_addr \<Rightarrow> bytes list \<Rightarrow> observer \<Rightarrow> query_error + observer" where
  "insert_masters te local [] ob = Inr ob"
| "insert_masters te local (host # hosts) ob =
     (case te_resolve te host of
        None \<Rightarrow> Inl QIo
      | Some addrs \<Rightarrow>
          insert_masters te local hosts
            (case find (\<lambda>a. is_ipv4 a = is_ipv4 local) addrs of
               Some a \<Rightarrow> insert_master (Master_new a) ob | None \<Rightarrow> ob))"

definition create_observer_with_masters :: "tool_env \<Rightarrow> query_cli \<Rightarrow> world \<Rightarrow> query_error + observer" where
  "create_observer_with_masters te cli w =
     rbind (create_observer te cli w) (\<lambda>ob.
     rbind (ok_or QIo (te_local te)) (\<lambda>local. insert_masters te local (qc_masters cli) ob))"

text \<open>The process exits with status 1 when an argument is not an address.\<close>

definition parse_server_addresses :: "bytes list \<Rightarrow> socket_addr list proc" where
  "parse_server_addresses servers =
     (let addrs = map socket_addr_from_str servers in
      if None \<in> set addrs then Proc_exit 1 else Proc_ok (remdups_adj (sort (map the addrs))))"

section \<open>Querying servers\<close>

text \<open>The results are an association list in the order of their insertion.\<close>

record query_servers_info =
  qs_custom :: bool
  qs_players :: bool
  qs_timeout_master :: bool
  qs_timeout :: nat
  qs_servers :: "(socket_addr \<times> server_result) list"
  qs_servers_custom :: "socket_addr set"
  qs_observer :: observer
  qs_clock_pos :: nat

definition QueryServersInfo_new :: "query_cli \<Rightarrow> observer \<Rightarrow> bool \<Rightarrow> query_servers_info" where
  "QueryServersInfo_new cli ob custom =
     (let (t, is_master) = (if \<not> custom then (qc_master_timeout cli, True) else (qc_server_timeout cli, False)) in
      \<lparr>qs_custom = custom, qs_players = qc_players cli, qs_timeout_master = is_master, qs_timeout = t,
       qs_servers = [], qs_servers_custom = {}, qs_observer = ob, qs_clock_pos = 0\<rparr>)"

text \<open>\<^verbatim>\<open>SystemTime::now\<close>, read when a result is made.\<close>

definition SystemTime_now :: "tool_env \<Rightarrow> query_servers_info \<Rightarrow> int \<times> query_servers_info" where
  "SystemTime_now te q = (te_clock te (qs_clock_pos q), q\<lparr>qs_clock_pos := Suc (qs_clock_pos q)\<rparr>)"

definition qs_insert_server :: "tool_env \<Rightarrow> socket_addr \<Rightarrow> query_servers_info \<Rightarrow> query_servers_info" where
  "qs_insert_server te addr q =
     (let q = q\<lparr>qs_observer := insert_server (Server_with_players (qs_players q) (Server_new addr)) (qs_observer q)\<rparr> in
      case map_of (qs_servers q) addr of
        Some _ \<Rightarrow> q
      | None \<Rightarrow>
          (let (now, q) = SystemTime_now te q
           in q\<lparr>qs_servers := AList.update addr (ServerResult_new_timeout now addr) (qs_servers q)\<rparr>))"

definition insert_custom_server :: "tool_env \<Rightarrow> socket_addr \<Rightarrow> query_servers_info \<Rightarrow> query_servers_info" where
  "insert_custom_server te addr q =
     qs_insert_server te addr (q\<lparr>qs_servers_custom := insert addr (qs_servers_custom q)\<rparr>)"

definition settle_custom :: "socket_addr \<Rightarrow> query_servers_info \<Rightarrow> query_servers_info" where
  "settle_custom addr q = q\<lparr>qs_servers_custom := qs_servers_custom q - {addr}\<rparr>"

definition set_server_result :: "socket_addr \<Rightarrow> server_result \<Rightarrow> query_servers_info \<Rightarrow> query_servers_info" where
  "set_server_result addr result q =
     (let q = (if qs_custom q then settle_custom addr q else q)
      in q\<lparr>qs_servers := AList.update addr result (qs_servers q)\<rparr>)"

definition set_server_result_ok ::
  "tool_env \<Rightarrow> socket_addr \<Rightarrow> nat \<Rightarrow> q_info \<Rightarrow> query_servers_info \<Rightarrow> query_servers_info" where
  "set_server_result_ok te addr ping info q =
     (let (e, q) = (case map_of (qs_servers q) addr of
                      Some e \<Rightarrow> (e, q)
                    | None \<Rightarrow> (let (now, q) = SystemTime_now te q in (ServerResult_new_timeout now addr, q)));
          q = (if qs_custom q \<and> (\<not> qs_players q \<or> ServerResult_has_players e) then settle_custom addr q else q)
      in q\<lparr>qs_servers := AList.update addr (ServerResult_set_ok ping info e) (qs_servers q)\<rparr>)"

text \<open>\<open>None\<close> is the panic of \<^verbatim>\<open>expect("server")\<close>.\<close>

definition set_server_players ::
  "socket_addr \<Rightarrow> q_players \<Rightarrow> query_servers_info \<Rightarrow> query_servers_info option" where
  "set_server_players addr players q =
     (case map_of (qs_servers q) addr of
        None \<Rightarrow> None
      | Some e \<Rightarrow>
          (let q = (if qs_custom q \<and> (\<not> qs_players q \<or> ServerResult_is_ok e) then settle_custom addr q else q)
           in Some (q\<lparr>qs_servers := AList.update addr (ServerResult_set_players players e) (qs_servers q)\<rparr>)))"

text \<open>One event other than the timeout, which ends the loop.\<close>

definition qs_handle_event ::
  "tool_env \<Rightarrow> query_cli \<Rightarrow> event \<Rightarrow> query_servers_info \<Rightarrow> query_servers_info option" where
  "qs_handle_event te cli ev q =
     (case ev of
        EvServerList l \<Rightarrow>
          (let q = (if qs_timeout_master q
                    then q\<lparr>qs_timeout_master := False, qs_timeout := qc_server_timeout cli\<rparr> else q)
           in Some (fold (qs_insert_server te) (ServerList_iter l) q))
      | EvServerInfo i \<Rightarrow> Some (set_server_result_ok te (sie_server i) (sie_ping i) (QServerInfo_from i) q)
      | EvServerPlayers addr players \<Rightarrow> set_server_players addr (Players_from (te_memchr te) players) q
      | EvServerInvalidProtocol addr \<Rightarrow>
          (let (now, q) = SystemTime_now te q
           in Some (set_server_result addr (ServerResult_new_invalid_protocol now addr) q))
      | EvServerInvalidPacket addr data \<Rightarrow>
          (if (case map_of (qs_servers q) addr of None \<Rightarrow> True | Some r \<Rightarrow> kind_is_timeout (sr_kind r)) then
             (let (now, q) = SystemTime_now te q
              in Some (set_server_result addr (ServerResult_new_invalid_packet now addr data) q))
           else Some q)
      | _ \<Rightarrow> Some q)"

text \<open>\<^verbatim>\<open>timeout.checked_sub(start_time.elapsed())\<close>.\<close>

definition time_left :: "nat \<Rightarrow> nat \<Rightarrow> nat \<Rightarrow> nat option" where
  "time_left t start now = (if now - start \<le> t then Some (t - (now - start)) else None)"

partial_function (option) query_loop ::
  "tool_env \<Rightarrow> query_cli \<Rightarrow> nat \<Rightarrow> nat option \<Rightarrow> query_servers_info \<Rightarrow> (query_error + query_servers_info) proc option" where
  "query_loop te cli start remaining q =
     (if remaining = None \<or> (qs_custom q \<and> qs_servers_custom q = {}) then Some (Proc_ok (Inr q))
      else Option.bind (wait_event (te_memchr te) remaining (qs_observer q)) (\<lambda>waited.
        (case fst waited of
           Inl e \<Rightarrow> Some (observer_failed e)
         | Inr ev \<Rightarrow>
             if ev = EvTimeout then Some (Proc_ok (Inr (q\<lparr>qs_observer := snd waited\<rparr>)))
             else (case qs_handle_event te cli ev (q\<lparr>qs_observer := snd waited\<rparr>) of
                     None \<Rightarrow> Some Proc_panic
                   | Some q' \<Rightarrow>
                       (case Instant_now (ob_sock (qs_observer q')) of (now, w) \<Rightarrow>
                          query_loop te cli start (time_left (qs_timeout q') start now)
                            (q'\<lparr>qs_observer := (qs_observer q')\<lparr>ob_sock := w\<rparr>\<rparr>))))))"

definition query_report :: "query_servers_info \<Rightarrow> server_result list" where
  "query_report q = sort_key sr_address (map snd (qs_servers q))"

definition query_run ::
  "tool_env \<Rightarrow> query_cli \<Rightarrow> query_servers_info \<Rightarrow> (query_error + bytes) proc option" where
  "query_run te cli q =
     (let (start, w) = Instant_now (ob_sock (qs_observer q));
          q = q\<lparr>qs_observer := (qs_observer q)\<lparr>ob_sock := w\<rparr>\<rparr>
      in map_option
           (proc_then (\<lambda>q'. Printer_print te cli (Printer_new te cli (qs_custom q') (query_report q'))))
           (query_loop te cli start (Some (qs_timeout q)) q))"

definition run_all_servers :: "tool_env \<Rightarrow> query_cli \<Rightarrow> world \<Rightarrow> (query_error + bytes) proc option" where
  "run_all_servers te cli w =
     (case create_observer_with_masters te cli w of
        Inl e \<Rightarrow> Some (Proc_ok (Inl e))
      | Inr ob \<Rightarrow> query_run te cli (QueryServersInfo_new cli ob False))"

definition run_custom_servers ::
  "tool_env \<Rightarrow> query_cli \<Rightarrow> socket_addr list \<Rightarrow> world \<Rightarrow> (query_error + bytes) proc option" where
  "run_custom_servers te cli servers w =
     (if servers = [] then Some (Proc_ok (Inr []))
      else case create_observer te cli w of
        Inl e \<Rightarrow> Some (Proc_ok (Inl e))
      | Inr ob \<Rightarrow> query_run te cli (fold (insert_custom_server te) servers (QueryServersInfo_new cli ob True)))"

section \<open>Listing servers\<close>

partial_function (option) list_loop ::
  "tool_env \<Rightarrow> query_cli \<Rightarrow> nat \<Rightarrow> nat option \<Rightarrow> socket_addr set \<Rightarrow> observer \<Rightarrow>
     (query_error + socket_addr set) proc option" where
  "list_loop te cli start remaining servers ob =
     (if remaining = None then Some (Proc_ok (Inr servers))
      else Option.bind (wait_event (te_memchr te) remaining ob) (\<lambda>waited.
        (case fst waited of
           Inl e \<Rightarrow> Some (observer_failed e)
         | Inr ev \<Rightarrow>
             if ev = EvTimeout then Some (Proc_ok (Inr servers))
             else (case Instant_now (ob_sock (snd waited)) of (now, w) \<Rightarrow>
                     list_loop te cli start (time_left (qc_master_timeout cli) start now)
                       (case ev of EvServerList l \<Rightarrow> servers \<union> set (ServerList_iter l) | _ \<Rightarrow> servers)
                       ((snd waited)\<lparr>ob_sock := w\<rparr>)))))"

definition run_list :: "tool_env \<Rightarrow> query_cli \<Rightarrow> world \<Rightarrow> (query_error + bytes) proc option" where
  "run_list te cli w =
     (case create_observer_with_masters te cli w of
        Inl e \<Rightarrow> Some (Proc_ok (Inl e))
      | Inr ob \<Rightarrow>
          (let (start, w) = Instant_now (ob_sock ob) in
           map_option (proc_then (print_server_list te cli))
             (list_loop te cli start (Some (qc_master_timeout cli)) {} (ob\<lparr>ob_sock := w\<rparr>))))"

section \<open>Monitoring servers\<close>

text \<open>The loop of the monitor never ends on its own; what it has printed is part of its state.\<close>

record monitor =
  mo_servers :: "(socket_addr \<times> q_info) list"
  mo_observer :: observer
  mo_clock_pos :: nat
  mo_out :: bytes

definition monitor_now :: "tool_env \<Rightarrow> monitor \<Rightarrow> int \<times> monitor" where
  "monitor_now te m = (te_clock te (mo_clock_pos m), m\<lparr>mo_clock_pos := Suc (mo_clock_pos m)\<rparr>)"

definition monitor_print :: "bytes \<Rightarrow> monitor \<Rightarrow> monitor" where
  "monitor_print text m = m\<lparr>mo_out := mo_out m @ text\<rparr>"

definition monitor_start ::
  "tool_env \<Rightarrow> query_cli \<Rightarrow> socket_addr list \<Rightarrow> world \<Rightarrow> query_error + monitor" where
  "monitor_start te cli servers w =
     rbind (if servers = [] then create_observer_with_masters te cli w else create_observer te cli w) (\<lambda>ob.
     Inr \<lparr>mo_servers = [], mo_observer = fold (\<lambda>a. insert_server (Server_new a)) servers ob, mo_clock_pos = 0,
          mo_out = []\<rparr>)"

text \<open>The line with a mark before and the text after a change.\<close>

definition monitor_line :: "tool_env \<Rightarrow> query_cli \<Rightarrow> socket_addr \<Rightarrow> string \<Rightarrow> bytes \<Rightarrow> q_info \<Rightarrow> bytes" where
  "monitor_line te cli addr mark ping info =
     pad_right 24 (socket_addr_display addr) @ str mark @ ping @ [32] @
     ServerInfoPrinter_display (te_style te) (colored_output (te_tty te) cli) info @ [10]"

definition monitor_event :: "tool_env \<Rightarrow> query_cli \<Rightarrow> event \<Rightarrow> monitor \<Rightarrow> monitor" where
  "monitor_event te cli ev m =
     (case ev of
        EvServerList l \<Rightarrow>
          m\<lparr>mo_observer := fold (\<lambda>a. insert_server (Server_new a)) (ServerList_iter l) (mo_observer m)\<rparr>
      | EvServerInfo i \<Rightarrow>
          if sie_changed i then
            (let addr = sie_server i; ping = sie_ping i; info = QServerInfo_from i in
             if qc_json cli then
               (let (now, m) = monitor_now te m;
                    result = ServerResult_set_ok ping info (ServerResult_new_timeout now addr)
                in monitor_print (print_json te cli (ServerResult_serialize (te_millis te) result)) m)
             else
               (let line = monitor_line te cli addr '' +++ '' (te_duration te ping) info;
                    m = (case map_of (mo_servers m) addr of
                           Some old \<Rightarrow>
                             monitor_print (monitor_line te cli addr '' --- '' (replicate 7 32) old @ line) m
                         | None \<Rightarrow> monitor_print line m)
                in m\<lparr>mo_servers := AList.update addr info (mo_servers m)\<rparr>))
          else if qc_json cli then
            (let (now, m) = monitor_now te m;
                 result = ServerResult_new_ping now (sie_server i) (sie_ping i)
             in monitor_print (print_json te cli (ServerResult_serialize (te_millis te) result)) m)
          else m
      | EvServerInfoTimeout addr \<Rightarrow>
          if qc_json cli then
            (let (now, m) = monitor_now te m
             in monitor_print (print_json te cli (ServerResult_serialize (te_millis te) (ServerResult_new_timeout now addr))) m)
          else m
      | EvServerRemove addr \<Rightarrow>
          if qc_json cli then
            (let (now, m) = monitor_now te m;
                 result = ServerResult_new now addr None RRemove
             in monitor_print (print_json te cli (ServerResult_serialize (te_millis te) result)) m)
          else m\<lparr>mo_servers := AList.delete addr (mo_servers m)\<rparr>
      | _ \<Rightarrow> m)"

text \<open>One turn of the loop: \<open>Inl\<close> when it ends, by an error or a panic.\<close>

definition monitor_turn :: "tool_env \<Rightarrow> query_cli \<Rightarrow> monitor \<Rightarrow> ((query_error + unit) proc + monitor) option" where
  "monitor_turn te cli m =
     Option.bind (wait_event (te_memchr te) None (mo_observer m)) (\<lambda>waited.
       Some (case fst waited of
          Inl e \<Rightarrow> Inl (observer_failed e)
        | Inr ev \<Rightarrow> Inr (monitor_event te cli ev (m\<lparr>mo_observer := snd waited\<rparr>))))"

partial_function (option) monitor_loop :: "tool_env \<Rightarrow> query_cli \<Rightarrow> monitor \<Rightarrow> (query_error + unit) proc option" where
  "monitor_loop te cli m =
     Option.bind (monitor_turn te cli m) (\<lambda>r. case r of Inl p \<Rightarrow> Some p | Inr m' \<Rightarrow> monitor_loop te cli m')"

definition run_monitor ::
  "tool_env \<Rightarrow> query_cli \<Rightarrow> socket_addr list \<Rightarrow> world \<Rightarrow> (query_error + unit) proc option" where
  "run_monitor te cli servers w =
     (case monitor_start te cli servers w of Inl e \<Rightarrow> Some (Proc_ok (Inl e)) | Inr m \<Rightarrow> monitor_loop te cli m)"

section \<open>The program\<close>

text \<open>A command with addresses as arguments.\<close>

definition with_addresses ::
  "bytes list \<Rightarrow> (socket_addr list \<Rightarrow> (query_error + bytes) proc option) \<Rightarrow> (query_error + bytes) proc option" where
  "with_addresses args run =
     (case parse_server_addresses args of
        Proc_ok addrs \<Rightarrow> run addrs | Proc_exit n \<Rightarrow> Some (Proc_exit n) | Proc_panic \<Rightarrow> Some Proc_panic)"

definition execute :: "tool_env \<Rightarrow> query_cli \<Rightarrow> world \<Rightarrow> (query_error + bytes) proc option" where
  "execute te cli w =
     (let command = (case qc_args cli of [] \<Rightarrow> [] | c # _ \<Rightarrow> c) in
      if command = str ''all'' \<or> command = [] then run_all_servers te cli w
      else if command = str ''info'' then
        with_addresses (tl (qc_args cli)) (\<lambda>addrs. run_custom_servers te cli addrs w)
      else if command = str ''list'' then run_list te cli w
      else if command = str ''monitor'' then
        with_addresses (tl (qc_args cli)) (\<lambda>addrs.
          map_option (proc_then (\<lambda>_. [])) (run_monitor te cli addrs w))
      else Some (Proc_ok (Inl QUndefinedCommand)))"

text \<open>The exit status, 1 for an error.\<close>

definition query_main ::
  "tool_env \<Rightarrow> getopts \<Rightarrow> bytes list \<Rightarrow> world \<Rightarrow> (nat \<times> bytes) proc option" where
  "query_main te getopts args w =
     (case query_cli_parse getopts args of
        Proc_exit n \<Rightarrow> Some (Proc_exit n)
      | Proc_panic \<Rightarrow> Some Proc_panic
      | Proc_ok cli \<Rightarrow>
          map_option (\<lambda>r. case r of Proc_ok (Inr out) \<Rightarrow> Proc_ok (0, out) | Proc_ok (Inl _) \<Rightarrow> Proc_exit 1
             | Proc_exit n \<Rightarrow> Proc_exit n | Proc_panic \<Rightarrow> Proc_panic) (execute te cli w))"

end
