(* ===== verification/Query_Facts.thy ===== *)
theory Query_Facts
  imports Query_Tool Observer_Facts
begin

text \<open>
  Lemmas about the query tool. What the connections of the observer keep is one contract, \<open>connection_contract\<close>,
  which gives the contract of the event loop; the tool's own invariant is carried through its loop by
  \<open>query_loop_inv\<close>.
\<close>

section \<open>What the connections keep\<close>

text \<open>
  A condition \<open>C\<close> that queries and replies keep of each connection, and a condition \<open>E\<close> on the events. The
  events of the master servers and of the timers satisfy it anyway.
\<close>

locale connection_contract =
  fixes mc :: memchr_ops
    and C :: "socket_addr \<Rightarrow> connection \<Rightarrow> bool"
    and E :: "event \<Rightarrow> bool"
  assumes query: "C a con \<Longrightarrow> Connection_query BUFFER_SIZE con w = (r, con', w') \<Longrightarrow> C a con'"
    and reply: "C a con \<Longrightarrow> Connection_handle_packet mc data con w = (s, con', w') \<Longrightarrow> C a con'"
    and reply_event: "C a con \<Longrightarrow> Connection_handle_packet mc data con w = (Inr (Some ev), con', w') \<Longrightarrow> E ev"
    and master_event: "handle_master_packet mc a data key = Some ev \<Longrightarrow> E ev"
    and timer_event: "E EvTimeout" "E (EvServerInfoTimeout a)" "E (EvServerRemove a)"
begin

definition conns_ok :: "observer \<Rightarrow> bool" where
  "conns_ok ob \<longleftrightarrow> (\<forall>(a, con) \<in> set (ob_connections ob). C a con)"

lemma conns_ok_same: "ob_connections ob' = ob_connections ob \<Longrightarrow> conns_ok ob' = conns_ok ob"
  by (simp add: conns_ok_def)

lemma conns_ok_sock: "conns_ok (ob\<lparr>ob_sock := w\<rparr>) = conns_ok ob"
  by (simp add: conns_ok_def)

lemma conns_ok_remove:
  "conns_ok ob \<Longrightarrow> conns_ok (ob\<lparr>ob_connections := connections_remove a (ob_connections ob)\<rparr>)"
  by (auto simp: conns_ok_def connections_remove_def)

lemma conns_ok_at: "conns_ok ob \<Longrightarrow> map_of (ob_connections ob) a = Some con \<Longrightarrow> C a con"
  by (auto simp: conns_ok_def dest: map_of_SomeD)

lemma conns_ok_set:
  "conns_ok ob \<Longrightarrow> C a con \<Longrightarrow> conns_ok (ob\<lparr>ob_connections := connections_set a con (ob_connections ob), ob_sock := w\<rparr>)"
  by (auto simp: conns_ok_def connections_set_def)

lemma query_connections_conns:
  "query_connections now pending cs evs w = (r, cs', evs', w') \<Longrightarrow> \<forall>(a, con) \<in> set cs. C a con \<Longrightarrow>
     \<forall>(a, con) \<in> set cs'. C a con"
proof (induction now pending cs evs w arbitrary: r cs' evs' w' rule: query_connections.induct)
  case (2 now pending addr con cs evs w)
  have con: "C addr con" and cs: "\<forall>(a, con) \<in> set cs. C a con" using "2.prems"(2) by auto
  show ?case
  proof (cases "\<not> Connection_is_valid now con \<or> PServer addr \<in> set pending")
    case True
    obtain r3 cs3 evs3 w3 where rest: "query_connections now pending cs evs w = (r3, cs3, evs3, w3)"
      by (metis prod_cases4)
    from "2.IH"(1) [OF True rest cs] "2.prems"(1) True rest con show ?thesis by auto
  next
    case False
    let ?evs = "if con_state con \<noteq> Idle then evs @ [DServerTimeout addr] else evs"
    obtain s con1 w1 where q: "Connection_query BUFFER_SIZE con w = (s, con1, w1)" by (metis prod_cases3)
    note c = query [OF con q]
    show ?thesis
    proof (cases s)
      case (Inl x)
      with "2.prems"(1) False q c cs show ?thesis by (auto simp: Let_def split: if_splits)
    next
      case (Inr u)
      obtain r3 cs3 evs3 w3 where rest: "query_connections now pending cs ?evs w1 = (r3, cs3, evs3, w3)"
        by (metis prod_cases4)
      have "cs' = (addr, con1) # cs3" using "2.prems"(1) False q Inr rest by (simp add: Let_def)
      with "2.IH"(2) [OF False refl q [symmetric] Inr refl rest cs] c show ?thesis by simp
    qed
  qed
qed simp

lemma query_servers_conns: "query_servers_from_masters ob = (r, ob') \<Longrightarrow> ob_connections ob' = ob_connections ob"
  by (auto simp: query_servers_from_masters_def split: prod.splits)

lemma query_info_conns: "query_info_from_servers ob = (r, ob') \<Longrightarrow> conns_ok ob \<Longrightarrow> conns_ok ob'"
  by (auto simp: query_info_from_servers_def conns_ok_def split: prod.splits dest!: query_connections_conns)

lemma cleanup_conns: "conns_ok ob \<Longrightarrow> conns_ok (cleanup_servers now ob)"
  by (auto simp: conns_ok_def cleanup_servers_def)

lemma process_tasks_conns:
  assumes "process_tasks now ob = (Inr u, ob')" "conns_ok ob"
  shows "conns_ok ob'"
proof -
  obtain due1 t1 where t1: "Task_update_time now (ob_query_servers_task ob) = (due1, t1)" by (metis surj_pair)
  let ?ob1 = "ob\<lparr>ob_query_servers_task := t1\<rparr>"
  obtain r2 ob2 where q1: "(if due1 then query_servers_from_masters ?ob1 else (Inr (), ?ob1)) = (r2, ob2)"
    by (metis surj_pair)
  have c1: "conns_ok ob2"
    using q1 query_servers_conns [of ?ob1 r2 ob2] assms(2) by (auto simp: conns_ok_def split: if_splits)
  obtain due2 t2 where t2: "Task_update_time now (ob_query_info_task ob2) = (due2, t2)" by (metis surj_pair)
  let ?ob2 = "ob2\<lparr>ob_query_info_task := t2\<rparr>"
  obtain r3 ob3 where q2: "(if due2 then query_info_from_servers ?ob2 else (Inr (), ?ob2)) = (r3, ob3)"
    by (metis surj_pair)
  have c2: "conns_ok ob3"
    using q2 query_info_conns [of ?ob2 r3 ob3] c1 conns_ok_same [of ?ob2 ob2] by (auto split: if_splits)
  obtain due3 t3 where t3: "Task_update_time now (ob_cleanup_task ob3) = (due3, t3)" by (metis surj_pair)
  let ?ob3 = "ob3\<lparr>ob_cleanup_task := t3\<rparr>"
  have "ob' = (if due3 then cleanup_servers now ?ob3 else ?ob3)"
    using assms(1) by (auto simp: process_tasks_def t1 q1 t2 q2 t3 Let_def split: sum.splits)
  then show ?thesis using cleanup_conns [of ?ob3] c2 conns_ok_same [of ?ob3 ob3] by auto
qed

lemma process_one_conns:
  assumes "process_one p ob = (r, ob')" "conns_ok ob"
  shows "conns_ok ob'"
proof (cases p)
  case (PMaster addr)
  with assms show ?thesis by (auto simp: process_one_def conns_ok_def split: prod.splits)
next
  case (PServer addr)
  show ?thesis
  proof (cases "map_of (ob_connections ob) addr")
    case None
    with assms PServer show ?thesis by (auto simp: process_one_def)
  next
    case (Some con)
    obtain s con1 w where q: "Connection_query BUFFER_SIZE con (ob_sock ob) = (s, con1, w)" by (metis prod_cases3)
    with assms PServer Some query [OF conns_ok_at [OF assms(2) Some] q] show ?thesis
      by (auto simp: process_one_def intro: conns_ok_set)
  qed
qed

lemma process_pending_from_conns:
  "process_pending_from ps ob = (Inr u, ob') \<Longrightarrow> conns_ok ob \<Longrightarrow> conns_ok ob'"
proof (induction ps ob rule: process_pending_from.induct)
  case (2 p ps ob)
  obtain s ob1 where one: "process_one p (ob\<lparr>ob_pending := rev ps\<rparr>) = (s, ob1)" by (metis surj_pair)
  have "conns_ok ob1" using process_one_conns [OF one] "2.prems"(2) by (simp add: conns_ok_def)
  with 2 one show ?case by (cases s) auto
qed (auto simp: conns_ok_def)

lemma handle_server_packet_conns:
  assumes "handle_server_packet mc from_addr data ob = (r, ob')" "conns_ok ob"
  shows "conns_ok ob' \<and> (\<forall>ev. r = Inr (Some ev) \<longrightarrow> E ev)"
proof (cases "map_of (ob_connections ob) from_addr")
  case None
  with assms show ?thesis by (auto simp: handle_server_packet_def)
next
  case (Some con)
  obtain s con1 w where h: "Connection_handle_packet mc data con (ob_sock ob) = (s, con1, w)" by (metis prod_cases3)
  note con = conns_ok_at [OF assms(2) Some]
  let ?ob = "ob\<lparr>ob_connections := connections_set from_addr con1 (ob_connections ob), ob_sock := w\<rparr>"
  have ob': "r = s" "ob' = (if is_invalid_protocol s
      then ?ob\<lparr>ob_connections := connections_remove from_addr (ob_connections ?ob)\<rparr> else ?ob)"
    using assms(1) Some by (auto simp: handle_server_packet_def h Let_def)
  have "conns_ok ob'"
    using conns_ok_set [OF assms(2) reply [OF con h], of w] conns_ok_remove [of ?ob from_addr]
    unfolding ob' by (simp split: if_split)
  moreover note ob'(1)
  ultimately show ?thesis using reply_event [OF con] h by blast
qed

lemma Observer_handle_packet_conns:
  assumes "Observer_handle_packet mc from_addr data ob = (r, ob')" "conns_ok ob"
  shows "conns_ok ob' \<and> (\<forall>ev. r = Inr (Some ev) \<longrightarrow> E ev)"
  using assms handle_server_packet_conns [of from_addr data ob r ob']
  by (auto simp: Observer_handle_packet_def dest: master_event split: option.splits)

lemma pop_delayed_conns:
  "pop_delayed ob = Some (ev, ob') \<Longrightarrow> conns_ok ob' = conns_ok ob \<and> E ev"
proof -
  assume p: "pop_delayed ob = Some (ev, ob')"
  have "\<exists>addr. ev = EvServerInfoTimeout addr \<or> ev = EvServerRemove addr"
    using pop_delayed_step [OF p, of "()"] by blast
  then have "E ev" using timer_event by auto
  with p show ?thesis by (auto simp: pop_delayed_def conns_ok_def split: if_splits)
qed

definition event_ok :: "observer_error + event \<Rightarrow> observer \<Rightarrow> bool" where
  "event_ok r ob \<longleftrightarrow> (\<forall>ev. r = Inr ev \<longrightarrow> conns_ok ob \<and> E ev)"

end

text \<open>The contract of the connections gives that of the event loop.\<close>

sublocale connection_contract \<subseteq> loop: observer_loop mc conns_ok event_ok
  by unfold_locales
     (auto simp: event_ok_def timer_event conns_ok_sock process_pending_def
        dest: process_tasks_conns process_pending_from_conns Observer_handle_packet_conns pop_delayed_conns)

section \<open>The servers of the tool\<close>

text \<open>
  The connections are those of a set of servers, players are asked for only when they are wanted, and so a
  list of players comes only from a server of the set and only when it is wanted.
\<close>

definition con_within :: "socket_addr set \<Rightarrow> bool \<Rightarrow> socket_addr \<Rightarrow> connection \<Rightarrow> bool" where
  "con_within A p a con \<longleftrightarrow> a \<in> A \<and> con_address con = a \<and> (con_players con \<longrightarrow> p) \<and> (con_wait_players con \<longrightarrow> p)"

definition players_within :: "socket_addr set \<Rightarrow> bool \<Rightarrow> event \<Rightarrow> bool" where
  "players_within A p ev \<longleftrightarrow> (\<forall>a r. ev = EvServerPlayers a r \<longrightarrow> a \<in> A \<and> p)"

lemma Connection_query_info_same:
  "Connection_query_info n con w = (r, con', w') \<Longrightarrow>
     con_address con' = con_address con \<and> con_players con' = con_players con \<and>
     con_wait_players con' = con_wait_players con"
  by (auto simp: Connection_query_info_def Let_def split: prod.splits sum.splits if_splits)

lemma Connection_query_players_same:
  "Connection_query_players n con w = (r, con', w') \<Longrightarrow>
     con_address con' = con_address con \<and> con_players con' = con_players con \<and> con_wait_players con'"
  by (auto simp: Connection_query_players_def Let_def split: prod.splits)

lemma Connection_query_within:
  assumes "con_within A p a con" "Connection_query n con w = (r, con', w')"
  shows "con_within A p a con'"
proof -
  obtain r1 con1 w1 where q: "Connection_query_info n con w = (r1, con1, w1)" by (metis prod_cases3)
  show ?thesis
    using assms Connection_query_info_same [OF q] Connection_query_players_same [of n con1 w1 r con' w']
    by (auto simp: Connection_query_def q con_within_def split: sum.splits if_splits)
qed

lemma Connection_handle_packet_within:
  assumes "con_within A p a con" "Connection_handle_packet mc data con w = (r, con', w')"
  shows "con_within A p a con' \<and> (\<forall>ev. r = Inr (Some ev) \<longrightarrow> players_within A p ev)"
proof (cases "GetChallengeResponse_decode data")
  case (Inr response)
  show ?thesis
    using assms Inr Connection_query_players_same [of 32 "con\<lparr>con_challenge := Some (gcr_challenge response)\<rparr>" w _ con' w']
    by (auto simp: Connection_handle_packet_def con_within_def Let_def split: prod.splits sum.splits if_splits)
next
  case c: (Inl e)
  show ?thesis
  proof (cases "GetServerInfoResponse_decode mc data")
    case (Inr response)
    then show ?thesis
      using assms c
      by (auto simp: Connection_handle_packet_def Connection_update_response_time_def Connection_update_raw_info_def
          Instant_now_def con_within_def players_within_def Let_def split: prod.splits sum.splits if_splits)
  next
    case (Inl e')
    have "con_within A p a (Connection_set_legacy_protocol con)"
      using assms(1) by (simp add: con_within_def Connection_set_legacy_protocol_def)
    from Connection_query_within [OF this, of 512 w] show ?thesis
      using assms c Inl
      by (auto simp: Connection_handle_packet_def con_within_def players_within_def Let_def
          split: prod.splits sum.splits if_splits xerror.splits)
  qed
qed

interpretation within: connection_contract mc "con_within A p" "players_within A p" for mc A p
  by unfold_locales
     (auto simp: players_within_def dest: Connection_query_within Connection_handle_packet_within
        dest!: handle_master_packet_event)

text \<open>The clock only moves on in a wait.\<close>

interpretation clock: observer_loop mc "\<lambda>ob. later w (ob_sock ob)" "\<lambda>_ ob. later w (ob_sock ob)" for mc w
  by unfold_locales
     (auto simp: step_of_def dest!: process_tasks_step process_pending_step Observer_handle_packet_step
        pop_delayed_step [where x = "()"] intro: later_trans)

end
