(* ===== verification/Query_Runs.thy ===== *)
theory Query_Runs
  imports Query_Facts
begin

text \<open>
  The runs of the query tool: the invariant of \<^verbatim>\<open>QueryServersInfo\<close>, that every event keeps it, and that the
  loops neither panic nor run for ever.
\<close>

section \<open>The invariant\<close>

abbreviation qs_addrs :: "query_servers_info \<Rightarrow> socket_addr set" where
  "qs_addrs q \<equiv> fst ` set (qs_servers q)"

text \<open>
  Every result is kept under its own address, and the observer queries only servers that have a result, for
  players only when they are wanted.
\<close>

definition qs_ok :: "query_servers_info \<Rightarrow> bool" where
  "qs_ok q \<longleftrightarrow> distinct (map fst (qs_servers q)) \<and> (\<forall>(a, r) \<in> set (qs_servers q). sr_address r = a) \<and>
     filter_fits (ob_filter (qs_observer q)) \<and> within.conns_ok (qs_addrs q) (qs_players q) (qs_observer q)"

text \<open>The servers of \<open>W\<close> are waited for or have an answer.\<close>

definition settled :: "socket_addr set \<Rightarrow> query_servers_info \<Rightarrow> bool" where
  "settled W q \<longleftrightarrow> (\<forall>a \<in> W. a \<in> qs_servers_custom q \<or>
     (\<exists>r. map_of (qs_servers q) a = Some r \<and> \<not> kind_is_timeout (sr_kind r)))"

text \<open>What an operation on the state keeps.\<close>

definition qs_step :: "query_servers_info \<Rightarrow> query_servers_info \<Rightarrow> bool" where
  "qs_step q q' \<longleftrightarrow> (qs_ok q \<longrightarrow> qs_ok q') \<and> qs_custom q' = qs_custom q \<and> qs_players q' = qs_players q \<and>
     qs_addrs q \<subseteq> qs_addrs q' \<and> later (ob_sock (qs_observer q)) (ob_sock (qs_observer q')) \<and>
     (\<forall>W. settled W q \<longrightarrow> settled W q')"

lemma qs_step_refl [simp]: "qs_step q q"
  by (simp add: qs_step_def)

lemma qs_step_trans: "qs_step q q' \<Longrightarrow> qs_step q' q'' \<Longrightarrow> qs_step q q''"
  by (auto simp: qs_step_def intro: later_trans)

lemma qs_step_fold: "(\<And>x q. qs_step q (f x q)) \<Longrightarrow> qs_step q (fold f xs q)"
  by (induction xs arbitrary: q) (auto intro: qs_step_trans)

lemma qs_step_clock: "qs_step q (q\<lparr>qs_clock_pos := n\<rparr>)"
  by (simp add: qs_step_def qs_ok_def settled_def)

lemma con_within_mono: "con_within A p a con \<Longrightarrow> A \<subseteq> B \<Longrightarrow> con_within B p a con"
  by (auto simp: con_within_def)

lemma within_mono: "within.conns_ok A p ob \<Longrightarrow> A \<subseteq> B \<Longrightarrow> within.conns_ok B p ob"
  by (auto simp: within.conns_ok_def intro: con_within_mono)

lemma insert_server_within:
  assumes "within.conns_ok A p ob" "sr_addr s \<in> A" "sr_players s \<longrightarrow> p"
  shows "within.conns_ok A p (insert_server s ob)"
  using assms
  by (auto simp: insert_server_def Connection_new_def Instant_now_def within.conns_ok_def con_within_def
      Let_def split: option.split)

lemma insert_server_same:
  "ob_filter (insert_server s ob) = ob_filter ob" "later (ob_sock ob) (ob_sock (insert_server s ob))"
  by (auto simp: insert_server_def Connection_new_def Instant_now_def later_def Let_def split: option.split)

section \<open>Results\<close>

lemma addrs_update: "fst ` set (AList.update a r xs) = insert a (fst ` set xs)"
  by (induction xs) auto

lemma update_results:
  assumes "distinct (map fst xs)" "\<forall>(a, r) \<in> set xs. sr_address r = a" "sr_address r = a"
  shows "distinct (map fst (AList.update a r xs)) \<and> (\<forall>(b, r) \<in> set (AList.update a r xs). sr_address r = b)"
proof -
  have d: "distinct (map fst (AList.update a r xs))" by (rule AList.distinct_update [OF assms(1)])
  have "sr_address s = b" if "(b, s) \<in> set (AList.update a r xs)" for b s
  proof -
    have "map_of (AList.update a r xs) b = Some s" using d that by simp
    then have "(if b = a then Some r else map_of xs b) = Some s" by (simp add: AList.update_conv')
    with assms(2,3) show ?thesis by (auto split: if_splits dest: map_of_SomeD)
  qed
  with d show ?thesis by blast
qed

lemma set_players_fields [simp]:
  "sr_address (ServerResult_set_players ps r) = sr_address r"
  "sr_address (ServerResult_set_ok ping info r) = sr_address r"
  by (simp_all add: ServerResult_set_players_def ServerResult_set_ok_def Let_def
      split: result_kind.split option.split)

lemma set_ok_answers: "\<not> kind_is_timeout (sr_kind (ServerResult_set_ok ping info r))"
  by (simp add: ServerResult_set_ok_def kind_is_timeout_def new_ok_with_players_def Let_def
      split: result_kind.split option.split)

lemma set_players_keeps:
  "kind_is_timeout (sr_kind (ServerResult_set_players ps r)) = kind_is_timeout (sr_kind r)"
  by (simp add: ServerResult_set_players_def kind_is_timeout_def new_ok_with_players_def split: result_kind.split)

text \<open>
  Storing a result: \<open>S\<close> are the servers taken off the waiting set, which only an answer may be, and an answer
  is never lost.
\<close>

lemma qs_step_store:
  assumes "sr_address r = addr"
    and "S \<subseteq> {addr}" "S \<noteq> {} \<longrightarrow> \<not> kind_is_timeout (sr_kind r)"
    and "\<And>r'. map_of (qs_servers q) addr = Some r' \<Longrightarrow> kind_is_timeout (sr_kind r) \<Longrightarrow> kind_is_timeout (sr_kind r')"
  shows "qs_step q (q\<lparr>qs_servers_custom := qs_servers_custom q - S, qs_servers := AList.update addr r (qs_servers q)\<rparr>)"
proof -
  let ?q = "q\<lparr>qs_servers_custom := qs_servers_custom q - S, qs_servers := AList.update addr r (qs_servers q)\<rparr>"
  have "qs_ok ?q" if "qs_ok q"
    using that update_results [of "qs_servers q" r addr] assms(1)
      within_mono [of "qs_addrs q" "qs_players q" "qs_observer q" "insert addr (qs_addrs q)"]
    by (auto simp: qs_ok_def addrs_update)
  moreover have "settled W ?q" if "settled W q" for W
    using that assms(2-4) by (force simp: settled_def AList.update_conv')
  ultimately show ?thesis by (auto simp: qs_step_def addrs_update)
qed

lemma qs_step_set:
  assumes "sr_address r = addr" "b \<longrightarrow> \<not> kind_is_timeout (sr_kind r)"
    and "\<And>r'. map_of (qs_servers q) addr = Some r' \<Longrightarrow> kind_is_timeout (sr_kind r) \<Longrightarrow> kind_is_timeout (sr_kind r')"
  shows "(b \<longrightarrow> qs_step q ((settle_custom addr q)\<lparr>qs_servers := AList.update addr r (qs_servers q)\<rparr>)) \<and>
     (\<not> b \<longrightarrow> qs_step q (q\<lparr>qs_servers := AList.update addr r (qs_servers q)\<rparr>))"
  using qs_step_store [of r addr "if b then {addr} else {}" q] assms
  by (cases b) (simp_all add: settle_custom_def)

lemma settle_custom_servers [simp]: "qs_servers (settle_custom addr q) = qs_servers q"
  by (simp add: settle_custom_def)

section \<open>Events\<close>

lemma qs_insert_server_step: "qs_step q (qs_insert_server te addr q)"
proof -
  let ?s = "Server_with_players (qs_players q) (Server_new addr)"
  have s: "sr_addr ?s = addr" "sr_players ?s = qs_players q" by (simp_all add: Server_with_players_def Server_new_def)
  have w: "within.conns_ok (insert addr (qs_addrs q)) (qs_players q) (insert_server ?s (qs_observer q))" if "qs_ok q"
    using that insert_server_within [of "insert addr (qs_addrs q)" "qs_players q" "qs_observer q" ?s]
      within_mono [of "qs_addrs q" "qs_players q" "qs_observer q" "insert addr (qs_addrs q)"] s
    by (auto simp: qs_ok_def)
  note o = insert_server_same [where s = ?s and ob = "qs_observer q"]
  show ?thesis
  proof (cases "map_of (qs_servers q) addr")
    case (Some r)
    then have "addr \<in> qs_addrs q" by (metis domI dom_map_of_conv_image_fst)
    with w o Some show ?thesis
      by (simp add: qs_insert_server_def qs_step_def qs_ok_def settled_def insert_absorb)
  next
    case None
    let ?r = "ServerResult_new_timeout (te_clock te (qs_clock_pos q)) addr"
    have r: "sr_address ?r = addr" by (simp add: ServerResult_new_timeout_def ServerResult_new_def)
    let ?q = "q\<lparr>qs_observer := insert_server ?s (qs_observer q), qs_clock_pos := Suc (qs_clock_pos q),
        qs_servers := AList.update addr ?r (qs_servers q)\<rparr>"
    have eq: "qs_insert_server te addr q = ?q"
      using None by (simp add: qs_insert_server_def SystemTime_now_def Let_def)
    have "qs_ok ?q" if "qs_ok q"
      using that w o update_results [of "qs_servers q" ?r addr] r by (simp add: qs_ok_def addrs_update)
    moreover have "settled W ?q" if "settled W q" for W
      using that None by (force simp: settled_def AList.update_conv')
    ultimately show ?thesis using o by (auto simp: eq qs_step_def addrs_update)
  qed
qed

lemma qs_insert_server_addrs: "addr \<in> qs_addrs (qs_insert_server te addr q)"
  by (auto simp: qs_insert_server_def SystemTime_now_def addrs_update Let_def split: option.split)
     (metis domI dom_map_of_conv_image_fst)

lemma set_server_result_step:
  assumes "sr_address r = addr" "\<not> kind_is_timeout (sr_kind r)"
  shows "qs_step q (set_server_result addr r q)"
  using qs_step_set [of r addr "qs_custom q" q] assms by (simp add: set_server_result_def)

lemma set_server_result_ok_step:
  assumes "qs_ok q"
  shows "qs_step q (set_server_result_ok te addr ping info q)"
proof (cases "map_of (qs_servers q) addr")
  case (Some e)
  then have "sr_address (ServerResult_set_ok ping info e) = addr" using assms by (auto simp: qs_ok_def dest: map_of_SomeD)
  from qs_step_set [of _ addr "qs_custom q \<and> (\<not> qs_players q \<or> ServerResult_has_players e)" q, OF this] Some set_ok_answers
  show ?thesis by (simp add: set_server_result_ok_def Let_def)
next
  case None
  let ?q = "q\<lparr>qs_clock_pos := Suc (qs_clock_pos q)\<rparr>"
  let ?e = "ServerResult_new_timeout (te_clock te (qs_clock_pos q)) addr"
  have "sr_address (ServerResult_set_ok ping info ?e) = addr"
    by (simp add: ServerResult_new_timeout_def ServerResult_new_def)
  from qs_step_set [of _ addr "qs_custom q \<and> (\<not> qs_players q \<or> ServerResult_has_players ?e)" ?q, OF this]
    None set_ok_answers
  have "qs_step ?q (set_server_result_ok te addr ping info q)"
    by (simp add: set_server_result_ok_def SystemTime_now_def Let_def)
  with qs_step_clock qs_step_trans show ?thesis by blast
qed

lemma set_server_players_step:
  assumes "qs_ok q" "addr \<in> qs_addrs q" "qs_players q"
  shows "\<exists>q'. set_server_players addr ps q = Some q' \<and> qs_step q q'"
proof -
  obtain e where e: "map_of (qs_servers q) addr = Some e"
    using assms(2) by (metis domD dom_map_of_conv_image_fst)
  then have a: "sr_address (ServerResult_set_players ps e) = addr"
    using assms(1) by (auto simp: qs_ok_def dest: map_of_SomeD)
  have k: "ServerResult_is_ok e \<Longrightarrow> \<not> kind_is_timeout (sr_kind e)"
    by (auto simp: ServerResult_is_ok_def kind_is_timeout_def split: result_kind.splits)
  from qs_step_set [of _ addr "qs_custom q \<and> ServerResult_is_ok e" q, OF a] e k assms(3)
  show ?thesis by (simp add: set_server_players_def set_players_keeps Let_def)
qed

lemma qs_handle_event_step:
  assumes "qs_ok q" "players_within (qs_addrs q) (qs_players q) ev"
  shows "\<exists>q'. qs_handle_event te cli ev q = Some q' \<and> qs_step q q'"
proof (cases ev)
  case (EvServerList l)
  let ?q = "if qs_timeout_master q then q\<lparr>qs_timeout_master := False, qs_timeout := qc_server_timeout cli\<rparr> else q"
  have "qs_step q ?q" by (simp add: qs_step_def qs_ok_def settled_def)
  moreover have "qs_step ?q (fold (qs_insert_server te) (ServerList_iter l) ?q)"
    by (rule qs_step_fold) (rule qs_insert_server_step)
  ultimately show ?thesis using EvServerList by (auto simp: qs_handle_event_def Let_def intro: qs_step_trans)
next
  case (EvServerInfo i)
  then show ?thesis using set_server_result_ok_step [OF assms(1)] by (simp add: qs_handle_event_def)
next
  case (EvServerPlayers addr r)
  then show ?thesis
    using assms set_server_players_step [of q addr] by (simp add: qs_handle_event_def players_within_def)
next
  case (EvServerInvalidProtocol addr)
  let ?q = "q\<lparr>qs_clock_pos := Suc (qs_clock_pos q)\<rparr>"
  have "qs_step ?q (set_server_result addr (ServerResult_new_invalid_protocol (te_clock te (qs_clock_pos q)) addr) ?q)"
    by (rule set_server_result_step)
       (simp_all add: ServerResult_new_invalid_protocol_def ServerResult_new_def kind_is_timeout_def)
  with EvServerInvalidProtocol qs_step_clock [of q] show ?thesis
    by (auto simp: qs_handle_event_def SystemTime_now_def intro: qs_step_trans)
next
  case (EvServerInvalidPacket addr data)
  let ?q = "q\<lparr>qs_clock_pos := Suc (qs_clock_pos q)\<rparr>"
  have "qs_step ?q (set_server_result addr (ServerResult_new_invalid_packet (te_clock te (qs_clock_pos q)) addr data) ?q)"
    by (rule set_server_result_step)
       (simp_all add: ServerResult_new_invalid_packet_def ServerResult_new_def kind_is_timeout_def)
  with EvServerInvalidPacket qs_step_clock [of q] show ?thesis
    by (auto simp: qs_handle_event_def SystemTime_now_def intro: qs_step_trans)
qed (simp_all add: qs_handle_event_def)

section \<open>The loop\<close>

interpretation filter_kept: observer_loop mc "\<lambda>ob. ob_filter ob = f" "\<lambda>_ ob. ob_filter ob = f" for mc f
  by unfold_locales
     (auto simp: step_of_def dest!: process_tasks_step process_pending_step Observer_handle_packet_step
        pop_delayed_step [where x = "()"])

lemma wait_panic: "filter_fits (ob_filter ob) \<Longrightarrow> wait_event mc t ob = Some (r, ob') \<Longrightarrow> r \<noteq> Inl OPanic"
  by (rule panic_free.wait_event_ok)

lemma wait_later: "wait_event mc t ob = Some (r, ob') \<Longrightarrow> later (ob_sock ob) (ob_sock ob')"
  using clock.wait_event_ok by auto

lemma wait_filter: "wait_event mc t ob = Some (r, ob') \<Longrightarrow> ob_filter ob' = ob_filter ob"
  using filter_kept.wait_event_ok by auto

lemma qs_wait_step:
  assumes "qs_ok q" "wait_event mc t (qs_observer q) = Some (Inr ev, ob')"
  shows "qs_step q (q\<lparr>qs_observer := ob'\<rparr>) \<and> players_within (qs_addrs q) (qs_players q) ev"
proof -
  have "within.conns_ok (qs_addrs q) (qs_players q) ob' \<and> players_within (qs_addrs q) (qs_players q) ev"
    using within.loop.wait_event_ok [OF assms(2)] assms(1) by (simp add: within.event_ok_def qs_ok_def)
  with assms(1) wait_later [OF assms(2)] wait_filter [OF assms(2)] show ?thesis
    by (simp add: qs_step_def qs_ok_def settled_def)
qed

lemma qs_tick_step:
  "Instant_now (ob_sock (qs_observer q)) = (now, w) \<Longrightarrow> qs_step q (q\<lparr>qs_observer := (qs_observer q)\<lparr>ob_sock := w\<rparr>\<rparr>)"
  using Instant_now_later [of "ob_sock (qs_observer q)" now w]
  by (simp add: qs_step_def qs_ok_def settled_def within.conns_ok_sock)

definition ends_well :: "query_servers_info \<Rightarrow> (query_error + query_servers_info) proc \<Rightarrow> bool" where
  "ends_well q p \<longleftrightarrow> p = Proc_ok (Inl QIo) \<or> (\<exists>q'. p = Proc_ok (Inr q') \<and> qs_step q q')"

lemma ends_well_step: "qs_step q q' \<Longrightarrow> ends_well q' p \<Longrightarrow> ends_well q p"
  by (auto simp: ends_well_def intro: qs_step_trans)

lemma query_loop_ends_well:
  assumes "query_loop te cli start remaining q = Some p" "qs_ok q"
  shows "ends_well q p"
  using assms
proof (induction rule: query_loop.raw_induct [rotated 1, consumes 1, case_names step])
  case (step rec te cli start remaining q p)
  show ?case
  proof (cases "remaining = None \<or> (qs_custom q \<and> qs_servers_custom q = {})")
    case True
    with step(2) show ?thesis by (auto simp: ends_well_def)
  next
    case False
    then obtain r ob where wait: "wait_event (te_memchr te) remaining (qs_observer q) = Some (r, ob)"
      using step(2) by (cases "wait_event (te_memchr te) remaining (qs_observer q)") (auto split: if_splits)
    show ?thesis
    proof (cases r)
      case (Inl e)
      then have "e \<noteq> OPanic" using wait_panic [OF _ wait] step(3) by (auto simp: qs_ok_def)
      then show ?thesis
        using step(2) False wait Inl by (cases e) (auto simp: observer_failed_def ends_well_def)
    next
      case (Inr ev)
      let ?q = "q\<lparr>qs_observer := ob\<rparr>"
      note w = qs_wait_step [OF step(3) wait [unfolded Inr]]
      then have ok: "qs_ok ?q" "qs_step q ?q" using step(3) by (simp_all add: qs_step_def)
      show ?thesis
      proof (cases "ev = EvTimeout")
        case True
        with step(2) False wait Inr ok show ?thesis by (auto simp: ends_well_def)
      next
        case ev: False
        obtain q' where h: "qs_handle_event te cli ev ?q = Some q'" "qs_step ?q q'"
          using qs_handle_event_step [OF ok(1), of ev te cli] w by auto
        obtain now w' where t: "Instant_now (ob_sock (qs_observer q')) = (now, w')" by (metis surj_pair)
        let ?q' = "q'\<lparr>qs_observer := (qs_observer q')\<lparr>ob_sock := w'\<rparr>\<rparr>"
        have s: "qs_step q ?q'" using ok(2) h(2) qs_tick_step [OF t] qs_step_trans by blast
        have "rec te cli start (time_left (qs_timeout q') start now) ?q' = Some p"
          using step(2) False wait Inr ev h(1) t by simp
        from step(1) [OF this] s step(3) have "ends_well ?q' p" by (simp add: qs_step_def)
        with s show ?thesis by (rule ends_well_step)
      qed
    qed
  qed
qed

section \<open>Set-up\<close>

lemma create_observer_fields:
  "create_observer te cli w = Inr ob \<Longrightarrow>
     ob_filter ob = qc_filter cli \<and> ob_connections ob = [] \<and> w_clk (ob_sock ob) = w_clk w"
  by (auto simp: create_observer_def set_filter_raw_def Observer_bind_def Instant_now_def split: if_splits)

lemma insert_masters_fields:
  "insert_masters te local hosts ob = Inr ob' \<Longrightarrow>
     ob_filter ob' = ob_filter ob \<and> ob_connections ob' = ob_connections ob \<and> ob_sock ob' = ob_sock ob"
  by (induction te local hosts ob rule: insert_masters.induct)
     (auto simp: insert_master_def split: option.splits if_splits)

lemma create_observer_with_masters_fields:
  "create_observer_with_masters te cli w = Inr ob \<Longrightarrow>
     ob_filter ob = qc_filter cli \<and> ob_connections ob = [] \<and> w_clk (ob_sock ob) = w_clk w"
  by (auto simp: create_observer_with_masters_def rbind_eq_Inr_iff
      dest!: create_observer_fields insert_masters_fields)

lemma QueryServersInfo_new_ok:
  "filter_fits (ob_filter ob) \<Longrightarrow> ob_connections ob = [] \<Longrightarrow> qs_ok (QueryServersInfo_new cli ob custom)"
  by (simp add: qs_ok_def QueryServersInfo_new_def within.conns_ok_def split: prod.split)

lemma qs_insert_server_custom [simp]:
  "qs_servers_custom (qs_insert_server te addr q) = qs_servers_custom q"
  by (simp add: qs_insert_server_def SystemTime_now_def Let_def split: option.split)

lemma insert_custom_server_step: "qs_step q (insert_custom_server te addr q)"
proof -
  have "qs_step q (q\<lparr>qs_servers_custom := insert addr (qs_servers_custom q)\<rparr>)"
    by (auto simp: qs_step_def qs_ok_def settled_def)
  then show ?thesis
    unfolding insert_custom_server_def using qs_insert_server_step qs_step_trans by blast
qed

lemma insert_custom_servers_waited:
  "qs_servers_custom (fold (insert_custom_server te) addrs q) = set addrs \<union> qs_servers_custom q"
  by (induction addrs arbitrary: q) (simp_all add: insert_custom_server_def)

lemma insert_custom_servers_step: "qs_step q (fold (insert_custom_server te) addrs q)"
  by (rule qs_step_fold) (rule insert_custom_server_step)

lemma insert_custom_servers_addrs: "set addrs \<subseteq> qs_addrs (fold (insert_custom_server te) addrs q)"
proof (induction addrs arbitrary: q)
  case (Cons a addrs)
  let ?q = "insert_custom_server te a q"
  have "a \<in> qs_addrs ?q" using qs_insert_server_addrs by (simp add: insert_custom_server_def)
  with insert_custom_servers_step [of ?q te addrs] Cons.IH [of ?q] show ?case by (auto simp: qs_step_def)
qed simp

section \<open>No command panics\<close>

lemma proc_then_panic [simp]: "proc_then f p = Proc_panic \<longleftrightarrow> p = Proc_panic"
  by (cases p) auto

lemma query_run_no_panic:
  assumes "query_run te cli q = Some p" "qs_ok q"
  shows "p \<noteq> Proc_panic"
proof -
  obtain start w where t: "Instant_now (ob_sock (qs_observer q)) = (start, w)" by (metis surj_pair)
  let ?q = "q\<lparr>qs_observer := (qs_observer q)\<lparr>ob_sock := w\<rparr>\<rparr>"
  obtain r where r: "query_loop te cli start (Some (qs_timeout q)) ?q = Some r"
    using assms(1) t by (cases "query_loop te cli start (Some (qs_timeout q)) ?q") (auto simp: query_run_def Let_def)
  have "qs_ok ?q" using qs_tick_step [OF t] assms(2) by (simp add: qs_step_def)
  from query_loop_ends_well [OF r this] assms(1) t r show ?thesis
    by (auto simp: query_run_def ends_well_def Let_def)
qed

lemma list_loop_no_panic:
  assumes "list_loop te cli start remaining servers ob = Some p" "filter_fits (ob_filter ob)"
  shows "p \<noteq> Proc_panic"
  using assms
proof (induction rule: list_loop.raw_induct [rotated 1, consumes 1, case_names step])
  case (step rec te cli start remaining servers ob p)
  show ?case
  proof (cases "wait_event (te_memchr te) remaining ob")
    case None
    with step(2) show ?thesis by (auto split: if_splits)
  next
    case (Some h)
    obtain r ob' where h: "h = (r, ob')" by (metis surj_pair)
    obtain now w where t: "Instant_now (ob_sock ob') = (now, w)" by (metis surj_pair)
    note wait = Some [unfolded h]
    have "filter_fits (ob_filter (ob'\<lparr>ob_sock := w\<rparr>))" using wait_filter [OF wait] step(3) by simp
    with step wait_panic [OF step(3) wait] wait t show ?thesis
      by (cases r) (auto simp: observer_failed_def split: if_splits observer_error.splits)
  qed
qed

lemma insert_servers_filter: "ob_filter (fold (\<lambda>a. insert_server (f a)) addrs ob) = ob_filter ob"
  by (induction addrs arbitrary: ob) (simp_all add: insert_server_same)

lemma monitor_event_filter:
  "ob_filter (mo_observer (monitor_event te cli ev m)) = ob_filter (mo_observer m)"
  by (cases ev) (simp_all add: monitor_event_def insert_servers_filter monitor_now_def monitor_print_def Let_def
      split: option.split)

lemma monitor_loop_no_panic:
  assumes "monitor_loop te cli m = Some p" "filter_fits (ob_filter (mo_observer m))"
  shows "p \<noteq> Proc_panic"
  using assms
proof (induction rule: monitor_loop.raw_induct [rotated 1, consumes 1, case_names step])
  case (step rec te cli m p)
  show ?case
  proof (cases "wait_event (te_memchr te) None (mo_observer m)")
    case None
    with step(2) show ?thesis by (auto simp: monitor_turn_def)
  next
    case (Some h)
    obtain r ob' where h: "h = (r, ob')" by (metis surj_pair)
    note wait = Some [unfolded h]
    show ?thesis
    proof (cases r)
      case (Inl e)
      with step(2) wait wait_panic [OF step(3) wait] show ?thesis
        by (cases e) (auto simp: monitor_turn_def observer_failed_def)
    next
      case (Inr ev)
      have "rec te cli (monitor_event te cli ev (m\<lparr>mo_observer := ob'\<rparr>)) = Some p"
        using step(2) wait Inr by (simp add: monitor_turn_def)
      from step(1) [OF this] show ?thesis using wait_filter [OF wait] step(3) by (simp add: monitor_event_filter)
    qed
  qed
qed

lemma no_panics:
  "qs_ok q \<Longrightarrow> query_run te cli q \<noteq> Some Proc_panic"
  "filter_fits (ob_filter ob) \<Longrightarrow> list_loop te cli start remaining servers ob \<noteq> Some Proc_panic"
  "filter_fits (ob_filter (mo_observer m)) \<Longrightarrow> monitor_loop te cli m \<noteq> Some Proc_panic"
  using query_run_no_panic list_loop_no_panic monitor_loop_no_panic by blast+

lemma run_list_no_panic: "filter_fits (qc_filter cli) \<Longrightarrow> run_list te cli w \<noteq> Some Proc_panic"
  by (auto simp: run_list_def Let_def no_panics bind_eq_Some_conv split: sum.splits prod.splits proc.splits
      dest!: create_observer_with_masters_fields)

lemma execute_no_panic:
  assumes "execute te cli w = Some p" "filter_fits (qc_filter cli)"
  shows "p \<noteq> Proc_panic"
proof -
  have all: "run_all_servers te cli w \<noteq> Some Proc_panic"
    using assms(2)
    by (auto simp: run_all_servers_def no_panics QueryServersInfo_new_ok split: sum.split
        dest!: create_observer_with_masters_fields)
  have fold: "qs_ok q \<Longrightarrow> qs_ok (fold (insert_custom_server te) addrs q)" for q addrs
    using insert_custom_servers_step [of q te addrs] by (simp add: qs_step_def)
  have custom: "run_custom_servers te cli addrs w \<noteq> Some Proc_panic" for addrs
    using assms(2)
    by (auto simp: run_custom_servers_def no_panics QueryServersInfo_new_ok fold split: sum.split
        dest!: create_observer_fields)
  have mon: "run_monitor te cli addrs w \<noteq> Some Proc_panic" for addrs
    using assms(2)
    by (auto simp: run_monitor_def monitor_start_def rbind_eq_Inr_iff insert_servers_filter no_panics
        split: sum.splits if_splits dest!: create_observer_with_masters_fields create_observer_fields)
  have args: "parse_server_addresses args \<noteq> Proc_panic" for args
    by (simp add: parse_server_addresses_def Let_def)
  show ?thesis
    using assms(1) all custom run_list_no_panic [OF assms(2)] mon args
    by (auto simp: execute_def with_addresses_def Let_def split: if_splits proc.splits sum.splits option.splits)
qed

section \<open>The commands return\<close>

text \<open>The clock goes past every bound and stays there.\<close>

definition diverges :: "world \<Rightarrow> bool" where
  "diverges w \<longleftrightarrow> (\<forall>t. \<exists>n. passes t n w)"

lemma diverges_later: "later w w' \<Longrightarrow> diverges w \<Longrightarrow> diverges w'"
  by (simp add: diverges_def passes_later)

lemma wait_event_total:
  assumes "diverges (ob_sock ob)"
  shows "\<exists>r ob'. wait_event mc (Some t) ob = Some (r, ob')"
proof (cases "pop_delayed ob")
  case None
  obtain now w where now: "Instant_now (ob_sock ob) = (now, w)" by (metis surj_pair)
  then have "later (ob_sock ob) w" using Instant_now_later by blast
  then obtain n where "passes (now + t) n w" using diverges_later [OF _ assms] by (auto simp: diverges_def)
  with wait_loop_returns [of "now + t" n "ob\<lparr>ob_sock := w\<rparr>" mc] None now show ?thesis
    by (simp add: wait_event_def)
qed (auto simp: wait_event_def)

text \<open>The readings of a loop that waits at most \<open>t\<close>: as long as time is left, they are before the bound.\<close>

lemma time_left_passes:
  assumes "Instant_now w = (now, w')" "passes (start + t + 1) n w" "time_left s start now \<noteq> None" "s \<le> t"
  shows "w_clk_pos w < n \<and> n - w_clk_pos w' < n - w_clk_pos w"
proof -
  have "now < start + t + 1" using assms(3,4) by (auto simp: time_left_def split: if_splits)
  then have "w_clk_pos w < n"
    using assms(2) Instant_now_later [OF assms(1)] by (auto simp: passes_def intro: ccontr) (meson leI le_less_trans not_less)
  with Instant_now_later [OF assms(1)] show ?thesis by auto
qed

lemma qs_insert_server_frame:
  "qs_timeout (qs_insert_server te addr q) = qs_timeout q"
  "later (ob_sock (qs_observer q)) (ob_sock (qs_observer (qs_insert_server te addr q)))"
  using insert_server_same(2)
  by (auto simp: qs_insert_server_def SystemTime_now_def Let_def split: option.split)

lemma fold_insert_server_frame:
  "qs_timeout (fold (qs_insert_server te) addrs q) = qs_timeout q \<and>
   later (ob_sock (qs_observer q)) (ob_sock (qs_observer (fold (qs_insert_server te) addrs q)))"
  by (induction addrs arbitrary: q) (auto simp: qs_insert_server_frame intro: later_trans qs_insert_server_frame(2))

lemma qs_handle_event_frame:
  assumes "qs_handle_event te cli ev q = Some q'"
  shows "qs_timeout q' \<in> {qs_timeout q, qc_server_timeout cli} \<and>
     later (ob_sock (qs_observer q)) (ob_sock (qs_observer q'))"
proof (cases ev)
  case (EvServerList l)
  with assms show ?thesis
    using fold_insert_server_frame [of te "ServerList_iter l" q]
      fold_insert_server_frame [of te "ServerList_iter l" "q\<lparr>qs_timeout_master := False, qs_timeout := qc_server_timeout cli\<rparr>"]
    by (auto simp: qs_handle_event_def Let_def)
qed (use assms in \<open>auto simp: qs_handle_event_def set_server_result_ok_def set_server_players_def set_server_result_def
      SystemTime_now_def settle_custom_def Let_def split: option.splits if_splits\<close>)

lemma query_loop_returns:
  assumes "diverges (ob_sock (qs_observer q))" "passes (start + t + 1) n (ob_sock (qs_observer q))"
    and "qs_timeout q \<le> t" "qc_server_timeout cli \<le> t"
  shows "\<exists>p. query_loop te cli start remaining q = Some p"
  using assms(1-3)
proof (induction "n - w_clk_pos (ob_sock (qs_observer q))" arbitrary: q remaining rule: less_induct)
  case less
  show ?case
  proof (cases "remaining = None \<or> (qs_custom q \<and> qs_servers_custom q = {})")
    case True
    then show ?thesis by (subst query_loop.simps) auto
  next
    case False
    then obtain d where d: "remaining = Some d" by auto
    obtain r ob where wait: "wait_event (te_memchr te) (Some d) (qs_observer q) = Some (r, ob)"
      using wait_event_total [OF less.prems(1)] by blast
    let ?q = "q\<lparr>qs_observer := ob\<rparr>"
    consider (stop) "(\<exists>e. r = Inl e) \<or> r = Inr EvTimeout"
      | (panic) ev where "r = Inr ev" "ev \<noteq> EvTimeout" "qs_handle_event te cli ev ?q = None"
      | (event) ev q' where "r = Inr ev" "ev \<noteq> EvTimeout" "qs_handle_event te cli ev ?q = Some q'"
      by (metis option.exhaust sum.exhaust)
    then show ?thesis
    proof cases
      case stop
      with False d wait show ?thesis by (subst query_loop.simps) auto
    next
      case panic
      with False d wait show ?thesis by (subst query_loop.simps) simp
    next
      case event
      obtain now w where t: "Instant_now (ob_sock (qs_observer q')) = (now, w)" by (metis surj_pair)
      let ?q' = "q'\<lparr>qs_observer := (qs_observer q')\<lparr>ob_sock := w\<rparr>\<rparr>"
      note f = qs_handle_event_frame [OF event(3)]
      have l: "later (ob_sock (qs_observer q)) (ob_sock (qs_observer q'))"
        using wait_later [OF wait] f by (auto intro: later_trans)
      then have lw: "later (ob_sock (qs_observer q)) w" using Instant_now_later [OF t] later_trans by blast
      have run: "query_loop te cli start remaining q =
          query_loop te cli start (time_left (qs_timeout q') start now) ?q'"
        using False d wait event t by (subst query_loop.simps) auto
      have le: "qs_timeout q' \<le> t" using f less.prems(3) assms(4) by auto
      show ?thesis
      proof (cases "time_left (qs_timeout q') start now")
        case None
        then show ?thesis unfolding run by (subst query_loop.simps) simp
      next
        case (Some d')
        have "passes (start + t + 1) n (ob_sock (qs_observer q'))" using less.prems(2) passes_later [OF l] by simp
        from time_left_passes [OF t this _ le] Some l
        have "n - w_clk_pos w < n - w_clk_pos (ob_sock (qs_observer q))" by (auto simp: later_def)
        with less.hyps [of ?q'] le less.prems diverges_later [OF lw] passes_later [OF lw] show ?thesis
          unfolding run by simp
      qed
    qed
  qed
qed

lemma list_loop_returns:
  assumes "diverges (ob_sock ob)" "passes (start + qc_master_timeout cli + 1) n (ob_sock ob)"
  shows "\<exists>p. list_loop te cli start remaining servers ob = Some p"
  using assms
proof (induction "n - w_clk_pos (ob_sock ob)" arbitrary: ob remaining servers rule: less_induct)
  case less
  show ?case
  proof (cases remaining)
    case None
    then show ?thesis by (subst list_loop.simps) simp
  next
    case (Some d)
    obtain r ob' where wait: "wait_event (te_memchr te) (Some d) ob = Some (r, ob')"
      using wait_event_total [OF less.prems(1)] by blast
    consider (stop) "(\<exists>e. r = Inl e) \<or> r = Inr EvTimeout" | (event) ev where "r = Inr ev" "ev \<noteq> EvTimeout"
      by (cases r) auto
    then show ?thesis
    proof cases
      case stop
      with Some wait show ?thesis by (subst list_loop.simps) auto
    next
      case event
      obtain now w where t: "Instant_now (ob_sock ob') = (now, w)" by (metis surj_pair)
      note l = wait_later [OF wait]
      have lw: "later (ob_sock ob) w" using l Instant_now_later [OF t] later_trans by blast
      let ?servers = "case ev of EvServerList l \<Rightarrow> servers \<union> set (ServerList_iter l) | _ \<Rightarrow> servers"
      have run: "list_loop te cli start remaining servers ob =
          list_loop te cli start (time_left (qc_master_timeout cli) start now) ?servers (ob'\<lparr>ob_sock := w\<rparr>)"
        using Some wait event t by (subst list_loop.simps) simp
      show ?thesis
      proof (cases "time_left (qc_master_timeout cli) start now")
        case None
        then show ?thesis unfolding run by (subst list_loop.simps) simp
      next
        case left: (Some d')
        have "passes (start + qc_master_timeout cli + 1) n (ob_sock ob')" using less.prems(2) passes_later [OF l] by simp
        from time_left_passes [OF t this _ order_refl] left l
        have "n - w_clk_pos w < n - w_clk_pos (ob_sock ob)" by (auto simp: later_def)
        with less.hyps [of "ob'\<lparr>ob_sock := w\<rparr>"] less.prems diverges_later [OF lw] passes_later [OF lw] show ?thesis
          unfolding run by simp
      qed
    qed
  qed
qed

lemma query_run_returns:
  assumes "diverges (ob_sock (qs_observer q))"
  shows "\<exists>p. query_run te cli q = Some p"
proof -
  obtain start w where t: "Instant_now (ob_sock (qs_observer q)) = (start, w)" by (metis surj_pair)
  let ?q = "q\<lparr>qs_observer := (qs_observer q)\<lparr>ob_sock := w\<rparr>\<rparr>" and ?t = "qs_timeout q + qc_server_timeout cli"
  have "diverges w" using Instant_now_later [OF t] diverges_later [OF _ assms] by blast
  moreover then obtain n where "passes (start + ?t + 1) n w" by (auto simp: diverges_def)
  ultimately obtain p where "query_loop te cli start (Some (qs_timeout q)) ?q = Some p"
    using query_loop_returns [of ?q start ?t n cli te "Some (qs_timeout q)"] by auto
  then show ?thesis by (simp add: query_run_def t)
qed

lemma same_clock_diverges: "w_clk w' = w_clk w \<Longrightarrow> diverges w \<Longrightarrow> diverges w'"
  by (simp add: diverges_def passes_def)

lemma run_list_returns:
  assumes "diverges w"
  shows "\<exists>p. run_list te cli w = Some p"
proof (cases "create_observer_with_masters te cli w")
  case (Inr ob)
  obtain start w' where t: "Instant_now (ob_sock ob) = (start, w')" by (metis surj_pair)
  have "diverges (ob_sock ob)"
    using create_observer_with_masters_fields [OF Inr] assms same_clock_diverges by blast
  then have "diverges w'" using Instant_now_later [OF t] diverges_later by blast
  moreover then obtain n where "passes (start + qc_master_timeout cli + 1) n w'" by (auto simp: diverges_def)
  ultimately obtain p where "list_loop te cli start (Some (qc_master_timeout cli)) {} (ob\<lparr>ob_sock := w'\<rparr>) = Some p"
    using list_loop_returns [of "ob\<lparr>ob_sock := w'\<rparr>" start cli n te] by auto
  then show ?thesis by (simp add: run_list_def Inr t)
qed (simp add: run_list_def)

lemma execute_returns:
  assumes "diverges w" "qc_args cli = [] \<or> hd (qc_args cli) \<noteq> str ''monitor''"
  shows "\<exists>p. execute te cli w = Some p"
proof -
  have all: "\<exists>p. run_all_servers te cli w = Some p"
  proof (cases "create_observer_with_masters te cli w")
    case (Inr ob)
    have "diverges (ob_sock (qs_observer (QueryServersInfo_new cli ob False)))"
      using create_observer_with_masters_fields [OF Inr] assms(1)
      by (auto simp: QueryServersInfo_new_def intro: same_clock_diverges)
    then show ?thesis using query_run_returns by (simp add: run_all_servers_def Inr)
  qed (simp add: run_all_servers_def)
  have custom: "\<exists>p. run_custom_servers te cli addrs w = Some p" for addrs
  proof (cases "create_observer te cli w")
    case (Inr ob)
    let ?q = "QueryServersInfo_new cli ob True"
    have "diverges (ob_sock (qs_observer ?q))"
      using create_observer_fields [OF Inr] assms(1)
      by (auto simp: QueryServersInfo_new_def intro: same_clock_diverges)
    moreover have "later (ob_sock (qs_observer ?q)) (ob_sock (qs_observer (fold (insert_custom_server te) addrs ?q)))"
      using insert_custom_servers_step by (simp add: qs_step_def)
    ultimately show ?thesis
      using query_run_returns diverges_later by (simp add: run_custom_servers_def Inr)
  qed (simp add: run_custom_servers_def)
  have args: "\<exists>p. with_addresses args (\<lambda>addrs. run_custom_servers te cli addrs w) = Some p" for args
    using custom by (simp add: with_addresses_def split: proc.split)
  show ?thesis
    using assms(2) all args run_list_returns [OF assms(1)]
    by (auto simp: execute_def Let_def split: list.split)
qed

section \<open>The report\<close>

lemma query_report_addresses:
  assumes "qs_ok q"
  shows "sorted (map sr_address (query_report q))" "distinct (map sr_address (query_report q))"
    "set (map sr_address (query_report q)) = qs_addrs q"
proof -
  have m: "map sr_address (map snd (qs_servers q)) = map fst (qs_servers q)"
    using assms by (auto simp: qs_ok_def)
  show "sorted (map sr_address (query_report q))" by (simp add: query_report_def)
  have "mset (map sr_address (query_report q)) = mset (map sr_address (map snd (qs_servers q)))"
    by (simp add: query_report_def multiset.map_comp)
  with m have e: "mset (map sr_address (query_report q)) = mset (map fst (qs_servers q))" by (simp only:)
  from mset_eq_imp_distinct_iff [OF e] assms show "distinct (map sr_address (query_report q))"
    by (simp add: qs_ok_def)
  show "set (map sr_address (query_report q)) = qs_addrs q"
    using mset_eq_setD [OF e] by simp
qed

lemma query_report_result:
  assumes "qs_ok q" "r \<in> set (query_report q)"
  shows "map_of (qs_servers q) (sr_address r) = Some r"
  using assms by (auto simp: query_report_def qs_ok_def intro!: map_of_is_SomeI)

end
