(* ===== verification/Query_Text.thy ===== *)
theory Query_Text
  imports Query_Tool Observer_Facts
begin

text \<open>
  Lemmas about the texts of the query tool: what \<^verbatim>\<open>from_utf8_lossy\<close> gives, the split of a list of players, and
  the filter made of the options as the master server reads it.
\<close>

section \<open>Lossy text\<close>

lemma utf8_tail_UChar:
  "utf8_tail n s = UChar k \<longleftrightarrow> k = n + 2 \<and> n \<le> length s \<and> (\<forall>b \<in> set (take n s). is_cont b)"
proof (cases "position (\<lambda>b. \<not> is_cont b) (take n s)")
  case None
  then have "\<forall>b \<in> set (take n s). is_cont b" by simp
  with None show ?thesis by (simp add: utf8_tail_def del: position_None_iff) auto
next
  case (Some i)
  from position_SomeD [OF Some] have i: "i < length (take n s)" "\<not> is_cont (take n s ! i)" by blast+
  from nth_mem [OF i(1)] i(2) have "\<exists>b \<in> set (take n s). \<not> is_cont b" by blast
  with Some show ?thesis by (auto simp: utf8_tail_def simp del: position_None_iff)
qed

lemma utf8_first_take:
  assumes "utf8_first s = UChar n"
  shows "utf8_first (take n s @ t) = UChar n"
proof -
  obtain b s' where s: "s = b # s'" using assms by (cases s) (auto simp: utf8_first_def)
  show ?thesis
  proof (cases s')
    case Nil
    with assms s show ?thesis by (auto simp: utf8_first_def split: if_splits)
  next
    case (Cons c s'')
    then show ?thesis
      using assms s by (auto simp: utf8_first_def utf8_tail_UChar numeral_2_eq_2 split: if_splits)
  qed
qed

lemma is_utf8_Nil [simp]: "is_utf8 []"
  by (simp add: is_utf8_ascii)

lemma from_utf8_at_shift: "is_ok (from_utf8_at i s) = is_ok (from_utf8_at j s)"
proof (induction "length s" arbitrary: i j s rule: less_induct)
  case less
  show ?case
  proof (cases "s = []")
    case True
    then show ?thesis by (simp add: from_utf8_at.simps)
  next
    case False
    show ?thesis
    proof (cases "utf8_first s")
      case (UChar n)
      then have "length (drop n s) < length s" using utf8_first_pos [OF UChar] False by simp
      from less [OF this] UChar show ?thesis by (subst (1 2) from_utf8_at.simps) simp
    next
      case (UErr l)
      with False show ?thesis by (subst (1 2) from_utf8_at.simps) simp
    qed
  qed
qed

lemma is_utf8_iff: "is_utf8 s = is_ok (from_utf8_at 0 s)"
  by (cases "from_utf8_at 0 s") (simp_all add: is_utf8_def from_utf8_def)

lemma is_utf8_char:
  assumes "utf8_first s = UChar n"
  shows "is_utf8 s = is_utf8 (drop n s)"
proof -
  have "s \<noteq> []" using assms by (auto simp: utf8_first_def)
  with assms have "is_utf8 s = is_ok (from_utf8_at n (drop n s))"
    by (simp add: is_utf8_iff from_utf8_at.simps [of 0 s])
  then show ?thesis by (simp add: is_utf8_iff from_utf8_at_shift [of n _ 0])
qed

lemma is_utf8_take_append:
  assumes "utf8_first s = UChar n" "is_utf8 t"
  shows "is_utf8 (take n s @ t)"
  using is_utf8_char [OF utf8_first_take [OF assms(1)]] assms(2) utf8_first_le [OF assms(1)] by simp

lemma is_utf8_replacement: "is_utf8 t \<Longrightarrow> is_utf8 (REPLACEMENT @ t)"
proof -
  assume t: "is_utf8 t"
  have "utf8_first REPLACEMENT = UChar 3"
    by (simp add: utf8_first_def REPLACEMENT_def utf8_second_ok_def utf8_tail_def is_cont_def)
  from is_utf8_take_append [OF this t] show ?thesis by (simp add: REPLACEMENT_def)
qed

lemma is_utf8_lossy: "is_utf8 (utf8_lossy s)"
proof (induction s rule: utf8_lossy.induct)
  case (1 s)
  show ?case
  proof (cases "s = []")
    case True
    then show ?thesis by (simp add: utf8_lossy.simps)
  next
    case False
    show ?thesis
    proof (cases "utf8_first s")
      case (UChar n)
      then show ?thesis
        using 1(1) [OF False UChar] False by (simp add: utf8_lossy.simps [of s] is_utf8_take_append)
    next
      case (UErr l)
      then show ?thesis
        using 1(2) [OF False UErr] False is_utf8_replacement [of "[]"]
        by (cases l) (simp_all add: utf8_lossy.simps [of s] is_utf8_replacement)
    qed
  qed
qed

lemma utf8_lossy_valid: "is_utf8 s \<Longrightarrow> utf8_lossy s = s"
proof (induction s rule: utf8_lossy.induct)
  case (1 s)
  show ?case
  proof (cases "s = []")
    case True
    then show ?thesis by (simp add: utf8_lossy.simps)
  next
    case False
    then obtain n where n: "utf8_first s = UChar n"
      using 1(3) by (cases "utf8_first s") (auto simp: is_utf8_iff from_utf8_at.simps [of 0 s])
    from 1(1) [OF False n] 1(3) is_utf8_char [OF n] have "utf8_lossy (drop n s) = drop n s" by simp
    with n False show ?thesis by (simp add: utf8_lossy.simps [of s])
  qed
qed

section \<open>Players and bots\<close>

text \<open>The players that could be read.\<close>

definition readable :: "(unit + player_info) list \<Rightarrow> player_info list" where
  "readable is = concat (map (\<lambda>i. case i of Inr p \<Rightarrow> [p] | Inl _ \<Rightarrow> []) is)"

lemma players_split_eq:
  "players_split is bots players =
     \<lparr>qps_bots = bots + word_of_nat (length (filter PlayerInfo_is_bot (readable is))),
      qps_players = players @ map PlayerInfo_from (filter (\<lambda>i. \<not> PlayerInfo_is_bot i) (readable is))\<rparr>"
  by (induction "is" bots players rule: players_split.induct) (simp_all add: readable_def)

lemma length_readable: "length (readable is) \<le> length is"
  by (induction "is") (auto simp: readable_def split: sum.split)

lemma length_ServerPlayers_iter: "length (ServerPlayers_iter mc r) = ServerPlayers_len r"
  by (simp add: ServerPlayers_iter_def GetPlayersResponse_players_def ServerPlayers_len_def
      GetPlayersResponse_players_count_def length_players_from)

section \<open>The filter as the master reads it\<close>

definition QueryFilter_entries :: "query_filter \<Rightarrow> (bytes \<times> bytes) list" where
  "QueryFilter_entries f =
     opt_kv ''clver'' Version_display (qf_clver f) @ opt_kv ''buildnum'' (\<lambda>n. show_dec (unat n)) (qf_buildnum f) @
     opt_kv ''protocol'' (\<lambda>n. show_dec (unat n)) (qf_protocol f) @ opt_kv ''gamedir'' id (qf_gamedir f) @
     opt_kv ''map'' id (qf_map f)"

lemma write_entry_kv: "write_entry key display v = kv_wire (opt_kv key display v)"
  by (cases v) (simp_all add: write_entry_def filter_key_def opt_kv_def kv_wire_simps)

lemma QueryFilter_display_kvs: "QueryFilter_display f = kv_wire (QueryFilter_entries f)"
  by (simp add: QueryFilter_display_def QueryFilter_entries_def write_entry_kv kv_wire_append)

text \<open>What the filter and a key mean to the master.\<close>

definition query_filter_meant :: "query_filter \<Rightarrow> u32 \<Rightarrow> filter_q" where
  "query_filter_meant f key =
     Filter_default\<lparr>f_clver := qf_clver f, f_client_buildnum := qf_buildnum f, f_protocol := qf_protocol f,
       f_gamedir := qf_gamedir f, f_map := qf_map f, f_key := Some key\<rparr>"

lemma query_filter_fold:
  "fold_entries Filter_step (QueryFilter_entries f @ [(str ''key'', show_hex (unat key))]) Filter_default =
     Inr (query_filter_meant f key)"
  by (cases "qf_clver f"; cases "qf_buildnum f"; cases "qf_protocol f"; cases "qf_gamedir f"; cases "qf_map f")
     (simp_all add: QueryFilter_entries_def opt_kv_def Filter_step_number Filter_step_string query_filter_meant_def
        Filter_default_def)

lemma query_filter_clean:
  assumes "pred_option map_clean (qf_gamedir f)" "pred_option map_clean (qf_map f)"
  shows "kvs_map_clean (QueryFilter_entries f @ [(str ''key'', show_hex (unat key))])"
  using assms
  by (simp add: QueryFilter_entries_def)
     (auto simp: kvs_map_clean_def opt_kv_def str_safe info_clean_map_clean split: option.splits)

lemma query_filter_decode:
  assumes "memchr_ok mc" "pred_option map_clean (qf_gamedir f)" "pred_option map_clean (qf_map f)"
  shows "QueryServers_decode mc (Filter_from_slice mc) (query_packet (QueryFilter_display f) key) =
     Inr \<lparr>qs_region = RestOfTheWorld, qs_last = FIRST_ADDRESS, qs_filter = query_filter_meant f key\<rparr>"
proof -
  let ?kvs = "QueryFilter_entries f @ [(str ''key'', show_hex (unat key))]"
  note clean = kvs_map_cleanD [OF query_filter_clean [OF assms(2,3)], of key]
  have d: "FilterKey_display (QueryFilter_display f, key) = kv_wire ?kvs"
    by (simp add: FilterKey_display_def QueryFilter_display_kvs kv_wire_append kv_wire_simps str_backslash)
  have first: "0 \<notin> set FIRST_ADDRESS" by (simp add: FIRST_ADDRESS_def str_def)
  show ?thesis
    using first clean Cursor_get_cstr_ffi_hit [OF assms(1), where t = "[]"]
      Filter_from_slice_kvs [OF assms(1) clean] query_filter_fold [of f key]
    by (simp add: query_packet_eq d QueryServers_decode_def wire_simps assms(1) CStr_to_bytes_def)
qed

text \<open>The filter the options give, without \<^verbatim>\<open>--filter\<close>.\<close>

definition options_filter :: "opt_matches \<Rightarrow> query_filter" where
  "options_filter m =
     (let given = (\<lambda>name. opt_str m (str name)) in
      \<lparr>qf_clver = (case given ''filter-clver'' of
          None \<Rightarrow> Some CLIENT_VERSION
        | Some s \<Rightarrow> if s = str ''none'' then None
                    else (case Version_from_str s of Inr v \<Rightarrow> Some v | Inl _ \<Rightarrow> None)),
       qf_buildnum = (case given ''filter-buildnum'' of
          None \<Rightarrow> Some 4000 | Some s \<Rightarrow> if s = str ''none'' then None else parse_word 10 s),
       qf_protocol = None,
       qf_gamedir = (case given ''filter-gamedir'' of
          None \<Rightarrow> None | Some s \<Rightarrow> if s = str ''none'' \<or> s = str ''all'' then None else Some s),
       qf_map = (case given ''filter-map'' of
          None \<Rightarrow> None | Some s \<Rightarrow> if s = str ''none'' \<or> s = str ''map'' then None else Some s)\<rparr>)"

lemma filter_opt_Inr:
  "filter_opt m name from_str f dst = Inr v \<longleftrightarrow>
     (case opt_str m (str name) of None \<Rightarrow> v = dst
      | Some s \<Rightarrow> if s = str ''none'' then v = None
                  else (\<exists>x. from_str s = Some x \<and> v = (if f x then Some x else dst)))"
  by (auto simp: filter_opt_def split: option.splits)

lemma QueryFilter_opt_get_options:
  assumes "QueryFilter_opt_get QueryFilter_default m = Inr flt" "opt_str m (str ''filter'') = None"
  shows "flt = QueryFilter_display (options_filter m)"
proof -
  obtain v b g p where
    v: "filter_opt m ''filter-clver'' (\<lambda>s. case Version_from_str s of Inr v \<Rightarrow> Some v | Inl _ \<Rightarrow> None) (\<lambda>_. True)
          (Some CLIENT_VERSION) = Inr v"
    and b: "filter_opt m ''filter-buildnum'' (parse_word 10) (\<lambda>_. True) (Some 4000) = Inr b"
    and g: "filter_opt m ''filter-gamedir'' Some (\<lambda>s. s \<noteq> str ''all'') None = Inr g"
    and p: "filter_opt m ''filter-map'' Some (\<lambda>s. s \<noteq> str ''map'') None = Inr p"
    and flt: "flt = QueryFilter_display \<lparr>qf_clver = v, qf_buildnum = b, qf_protocol = None, qf_gamedir = g, qf_map = p\<rparr>"
    using assms by (auto simp: QueryFilter_opt_get_def QueryFilter_default_def DEFAULT_CLIENT_BUILDNUM_def rbind_eq_Inr_iff Let_def)
  have "v = qf_clver (options_filter m)" "b = qf_buildnum (options_filter m)"
    using v b by (auto simp: filter_opt_Inr options_filter_def split: option.splits if_splits)
  moreover have "g = qf_gamedir (options_filter m)" "p = qf_map (options_filter m)"
    using g p by (auto simp: filter_opt_Inr options_filter_def split: option.splits if_splits)
  moreover have "qf_protocol (options_filter m) = None" by (simp add: options_filter_def)
  ultimately have "\<lparr>qf_clver = v, qf_buildnum = b, qf_protocol = None, qf_gamedir = g, qf_map = p\<rparr> = options_filter m"
    by (intro query_filter.equality) simp_all
  with flt show ?thesis by simp
qed

text \<open>\<^verbatim>\<open>--filter-map all\<close> asks for the map of that name, although the help calls \<^verbatim>\<open>all\<close> the default.\<close>

lemma filter_map_all:
  "opt_str m (str ''filter-map'') = Some (str ''all'') \<Longrightarrow> qf_map (options_filter m) = Some (str ''all'')"
  by (simp add: options_filter_def str_def)

section \<open>Late lists and second lists of players\<close>

text \<open>
  The timeout for servers starts to count when the program does: a list that comes later than this timeout
  ends the query at once, before any server could answer.
\<close>

lemma late_list_ends_query:
  assumes "qs_timeout_master q" "qs_handle_event te cli (EvServerList l) q = Some q'"
    and "qc_server_timeout cli < now - start"
  shows "time_left (qs_timeout q') start now = None"
proof -
  have "qs_timeout (fold (qs_insert_server te) addrs r) = qs_timeout r" for addrs r
    by (induction addrs arbitrary: r) (simp_all add: qs_insert_server_def SystemTime_now_def Let_def split: option.split)
  then show ?thesis using assms by (auto simp: qs_handle_event_def time_left_def Let_def)
qed

text \<open>A second list of players of a server is put aside and the report keeps the first.\<close>

lemma second_players_ignored:
  "sr_kind r = ROkWithPlayers info old \<Longrightarrow>
     sr_kind (ServerResult_set_players new r) = ROkWithPlayers info old \<and>
     sr_kind (ServerResult_set_ok ping info' (ServerResult_set_players new r)) = new_ok_with_players info' old"
  by (simp add: ServerResult_set_players_def ServerResult_set_ok_def)

end
