(* ===== verification/Monitor_Example.thy ===== *)
theory Monitor_Example
  imports Query_Tool Observer_Facts
begin

text \<open>
  The example of the observer library (\<^verbatim>\<open>examples/monitor.rs\<close>): it watches the servers of two masters and prints
  what changes. Printed text is part of its state, as for the monitor of the query tool.
\<close>

record my_server_info =
  my_gamedir :: bytes
  my_map :: bytes
  my_host :: bytes
  my_protocol :: u8
  my_numcl :: u8
  my_maxcl :: u8
  my_dm :: bool
  my_team :: bool
  my_coop :: bool
  my_password :: bool
  my_dedicated :: bool

definition MyServerInfo_display :: "my_server_info \<Rightarrow> bytes" where
  "MyServerInfo_display i =
     flag_char 100 (my_dm i) @ flag_char 116 (my_team i) @ flag_char 99 (my_coop i) @ flag_char 112 (my_password i) @
     flag_char 68 (my_dedicated i) @ [32] @ pad_left 2 (show_dec (unat (my_numcl i))) @ [47] @
     pad_right 2 (show_dec (unat (my_maxcl i))) @ [32] @ pad_right 8 (my_gamedir i) @ [32] @
     pad_right 18 (my_map i) @ [32, 34] @ my_host i @ [34]"

definition lossy_no_color :: "bytes \<Rightarrow> bytes" where
  "lossy_no_color s = trim (trim_color (utf8_lossy s))"

definition MyServerInfo_new :: "server_info_event \<Rightarrow> my_server_info" where
  "MyServerInfo_new e =
     (let r = sie_response e in
      \<lparr>my_gamedir = lossy_no_color (gsi_gamedir r), my_map = lossy_no_color (gsi_map r),
       my_host = lossy_no_color (gsi_host r), my_protocol = gsi_protocol r, my_numcl = gsi_numcl r,
       my_maxcl = gsi_maxcl r, my_dm = gsi_dm r, my_team = gsi_team r, my_coop = gsi_coop r,
       my_password = gsi_password r, my_dedicated = gsi_dedicated r\<rparr>)"

record example_state =
  ex_observer :: observer
  ex_servers :: "(socket_addr \<times> my_server_info) list"
  ex_out :: bytes

definition example_masters :: "bytes list" where
  "example_masters = [str ''mentality.rip:27010'', str ''mentality.rip:27011'']"

text \<open>A name without an address is the panic of \<^verbatim>\<open>unwrap\<close>.\<close>

fun example_insert_masters ::
  "(bytes \<Rightarrow> socket_addr list option) \<Rightarrow> bytes list \<Rightarrow> observer \<Rightarrow> (query_error + observer) proc" where
  "example_insert_masters resolve [] ob = Proc_ok (Inr ob)"
| "example_insert_masters resolve (host # hosts) ob =
     (case resolve host of
        None \<Rightarrow> Proc_ok (Inl QIo)
      | Some [] \<Rightarrow> Proc_panic
      | Some (addr # _) \<Rightarrow> example_insert_masters resolve hosts (insert_master (Master_new addr) ob))"

text \<open>\<open>gamedir\<close> is the first argument.\<close>

definition example_filter :: "bytes option \<Rightarrow> observer_filter" where
  "example_filter gamedir =
     (let f = Filter_set_nat False Filter_with_default_client_version
      in case gamedir of None \<Rightarrow> f | Some s \<Rightarrow> Filter_set_gamedir s f)"

definition example_start :: "tool_env \<Rightarrow> bytes option \<Rightarrow> world \<Rightarrow> (query_error + example_state) proc" where
  "example_start te gamedir w =
     (if \<not> te_binds te then Proc_ok (Inl QIo)
      else proc_then
        (\<lambda>ob. \<lparr>ex_observer = set_filter (example_filter gamedir) ob, ex_servers = [], ex_out = []\<rparr>)
        (example_insert_masters (te_resolve te) example_masters (Observer_bind w)))"

definition example_line :: "string \<Rightarrow> socket_addr \<Rightarrow> bytes \<Rightarrow> bytes" where
  "example_line what addr rest = pad_right 8 (str what) @ [32] @ pad_right 24 (socket_addr_display addr) @ rest @ [10]"

text \<open>\<open>None\<close> is the panic of \<^verbatim>\<open>todo!()\<close>.\<close>

definition example_event :: "tool_env \<Rightarrow> event \<Rightarrow> example_state \<Rightarrow> example_state option" where
  "example_event te ev s =
     (case ev of
        EvServerList l \<Rightarrow>
          Some (s\<lparr>ex_observer := fold (\<lambda>a. insert_server (Server_new a)) (ServerList_iter l) (ex_observer s)\<rparr>)
      | EvServerInfo i \<Rightarrow>
          (let addr = sie_server i; info = MyServerInfo_new i;
               line = (\<lambda>what. example_line what addr
                         ([32] @ te_duration te (sie_ping i) @ [32] @ MyServerInfo_display info))
           in case map_of (ex_servers s) addr of
                Some _ \<Rightarrow>
                  if sie_changed i then
                    Some (s\<lparr>ex_out := ex_out s @ line ''update'', ex_servers := AList.update addr info (ex_servers s)\<rparr>)
                  else Some (s\<lparr>ex_out := ex_out s @ line ''same''\<rparr>)
              | None \<Rightarrow>
                  Some (s\<lparr>ex_out := ex_out s @ line ''new'', ex_servers := AList.update addr info (ex_servers s)\<rparr>))
      | EvServerInfoTimeout addr \<Rightarrow> Some (s\<lparr>ex_out := ex_out s @ example_line ''timeout'' addr []\<rparr>)
      | EvServerRemove addr \<Rightarrow>
          Some (s\<lparr>ex_out := ex_out s @ example_line ''remove'' addr [],
                  ex_servers := AList.delete addr (ex_servers s)\<rparr>)
      | _ \<Rightarrow> None)"

partial_function (option) example_loop :: "tool_env \<Rightarrow> example_state \<Rightarrow> (query_error + unit) proc option" where
  "example_loop te s =
     Option.bind (wait_event (te_memchr te) None (ex_observer s)) (\<lambda>waited.
       (case fst waited of
          Inl e \<Rightarrow> Some (observer_failed e)
        | Inr ev \<Rightarrow>
            (case example_event te ev (s\<lparr>ex_observer := snd waited\<rparr>) of
               None \<Rightarrow> Some Proc_panic
             | Some s' \<Rightarrow> example_loop te s')))"

definition example_main :: "tool_env \<Rightarrow> bytes option \<Rightarrow> world \<Rightarrow> (query_error + unit) proc option" where
  "example_main te gamedir w =
     (case example_start te gamedir w of
        Proc_ok (Inr s) \<Rightarrow> example_loop te s
      | Proc_ok (Inl e) \<Rightarrow> Some (Proc_ok (Inl e))
      | Proc_exit n \<Rightarrow> Some (Proc_exit n)
      | Proc_panic \<Rightarrow> Some Proc_panic)"

text \<open>
  Which events end the example with a panic: a datagram of a master or server that cannot be read is enough.
\<close>

lemma example_event_panics:
  "example_event te ev s = None \<longleftrightarrow>
     (case ev of EvTimeout \<Rightarrow> True | EvServerPlayers _ _ \<Rightarrow> True | EvMasterInvalidPacket _ _ \<Rightarrow> True
      | EvServerInvalidProtocol _ \<Rightarrow> True | EvServerInvalidPacket _ _ \<Rightarrow> True | _ \<Rightarrow> False)"
  by (simp add: example_event_def Let_def split: event.split option.split)

lemma unreadable_datagram_panics:
  assumes "wait_event (te_memchr te) None (ex_observer s) = Some (Inr (EvMasterInvalidPacket addr data), ob)"
  shows "example_loop te s = Some Proc_panic"
  using assms by (subst example_loop.simps) (simp add: example_event_def)

end
