(* ===== verification/System_Spec.thy ===== *)
theory System_Spec
  imports Master_Spec Observer_Spec
begin

text \<open>
  The master server and the observer put together: the query an observer makes travels to a master server,
  the datagrams of the answer travel back, and the servers the observer reports are those the master lists
  and the filter selects. The lemmas of the two sides are joined at the wire form.
\<close>

section \<open>The query at the master server\<close>




section \<open>The answer at the observer\<close>




section \<open>The whole exchange\<close>


section \<open>The observer sees the master's list\<close>












end
