(* ===== verification/Master_Signals.thy ===== *)
theory Master_Signals
  imports Master_Config
begin

text \<open>
  The registration of the signal handlers (\<^verbatim>\<open>signal_flags.rs\<close>) and what a signal does from then on. The two
  statics of the file and the handlers the process has are one state. \<^verbatim>\<open>signal_hook::low_level::register\<close>
  is the parameter \<open>hook\<close>: the error of a signal, if any.
\<close>

section \<open>Registration\<close>

datatype os_signal = SIGINT | SIGTERM | SIGUSR1 | SIGBREAK

record signals =
  sg_flags :: u32
  sg_init :: bool
  sg_handlers :: "(os_signal \<times> u32) list"

definition signals_initial :: signals where
  "signals_initial = \<lparr>sg_flags = 0, sg_init = False, sg_handlers = []\<rparr>"

definition SignalFlags_register_flag ::
  "(os_signal \<Rightarrow> 'e option) \<Rightarrow> os_signal \<Rightarrow> u32 \<Rightarrow> signals \<Rightarrow> ('e + unit) \<times> signals" where
  "SignalFlags_register_flag hook signal flags s =
     (case hook signal of
        Some e \<Rightarrow> (Inl e, s)
      | None \<Rightarrow> (Inr (), s\<lparr>sg_handlers := sg_handlers s @ [(signal, flags)]\<rparr>))"

text \<open>The target decides which of the two blocks of \<^verbatim>\<open>register\<close> is compiled.\<close>

definition reload_signal :: "bool \<Rightarrow> os_signal" where
  "reload_signal windows = (if windows then SIGBREAK else SIGUSR1)"

definition SignalFlags_register ::
  "bool \<Rightarrow> (os_signal \<Rightarrow> 'e option) \<Rightarrow> signals \<Rightarrow> ('e + unit) \<times> signals" where
  "SignalFlags_register windows hook s =
     (case SignalFlags_register_flag hook SIGINT SIG_EXIT s of
        (Inl e, s) \<Rightarrow> (Inl e, s)
      | (Inr _, s) \<Rightarrow>
     (case SignalFlags_register_flag hook SIGTERM SIG_EXIT s of
        (Inl e, s) \<Rightarrow> (Inl e, s)
      | (Inr _, s) \<Rightarrow>
     (case SignalFlags_register_flag hook (reload_signal windows) SIG_RELOAD_CONFIG s of
        (Inl e, s) \<Rightarrow> (Inl e, s)
      | (Inr _, s) \<Rightarrow> (Inr (), s))))"

text \<open>\<^verbatim>\<open>get_or_init\<close> runs its closure at the first call only; a later \<^verbatim>\<open>init\<close> finds no result and succeeds.\<close>

definition SignalFlags_init ::
  "bool \<Rightarrow> (os_signal \<Rightarrow> 'e option) \<Rightarrow> signals \<Rightarrow> ('e + unit) \<times> signals" where
  "SignalFlags_init windows hook s =
     (let (result, s) =
        (if sg_init s then (None, s)
         else map_prod Some (\<lambda>s. s\<lparr>sg_init := True\<rparr>) (SignalFlags_register windows hook s))
      in (case result of None \<Rightarrow> Inr () | Some r \<Rightarrow> r, s))"

text \<open>A signal arrives: each handler registered for it ors its flags in.\<close>

definition deliver :: "os_signal \<Rightarrow> signals \<Rightarrow> signals" where
  "deliver signal s =
     s\<lparr>sg_flags := fold (SignalFlags_raise \<circ> snd) (filter (\<lambda>h. fst h = signal) (sg_handlers s)) (sg_flags s)\<rparr>"

section \<open>What initialisation establishes\<close>

definition all_handlers :: "bool \<Rightarrow> (os_signal \<times> u32) list" where
  "all_handlers windows =
     [(SIGINT, SIG_EXIT), (SIGTERM, SIG_EXIT), (reload_signal windows, SIG_RELOAD_CONFIG)]"

lemmas register_simps = SignalFlags_register_def SignalFlags_register_flag_def all_handlers_def

text \<open>Signals are registered in their order, up to the first that fails.\<close>

lemma register_cases:
  "SignalFlags_register windows hook s =
     (let ok = takeWhile (\<lambda>h. hook (fst h) = None) (all_handlers windows) in
      (case drop (length ok) (all_handlers windows) of [] \<Rightarrow> Inr () | h # _ \<Rightarrow> Inl (the (hook (fst h))),
       s\<lparr>sg_handlers := sg_handlers s @ ok\<rparr>))"
  by (simp add: register_simps Let_def split: option.split)

lemma init_ok:
  assumes "SignalFlags_init windows hook signals_initial = (Inr (), s)"
  shows "s = \<lparr>sg_flags = 0, sg_init = True, sg_handlers = all_handlers windows\<rparr>"
  using assms by (auto simp: SignalFlags_init_def register_simps signals_initial_def split: option.splits)

lemma init_total: "(\<And>signal. hook signal = None) \<Longrightarrow> fst (SignalFlags_init windows hook s) = Inr ()"
  by (auto simp: SignalFlags_init_def register_simps)

lemma init_again: "sg_init s \<Longrightarrow> SignalFlags_init windows hook s = (Inr (), s)"
  by (simp add: SignalFlags_init_def)

lemma sg_init_init: "sg_init (snd (SignalFlags_init windows hook s))"
  by (auto simp: SignalFlags_init_def split_beta map_prod_def)

text \<open>After a failure a second call succeeds, with the handlers that were missing still missing.\<close>

lemma init_hides_failure:
  assumes "SignalFlags_init windows hook s = (Inl e, s')"
  shows "SignalFlags_init windows hook' s' = (Inr (), s')"
  using sg_init_init [of windows hook s] by (simp add: assms init_again)

section \<open>The flags while the program runs\<close>

lemma flag_bits:
  "SIG_EXIT AND SIG_RELOAD_CONFIG = 0" "SIG_EXIT AND SIG_EXIT \<noteq> 0" "SIG_RELOAD_CONFIG AND SIG_RELOAD_CONFIG \<noteq> 0"
  by (simp_all add: SIG_EXIT_def SIG_RELOAD_CONFIG_def)

definition sig_reload :: "u32 \<Rightarrow> bool" where
  "sig_reload bits \<longleftrightarrow> flags_intersects bits SIG_RELOAD_CONFIG"

inductive signals_reachable :: "bool \<Rightarrow> signals \<Rightarrow> bool" for windows where
  init: "SignalFlags_init windows (hook :: os_signal \<Rightarrow> unit option) signals_initial = (Inr (), s) \<Longrightarrow> signals_reachable windows s"
| deliver: "signals_reachable windows s \<Longrightarrow> signals_reachable windows (deliver signal s)"
| take: "signals_reachable windows s \<Longrightarrow>
    signals_reachable windows (s\<lparr>sg_flags := snd (SignalFlags_remove_reload (sg_flags s))\<rparr>)"

lemma reachable_handlers: "signals_reachable windows s \<Longrightarrow> sg_handlers s = all_handlers windows"
  by (induction rule: signals_reachable.induct) (auto dest: init_ok simp: deliver_def)

text \<open>What a signal does to the two flags, for a program whose initialisation succeeded.\<close>

lemma deliver_flags:
  assumes "sg_handlers s = all_handlers windows"
  shows "sg_flags (deliver signal s) =
     (if signal = SIGINT \<or> signal = SIGTERM then SignalFlags_raise SIG_EXIT (sg_flags s)
      else if signal = reload_signal windows then SignalFlags_raise SIG_RELOAD_CONFIG (sg_flags s)
      else sg_flags s)"
  by (cases signal; cases windows) (simp_all add: deliver_def assms all_handlers_def reload_signal_def)

lemma raise_exit:
  "SignalFlags_is_exit (SignalFlags_raise SIG_EXIT bits)"
  "SignalFlags_is_exit (SignalFlags_raise SIG_RELOAD_CONFIG bits) \<longleftrightarrow> SignalFlags_is_exit bits"
  "sig_reload (SignalFlags_raise SIG_RELOAD_CONFIG bits)"
  "sig_reload (SignalFlags_raise SIG_EXIT bits) \<longleftrightarrow> sig_reload bits"
  by (simp_all add: SignalFlags_is_exit_def sig_reload_def SignalFlags_raise_def flags_intersects_def flags_insert_def
        SIG_EXIT_def SIG_RELOAD_CONFIG_def bit.conj_disj_distrib2)

lemma deliver_exit:
  assumes "signals_reachable windows s"
  shows "SignalFlags_is_exit (sg_flags (deliver signal s)) \<longleftrightarrow>
     SignalFlags_is_exit (sg_flags s) \<or> signal = SIGINT \<or> signal = SIGTERM"
    and "sig_reload (sg_flags (deliver signal s)) \<longleftrightarrow> sig_reload (sg_flags s) \<or> signal = reload_signal windows"
  using deliver_flags [OF reachable_handlers [OF assms], of signal]
  by (auto simp: raise_exit reload_signal_def)

text \<open>
  Only the two flags are ever set. So a word that makes the receive loop return carries one of them, and the
  main loop, which leaves on the first and takes the second out, never turns without either.
\<close>

lemma reachable_flags:
  assumes "signals_reachable windows s"
  shows "sg_flags s AND 3 = sg_flags s"
  using assms
proof (induction rule: signals_reachable.induct)
  case (deliver s signal)
  then show ?case
    by (simp add: deliver_flags [OF reachable_handlers] SignalFlags_raise_def flags_insert_def bit.conj_disj_distrib2
        SIG_EXIT_def SIG_RELOAD_CONFIG_def)
next
  case (take s)
  have "(sg_flags s AND NOT SIG_RELOAD_CONFIG) AND 3 = (sg_flags s AND 3) AND NOT SIG_RELOAD_CONFIG"
    by (simp only: ac_simps)
  with take show ?case
    by (simp add: SignalFlags_remove_reload_def SignalFlags_remove_def)
qed (auto dest: init_ok)

lemma reachable_not_empty:
  assumes "signals_reachable windows s"
  shows "SignalFlags_is_empty (sg_flags s) \<longleftrightarrow> \<not> SignalFlags_is_exit (sg_flags s) \<and> \<not> sig_reload (sg_flags s)"
proof -
  have "sg_flags s = (sg_flags s AND SIG_EXIT) OR (sg_flags s AND SIG_RELOAD_CONFIG)"
    using reachable_flags [OF assms] by (simp add: SIG_EXIT_def SIG_RELOAD_CONFIG_def flip: bit.conj_disj_distrib)
  then show ?thesis
    by (auto simp: SignalFlags_is_empty_def SignalFlags_is_exit_def sig_reload_def flags_intersects_def)
qed

lemma take_leaves_exit:
  assumes "signals_reachable windows s" "\<not> SignalFlags_is_exit (sg_flags s)"
  shows "SignalFlags_is_empty (snd (SignalFlags_remove_reload (sg_flags s)))"
proof -
  let ?s = "s\<lparr>sg_flags := snd (SignalFlags_remove_reload (sg_flags s))\<rparr>"
  have "signals_reachable windows ?s" using assms(1) by (rule signals_reachable.take)
  from reachable_not_empty [OF this] show ?thesis
    using assms(2) remove_reload_keeps_exit [of "sg_flags s"]
      remove_reload_once [OF prod.collapse [symmetric], of "sg_flags s"]
    by (simp add: sig_reload_def SignalFlags_remove_reload_def SignalFlags_remove_def)
qed

end
