(* ===== verification/Cursor_Numbers.thy ===== *)
theory Cursor_Numbers
  imports Cursor_Write
begin

text \<open>
  The number families of both cursors (\<^verbatim>\<open>impl_get!\<close> and \<^verbatim>\<open>impl_put!\<close>) at every width and byte order. A
  signed integer or a float is its bit pattern, so the rows of one byte order differ only in the width
  \<open>n\<close> in bytes. The byte order of the target, which the \<^verbatim>\<open>_ne\<close> rows use, is a parameter.
\<close>

datatype endian = LittleEndian | BigEndian

definition to_ne :: "endian \<Rightarrow> nat \<Rightarrow> 'a::len word \<Rightarrow> bytes" where
  "to_ne target n w = (case target of LittleEndian \<Rightarrow> to_le n w | BigEndian \<Rightarrow> to_be n w)"

definition from_ne :: "endian \<Rightarrow> bytes \<Rightarrow> 'a::len word" where
  "from_ne target s = (case target of LittleEndian \<Rightarrow> from_le s | BigEndian \<Rightarrow> from_be s)"

definition Cursor_get_ne :: "endian \<Rightarrow> nat \<Rightarrow> cursor \<Rightarrow> 'a::len word cres" where
  "Cursor_get_ne target n c = rbind (Cursor_get_array n c) (\<lambda>(s, c'). Inr (from_ne target s, c'))"

definition Cursor_get_i8 :: "cursor \<Rightarrow> u8 cres" where
  "Cursor_get_i8 c = rbind (Cursor_get_array 1 c) (\<lambda>(s, c'). Inr (s ! 0, c'))"

definition put_le :: "nat \<Rightarrow> 'a::len word \<Rightarrow> cursor_mut \<Rightarrow> wres" where
  "put_le n w c = put_array (to_le n w) c"

definition put_be :: "nat \<Rightarrow> 'a::len word \<Rightarrow> cursor_mut \<Rightarrow> wres" where
  "put_be n w c = put_array (to_be n w) c"

definition put_ne :: "endian \<Rightarrow> nat \<Rightarrow> 'a::len word \<Rightarrow> cursor_mut \<Rightarrow> wres" where
  "put_ne target n w c = put_array (to_ne target n w) c"

definition put_i8 :: "u8 \<Rightarrow> cursor_mut \<Rightarrow> wres" where
  "put_i8 n c = put_u8 n c"

section \<open>What a reader and a writer of one type promise each other\<close>

text \<open>
  The writer appends the bytes of the value; the reader takes as many bytes from a cursor that has them,
  and asks for the missing ones otherwise.
\<close>

locale number_io =
  fixes bytes_of :: "'a \<Rightarrow> bytes"
    and width :: nat
    and put :: "'a \<Rightarrow> cursor_mut \<Rightarrow> wres"
    and get :: "cursor \<Rightarrow> 'a cres"
  assumes length_bytes_of: "length (bytes_of x) = width"
    and put_writes: "writes (put x) (bytes_of x)"
    and get_bytes_of: "get (at pre (bytes_of x @ s)) = Inr (x, at (pre @ bytes_of x) s)"
    and get_short: "length s < width \<Longrightarrow> get (at pre s) = Inl (NeedMoreBytes (width - length s))"
begin

fun put_all :: "'a list \<Rightarrow> cursor_mut \<Rightarrow> wres" where
  "put_all [] c = Inr c"
| "put_all (x # xs) c = rbind (put x c) (put_all xs)"

fun get_all :: "nat \<Rightarrow> cursor \<Rightarrow> 'a list cres" where
  "get_all 0 c = Inr ([], c)"
| "get_all (Suc n) c = rbind (get c) (\<lambda>(x, c). rbind (get_all n c) (\<lambda>(xs, c). Inr (x # xs, c)))"

lemma writes_put_all: "writes (put_all xs) (concat (map bytes_of xs))"
proof (induction xs)
  case (Cons x xs)
  have "put_all (x # xs) = (\<lambda>c. rbind (put x c) (put_all xs))" by (rule ext) simp
  with writes_rbind [OF put_writes Cons] show ?case by simp
qed (simp add: writes_def)

lemma get_all_bytes: "get_all (length xs) (at pre (concat (map bytes_of xs) @ s)) =
    Inr (xs, at (pre @ concat (map bytes_of xs)) s)"
  by (induction xs arbitrary: pre) (simp_all add: get_bytes_of)

lemma length_bytes: "length (concat (map bytes_of xs)) = width * length xs"
  by (induction xs) (simp_all add: length_bytes_of)

text \<open>A buffer of numbers: written when they fit, read back to the last, and no further.\<close>

lemma put_get_all:
  assumes "encode_with (put_all xs) buf = Inr s"
  shows "get_all (length xs) (Cursor_new s) = Inr (xs, at s []) \<and>
    (0 < width \<longrightarrow> get (at s []) = Inl (NeedMoreBytes width))"
proof -
  have s: "s = concat (map bytes_of xs)"
    using assms by (simp add: encode_with_writes [OF writes_put_all] split: if_splits)
  have "Cursor_new s = at [] s" by (simp add: wire_simps)
  with get_all_bytes [of xs "[]" "[]"] get_short [of "[]" s] show ?thesis by (simp add: s)
qed

lemma put_all_fits:
  "is_ok (encode_with (put_all xs) buf) \<longleftrightarrow> width * length xs \<le> length buf"
  by (simp add: encode_with_writes [OF writes_put_all] length_bytes)

end

lemma number_io_get:
  assumes "\<And>c. get c = rbind (Cursor_get_array n c) (\<lambda>(s, c'). Inr (f s, c'))"
    and "\<And>x. length (g x) = n" "\<And>x. f (g x) = x" "\<And>x. put x = put_array (g x)"
  shows "number_io g n put get"
  by unfold_locales (simp_all add: assms Cursor_get_array_at writes_prims)

lemmas number_io_rows = Cursor_get_le_def Cursor_get_be_def Cursor_get_ne_def put_le_def put_be_def put_ne_def
  to_ne_def from_ne_def

lemma number_io_le:
  "LENGTH('a::len) \<le> 8 * n \<Longrightarrow> number_io (to_le n :: 'a word \<Rightarrow> bytes) n (put_le n) (Cursor_get_le n)"
  by (rule number_io_get [where f = from_le]) (simp_all add: number_io_rows fun_eq_iff)

lemma number_io_be:
  "LENGTH('a::len) \<le> 8 * n \<Longrightarrow> number_io (to_be n :: 'a word \<Rightarrow> bytes) n (put_be n) (Cursor_get_be n)"
  by (rule number_io_get [where f = from_be]) (simp_all add: number_io_rows fun_eq_iff)

lemma number_io_ne:
  "LENGTH('a::len) \<le> 8 * n \<Longrightarrow>
     number_io (to_ne target n :: 'a word \<Rightarrow> bytes) n (put_ne target n) (Cursor_get_ne target n)"
  by (rule number_io_get [where f = "from_ne target"])
     (simp_all add: number_io_rows fun_eq_iff split: endian.split)

interpretation le16: number_io "to_le 2 :: u16 \<Rightarrow> bytes" 2 "put_le 2" "Cursor_get_le 2"
  by (rule number_io_le) simp

interpretation le32: number_io "to_le 4 :: u32 \<Rightarrow> bytes" 4 "put_le 4" "Cursor_get_le 4"
  by (rule number_io_le) simp

interpretation le64: number_io "to_le 8 :: u64 \<Rightarrow> bytes" 8 "put_le 8" "Cursor_get_le 8"
  by (rule number_io_le) simp

interpretation be16: number_io "to_be 2 :: u16 \<Rightarrow> bytes" 2 "put_be 2" "Cursor_get_be 2"
  by (rule number_io_be) simp

interpretation be32: number_io "to_be 4 :: u32 \<Rightarrow> bytes" 4 "put_be 4" "Cursor_get_be 4"
  by (rule number_io_be) simp

interpretation be64: number_io "to_be 8 :: u64 \<Rightarrow> bytes" 8 "put_be 8" "Cursor_get_be 8"
  by (rule number_io_be) simp

interpretation ne16: number_io "to_ne target 2 :: u16 \<Rightarrow> bytes" 2 "put_ne target 2" "Cursor_get_ne target 2" for target
  by (rule number_io_ne) simp

interpretation ne32: number_io "to_ne target 4 :: u32 \<Rightarrow> bytes" 4 "put_ne target 4" "Cursor_get_ne target 4" for target
  by (rule number_io_ne) simp

interpretation ne64: number_io "to_ne target 8 :: u64 \<Rightarrow> bytes" 8 "put_ne target 8" "Cursor_get_ne target 8" for target
  by (rule number_io_ne) simp

interpretation io8: number_io "\<lambda>b :: u8. [b]" 1 put_i8 Cursor_get_i8
  by (rule number_io_get [where f = "\<lambda>s. s ! 0"]) (simp_all add: Cursor_get_i8_def put_i8_def put_u8_def fun_eq_iff)

text \<open>A value written for one byte order and read for the other comes back with its bytes reversed.\<close>

lemma swapped_order: "from_ne BigEndian (to_ne LittleEndian n w) = from_ne LittleEndian (to_ne BigEndian n w)"
  by (simp add: to_ne_def from_ne_def from_be_def to_be_def)

end
