(* ===== verification/Text_Eval.thy ===== *)
theory Text_Eval
  imports Cursor_Numbers Net_Addr
begin

text \<open>
  Code equations for evaluation: the printers and parsers of integers compute on binary integers where
  their definitions count in unary. Each is equal to the definition it evaluates.
\<close>

section \<open>Comparison with a literal\<close>

fun str_eq :: "bytes \<Rightarrow> string \<Rightarrow> bool" where
  "str_eq [] [] = True"
| "str_eq (b # s) (c # t) = (if b = of_char c then str_eq s t else False)"
| "str_eq _ _ = False"

lemma str_eq: "str_eq s t \<longleftrightarrow> s = str t"
  by (induction s t rule: str_eq.induct) (simp_all add: str_def)

lemma eq_str_code [code_unfold]: "s = str t \<longleftrightarrow> str_eq s t"
  by (simp add: str_eq)

section \<open>Printing\<close>

function digits_int :: "int \<Rightarrow> int \<Rightarrow> bytes" where
  "digits_int r n =
     (if r < 2 \<or> n < r then [digit_char (nat n)] else digits_int r (n div r) @ [digit_char (nat (n mod r))])"
  by pat_completeness auto
termination
  by (relation "measure (\<lambda>(r, n). nat n)") (auto simp: nat_less_iff int_div_less_self)

declare digits_int.simps [simp del]

lemma digits_int: "digits r n = digits_int (int r) (int n)"
proof (induction r n rule: digits.induct)
  case (1 r n)
  then show ?case
    by (simp add: digits.simps [of r n] digits_int.simps [of "int r" "int n"] nat_mod_distrib
        flip: of_nat_div of_nat_mod)
qed

lemma show_word_code [code_unfold]:
  "show_dec (Word.the_nat w) = digits_int 10 (uint w)"
  "show_hex (Word.the_nat w) = digits_int 16 (uint w)"
  by (simp_all add: show_dec_def show_hex_def digits_int Word.the_nat_def)

section \<open>Parsing\<close>

text \<open>The parser of integers on binary numbers, as the tests evaluate it.\<close>

fun parse_digits_int :: "int \<Rightarrow> int \<Rightarrow> int \<Rightarrow> bytes \<Rightarrow> int option" where
  "parse_digits_int r m acc [] = Some acc"
| "parse_digits_int r m acc (b # s) =
     (case to_digit (nat r) b of
        None \<Rightarrow> None
      | Some d \<Rightarrow> if acc * r + int d \<le> m then parse_digits_int r m (acc * r + int d) s else None)"

lemma parse_digits_int:
  "parse_digits_int (int r) (int m) (int acc) s = map_option int (parse_digits r m acc s)"
proof (induction r m acc s rule: parse_digits.induct)
  case (2 r m acc b s)
  have "int acc * int r + int d \<le> int m \<longleftrightarrow> acc * r \<le> m \<and> acc * r + d \<le> m" for d
    by (simp flip: of_nat_mult of_nat_add) linarith
  with 2 show ?case
    by (auto simp del: of_nat_mult of_nat_add simp: simp flip: of_nat_mult of_nat_add split: option.split)
qed simp

definition parse_uint_int :: "int \<Rightarrow> int \<Rightarrow> bytes \<Rightarrow> int option" where
  "parse_uint_int r m s =
     (case s of
        [] \<Rightarrow> None
      | b # t \<Rightarrow>
          if t = [] \<and> (b = 43 \<or> b = 45) then None
          else if b = 43 then parse_digits_int r m 0 t
          else parse_digits_int r m 0 s)"

lemma parse_word_code [code]:
  "(parse_word r s :: 'a::len word option) = map_option word_of_int (parse_uint_int (int r) (2 ^ LENGTH('a) - 1) s)"
proof -
  have "(2 :: int) ^ LENGTH('a) - 1 = int (2 ^ LENGTH('a) - 1)" by (simp add: of_nat_diff)
  then show ?thesis
    using parse_digits_int [of r "2 ^ LENGTH('a) - 1" 0]
    by (simp add: parse_word_def parse_uint_def parse_uint_int_def option.map_comp comp_def
        del: parse_digits.simps parse_digits_int.simps split: list.split)
qed

fun read_digits_int :: "int \<Rightarrow> int \<Rightarrow> int \<Rightarrow> nat \<Rightarrow> bytes \<Rightarrow> (int \<times> nat \<times> bytes) option" where
  "read_digits_int r m n count [] = Some (n, count, [])"
| "read_digits_int r m n count (b # s) =
     (case to_digit (nat r) b of
        None \<Rightarrow> Some (n, count, b # s)
      | Some d \<Rightarrow> if n * r + int d \<le> m then read_digits_int r m (n * r + int d) (count + 1) s else None)"

lemma read_digits_int:
  "read_digits r None m n count s =
     map_option (\<lambda>(n, t). (nat n, t)) (read_digits_int (int r) (int m) (int n) count s)"
proof (induction s arbitrary: n count)
  case (Cons b s)
  have "int n * int r + int d \<le> int m \<longleftrightarrow> n * r \<le> m \<and> n * r + d \<le> m" for d
    by (simp flip: of_nat_mult of_nat_add) linarith
  moreover have "int n * int r + int d = int (n * r + d)" for d by simp
  ultimately show ?case using Cons by (simp del: of_nat_add of_nat_mult split: option.split)
qed simp

lemma read_digits_int_le:
  "read_digits_int r m n count s = Some (k, c, t) \<Longrightarrow> n \<le> m \<Longrightarrow> k \<le> m"
  by (induction r m n count s rule: read_digits_int.induct) (auto split: option.splits if_splits)

definition read_port_int :: "int parser" where
  "read_port_int s =
     (case read_given_char 58 s of None \<Rightarrow> None | Some (_, t) \<Rightarrow>
     (case read_digits_int 10 65535 0 0 t of
        None \<Rightarrow> None
      | Some (n, count, u) \<Rightarrow> if count = 0 then None else Some (n, u)))"

lemma read_port_int: "read_port s = map_option (\<lambda>(n, t). (nat n, t)) (read_port_int s)"
  using read_digits_int [of 10 65535 0 0]
  by (auto simp: read_port_def read_port_int_def read_number_def dest: read_digits_int_le split: option.split)

lemma read_digits_int_ge: "read_digits_int r m n count s = Some (k, c, t) \<Longrightarrow> 0 \<le> n \<Longrightarrow> 0 \<le> r \<Longrightarrow> 0 \<le> k"
  by (induction r m n count s rule: read_digits_int.induct) (auto split: option.splits if_splits)

lemma read_port_word: "read_port_int s = Some (n, t) \<Longrightarrow> word_of_nat (nat n) = word_of_int n"
proof -
  assume "read_port_int s = Some (n, t)"
  then obtain count u v where "read_digits_int 10 65535 0 0 v = Some (n, count, u)"
    by (auto simp: read_port_int_def split: option.splits if_splits)
  then have "0 \<le> n" by (rule read_digits_int_ge) simp_all
  then have "(word_of_int (int (nat n)) :: 'a::len word) = word_of_int n" by simp
  then show ?thesis by (simp only: of_int_of_nat_eq)
qed

lemma read_port_case:
  "(case read_port s of None \<Rightarrow> None | Some (port, u) \<Rightarrow> Some (\<lparr>v4_ip = ip4, v4_port = of_nat port\<rparr>, u)) =
     (case read_port_int s of None \<Rightarrow> None
      | Some (port, u) \<Rightarrow> Some (\<lparr>v4_ip = ip4, v4_port = word_of_int port\<rparr>, u))"
  "(case read_port s of None \<Rightarrow> None
    | Some (port, u) \<Rightarrow> Some (\<lparr>v6_ip = ip6, v6_port = of_nat port, v6_flowinfo = f, v6_scope_id = c\<rparr>, u)) =
     (case read_port_int s of None \<Rightarrow> None
      | Some (port, u) \<Rightarrow> Some (\<lparr>v6_ip = ip6, v6_port = word_of_int port, v6_flowinfo = f, v6_scope_id = c\<rparr>, u))"
  by (cases "read_port_int s"; auto simp: read_port_int read_port_word)+

lemmas read_socket_addr_v4_code [code] = read_socket_addr_v4_def [unfolded read_port_case]

lemmas read_socket_addr_v6_code [code] = read_socket_addr_v6_def [unfolded read_port_case]

text \<open>A limit on the number of digits makes the largest value irrelevant to the loop.\<close>

lemma read_digits_limit: "read_digits r (Some m) largest n count s = read_digits r (Some m) largest' n count s"
  by (induction s arbitrary: n count) (simp_all split: option.split)

definition read_group :: "nat parser" where
  "read_group s =
     (case read_digits 16 (Some 4) 0 0 0 s of
        None \<Rightarrow> None
      | Some (n, count, t) \<Rightarrow> if count = 0 then None else if int n \<le> 65535 then Some (n, t) else None)"

lemma read_group: "read_number 16 (Some 4) True 65535 = read_group"
  by (rule ext) (simp add: read_number_def read_group_def read_digits_limit [of 16 4 65535 _ _ _ 0] split: option.split)

lemmas read_groups_code [code] = read_groups.simps [unfolded read_group]

lemma big_nat: "2 ^ 16 \<le> (n :: nat) \<longleftrightarrow> 65536 \<le> int n" "2 ^ 32 \<le> (n :: nat) \<longleftrightarrow> 4294967296 \<le> int n"
  by simp_all

end
