(* ===== verification/Protocol_Tests.thy ===== *)
theory Protocol_Tests
  imports Text_Eval Color_Codes Game_Packets Info_Packets Master_Packets Admin_Packets Broker_Packets
begin

text \<open>
  The unit tests of xash3d-protocol, run on the model: each test function of the crate is a definition
  with the same inputs and the same assertions, and a lemma by evaluation says that the model passes it.
  They tie the model to the values its authors expect of the code. \<^verbatim>\<open>unwrap\<close> is \<open>unwrap_then\<close>: an error fails
  the test.
\<close>

definition unwrap_then :: "'e + 'a \<Rightarrow> ('a \<Rightarrow> bool) \<Rightarrow> bool" where
  "unwrap_then r P = (case r of Inl _ \<Rightarrow> False | Inr x \<Rightarrow> P x)"

definition unwrap_some_then :: "'a option \<Rightarrow> ('a \<Rightarrow> bool) \<Rightarrow> bool" where
  "unwrap_some_then r P = (case r of None \<Rightarrow> False | Some x \<Rightarrow> P x)"

text \<open>A key/value text of the tests: the slashes of the literal stand for backslashes.\<close>

definition kv_text :: "string \<Rightarrow> bytes" where
  "kv_text s = map (\<lambda>b. if b = 47 then 92 else b) (str s)"

definition zeros :: "nat \<Rightarrow> bytes" where
  "zeros n = replicate n 0"

text \<open>The evaluation of the encoders goes through the wire forms, which the encoders are proved to write.\<close>

declare Challenge_encode_wire [code] ServerAdd_encode_wire [code] GetChallengeResponse_encode_wire [code]
  GetServerInfoResponse_encode_wire [code] GetServerInfo2ResponseOld_encode_wire [code]
  QueryServers_encode_wire [code] GetServerInfo_encode_wire [code] GetServerInfo2_encode_wire [code]
  GetPlayers_encode_wire [code] ChallengeResponse_encode_wire [code] ClientAnnounce_encode_wire [code]
  AdminChallengeResponse_encode_wire [code] AdminCommand_encode_wire [code]

section \<open>Cursors\<close>

definition test_cursor :: bool where
  "test_cursor \<longleftrightarrow>
     unwrap_then (encode_with (\<lambda>cur.
        rbind (put_bytes (str ''12345678'') cur) (\<lambda>cur.
        rbind (put_array (str ''4321'') cur) (\<lambda>cur.
        rbind (put_str (str ''abc'') cur) (\<lambda>cur.
        rbind (put_cstr (str ''def'') cur) (\<lambda>cur.
        rbind (put_u8 0x7f cur) (\<lambda>cur.
        rbind (put_i8 (- 128) cur) (put_u32_le 0x44332211))))))) (zeros 64)) (\<lambda>s.
     unwrap_then (Cursor_get_bytes 8 (Cursor_new s)) (\<lambda>(a, cur). a = str ''12345678'' \<and>
     unwrap_then (Cursor_get_array 4 cur) (\<lambda>(b, cur). b = str ''4321'' \<and>
     unwrap_then (Cursor_get_str 3 cur) (\<lambda>(c, cur). c = str ''abc'' \<and>
     unwrap_then (Cursor_get_cstr naive_memchr cur) (\<lambda>(d, cur). d = str ''def'' \<and>
     unwrap_then (Cursor_get_u8 cur) (\<lambda>(e, cur). e = 0x7f \<and>
     unwrap_then (Cursor_get_i8 cur) (\<lambda>(f, cur). f = - 128 \<and>
     unwrap_then (Cursor_get_u32_le cur) (\<lambda>(g, cur). g = 0x44332211 \<and>
       Cursor_get_u8 cur = Inl (NeedMoreBytes 1)))))))))"

lemma test_cursor_passes: "test_cursor"
  by code_simp

definition test_key :: bool where
  "test_key \<longleftrightarrow>
     encode_with (\<lambda>cur.
        rbind (put_key (str ''p'') (put_kv_uint (49 :: u32)) cur) (\<lambda>cur.
        rbind (put_key (str ''map'') (put_kv_str (str ''crossfire'')) cur) (\<lambda>cur.
        rbind (put_key (str ''dm'') (put_kv_bool True) cur) (\<lambda>cur.
        rbind (put_key (str ''team'') (put_kv_bool False) cur) (\<lambda>cur.
        rbind (put_key (str ''coop'') (put_kv_bool False) cur) (\<lambda>cur.
        rbind (put_key (str ''numcl'') (put_kv_uint (4 :: u32)) cur) (\<lambda>cur.
        rbind (put_key (str ''maxcl'') (put_kv_uint (32 :: u32)) cur) (\<lambda>cur.
        rbind (put_key (str ''gamedir'') (put_kv_str (str ''valve'')) cur) (\<lambda>cur.
        rbind (put_key (str ''password'') (put_kv_bool False) cur) (
          put_key (str ''host'') (put_kv_str (str ''test'')))))))))))) (zeros 512) =
     Inr (kv_text ''/p/49/map/crossfire/dm/1/team/0/coop/0/numcl/4/maxcl/32/gamedir/valve/password/0/host/test'')"

lemma test_key_passes: "test_key"
  by code_simp

definition test_split :: bool where
  "test_split \<longleftrightarrow>
     (let cur = CursorMut_new (zeros 8) in CursorMut_pos cur = 0 \<and>
      unwrap_then (CursorMut_split 4 cur) (\<lambda>(head, tail). CursorMut_pos head = 0 \<and> CursorMut_pos tail = 4 \<and>
      unwrap_then (put_u8 1 head) (\<lambda>head. CursorMut_pos head = 1 \<and>
      unwrap_then (put_u8 2 tail) (\<lambda>tail. CursorMut_pos tail = 5 \<and>
        (let b = mbuffer head @ mbuffer tail in b ! 0 = 1 \<and> b ! 1 = 0 \<and> b ! 4 = 2 \<and> b ! 5 = 0)))))"

lemma test_split_passes: "test_split"
  by code_simp

section \<open>Key/value text, wrapped strings and colour codes\<close>

definition test_map_str :: bool where
  "test_map_str \<longleftrightarrow> is_ok (MapStr_from_slice naive_memchr (str ''123abc'')) \<and>
     \<not> is_ok (MapStr_from_slice naive_memchr (kv_text ''123/abc''))"

lemma test_map_str_passes: "test_map_str"
  by code_simp

definition test_map_str_format :: bool where
  "test_map_str_format \<longleftrightarrow>
     unwrap_then (MapStr_from_slice naive_memchr (str ''abc123'')) (\<lambda>s. MapStr_display s = str ''abc123'') \<and>
     unwrap_then (MapStr_from_slice naive_memchr (str ''a'' @ [0xff] @ str ''1''))
       (\<lambda>s. MapStr_display s = str ''a'' @ [0xEF, 0xBF, 0xBD] @ str ''1'')"

lemma test_map_str_format_passes: "test_map_str_format"
  by code_simp

text \<open>\<open>nexts it es\<close>: the iterator gives the entries \<open>es\<close> and then ends.\<close>

fun nexts :: "map_iter \<Rightarrow> (bytes \<times> bytes) list \<Rightarrow> bool" where
  "nexts it [] = (fst (MapIter_next naive_memchr it) = None)"
| "nexts it (e # es) = (case MapIter_next naive_memchr it of
     (Some (Inr x), it') \<Rightarrow> x = e \<and> nexts it' es | _ \<Rightarrow> False)"

definition test_map_iter :: bool where
  "test_map_iter \<longleftrightarrow>
     (let slice = MapIter_from_slice naive_memchr; cstr = MapIter_from_cstr in
      unwrap_then (slice []) (\<lambda>it. nexts it []) \<and>
      unwrap_then (slice (kv_text ''/key0/value0/key1//key2/value2'')) (\<lambda>it.
        nexts it [(str ''key0'', str ''value0''), (str ''key1'', []), (str ''key2'', str ''value2'')]) \<and>
      unwrap_then (slice (kv_text ''/key0'')) (\<lambda>it. fst (MapIter_next naive_memchr it) = Some (Inl ())) \<and>
      \<not> is_ok (slice (kv_text ''abc/123'')) \<and>
      \<not> is_ok (slice (kv_text ''/abc/123'' @ [0])) \<and>
      \<not> is_ok (slice (kv_text ''/abc'' @ [0] @ kv_text ''/123'')) \<and>
      unwrap_then (cstr []) (\<lambda>it. nexts it []) \<and>
      unwrap_then (cstr (kv_text ''/key0/value0'')) (\<lambda>it. nexts it [(str ''key0'', str ''value0'')]) \<and>
      \<not> is_ok (cstr (kv_text ''abc/123'')))"

lemma test_map_iter_passes: "test_map_iter"
  by code_simp

text \<open>The escaped text has doubled backslashes, so its slashes stand for them.\<close>

definition test_str_wrapper_format :: bool where
  "test_str_wrapper_format \<longleftrightarrow>
     str_format_bytes (kv_text ''123/foobar'' @ [10, 0] @ str '' '' @ [9] @ str ''baz%'' @ [10, 92, 0xff]) =
       kv_text ''123//foobar/n/x00 /tbaz%/n///xff'' \<and>
     str_format_bytes ([0xff] @ kv_text ''123/foobar'' @ [10, 0] @ str '' '' @ [9] @ str ''baz%'' @ [10, 92]) =
       kv_text ''/xff123//foobar/n/x00 /tbaz%/n//''"

lemma test_str_wrapper_format_passes: "test_str_wrapper_format"
  by code_simp

definition test_trim_start_colors :: bool where
  "test_trim_start_colors \<longleftrightarrow>
     trim_start_color (str ''foo^2bar'') = ([], str ''foo^2bar'') \<and>
     trim_start_color (str ''^foo^2bar'') = ([], str ''^foo^2bar'') \<and>
     trim_start_color (str ''^1foo^2bar'') = (str ''^1'', str ''foo^2bar'') \<and>
     trim_start_color (str ''^1^2^3foo^2bar'') = (str ''^3'', str ''foo^2bar'')"

lemma test_trim_start_colors_passes: "test_trim_start_colors"
  by code_simp

text \<open>U+FE0F is three bytes of UTF-8.\<close>

definition VS16 :: bytes where
  "VS16 = [0xEF, 0xB8, 0x8F]"

definition test_trim_colors :: bool where
  "test_trim_colors \<longleftrightarrow>
     trim_color (str ''foo^2bar'') = str ''foobar'' \<and>
     trim_color (str ''^1foo^2bar^3'') = str ''foobar'' \<and>
     trim_color (str ''^1foo^bar^3'') = str ''foo^bar'' \<and>
     trim_color (str ''^1foo^2bar^'') = str ''foobar^'' \<and>
     trim_color (str ''^foo^bar^'') = str ''^foo^bar^'' \<and>
     trim_color (VS16 @ str ''^1foo^bar^'') = VS16 @ str ''foo^bar^'' \<and>
     trim_color (str ''^1^2^3foo'' @ VS16 @ str ''^2^'' @ VS16 @ str ''^bar^'') =
       str ''foo'' @ VS16 @ str ''^'' @ VS16 @ str ''^bar^''"

lemma test_trim_colors_passes: "test_trim_colors"
  by code_simp

end
