(* ===== verification/Filter_Tests.thy ===== *)
theory Filter_Tests
  imports Protocol_Tests
begin

text \<open>
  The tests of \<^verbatim>\<open>filter.rs\<close> on the model: what the parser makes of each key, and which of some announced
  servers a filter selects.
\<close>

section \<open>Parsing\<close>

definition FilterFlags_all :: u16 where
  "FilterFlags_all = 0x1FF"

text \<open>One line of the macro \<^verbatim>\<open>tests!\<close>: the text parses to the filter.\<close>

definition parses :: "string \<Rightarrow> filter_q \<Rightarrow> bool" where
  "parses src expected \<longleftrightarrow> Filter_from_slice naive_memchr (kv_text src) = Inr expected"

definition test_parse_gamedir :: bool where
  "test_parse_gamedir \<longleftrightarrow> parses ''/gamedir/valve'' (Filter_default\<lparr>f_gamedir := Some (str ''valve'')\<rparr>)"

lemma test_parse_gamedir_passes: "test_parse_gamedir"
  by code_simp

definition test_parse_map :: bool where
  "test_parse_map \<longleftrightarrow> parses ''/map/crossfire'' (Filter_default\<lparr>f_map := Some (str ''crossfire'')\<rparr>)"

lemma test_parse_map_passes: "test_parse_map"
  by code_simp

definition test_parse_clver :: bool where
  "test_parse_clver \<longleftrightarrow> 
     parses ''/clver/0.20'' (Filter_default\<lparr>f_clver := Some (Version_new 0 20)\<rparr>) \<and>
     parses ''/clver/0.19.3'' (Filter_default\<lparr>f_clver := Some (Version 0 19 3)\<rparr>)"

lemma test_parse_clver_passes: "test_parse_clver"
  by code_simp

definition test_parse_protocol :: bool where
  "test_parse_protocol \<longleftrightarrow> parses ''/protocol/48'' (Filter_default\<lparr>f_protocol := Some 48\<rparr>)"

lemma test_parse_protocol_passes: "test_parse_protocol"
  by code_simp

definition test_parse_os :: bool where
  "test_parse_os \<longleftrightarrow> 
     parses ''/os/linux'' (Filter_default\<lparr>f_client_os := Some (str ''linux'')\<rparr>) \<and>
     parses ''/os/win32'' (Filter_default\<lparr>f_client_os := Some (str ''win32'')\<rparr>)"

lemma test_parse_os_passes: "test_parse_os"
  by code_simp

definition test_parse_arch :: bool where
  "test_parse_arch \<longleftrightarrow> 
     parses ''/arch/i386'' (Filter_default\<lparr>f_client_arch := Some (str ''i386'')\<rparr>) \<and>
     parses ''/arch/riscv64'' (Filter_default\<lparr>f_client_arch := Some (str ''riscv64'')\<rparr>)"

lemma test_parse_arch_passes: "test_parse_arch"
  by code_simp

definition test_parse_branch :: bool where
  "test_parse_branch \<longleftrightarrow> parses ''/branch/master'' (Filter_default\<lparr>f_client_branch := Some (str ''master'')\<rparr>)"

lemma test_parse_branch_passes: "test_parse_branch"
  by code_simp

definition test_parse_commit :: bool where
  "test_parse_commit \<longleftrightarrow> parses ''/commit/1234abcd'' (Filter_default\<lparr>f_client_commit := Some (str ''1234abcd'')\<rparr>)"

lemma test_parse_commit_passes: "test_parse_commit"
  by code_simp

definition test_parse_buildnum :: bool where
  "test_parse_buildnum \<longleftrightarrow> parses ''/buildnum/1234'' (Filter_default\<lparr>f_client_buildnum := Some 1234\<rparr>)"

lemma test_parse_buildnum_passes: "test_parse_buildnum"
  by code_simp

definition test_parse_dedicated :: bool where
  "test_parse_dedicated \<longleftrightarrow> 
     parses ''/dedicated/0'' (Filter_default\<lparr>f_flags_mask := FF_DEDICATED\<rparr>) \<and>
     parses ''/dedicated/1'' (Filter_default\<lparr>f_flags_mask := FF_DEDICATED, f_flags := FF_DEDICATED\<rparr>)"

lemma test_parse_dedicated_passes: "test_parse_dedicated"
  by code_simp

definition test_parse_secure :: bool where
  "test_parse_secure \<longleftrightarrow> 
     parses ''/secure/0'' (Filter_default\<lparr>f_flags_mask := FF_SECURE\<rparr>) \<and>
     parses ''/secure/1'' (Filter_default\<lparr>f_flags_mask := FF_SECURE, f_flags := FF_SECURE\<rparr>)"

lemma test_parse_secure_passes: "test_parse_secure"
  by code_simp

definition test_parse_password :: bool where
  "test_parse_password \<longleftrightarrow> 
     parses ''/password/0'' (Filter_default\<lparr>f_flags_mask := FF_PASSWORD\<rparr>) \<and>
     parses ''/password/1'' (Filter_default\<lparr>f_flags_mask := FF_PASSWORD, f_flags := FF_PASSWORD\<rparr>)"

lemma test_parse_password_passes: "test_parse_password"
  by code_simp

definition test_parse_empty :: bool where
  "test_parse_empty \<longleftrightarrow> 
     parses ''/empty/0'' (Filter_default\<lparr>f_flags_mask := FF_EMPTY\<rparr>) \<and>
     parses ''/empty/1'' (Filter_default\<lparr>f_flags_mask := FF_EMPTY, f_flags := FF_EMPTY\<rparr>)"

lemma test_parse_empty_passes: "test_parse_empty"
  by code_simp

definition test_parse_full :: bool where
  "test_parse_full \<longleftrightarrow> 
     parses ''/full/0'' (Filter_default\<lparr>f_flags_mask := FF_FULL\<rparr>) \<and>
     parses ''/full/1'' (Filter_default\<lparr>f_flags_mask := FF_FULL, f_flags := FF_FULL\<rparr>)"

lemma test_parse_full_passes: "test_parse_full"
  by code_simp

definition test_parse_noplayers :: bool where
  "test_parse_noplayers \<longleftrightarrow> 
     parses ''/noplayers/0'' (Filter_default\<lparr>f_flags_mask := FF_NOPLAYERS\<rparr>) \<and>
     parses ''/noplayers/1'' (Filter_default\<lparr>f_flags_mask := FF_NOPLAYERS, f_flags := FF_NOPLAYERS\<rparr>)"

lemma test_parse_noplayers_passes: "test_parse_noplayers"
  by code_simp

definition test_parse_nat :: bool where
  "test_parse_nat \<longleftrightarrow> 
     parses ''/nat/0'' (Filter_default\<lparr>f_flags_mask := FF_NAT\<rparr>) \<and>
     parses ''/nat/1'' (Filter_default\<lparr>f_flags_mask := FF_NAT, f_flags := FF_NAT\<rparr>)"

lemma test_parse_nat_passes: "test_parse_nat"
  by code_simp

definition test_parse_lan :: bool where
  "test_parse_lan \<longleftrightarrow> 
     parses ''/lan/0'' (Filter_default\<lparr>f_flags_mask := FF_LAN\<rparr>) \<and>
     parses ''/lan/1'' (Filter_default\<lparr>f_flags_mask := FF_LAN, f_flags := FF_LAN\<rparr>)"

lemma test_parse_lan_passes: "test_parse_lan"
  by code_simp

definition test_parse_bots :: bool where
  "test_parse_bots \<longleftrightarrow> 
     parses ''/bots/0'' (Filter_default\<lparr>f_flags_mask := FF_BOTS\<rparr>) \<and>
     parses ''/bots/1'' (Filter_default\<lparr>f_flags_mask := FF_BOTS, f_flags := FF_BOTS\<rparr>)"

lemma test_parse_bots_passes: "test_parse_bots"
  by code_simp

definition test_parse_all :: bool where
  "test_parse_all \<longleftrightarrow> 
     parses ''/bots/1/clver/0.20/dedicated/1/empty/1/full/1/gamedir/valve/lan/1/map/crossfire/nat/1/noplayers/1/password/1/secure/1/protocol/49''
       (Filter_default\<lparr>f_gamedir := Some (str ''valve''), f_map := Some (str ''crossfire''), f_protocol := Some 49,
         f_clver := Some (Version_new 0 20), f_flags := FilterFlags_all, f_flags_mask := FilterFlags_all\<rparr>)"

lemma test_parse_all_passes: "test_parse_all"
  by code_simp

definition test_version_to_key_value :: bool where
  "test_version_to_key_value \<longleftrightarrow> encode_with (put_kv_version (Version 0 19 3)) (zeros 64) = Inr (str ''0.19.3'')"

lemma test_version_to_key_value_passes: "test_version_to_key_value"
  by code_simp

section \<open>Matching\<close>

text \<open>
  The macro \<^verbatim>\<open>servers!\<close>: an address, and the server announced with the given keys, to a master that asked for
  the challenge 0.
\<close>

definition test_server :: "string \<Rightarrow> string \<Rightarrow> xerror + socket_addr \<times> server_info" where
  "test_server addr info =
     rbind (ok_or InvalidPacket (socket_addr_from_str (str addr))) (\<lambda>addr.
     rbind (qm (encode_with (\<lambda>cur.
        rbind (put_bytes ServerAdd_HEADER cur) (\<lambda>cur.
        rbind (put_key (str ''challenge'') (put_kv_uint (0 :: u32)) cur) (\<lambda>cur.
        rbind (put_bytes (kv_text info) cur) (put_u8 10)))) (zeros 512))) (\<lambda>packet.
     rbind (ServerAdd_decode naive_memchr packet) (\<lambda>p.
     Inr (addr, ServerInfo_new p))))"

lemma test_server_code [code]:
  "test_server addr info =
     rbind (ok_or InvalidPacket (socket_addr_from_str (str addr))) (\<lambda>addr.
     let packet = ServerAdd_HEADER @ kv_text ''/challenge/0'' @ kv_text info @ [10] in
     if 512 < length packet then Inl (ECursor BufferOverflow)
     else rbind (ServerAdd_decode naive_memchr packet) (\<lambda>p. Inr (addr, ServerInfo_new p)))"
proof -
  let ?w = "\<lambda>cur. rbind (put_bytes ServerAdd_HEADER cur) (\<lambda>cur.
        rbind (put_key (str ''challenge'') (put_kv_uint (0 :: u32)) cur) (\<lambda>cur.
        rbind (put_bytes (kv_text info) cur) (put_u8 10)))"
  have key: "kv_text ''/challenge/0'' = [92] @ str ''challenge'' @ [92] @ show_dec (unat (0 :: u32))"
    by code_simp
  have "writes ?w (ServerAdd_HEADER @ kv_text ''/challenge/0'' @ kv_text info @ [10])"
    by (rule writes_eq, (rule writes_intros)+) (simp add: key)
  from encode_with_writes [OF this, of "zeros 512"] show ?thesis
    unfolding test_server_def by (simp add: zeros_def Let_def not_less)
qed

fun indices_where :: "('a \<Rightarrow> bool) \<Rightarrow> nat \<Rightarrow> 'a list \<Rightarrow> nat list" where
  "indices_where P i [] = []"
| "indices_where P i (x # xs) = (if P x then i # indices_where P (Suc i) xs else indices_where P (Suc i) xs)"

text \<open>The macro \<^verbatim>\<open>matches!\<close> for several filters over the same servers: which of them each filter selects.\<close>

definition servers_match :: "string list \<Rightarrow> (string \<times> nat list) list \<Rightarrow> bool" where
  "servers_match infos cases \<longleftrightarrow>
     (let servers = map (test_server ''0.0.0.0:0'') infos in
      list_all is_ok servers \<and>
      list_all (\<lambda>(flt, expected).
        unwrap_then (Filter_from_slice naive_memchr (kv_text flt)) (\<lambda>f.
          indices_where (\<lambda>s. unwrap_then s (\<lambda>(_, info). Filter_matches f info)) 0 servers = expected)) cases)"

definition test_match_dedicated :: bool where
  "test_match_dedicated \<longleftrightarrow> servers_match ['''', ''/type/d'', ''/type/p'', ''/type/l'']
     [('''', [0, 1, 2, 3]), (''/dedicated/0'', [0, 2, 3]), (''/dedicated/1'', [1])]"

lemma test_match_dedicated_passes: "test_match_dedicated"
  by code_simp

definition test_match_password :: bool where
  "test_match_password \<longleftrightarrow> servers_match ['''', ''/password/0'', ''/password/1'']
     [('''', [0, 1, 2]), (''/password/0'', [0, 1]), (''/password/1'', [2])]"

lemma test_match_password_passes: "test_match_password"
  by code_simp

definition test_match_not_empty :: bool where
  "test_match_not_empty \<longleftrightarrow> servers_match [''/players/0/max/8'', ''/players/4/max/8'', ''/players/8/max/8'']
     [('''', [0, 1, 2]), (''/empty/0'', [1, 2]), (''/empty/1'', [0])]"

lemma test_match_not_empty_passes: "test_match_not_empty"
  by code_simp

definition test_match_full :: bool where
  "test_match_full \<longleftrightarrow> servers_match [''/players/0/max/8'', ''/players/4/max/8'', ''/players/8/max/8'']
     [('''', [0, 1, 2]), (''/full/0'', [0, 1]), (''/full/1'', [2])]"

lemma test_match_full_passes: "test_match_full"
  by code_simp

definition test_match_noplayers :: bool where
  "test_match_noplayers \<longleftrightarrow> servers_match [''/players/0/max/8'', ''/players/4/max/8'', ''/players/8/max/8'']
     [('''', [0, 1, 2]), (''/noplayers/0'', [1, 2]), (''/noplayers/1'', [0])]"

lemma test_match_noplayers_passes: "test_match_noplayers"
  by code_simp

definition test_match_nat :: bool where
  "test_match_nat \<longleftrightarrow> servers_match ['''', ''/nat/0'', ''/nat/1'']
     [('''', [0, 1, 2]), (''/nat/0'', [0, 1]), (''/nat/1'', [2])]"

lemma test_match_nat_passes: "test_match_nat"
  by code_simp

definition test_match_lan :: bool where
  "test_match_lan \<longleftrightarrow> servers_match ['''', ''/lan/0'', ''/lan/1'']
     [('''', [0, 1, 2]), (''/lan/0'', [0, 1]), (''/lan/1'', [2])]"

lemma test_match_lan_passes: "test_match_lan"
  by code_simp

definition test_match_bots :: bool where
  "test_match_bots \<longleftrightarrow> servers_match ['''', ''/bots/0'', ''/bots/1'']
     [('''', [0, 1, 2]), (''/bots/0'', [0, 1]), (''/bots/1'', [2])]"

lemma test_match_bots_passes: "test_match_bots"
  by code_simp

definition test_match_gamedir :: bool where
  "test_match_gamedir \<longleftrightarrow> servers_match [''/gamedir/valve'', ''/gamedir/cstrike'', ''/gamedir/dod'', ''/gamedir/portal'', ''/gamedir/left4dead'']
     [('''', [0, 1, 2, 3, 4]), (''/gamedir/valve'', [0]), (''/gamedir/portal'', [3]), (''/gamedir/left4dead'', [4])]"

lemma test_match_gamedir_passes: "test_match_gamedir"
  by code_simp

definition test_match_map :: bool where
  "test_match_map \<longleftrightarrow> servers_match [''/map/crossfire'', ''/map/boot_camp'', ''/map/de_dust'', ''/map/cs_office'']
     [('''', [0, 1, 2, 3]), (''/map/crossfire'', [0]), (''/map/de_dust'', [2]), (''/map/cs_office'', [3])]"

lemma test_match_map_passes: "test_match_map"
  by code_simp

definition test_match_protocol :: bool where
  "test_match_protocol \<longleftrightarrow> servers_match [''/protocol/47'', ''/protocol/48'', ''/protocol/49'']
     [('''', [0, 1, 2]), (''/protocol/48'', [1]), (''/protocol/49'', [2])]"

lemma test_match_protocol_passes: "test_match_protocol"
  by code_simp

end
