(* ===== verification/Packet_Tests.thy ===== *)
theory Packet_Tests
  imports Filter_Tests
begin

text \<open>
  The tests of the packets (\<^verbatim>\<open>net/server.rs\<close>, \<^verbatim>\<open>net/game.rs\<close>, \<^verbatim>\<open>net/master.rs\<close>, \<^verbatim>\<open>net/admin.rs\<close>, \<^verbatim>\<open>net/broker.rs\<close>) on the
  model. Most encode a packet into a buffer of zeros and expect the dispatcher to decode it.
\<close>

section \<open>Game servers\<close>

abbreviation server_decodes :: "xerror + bytes \<Rightarrow> server_packet \<Rightarrow> bool" where
  "server_decodes r p \<equiv> unwrap_then r (\<lambda>t. ServerPacket_decode naive_memchr t = Inr (Some p))"

text \<open>The two long packets are decoded by their codecs, whose conditions are evaluated.\<close>

lemma server_add_decodes:
  assumes "ServerAdd_valid p" "length (ServerAdd_wire p) \<le> n"
  shows "server_decodes (ServerAdd_encode p (zeros n)) (SServerAdd p)"
  using assms ServerPacket_decode_wire [OF naive_memchr_ok, of "SServerAdd p"]
  by (simp add: unwrap_then_def ServerAdd_encode_wire zeros_def)

definition info2_decodes :: "nat \<Rightarrow> get_server_info2_response \<Rightarrow> bool" where
  "info2_decodes n p \<longleftrightarrow>
     unwrap_some_then (GetServerInfo2Response_encode True p (zeros n)) (\<lambda>r. server_decodes r (SGetServerInfo2Response p))"

text \<open>The parts besides its texts take less than 60 bytes.\<close>

definition info2_texts :: "get_server_info2_response \<Rightarrow> bytes" where
  "info2_texts p = gs2_host p @ gs2_map p @ gs2_gamedir p @ gs2_game p @ gs2_version p @
     bytes_if stv_name (gs2_source_tv p) @ bytes_if (\<lambda>s. s) (gs2_keywords p)"

lemma length_info2_wire:
  "length (GetServerInfo2Response_wire p) + GetServerInfo2Response_spare p \<le> 60 + length (info2_texts p)"
  by (cases "gs2_port p"; cases "gs2_steam_id p"; cases "gs2_source_tv p"; cases "gs2_keywords p";
      cases "long_app_id (gs2_app_id p)")
     (simp_all add: GetServerInfo2Response_wire_def GetServerInfo2Response_base_def GetServerInfo2Response_tail_def
        GetServerInfo2Response_spare_def GetServerInfo2Response_HEADER_def SourceTv_wire_def info2_texts_def)

lemma info2_decodes:
  assumes "GetServerInfo2Response_valid p" "60 + length (info2_texts p) \<le> n"
  shows "info2_decodes n p"
  using assms ServerPacket_decode_wire [OF naive_memchr_ok, of "SGetServerInfo2Response p"] length_info2_wire [of p]
  by (simp add: info2_decodes_def unwrap_then_def unwrap_some_then_def GetServerInfo2Response_encode_wire
      GetServerInfo2Response_validD zeros_def)

definition test_challenge :: bool where
  "test_challenge \<longleftrightarrow>
     (let p = \<lparr>ch_server_challenge = Some 0x12345678\<rparr> in server_decodes (Challenge_encode p (zeros 128)) (SChallenge p))"

lemma test_challenge_passes: "test_challenge"
  by code_simp

definition test_challenge_old :: bool where
  "test_challenge_old \<longleftrightarrow>
     (let p = \<lparr>ch_server_challenge = None\<rparr>; s = str ''q'' @ [0xff] in
      ServerPacket_decode naive_memchr s = Inr (Some (SChallenge p)) \<and> Challenge_encode p (zeros 128) = Inr s)"

lemma test_challenge_old_passes: "test_challenge_old"
  by code_simp

definition test_server_add :: bool where
  "test_server_add \<longleftrightarrow>
     (let p = \<lparr>sa_gamedir = str ''valve'', sa_map = str ''crossfire'', sa_version = Version_new 0 20,
               sa_challenge = 0x12345678, sa_server_type = Dedicated, sa_os = Linux, sa_region = RestOfTheWorld,
               sa_protocol = 49, sa_players = 4, sa_max = 32, sa_bots = 8, sa_flags = 0x1F\<rparr>
      in server_decodes (ServerAdd_encode p (zeros 512)) (SServerAdd p))"

lemma test_server_add_passes: "test_server_add"
  unfolding test_server_add_def Let_def by (rule server_add_decodes) code_simp+

definition test_server_remove :: bool where
  "test_server_remove \<longleftrightarrow> server_decodes (ServerRemove_encode () (zeros 64)) SServerRemove"

lemma test_server_remove_passes: "test_server_remove"
  by code_simp

definition test_get_challenge_response :: bool where
  "test_get_challenge_response \<longleftrightarrow>
     (let p = \<lparr>gcr_challenge = 0xdeadbeef\<rparr>
      in server_decodes (GetChallengeResponse_encode p (zeros 64)) (SGetChallengeResponse p))"

lemma test_get_challenge_response_passes: "test_get_challenge_response"
  by code_simp

definition test_get_server_info_response :: bool where
  "test_get_server_info_response \<longleftrightarrow>
     (let p = \<lparr>gsi_gamedir = str ''valve'', gsi_map = str ''crossfire'', gsi_host = str ''Test'', gsi_protocol = 49,
               gsi_numcl = 4, gsi_maxcl = 32, gsi_dm = True, gsi_team = True, gsi_coop = True, gsi_password = True,
               gsi_dedicated = True\<rparr>
      in server_decodes (GetServerInfoResponse_encode p (zeros 512)) (SGetServerInfoResponse p))"

lemma test_get_server_info_response_passes: "test_get_server_info_response"
  by code_simp

definition test_info2_base :: get_server_info2_response where
  "test_info2_base =
     \<lparr>gs2_protocol = 49, gs2_host = str ''Test'', gs2_map = str ''crossfire'', gs2_gamedir = str ''valve'',
      gs2_game = str ''Test server'', gs2_app_id = 1200, gs2_players = 4, gs2_max_players = 32, gs2_bots = 2,
      gs2_ty = Dedicated, gs2_os = Linux, gs2_password = True, gs2_secure = False, gs2_version = str ''0.21'',
      gs2_port = None, gs2_steam_id = None, gs2_source_tv = None, gs2_keywords = None\<rparr>"

definition test_get_server_info2_response :: bool where
  "test_get_server_info2_response \<longleftrightarrow>
     list_all (info2_decodes 512)
       [test_info2_base,
        test_info2_base\<lparr>gs2_port := Some 27015\<rparr>,
        test_info2_base\<lparr>gs2_steam_id := Some 12345678\<rparr>,
        test_info2_base\<lparr>gs2_source_tv := Some \<lparr>stv_port = 27020, stv_name = str ''Test Source TV''\<rparr>\<rparr>,
        test_info2_base\<lparr>gs2_keywords := Some (str ''some keywords'')\<rparr>,
        test_info2_base\<lparr>gs2_app_id := 12345678\<rparr>,
        test_info2_base\<lparr>gs2_app_id := 12345678, gs2_port := Some 27016, gs2_steam_id := Some 87654321,
          gs2_source_tv := Some \<lparr>stv_port = 12345, stv_name = str ''Test TV''\<rparr>,
          gs2_keywords := Some (str ''keywords...'')\<rparr>]"

lemma test_get_server_info2_response_passes: "test_get_server_info2_response"
  unfolding test_get_server_info2_response_def list.pred_inject by (intro conjI TrueI info2_decodes)
    (simp_all add: GetServerInfo2Response_valid_def test_info2_base_def info2_texts_def cstr_clean_def str_def)

definition test_info2_old_base :: get_server_info2_response_old where
  "test_info2_old_base =
     \<lparr>gso_address = str ''123.123.123.123:27015'', gso_host = str ''Test Server'', gso_map = str ''test map'',
      gso_gamedir = str ''valve'', gso_game = str ''Full server description'', gso_players = 3, gso_max_players = 32,
      gso_protocol = 48, gso_ty = Dedicated, gso_os = Windows, gso_password = False, gso_mod_info = None,
      gso_secure = True, gso_bots = 8\<rparr>"

definition test_get_server_info2_response_old :: bool where
  "test_get_server_info2_response_old \<longleftrightarrow>
     list_all (\<lambda>p. server_decodes (GetServerInfo2ResponseOld_encode p (zeros 512)) (SGetServerInfo2ResponseOld p))
       [test_info2_old_base,
        test_info2_old_base\<lparr>gso_mod_info := Some
          \<lparr>mod_link = str ''http://localhost'', mod_download_link = str ''http://download.local/game.zip'',
           mod_version = 12345, mod_size = 87654, mod_multiplayer_only = False, mod_custom_dll = True\<rparr>\<rparr>]"

lemma test_get_server_info2_response_old_passes: "test_get_server_info2_response_old"
  by code_simp

definition test_get_server_info_response_wrong_version :: bool where
  "test_get_server_info_response_wrong_version \<longleftrightarrow>
     list_all (\<lambda>s. ServerPacket_decode naive_memchr s = Inl InvalidProtocolVersion)
       [replicate 4 0xff @ str ''info'' @ [10] @ str ''foobar: wrong version'' @ [10],
        replicate 4 0xff @ str ''info'' @ [10] @ str ''foobar'' @ [0xff] @ str '': wrong version'' @ [10]]"

lemma test_get_server_info_response_wrong_version_passes: "test_get_server_info_response_wrong_version"
  by code_simp

definition test_server_add_bots_is_a_number :: bool where
  "test_server_add_bots_is_a_number \<longleftrightarrow>
     unwrap_then (ServerAdd_decode naive_memchr (str ''0'' @ [10] @ kv_text
         (''/protocol/48/challenge/4161802725/players/0/max/32/bots/3/gamedir/valve/map/rats_bathroom/type/d'' @
          ''/password/0/os/l/secure/0/lan/0/version/0.19.4/region/255/product/valve/nat/0''))) (\<lambda>info.
       sa_protocol info = 48 \<and> sa_challenge info = 4161802725 \<and> sa_players info = 0 \<and> sa_max info = 32 \<and>
       sa_bots info = 3 \<and> sa_gamedir info = str ''valve'' \<and> sa_map info = str ''rats_bathroom'' \<and>
       sa_server_type info = Dedicated \<and> sa_os info = Linux \<and> sa_version info = Version 0 19 4 \<and>
       sa_region info = RestOfTheWorld \<and> sa_flags info = SF_BOTS)"

lemma test_server_add_bots_is_a_number_passes: "test_server_add_bots_is_a_number"
proof -
  let ?kvs = "map (\<lambda>(k, v). (str k, str v))
    [(''protocol'', ''48''), (''challenge'', ''4161802725''), (''players'', ''0''), (''max'', ''32''), (''bots'', ''3''),
     (''gamedir'', ''valve''), (''map'', ''rats_bathroom''), (''type'', ''d''), (''password'', ''0''), (''os'', ''l''),
     (''secure'', ''0''), (''lan'', ''0''), (''version'', ''0.19.4''), (''region'', ''255''), (''product'', ''valve''),
     (''nat'', ''0'')]"
  have src: "str ''0'' @ [10] @ kv_text
      (''/protocol/48/challenge/4161802725/players/0/max/32/bots/3/gamedir/valve/map/rats_bathroom/type/d'' @
       ''/password/0/os/l/secure/0/lan/0/version/0.19.4/region/255/product/valve/nat/0'') =
      ServerAdd_HEADER @ kv_wire ?kvs @ []" by code_simp
  have clean: "kvs_info_clean ?kvs" by code_simp
  show ?thesis
    unfolding test_server_add_bots_is_a_number_def src by (subst ServerAdd_decode_kvs [OF naive_memchr_ok clean]) (rule disjI1, rule refl, code_simp)
qed

definition test_server_add_ends_with_nl :: bool where
  "test_server_add_ends_with_nl \<longleftrightarrow>
     (let s = str ''0'' @ [10] @ kv_text
         (''/protocol/48/challenge/1680337211/players/1/max/8/bots/0/gamedir/cstrike/map/cs_assault/type/d'' @
          ''/password/0/os/l/secure/0/lan/0/version/0.17.1/region/255/product/cstrike'') in
      is_ok (ServerAdd_decode naive_memchr s) \<and>
      unwrap_then (ServerAdd_decode naive_memchr (s @ [10])) (\<lambda>info.
       sa_protocol info = 48 \<and> sa_challenge info = 1680337211 \<and> sa_players info = 1 \<and> sa_max info = 8 \<and>
       sa_bots info = 0 \<and> sa_gamedir info = str ''cstrike'' \<and> sa_map info = str ''cs_assault'' \<and>
       sa_server_type info = Dedicated \<and> sa_os info = Linux \<and> sa_version info = Version 0 17 1 \<and>
       sa_region info = RestOfTheWorld \<and> sa_flags info = 0))"

lemma test_server_add_ends_with_nl_passes: "test_server_add_ends_with_nl"
proof -
  let ?kvs = "map (\<lambda>(k, v). (str k, str v))
    [(''protocol'', ''48''), (''challenge'', ''1680337211''), (''players'', ''1''), (''max'', ''8''), (''bots'', ''0''),
     (''gamedir'', ''cstrike''), (''map'', ''cs_assault''), (''type'', ''d''), (''password'', ''0''), (''os'', ''l''),
     (''secure'', ''0''), (''lan'', ''0''), (''version'', ''0.17.1''), (''region'', ''255''), (''product'', ''cstrike'')]"
  have src: "str ''0'' @ [10] @ kv_text
      (''/protocol/48/challenge/1680337211/players/1/max/8/bots/0/gamedir/cstrike/map/cs_assault/type/d'' @
       ''/password/0/os/l/secure/0/lan/0/version/0.17.1/region/255/product/cstrike'') =
      ServerAdd_HEADER @ kv_wire ?kvs @ []" by code_simp
  have clean: "kvs_info_clean ?kvs" by code_simp
  have parsed: "ServerAdd_decode naive_memchr (ServerAdd_HEADER @ kv_wire ?kvs @ tail) =
      Inr (ServerAdd_default\<lparr>sa_protocol := 48, sa_challenge := 1680337211, sa_players := 1, sa_max := 8,
        sa_gamedir := str ''cstrike'', sa_map := str ''cs_assault'', sa_server_type := Dedicated, sa_os := Linux,
        sa_version := Version 0 17 1\<rparr>)" if "tail = [] \<or> tail = [10]" for tail
    unfolding ServerAdd_decode_kvs [OF naive_memchr_ok clean that] by code_simp
  show ?thesis
    unfolding test_server_add_ends_with_nl_def src Let_def append_assoc append_Nil
    using parsed [of "[]"] parsed [of "[10]"] by (simp add: unwrap_then_def ServerAdd_default_def)
qed

text \<open>999.0 and 888.0 as single floats.\<close>

definition test_get_players_response :: bool where
  "test_get_players_response \<longleftrightarrow>
     (let players = [\<lparr>pi_id = 0, pi_name = str ''freeman'', pi_frags = 999, pi_time = 0x4479C000\<rparr>,
                     \<lparr>pi_id = 1, pi_name = str ''crab'', pi_frags = 0, pi_time = 0x445E0000\<rparr>] in
      unwrap_some_then (GetPlayersResponse_encode players (zeros 512)) (\<lambda>r.
      unwrap_then r (\<lambda>encoded.
      unwrap_then (ServerPacket_decode naive_memchr encoded) (\<lambda>decoded.
        case decoded of
          Some (SGetPlayersResponse response) \<Rightarrow>
            GetPlayersResponse_players_count response = 2 \<and>
            list_all (\<lambda>(a, b). b = Inr a) (zip players (GetPlayersResponse_players naive_memchr response))
        | _ \<Rightarrow> False))))"

lemma test_get_players_response_passes: "test_get_players_response"
  by code_simp

section \<open>Game clients\<close>

abbreviation game_decodes :: "xerror + bytes \<Rightarrow> game_packet \<Rightarrow> bool" where
  "game_decodes r p \<equiv> unwrap_then r (\<lambda>t. GamePacket_decode naive_memchr t = Inr (Some p))"

definition test_query_servers :: bool where
  "test_query_servers \<longleftrightarrow>
     (let p = QueryServers_new (Filter_default\<lparr>f_gamedir := Some (str ''valve''), f_map := Some (str ''crossfire''),
                f_key := Some 0xdeadbeef, f_protocol := Some 49, f_clver := Some (Version_new 0 20),
                f_flags := FilterFlags_all, f_flags_mask := FilterFlags_all\<rparr>)
      in game_decodes (QueryServers_encode Filter_display p (zeros 512)) (GQueryServers p))"

lemma query_servers_decodes:
  assumes "GamePacket_valid (GQueryServers p)" "length (QueryServers_wire Filter_display p) \<le> n"
  shows "game_decodes (QueryServers_encode Filter_display p (zeros n)) (GQueryServers p)"
  using assms GamePacket_decode_wire [OF naive_memchr_ok, of "GQueryServers p"]
  by (simp add: unwrap_then_def QueryServers_encode_wire zeros_def)

lemma test_query_servers_passes: "test_query_servers"
  unfolding test_query_servers_def Let_def by (rule query_servers_decodes)
    (simp add: QueryServers_new_def Filter_printable_def Filter_wf_def printable_def is_printable_def str_def
       Filter_default_def FIRST_ADDRESS_def FilterFlags_all_def, code_simp)

definition test_query_servers_filter_bug :: bool where
  "test_query_servers_filter_bug \<longleftrightarrow>
     (let p = QueryServers_new (Filter_default\<lparr>f_protocol := Some 48, f_clver := Some (Version_new 0 20),
                f_flags_mask := FF_NAT\<rparr>);
          s = str ''1'' @ [0xff] @ str ''0.0.0.0:0'' @ [0] @ kv_text ''/protocol/48/clver/0.20/nat/0'' in
      GamePacket_decode naive_memchr (s @ [0]) = Inr (Some (GQueryServers p)) \<and>
      GamePacket_decode naive_memchr s = Inr (Some (GQueryServers p)))"

lemma test_query_servers_filter_bug_passes: "test_query_servers_filter_bug"
  by code_simp

definition test_get_challenge :: bool where
  "test_get_challenge \<longleftrightarrow> game_decodes (GetChallenge_encode () (zeros 32)) GGetChallenge"

lemma test_get_challenge_passes: "test_get_challenge"
  by code_simp

definition test_get_server_info :: bool where
  "test_get_server_info \<longleftrightarrow>
     (let p = \<lparr>gi_protocol = 49\<rparr> in game_decodes (GetServerInfo_encode p (zeros 512)) (GGetServerInfo p))"

lemma test_get_server_info_passes: "test_get_server_info"
  by code_simp

definition test_get_server_info2 :: bool where
  "test_get_server_info2 \<longleftrightarrow>
     (let p = \<lparr>gi2_challenge = None\<rparr> in game_decodes (GetServerInfo2_encode p (zeros 64)) (GGetServerInfo2 p))"

lemma test_get_server_info2_passes: "test_get_server_info2"
  by code_simp

definition test_get_server_info2_challenge :: bool where
  "test_get_server_info2_challenge \<longleftrightarrow>
     (let p = \<lparr>gi2_challenge = Some 0xdeadbeef\<rparr>
      in game_decodes (GetServerInfo2_encode p (zeros 64)) (GGetServerInfo2 p))"

lemma test_get_server_info2_challenge_passes: "test_get_server_info2_challenge"
  by code_simp

definition test_get_players :: bool where
  "test_get_players \<longleftrightarrow>
     unwrap_some_then (GetPlayers_new 0x12345678) (\<lambda>p. game_decodes (GetPlayers_encode p (zeros 32)) (GGetPlayers p))"

lemma test_get_players_passes: "test_get_players"
  by code_simp

section \<open>The master server\<close>

abbreviation master_decodes :: "xerror + bytes \<Rightarrow> master_packet \<Rightarrow> bool" where
  "master_decodes r p \<equiv> unwrap_then r (\<lambda>t. MasterPacket_decode t = Inr (Some p))"

definition test_challenge_response :: bool where
  "test_challenge_response \<longleftrightarrow>
     (let p = \<lparr>cr_master_challenge = 0x12345678, cr_server_challenge = Some 0x87654321\<rparr>
      in master_decodes (ChallengeResponse_encode p (zeros 512)) (MChallengeResponse p))"

lemma test_challenge_response_passes: "test_challenge_response"
  by code_simp

definition test_challenge_response_old :: bool where
  "test_challenge_response_old \<longleftrightarrow>
     (let p = \<lparr>cr_master_challenge = 0x12345678, cr_server_challenge = None\<rparr> in
      ChallengeResponse_decode (replicate 4 0xff @ str ''s'' @ [10, 0x78, 0x56, 0x34, 0x12]) = Inr p \<and>
      master_decodes (ChallengeResponse_encode p (zeros 512)) (MChallengeResponse p))"

lemma test_challenge_response_old_passes: "test_challenge_response_old"
  by code_simp

text \<open>The two tests of the server list, over the address type.\<close>

definition list_test :: "'a server_address \<Rightarrow> (bytes \<Rightarrow> 'a option) \<Rightarrow> string list \<Rightarrow> bool" where
  "list_test D from_str addrs \<longleftrightarrow>
     (let servers = map (\<lambda>a. the (from_str (str a))) addrs in
      list_all (\<lambda>a. from_str (str a) \<noteq> None) addrs \<and>
      unwrap_then (QueryServersResponse_encode D (QueryServersResponse_new (Some 0xdeadbeef)) (zeros 512) servers)
        (\<lambda>(t, c). c = length servers \<and> length t = 12 + sad_size D * (length servers + 1) \<and>
           unwrap_then (QueryServersResponse_decode t) (\<lambda>e. QueryServersResponse_iter D e = servers)))"

definition test_query_servers_response_ipv4 :: bool where
  "test_query_servers_response_ipv4 \<longleftrightarrow>
     list_test SocketAddrV4 socket_v4_from_str [''1.2.3.4:27001'', ''1.2.3.4:27002'', ''1.2.3.4:27003'', ''1.2.3.4:27004'']"

lemma test_query_servers_response_ipv4_passes: "test_query_servers_response_ipv4"
  by code_simp

definition socket_v6_from_str :: "bytes \<Rightarrow> socket_v6 option" where
  "socket_v6_from_str s = parse_with read_socket_addr_v6 s"

definition test_query_servers_response_ipv6 :: bool where
  "test_query_servers_response_ipv6 \<longleftrightarrow>
     list_test SocketAddrV6 socket_v6_from_str [''[::1]:27001'', ''[::2]:27002'', ''[::3]:27003'', ''[::4]:27004'']"

lemma test_query_servers_response_ipv6_passes: "test_query_servers_response_ipv6"
proof -
  let ?a = "\<lambda>ip port. \<lparr>v6_ip = ip, v6_port = port, v6_flowinfo = 0, v6_scope_id = 0\<rparr>"
  let ?servers = "[?a 1 27001, ?a 2 27002, ?a 3 27003, ?a 4 27004]"
  have parse: "map socket_v6_from_str (map str [''[::1]:27001'', ''[::2]:27002'', ''[::3]:27003'', ''[::4]:27004'']) =
      map Some ?servers" by code_simp
  have "\<exists>s. QueryServersResponse_encode SocketAddrV6 (QueryServersResponse_new (Some 0xdeadbeef)) (zeros 512) ?servers =
      Inr (s, 4) \<and> length s = 12 + sad_size SocketAddrV6 * 5"
    unfolding v6.encode_spec
    by (simp add: QueryServersResponse_new_def QueryServersResponse_prefix_def QueryServersResponse_HEADER_def
        SocketAddrV6_def SocketAddrV6_wire_def zeros_def addresses_fit_def Let_def)
  then obtain s where s: "QueryServersResponse_encode SocketAddrV6 (QueryServersResponse_new (Some 0xdeadbeef))
      (zeros 512) ?servers = Inr (s, 4)" "length s = 12 + sad_size SocketAddrV6 * 5" by blast
  from v6.encode_iter [OF s(1)] obtain r where
    "QueryServersResponse_decode s = Inr r" "QueryServersResponse_iter SocketAddrV6 r = ?servers"
    by (auto simp: QueryServersResponse_new_def)
  with s parse show ?thesis
    by (simp add: test_query_servers_response_ipv6_def list_test_def unwrap_then_def)
qed

definition test_client_announce :: bool where
  "test_client_announce \<longleftrightarrow>
     unwrap_some_then (socket_addr_from_str (str ''1.2.3.4:12345'')) (\<lambda>a.
       let p = \<lparr>ca_addr = a\<rparr> in master_decodes (ClientAnnounce_encode p (zeros 512)) (MClientAnnounce p))"

lemma test_client_announce_passes: "test_client_announce"
  by code_simp

definition test_admin_challenge_response :: bool where
  "test_admin_challenge_response \<longleftrightarrow>
     (let p = \<lparr>acr_master_challenge = 0x12345678, acr_hash_challenge = 0x87654321\<rparr>
      in master_decodes (AdminChallengeResponse_encode p (zeros 64)) (MAdminChallengeResponse p))"

lemma test_admin_challenge_response_passes: "test_admin_challenge_response"
  by code_simp

section \<open>Administrators\<close>

definition test_admin_challenge :: bool where
  "test_admin_challenge \<longleftrightarrow>
     unwrap_then (AdminChallenge_encode () (zeros 512)) (\<lambda>t. AdminPacket_decode HASH_LEN t = Inr (Some AAdminChallenge))"

lemma test_admin_challenge_passes: "test_admin_challenge"
  by code_simp

definition test_admin_command :: bool where
  "test_admin_command \<longleftrightarrow>
     (let p = \<lparr>ac_master_challenge = 0x12345678, ac_hash = replicate HASH_LEN 1, ac_command = str ''foo bar baz''\<rparr>
      in unwrap_then (AdminCommand_encode p (zeros 512)) (\<lambda>t. AdminPacket_decode HASH_LEN t = Inr (Some (AAdminCommand p))))"

lemma test_admin_command_passes: "test_admin_command"
  by code_simp

section \<open>The broker\<close>

lemmas frame_result_code [code] = frame_result_def [unfolded big_nat]

lemma Frame_encode_fmt_code [code]: "Frame_encode_fmt text buffer = Some (frame_result text buffer)"
  unfolding Frame_encode_fmt_def by (rule Frame_encode_writes [OF writes_prims(4)])

lemmas Frame_encode_code [code] = Frame_encode_def [unfolded big_nat]

lemmas ConnectResponse_encode_code [code] = ConnectResponse_encode_def [unfolded big_nat]

definition test_frame :: bool where
  "test_frame \<longleftrightarrow>
     unwrap_some_then (Frame_encode_fmt (str ''test 123 abc'') (zeros 128)) (\<lambda>r.
     unwrap_then r (\<lambda>frame.
     unwrap_then (Frame_decode (fr_data frame)) (\<lambda>frame.
       length (fr_data frame) = 18 \<and> Frame_payload frame = str ''test 123 abc'')))"

lemma test_frame_passes: "test_frame"
  by code_simp

abbreviation broker_decodes :: "(cursor_error + frame) option \<Rightarrow> broker_client_packet \<Rightarrow> bool" where
  "broker_decodes r p \<equiv> unwrap_some_then r (\<lambda>r. unwrap_then r (\<lambda>frame. ClientPacket_decode frame = Inr p))"

definition TEST_ADDRESS :: socket_addr where
  "TEST_ADDRESS = SockV4 \<lparr>v4_ip = 0x7F000001, v4_port = 27010\<rparr>"

definition test_gamedir :: bool where
  "test_gamedir \<longleftrightarrow>
     (let p = \<lparr>gd_gamedir = str ''valve''\<rparr> in broker_decodes (Gamedir_encode p (zeros 128)) (BGamedir p))"

lemma test_gamedir_passes: "test_gamedir"
  by code_simp

definition test_connect :: bool where
  "test_connect \<longleftrightarrow>
     (let p = \<lparr>cn_server_address = TEST_ADDRESS, cn_server_steam_id = 111222333, cn_challenge = 123456, cn_secure = True\<rparr>
      in broker_decodes (Connect_encode p (zeros 128)) (BConnect p))"

lemma test_connect_passes: "test_connect"
  by code_simp

definition test_connect_response :: bool where
  "test_connect_response \<longleftrightarrow>
     (let p = \<lparr>crs_client_steam_id = 12345, crs_ticket = str ''foobar_ticket_123'', crs_challenge = 0xdeadbeef\<rparr>
      in unwrap_some_then (ConnectResponse_encode p (zeros 128)) (\<lambda>r.
         unwrap_then r (\<lambda>frame. BrokerServerPacket_decode frame = Inr (BConnectResponse p))))"

lemma test_connect_response_passes: "test_connect_response"
  by code_simp

definition test_disconnect :: bool where
  "test_disconnect \<longleftrightarrow>
     (let p = \<lparr>dc_server_address = TEST_ADDRESS, dc_challenge = 123456\<rparr>
      in broker_decodes (Disconnect_encode p (zeros 128)) (BDisconnect p))"

lemma test_disconnect_passes: "test_disconnect"
  by code_simp

definition test_terminate :: bool where
  "test_terminate \<longleftrightarrow> broker_decodes (Terminate_encode () (zeros 128)) BTerminate"

lemma test_terminate_passes: "test_terminate"
  by code_simp

end
