(* ===== verification/Master_Tests.thy ===== *)
theory Master_Tests
  imports Master_Query Protocol_Tests
begin

text \<open>
  The tests of xash3d-master on the model: the periodic action, the cleanup of the expiring map and the
  tests of the master server. Where a test talks to a server through sockets, its packets go to the
  handler in the order the test sends them, and what the handler sends is what the test receives.
\<close>

section \<open>Periodic actions\<close>

definition run_count :: "u16 \<Rightarrow> nat \<Rightarrow> int" where
  "run_count limit n = snd ((Periodic_maybe_run (\<lambda>x. x + 1) ^^ n) (Periodic_with_limit limit, 0))"

definition test_periodic1 :: bool where "test_periodic1 \<longleftrightarrow> run_count 3 3 = 1"
definition test_periodic2 :: bool where "test_periodic2 \<longleftrightarrow> run_count 0 100 = 100"
definition test_periodic3 :: bool where "test_periodic3 \<longleftrightarrow> run_count 1 100 = 100"
definition test_periodic4 :: bool where "test_periodic4 \<longleftrightarrow> run_count 2 100 = 50"
definition test_periodic5 :: bool where "test_periodic5 \<longleftrightarrow> run_count 10 100 = 10"

text \<open>The action runs at every limit-th call, and at every call for a limit of 0.\<close>

lemma maybe_run_counts:
  assumes "(p, x) = (Periodic_maybe_run (\<lambda>x. x + 1) ^^ n) (Periodic_with_limit limit, 0 :: int)"
  shows "periodic_inv p \<and> p_limit p = limit \<and>
    unat (p_cur p) = n mod max 1 (unat limit) \<and> x = int (n div max 1 (unat limit))"
  using assms
proof (induction n arbitrary: p x)
  case 0
  then show ?case by (simp add: Periodic_with_limit_def periodic_inv_def)
next
  case (Suc n)
  obtain p0 x0 where p0: "(p0, x0) = (Periodic_maybe_run (\<lambda>x. x + 1) ^^ n) (Periodic_with_limit limit, 0 :: int)"
    by (metis surj_pair)
  from Suc.IH [OF p0] have inv: "periodic_inv p0" and l: "p_limit p0 = limit"
    and c: "unat (p_cur p0) = n mod max 1 (unat limit)" and x: "x0 = int (n div max 1 (unat limit))"
    by blast+
  have "(p, x) = Periodic_maybe_run (\<lambda>x. x + 1) (p0, x0)"
    using Suc.prems p0 by simp
  moreover have "fst (Periodic_next p0) \<longleftrightarrow> Suc n mod max 1 (unat limit) = 0"
    using Periodic_next_unat(1) [OF inv] c l by (simp add: mod_Suc)
  moreover have "unat (p_cur (snd (Periodic_next p0))) = Suc n mod max 1 (unat limit)"
    using Periodic_next_unat(2) [OF inv] c l by (simp add: mod_Suc_eq)
  ultimately show ?case
    using Periodic_next_inv [OF inv] Periodic_next_limit [of p0] l x
    by (auto simp: Periodic_maybe_run_def split_beta Let_def div_Suc split: if_splits)
qed

lemma run_count: "run_count limit n = int n div max 1 (uint limit)"
  using maybe_run_counts [OF prod.collapse] by (simp add: run_count_def of_nat_div of_nat_max)

lemma test_periodic_passes: "test_periodic1" "test_periodic2" "test_periodic3" "test_periodic4" "test_periodic5"
  by (simp_all add: test_periodic1_def test_periodic2_def test_periodic3_def test_periodic4_def
        test_periodic5_def run_count)

section \<open>The cleanup of the expiring map\<close>

text \<open>The insertions of one round, at one time; a new entry is appended until the cleanup is due.\<close>

definition insert_keys :: "reltime \<Rightarrow> nat list \<Rightarrow> (nat, unit) timed_map \<Rightarrow> (nat, unit) timed_map" where
  "insert_keys now = fold (\<lambda>k. TimedHashMap_insert k () now now)"

lemma update_new: "k \<notin> fst ` set al \<Longrightarrow> AList.update k v al = al @ [(k, v)]"
  by (induction al) auto

lemma insert_keys_before_cleanup:
  assumes "periodic_inv (tm_periodic m)" "unat (p_cur (tm_periodic m)) + length ks < unat (p_limit (tm_periodic m))"
    and "distinct ks" "set ks \<inter> fst ` set (tm_map m) = {}"
  shows "\<exists>p. insert_keys now ks m = m\<lparr>tm_periodic := p, tm_map := tm_map m @ map (\<lambda>k. (k, Timed_new now ())) ks\<rparr> \<and>
    periodic_inv p \<and> p_limit p = p_limit (tm_periodic m) \<and>
    unat (p_cur p) = unat (p_cur (tm_periodic m)) + length ks"
  using assms
proof (induction ks arbitrary: m)
  case Nil
  show ?case by (rule exI [of _ "tm_periodic m"]) (use Nil in \<open>simp add: insert_keys_def\<close>)
next
  case (Cons k ks)
  let ?p = "snd (Periodic_next (tm_periodic m))"
  let ?m = "m\<lparr>tm_periodic := ?p, tm_map := tm_map m @ [(k, Timed_new now ())]\<rparr>"
  note nx = Periodic_next_unat [OF Cons.prems(1)]
  have cur: "unat (p_cur ?p) = Suc (unat (p_cur (tm_periodic m)))"
    and quiet: "\<not> fst (Periodic_next (tm_periodic m))"
    using nx Cons.prems(2) by simp_all
  have "TimedHashMap_insert k () now now m = ?m"
    using Cons.prems(4) quiet
    by (simp add: TimedHashMap_insert_def TimedHashMap_cleanup_def Periodic_maybe_run_def update_new split_beta Let_def)
  moreover have "\<exists>p. insert_keys now ks ?m = ?m\<lparr>tm_periodic := p,
      tm_map := tm_map ?m @ map (\<lambda>k. (k, Timed_new now ())) ks\<rparr> \<and> periodic_inv p \<and>
      p_limit p = p_limit (tm_periodic ?m) \<and> unat (p_cur p) = unat (p_cur (tm_periodic ?m)) + length ks"
    using Cons.prems cur by (intro Cons.IH) (auto simp: Periodic_next_limit Periodic_next_inv)
  ultimately show ?case
    using cur by (auto simp: insert_keys_def Periodic_next_limit)
qed

text \<open>A round of as many insertions as the limit ends with the cleanup and the counter at its start.\<close>

lemma insert_keys_round:
  assumes "p_cur (tm_periodic m) = 0" "length ks = unat (p_limit (tm_periodic m))" "ks \<noteq> []"
    and "distinct ks" "set ks \<inter> fst ` set (tm_map m) = {}"
  shows "insert_keys now ks m = m\<lparr>tm_map := filter (\<lambda>(_, v). Timed_is_valid now (tm_timeout m) v)
      (tm_map m @ map (\<lambda>k. (k, Timed_new now ())) ks)\<rparr>"
proof -
  obtain ks0 k where ks: "ks = ks0 @ [k]"
    using assms(3) by (cases ks rule: rev_cases) auto
  have "\<exists>p. insert_keys now ks0 m = m\<lparr>tm_periodic := p, tm_map := tm_map m @ map (\<lambda>k. (k, Timed_new now ())) ks0\<rparr> \<and>
      periodic_inv p \<and> p_limit p = p_limit (tm_periodic m) \<and> unat (p_cur p) = unat (p_cur (tm_periodic m)) + length ks0"
    using assms ks by (intro insert_keys_before_cleanup) (auto simp: periodic_inv_def)
  then obtain p where p: "insert_keys now ks0 m =
      m\<lparr>tm_periodic := p, tm_map := tm_map m @ map (\<lambda>k. (k, Timed_new now ())) ks0\<rparr>" "periodic_inv p"
    "p_limit p = p_limit (tm_periodic m)" "unat (p_cur p) = length ks0"
    using assms(1) by auto
  have due: "fst (Periodic_next p)" and cur: "unat (p_cur (snd (Periodic_next p))) = 0"
    using Periodic_next_unat [OF p(2)] p(3,4) assms(2) ks by simp_all
  have "snd (Periodic_next p) = tm_periodic m"
    using cur assms(1) p(3) Periodic_next_limit [of p] by (intro periodic.equality) (simp_all add: unat_eq_0)
  moreover have "insert_keys now ks m = TimedHashMap_insert k () now now (insert_keys now ks0 m)"
    by (simp add: insert_keys_def ks)
  moreover have "AList.update k v (tm_map m @ map (\<lambda>k. (k, Timed_new now ())) ks0) =
      tm_map m @ map (\<lambda>k. (k, Timed_new now ())) ks0 @ [(k, v)]" for v
    using assms(4,5) ks by (subst update_new) (auto simp: image_iff)
  ultimately show ?thesis
    using due ks by (simp add: p(1) TimedHashMap_insert_def TimedHashMap_cleanup_def Periodic_maybe_run_def
      split_beta Let_def)
qed

text \<open>Three rounds of as many keys as the periodic limit, a second apart, in a map with a timeout of one second.\<close>

definition test_map_cleanup :: bool where
  "test_map_cleanup \<longleftrightarrow>
     (let n = unat Periodic_DEFAULT_LIMIT;
          round = (\<lambda>i. insert_keys (RelativeTime_from_millis (1000 * of_nat i)) (map (\<lambda>j. i * n + j) [0..<n]));
          m0 = round 0 (TimedHashMap_new 1); m1 = round 1 m0; m2 = round 2 m1
      in map TimedHashMap_len [m0, m1, m2] = [n, n, n])"

lemma cleanup_round:
  assumes "tm_periodic m = Periodic_new" "tm_timeout m = 1" "tm_map m = map (\<lambda>k. (k, Timed_new old ())) prev"
    and "unat old + 125 \<le> unat now \<or> prev = []" "set ks \<inter> set prev = {}" "distinct ks" "length ks = 100"
  shows "insert_keys now ks m = m\<lparr>tm_map := map (\<lambda>k. (k, Timed_new now ())) ks\<rparr>"
proof -
  have "insert_keys now ks m = m\<lparr>tm_map := filter (\<lambda>(_, v). Timed_is_valid now (tm_timeout m) v)
      (tm_map m @ map (\<lambda>k. (k, Timed_new now ())) ks)\<rparr>"
    using assms
    by (intro insert_keys_round)
       (auto simp: Periodic_new_def Periodic_with_limit_def Periodic_DEFAULT_LIMIT_def)
  moreover have "filter (\<lambda>(_, v). Timed_is_valid now (tm_timeout m) v) (map (\<lambda>k. (k, Timed_new now ())) ks) =
      map (\<lambda>k. (k, Timed_new now ())) ks"
    by (auto simp: filter_id_conv assms(2) Timed_is_valid_def Timed_new_def duration_since_unat as_secs_def)
  moreover have "filter (\<lambda>(_, v). Timed_is_valid now (tm_timeout m) v) (tm_map m) = []"
    using assms(4)
    by (auto simp: filter_empty_conv assms(2,3) Timed_is_valid_def Timed_new_def duration_since_unat as_secs_def)
  ultimately show ?thesis by (simp only: filter_append append_Nil)
qed

lemma test_map_cleanup_passes: "test_map_cleanup"
proof -
  define ks where "ks i = map (\<lambda>j. i * 100 + j) [0..<100]" for i :: nat
  define now where "now i = RelativeTime_from_millis (1000 * word_of_nat i)" for i :: nat
  define m0 :: "(nat, unit) timed_map" where "m0 = TimedHashMap_new 1"
  have dist: "distinct (ks i)" and len: "length (ks i) = 100" for i
    by (simp_all add: ks_def distinct_map inj_on_def)
  have disj: "set (ks 1) \<inter> set (ks 0) = {}" "set (ks 2) \<inter> set (ks 1) = {}"
    by (auto simp: ks_def)
  have now: "unat (now 0) + 125 \<le> unat (now 1)" "unat (now 1) + 125 \<le> unat (now 2)"
    by (simp_all add: now_def RelativeTime_from_millis_def)
  have m0: "tm_periodic m0 = Periodic_new" "tm_timeout m0 = 1" "tm_map m0 = []"
    by (simp_all add: m0_def TimedHashMap_new_def)
  define entries where "entries i = map (\<lambda>k. (k, Timed_new (now i) ())) (ks i)" for i
  have r0: "insert_keys (now 0) (ks 0) m0 = m0\<lparr>tm_map := entries 0\<rparr>"
    unfolding entries_def by (rule cleanup_round [where prev = "[]" and old = 0]) (simp_all add: m0 dist len)
  have r: "insert_keys (now j) (ks j) (m0\<lparr>tm_map := entries i\<rparr>) = m0\<lparr>tm_map := entries j\<rparr>"
    if "unat (now i) + 125 \<le> unat (now j)" "set (ks j) \<inter> set (ks i) = {}" for i j
    unfolding entries_def
    by (subst cleanup_round [where prev = "ks i" and old = "now i"]) (use that in \<open>simp_all add: m0 dist len\<close>)
  have n: "unat Periodic_DEFAULT_LIMIT = 100"
    by (simp add: Periodic_DEFAULT_LIMIT_def)
  have "test_map_cleanup \<longleftrightarrow> (let m1 = insert_keys (now 0) (ks 0) m0; m2 = insert_keys (now 1) (ks 1) m1;
      m3 = insert_keys (now 2) (ks 2) m2 in map TimedHashMap_len [m1, m2, m3] = [100, 100, 100])"
    unfolding test_map_cleanup_def Let_def n now_def ks_def m0_def by simp
  then show ?thesis
    by (simp only: Let_def r0 r [OF now(1) disj(1)] r [OF now(2) disj(2)])
       (simp add: TimedHashMap_len_def entries_def len)
qed

section \<open>The master server\<close>

text \<open>The age of an entry with integers, for the evaluation.\<close>

lemma Timed_is_valid_int [code]:
  "Timed_is_valid now secs e \<longleftrightarrow> max 0 (uint now - uint (t_time e)) * 8 div 1000 < uint secs"
proof -
  have "max 0 (uint now - uint (t_time e)) = int (unat now - unat (t_time e))"
    by (simp add: of_nat_diff_if max_def word_le_def [symmetric] word_le_nat_alt [symmetric])
  then have "max 0 (uint now - uint (t_time e)) * 8 div 1000 = int ((unat now - unat (t_time e)) * 8 div 1000)"
    by (simp add: zdiv_int)
  then show ?thesis
    by (simp only: Timed_is_valid_def as_secs_def duration_since_unat uint_nat [of secs] of_nat_less_iff)
qed

definition test_env :: "reltime \<Rightarrow> u32 \<Rightarrow> env" where
  "test_env t r = \<lparr>e_clk = (\<lambda>_. t), e_rng = (\<lambda>_. r), e_send_ok = (\<lambda>_. True), e_blake2b = (\<lambda>_ _ _ _. []),
     e_memchr = naive_memchr\<rparr>"

definition UNSPECIFIED :: socket_v4 where
  "UNSPECIFIED = \<lparr>v4_ip = 0, v4_port = 0\<rparr>"

definition test_master :: "config \<Rightarrow> master_error + (socket_v4, ipv4) master" where
  "test_master cfg = MasterServer_new AddrExt_V4 (\<lambda>_. None) None cfg UNSPECIFIED"

text \<open>Sixteen servers of four IPs, and bans of an IP without servers and of each of the four.\<close>

definition test_info :: server_info where
  "test_info = ServerInfo_new \<lparr>sa_gamedir = str ''valve'', sa_map = str ''crossfire'', sa_version = Version_new 0 20,
     sa_challenge = 0x12345678, sa_server_type = Dedicated, sa_os = Linux, sa_region = RestOfTheWorld,
     sa_protocol = 49, sa_players = 4, sa_max = 32, sa_bots = 8, sa_flags = 0x1F\<rparr>"

definition test_addrs :: "socket_v4 list" where
  "test_addrs = concat (map (\<lambda>i. map (\<lambda>j. \<lparr>v4_ip = 0x01010100 + i, v4_port = 27015 + j\<rparr>) [0, 1, 2, 3]) [1, 2, 3, 4])"

definition test_add :: "socket_v4 \<Rightarrow> (socket_v4, ipv4) master \<Rightarrow> (socket_v4, ipv4) master" where
  "test_add addr = add_server AddrExt_V4 (test_env 0 0) 0 addr test_info"

definition test_ban :: "string \<Rightarrow> (socket_v4, ipv4) master \<Rightarrow> (socket_v4, ipv4) master" where
  "test_ban cmd = run_admin_command AddrExt_V4 (test_env 0 0) 0 (str cmd)"

fun server_counts :: "string list \<Rightarrow> (socket_v4, ipv4) master \<Rightarrow> nat list" where
  "server_counts [] master = [TimedHashMap_len (ms_servers master)]"
| "server_counts (cmd # cmds) master = TimedHashMap_len (ms_servers master) # server_counts cmds (test_ban cmd master)"

definition check_remove_by_ip :: "(socket_v4, ipv4) master \<Rightarrow> bool" where
  "check_remove_by_ip master \<longleftrightarrow>
     server_counts [''ban 2.2.2.2'', ''ban 1.1.1.1'', ''ban 1.1.1.2'', ''ban 1.1.1.3'', ''ban 1.1.1.4'']
       (fold test_add test_addrs master) = [16, 16, 12, 8, 4, 0]"

definition test_check_remove_server_by_ip :: bool where
  "test_check_remove_server_by_ip \<longleftrightarrow> unwrap_then (test_master Config_default) check_remove_by_ip"

lemma test_check_remove_server_by_ip_passes: "test_check_remove_server_by_ip"
  by code_simp

definition test_check_query_servers :: bool where
  "test_check_query_servers \<longleftrightarrow>
     (let mc = cfg_master Config_default;
          mc = mc\<lparr>mc_client := (mc_client mc)\<lparr>cc_min_version := Version_new 0 19, cc_min_engine_buildnum := 3500,
            cc_min_old_engine_buildnum := 3000\<rparr>\<rparr>;
          valid = (\<lambda>v b. is_query_servers_valid mc (QueryServers_new (Filter_default\<lparr>f_clver := v, f_client_buildnum := b\<rparr>)))
      in \<not> valid None None \<and>
         \<not> valid (Some (Version_new 0 21)) None \<and>
         \<not> valid None (Some 3500) \<and>
         valid (Some (Version_new 0 21)) (Some 3500) \<and> \<not> valid (Some (Version_new 0 21)) (Some 3499) \<and>
         valid (Some (Version_new 0 19)) (Some 3000) \<and> \<not> valid (Some (Version_new 0 19)) (Some 2999))"

lemma test_check_query_servers_passes: "test_check_query_servers"
  by code_simp

text \<open>
  An exchange: the packet of a test goes to the handler, \<open>exchange\<close> gives the state after it; \<open>received\<close>
  is the last datagram to an address.
\<close>

lemmas [code] = send_list_from.simps

definition exchange ::
  "env \<Rightarrow> socket_v4 \<Rightarrow> xerror + bytes \<Rightarrow> (socket_v4, ipv4) master \<Rightarrow> (socket_v4, ipv4) master option" where
  "exchange env a packet st =
     (case packet of Inl _ \<Rightarrow> None
      | Inr p \<Rightarrow> (case handle_packet AddrExt_V4 env a p st of
          None \<Rightarrow> None
        | Some (r, st') \<Rightarrow> (case r of Inl _ \<Rightarrow> None | Inr _ \<Rightarrow> Some st')))"

definition received :: "socket_v4 \<Rightarrow> (socket_v4, ipv4) master \<Rightarrow> bytes" where
  "received a st = (case filter (\<lambda>d. snd d = SockV4 a) (rev (ms_sent st)) of [] \<Rightarrow> [] | d # _ \<Rightarrow> fst d)"

definition test_client :: socket_v4 where
  "test_client = \<lparr>v4_ip = 0x7F000001, v4_port = 40001\<rparr>"

definition test_server_addr :: socket_v4 where
  "test_server_addr = \<lparr>v4_ip = 0x7F000001, v4_port = 40002\<rparr>"

text \<open>The helper \<^verbatim>\<open>add_server\<close> of the tests: the handshake of a game server.\<close>

definition ask_challenge ::
  "socket_v4 \<Rightarrow> u32 \<Rightarrow> u32 \<Rightarrow> (socket_v4, ipv4) master \<Rightarrow> (socket_v4, ipv4) master option" where
  "ask_challenge a rng n = exchange (test_env 0 rng) a (Challenge_encode \<lparr>ch_server_challenge = Some n\<rparr> (zeros 512))"

definition announce ::
  "config \<Rightarrow> (socket_v4, ipv4) master \<Rightarrow> (socket_v4, ipv4) master option" where
  "announce cfg st =
     (case ChallengeResponse_decode (received test_server_addr st) of
        Inl _ \<Rightarrow> None
      | Inr r \<Rightarrow>
          if cr_server_challenge r \<noteq> Some 0xdeadbeef then None
          else exchange (test_env 0 0) test_server_addr (ServerAdd_encode
            \<lparr>sa_gamedir = str ''valve'', sa_map = str ''crossfire'', sa_version = sc_min_version (mc_server (cfg_master cfg)),
             sa_challenge = cr_master_challenge r, sa_server_type = Dedicated, sa_os = Linux, sa_region = RestOfTheWorld,
             sa_protocol = PROTOCOL_VERSION, sa_players = 8, sa_max = 32, sa_bots = 0, sa_flags = 0\<rparr> (zeros 512)) st)"

definition test_add_server ::
  "config \<Rightarrow> (socket_v4, ipv4) master \<Rightarrow> (socket_v4, ipv4) master option" where
  "test_add_server cfg st =
     (case ask_challenge test_server_addr 0x1234 0xdeadbeef st of None \<Rightarrow> None | Some st \<Rightarrow> announce cfg st)"

definition test_query :: "config \<Rightarrow> filter_q query_servers" where
  "test_query cfg = QueryServers_new (Filter_default\<lparr>f_gamedir := Some (str ''valve''), f_clver := Some (Version_new 0 21),
     f_client_os := Some (str ''linux''), f_client_arch := Some (str ''amd64''),
     f_client_buildnum := Some (cc_min_engine_buildnum (mc_client (cfg_master cfg))), f_key := Some 0xbeefdead\<rparr>)"

definition query_list :: "config \<Rightarrow> (socket_v4, ipv4) master \<Rightarrow> (socket_v4, ipv4) master option" where
  "query_list cfg = exchange (test_env 1 0) test_client (QueryServers_encode Filter_display (test_query cfg) (zeros 1024))"

definition listed_ports :: "u32 \<Rightarrow> (socket_v4, ipv4) master \<Rightarrow> u16 list option" where
  "listed_ports key st =
     (case QueryServersResponse_decode (received test_client st) of
        Inl _ \<Rightarrow> None
      | Inr r \<Rightarrow> if qsr_key r = Some key then Some (map v4_port (QueryServersResponse_iter SocketAddrV4 r)) else None)"

definition check_server_add :: "(socket_v4, ipv4) master \<Rightarrow> bool" where
  "check_server_add st \<longleftrightarrow>
     (case test_add_server Config_default st of
        None \<Rightarrow> False
      | Some st \<Rightarrow> (case query_list Config_default st of
          None \<Rightarrow> False
        | Some st \<Rightarrow> listed_ports 0xbeefdead st = Some [v4_port test_server_addr]))"

definition test_net_server_add :: bool where
  "test_net_server_add \<longleftrightarrow> unwrap_then (test_master Config_default) check_server_add"

lemma test_net_server_add_passes: "test_net_server_add"
  by code_simp

text \<open>The master answers the three requests of one address with the same challenge.\<close>

definition master_challenge :: "u32 \<Rightarrow> (socket_v4, ipv4) master \<Rightarrow> u32 option" where
  "master_challenge n st =
     (case ChallengeResponse_decode (received test_client st) of
        Inl _ \<Rightarrow> None
      | Inr r \<Rightarrow> if cr_server_challenge r = Some n then Some (cr_master_challenge r) else None)"

fun challenges :: "(u32 \<times> u32) list \<Rightarrow> (socket_v4, ipv4) master \<Rightarrow> u32 option list" where
  "challenges [] st = []"
| "challenges ((n, rng) # rs) st =
     (case ask_challenge test_client rng n st of
        None \<Rightarrow> [None] | Some st \<Rightarrow> master_challenge n st # challenges rs st)"

definition check_reuse :: "(socket_v4, ipv4) master \<Rightarrow> bool" where
  "check_reuse st \<longleftrightarrow> challenges [(0, 11), (1, 22), (2, 33)] st = [Some 11, Some 11, Some 11]"

definition test_server_reuse_challenge :: bool where
  "test_server_reuse_challenge \<longleftrightarrow> unwrap_then (test_master Config_default) check_reuse"

lemma test_server_reuse_challenge_passes: "test_server_reuse_challenge"
  by code_simp

end
