(* ===== verification/Spec2Isabelle.thy ===== *)
theory Spec2Isabelle
  imports Protocol_Spec Master_Spec Observer_Spec Program_Spec Admin_Spec Query_Spec Monitor_Example System_Spec
    Master_Signals Packet_Tests Master_Tests
begin

text \<open>
  A verification library for the Xash3D master server and its companions (\<^verbatim>\<open>src/crates\<close>): the network protocol
  of the engine's game servers and clients (\<^verbatim>\<open>xash3d-protocol\<close>), the master server that keeps the list of game
  servers and hands it out (\<^verbatim>\<open>xash3d-master\<close>), the observer library that watches servers for its user
  (\<^verbatim>\<open>xash3d-observer\<close>), and the two command line tools, the query tool on top of the observer
  (\<^verbatim>\<open>xash3d-query\<close>) and the administrator tool (\<^verbatim>\<open>xash3d-admin\<close>).

  \<^bold>\<open>The program.\<close> A game server asks the master for a challenge (\<^verbatim>\<open>q\xff\<close>), repeats it in an announcement
  (\<^verbatim>\<open>0\n\\key\\value...\<close>) and is then listed until its entry expires. A game client sends a query with a
  region and a filter (\<^verbatim>\<open>1...\<close>) and receives the addresses of the listed servers that match, packed into as
  many datagrams as needed; servers behind NAT are told the client's address. An outdated client gets one
  address, the update server, instead. An administrator asks for a challenge and sends a command with a
  keyed hash of his password and the challenge; commands ban and unban IP addresses. The observer sends
  queries to masters with a fresh key, takes the lists that carry it, asks the servers it is told to watch for
  their information and players, and reports events; the query tool turns the events into a report, a list
  or a running log.

  \<^bold>\<open>Theories, in the order of the code.\<close>
  \<^item> \<^verbatim>\<open>Prelude\<close>: bytes, results (\<^verbatim>\<open>Result<T, E>\<close> is \<open>'e + 'a\<close>, \<^verbatim>\<open>?\<close> is \<open>rbind\<close>), list and map lemmas, and the
    parameter \<^verbatim>\<open>memchr_ops\<close> with its documented behaviour \<^verbatim>\<open>memchr_ok\<close>.
  \<^item> \<^verbatim>\<open>Text_Std\<close>: what the source uses of the standard library on text: UTF-8 validation, characters, splitting,
    printing and parsing of integers, little- and big-endian bytes.
  \<^item> \<^verbatim>\<open>Cursor_Read\<close>, \<^verbatim>\<open>Cursor_Write\<close> (\<^verbatim>\<open>cursor/read.rs\<close>, \<^verbatim>\<open>cursor/write.rs\<close>, \<^verbatim>\<open>cursor.rs\<close>): a cursor is a record of
    its buffer and position; \<open>advances\<close> says that reads stay inside the buffer, \<open>writes m s\<close> that a writer
    writes exactly the bytes \<open>s\<close> or reports an overflow, and composes through the collection \<^verbatim>\<open>writes_intros\<close>.
    \<^verbatim>\<open>Cursor_Numbers\<close>: the number families of both cursors at every width and byte order, and the locale \<open>number_io\<close>
    with what a reader and a writer of one type promise each other.
  \<^item> \<^verbatim>\<open>Map_Str\<close> (\<^verbatim>\<open>map.rs\<close>): the backslash-separated key/value text and its iterator; \<open>fold_entries\<close> is the loop
    the decoders run over it.
  \<^item> \<^verbatim>\<open>Server_Types\<close> (\<^verbatim>\<open>error.rs\<close>, \<^verbatim>\<open>wrappers.rs\<close>, \<^verbatim>\<open>server_info.rs\<close>, the versions and flags of \<^verbatim>\<open>filter.rs\<close>).
  \<^item> \<^verbatim>\<open>Server_Packets\<close>, \<^verbatim>\<open>Info_Packets\<close> (\<^verbatim>\<open>net/server.rs\<close>), \<^verbatim>\<open>Server_Filter\<close> (\<^verbatim>\<open>filter.rs\<close>), \<^verbatim>\<open>Game_Packets\<close> (\<^verbatim>\<open>net/game.rs\<close>),
    \<^verbatim>\<open>Net_Addr\<close> (the standard library's socket addresses, their printer and parser), \<^verbatim>\<open>Master_Packets\<close>
    (\<^verbatim>\<open>net/master.rs\<close>), \<^verbatim>\<open>Admin_Packets\<close> (\<^verbatim>\<open>net/admin.rs\<close>), \<^verbatim>\<open>Broker_Packets\<close> (\<^verbatim>\<open>net/broker.rs\<close>): for each packet a
    record, \<open>..._decode\<close> and \<open>..._encode\<close> as in the source, the wire form \<open>..._wire\<close> as an abstract specification,
    and the lemmas that the encoder refines it and the decoder inverts it on the packets the format can carry
    (\<open>..._valid\<close>), most of them through the locale \<open>packet_codec\<close>.
  \<^item> \<^verbatim>\<open>Color_Codes\<close> (\<^verbatim>\<open>color.rs\<close> of the protocol and of the query tool): the codes in names, the iterator over coloured
    parts and its reference definition \<open>strip_codes\<close>.
  \<^item> \<^verbatim>\<open>Master_Config\<close> (\<^verbatim>\<open>config.rs\<close>, \<^verbatim>\<open>str_arr.rs\<close>, the counters of \<^verbatim>\<open>stats/imp.rs\<close>, the flags of
    \<^verbatim>\<open>signal_flags.rs\<close>). \<^verbatim>\<open>Master_Signals\<close>: the registration of the signal handlers and what signals do from then on; only
    the two flags are ever set, so the main loop never turns without one of them.
  \<^item> \<^verbatim>\<open>Timed_Map\<close> (\<^verbatim>\<open>time.rs\<close>, \<^verbatim>\<open>periodic.rs\<close>, \<^verbatim>\<open>hash_map.rs\<close>): the hash map whose entries expire. \<open>view m t\<close> is the
    abstract map of the entries alive at time \<open>t\<close>; each operation is specified by its effect on it.
  \<^item> \<^verbatim>\<open>Master_Server\<close> (\<^verbatim>\<open>master_server.rs\<close>): the state record \<open>master\<close> and one definition per method, in the order of
    the file. The address family is a record \<open>addr_ext\<close>, as the trait \<^verbatim>\<open>AddrExt\<close>, with the two instances of the
    source.
  \<^item> \<^verbatim>\<open>Master_Safety\<close>: the invariant \<open>ms_ok\<close> of the state, kept by every handler, command and reload, and the
    states \<open>reachable\<close> from a new server. \<^verbatim>\<open>Master_Behaviour\<close>: totality of the sending loop and the receive loop, what
    the handlers do to the abstract list. \<^verbatim>\<open>Master_Access\<close>: rate limit, block list and administrator
    commands. \<^verbatim>\<open>Master_Runs\<close>: whole runs, the limit of servers per IP, the handshake. \<^verbatim>\<open>Master_Query\<close>: what a
    query sends.
  \<^item> \<^verbatim>\<open>Cli_Options\<close>: the interface of the option parser the three command lines share. \<^verbatim>\<open>Master_Program\<close>
    (\<^verbatim>\<open>cli.rs\<close>, \<^verbatim>\<open>main.rs\<close>, \<^verbatim>\<open>logger.rs\<close>): the command line on top of the configuration, the server of either address
    family, and the program as a machine whose steps are turns of the receive loop, signals and reloads.
    \<^verbatim>\<open>Master_Stats\<close> (\<^verbatim>\<open>stats/imp.rs\<close>): the format string of the statistics and the printing thread.
  \<^item> \<^verbatim>\<open>Observer_Types\<close> (\<^verbatim>\<open>net.rs\<close>, \<^verbatim>\<open>filter.rs\<close>, \<^verbatim>\<open>event.rs\<close>), \<^verbatim>\<open>Observer_Connection\<close> (\<^verbatim>\<open>connection.rs\<close>), \<^verbatim>\<open>Observer\<close>
    (\<^verbatim>\<open>observer.rs\<close>): the socket over a world of clock readings, random numbers and datagrams, the state machine of
    one server, and the event loop with its timers. \<^verbatim>\<open>Observer_Facts\<close>: what each operation does (\<open>step_of\<close>), the
    locale \<open>observer_loop\<close> that carries an invariant through the loop, and that waiting ends.
  \<^item> \<^verbatim>\<open>Admin_Tool\<close> (\<^verbatim>\<open>xash3d-admin\<close>): options, password prompt and the exchange with the master.
  \<^item> \<^verbatim>\<open>Query_Cli\<close> (\<^verbatim>\<open>cli.rs\<close>), \<^verbatim>\<open>Query_Types\<close> (\<^verbatim>\<open>server_info.rs\<close>, \<^verbatim>\<open>server_result.rs\<close>), \<^verbatim>\<open>Query_Print\<close> (the printers of
    \<^verbatim>\<open>query_servers_info.rs\<close> and \<^verbatim>\<open>list_servers.rs\<close>), \<^verbatim>\<open>Query_Tool\<close> (the commands and \<^verbatim>\<open>main.rs\<close>): the query tool.
    \<^verbatim>\<open>Query_Facts\<close>: the locale \<open>connection_contract\<close>, which gives \<open>observer_loop\<close> from what queries and replies keep
    of a connection. \<^verbatim>\<open>Query_Runs\<close>: the invariant of the tool, that its commands end and do not panic.
    \<^verbatim>\<open>Query_Text\<close>: the texts it shows and the filter it sends. \<^verbatim>\<open>Monitor_Example\<close>: the example program of the observer.
  \<^item> \<^verbatim>\<open>Protocol_Spec\<close>, \<^verbatim>\<open>Master_Spec\<close>, \<^verbatim>\<open>Program_Spec\<close>, \<^verbatim>\<open>Observer_Spec\<close>, \<^verbatim>\<open>Admin_Spec\<close>, \<^verbatim>\<open>Query_Spec\<close>, \<^verbatim>\<open>System_Spec\<close>:
    the properties, each under its claim, with a witness on a concrete input. Those of \<^verbatim>\<open>Admin_Spec\<close> and \<^verbatim>\<open>System_Spec\<close>,
    and the queries and lists of \<^verbatim>\<open>Observer_Spec\<close> and \<^verbatim>\<open>Query_Spec\<close>, join two programs: what one sends is what the
    other handles. \<^verbatim>\<open>System_Spec\<close> follows a whole exchange: the observer's query, the master's answer, and the
    lists the observer reports of it.

  \<^item> \<^verbatim>\<open>Protocol_Tests\<close>, \<^verbatim>\<open>Filter_Tests\<close>, \<^verbatim>\<open>Packet_Tests\<close>, \<^verbatim>\<open>Master_Tests\<close>: the unit tests of the repository on the model. Each
    test function is a definition \<open>test_...\<close> with its inputs and assertions, and the lemma \<open>test_..._passes\<close> says by
    evaluation that the model passes it, so the definitions give the values the authors of the code expect. \<^verbatim>\<open>Text_Eval\<close>
    has the code equations this evaluation uses (texts and numbers over integers instead of unary naturals).

  \<^bold>\<open>Conventions.\<close> A packet or datagram is a list of bytes (\<open>8 word\<close>); integers keep their width as words. An
  error is \<open>Inl\<close> of the code's error, a panic \<open>None\<close> where one is possible, or a value of its own
  (\<open>OPanic\<close>, \<open>Proc_panic\<close>) where a run can also fail to end or leave the process. Handlers take the state and give
  the result with the new state. What the program receives from outside is an argument: the clock,
  random numbers and BLAKE2b readings of one packet are the record \<open>env\<close> (the \<open>i\<close>-th reading of the clock is
  \<open>e_clk env i\<close>), those of the observer the record \<open>world\<close>, the search routines of the \<^verbatim>\<open>memchr\<close> crate are
  \<open>memchr_ops\<close>, what \<^verbatim>\<open>recv_from\<close> returned is a list of turns. What it sends is appended to the state. Hash maps are
  association lists; the properties do not depend on their order. A \<^verbatim>\<open>Duration\<close> or \<^verbatim>\<open>Instant\<close> of the observer and the
  tools is its nanoseconds as a natural number: the panic of adding a timeout beyond the range of the clock is
  left out. Logging is left out.

  \<^bold>\<open>Termination.\<close> The loop of \<^verbatim>\<open>send_server_list\<close> has no structural bound in the source: a datagram that took no
  address would repeat for ever. It is a \<open>partial_function\<close> into option and proved to end for the buffers
  of both address families, so every handler and every run of the receive loop ends. The loops of the
  observer and of the query tool are partial functions too; they end when the clock eventually stays past
  their deadline, whatever arrives. The loops of the monitors have no end by design. No fuel is used.

  \<^bold>\<open>Not modelled.\<close> The TOML parser, the code that \<^verbatim>\<open>derive(Deserialize)\<close> generates and the files they read (a function
  from names to configurations stands for them; \<open>config_load\<close> and the two hand-written deserializers are modelled), usage texts, the output of the loggers, the formatting of fractions and the writers of
  JSON and of derived \<^verbatim>\<open>Debug\<close> (parameters), the unit test \<^verbatim>\<open>client_rate_limit\<close> (it sleeps; the limit is proved for every
  sequence of queries), and the benchmarks, which have no logic of their own.
\<close>

end
